(* ===== verification/Prelude.thy ===== *)
theory Prelude
  imports Main "HOL-Library.Word" "HOL-Library.Char_ord" "HOL-Library.List_Lexorder"
    "HOL-Library.Product_Lexorder" "HOL-Library.FSet" "HOL-Library.Multiset"
begin

text \<open>
  Shared vocabulary of the development: the byte and counter types of the
  replicated model, the Rust integer operations the model uses at their width,
  the collections of rules the component proofs extend, and the generic lemmas
  on sums and finite sets that the accounting proofs rest on.

  A \<open>u64\<close> is a natural number.  Where the code adds or subtracts with the plain
  operators the wrap-around of the release profile is written out by
  \<open>add_u64\<close> and \<open>sub_u64\<close>; the lemmas below say when they agree with exact
  arithmetic, and the counter theorems establish those conditions.
\<close>

section \<open>Machine types\<close>

type_synonym byte = "8 word"
type_synonym bytes = "byte list"
type_synonym u64 = nat
type_synonym i32 = int

text \<open>The number of values of a \<open>u64\<close>.\<close>

definition u64_size :: nat where
  "u64_size = 18446744073709551616"

definition u64_max :: u64 where
  "u64_max = 18446744073709551615"

definition add_u64 :: "u64 \<Rightarrow> u64 \<Rightarrow> u64" where
  "add_u64 a b = (a + b) mod u64_size"

definition sub_u64 :: "u64 \<Rightarrow> u64 \<Rightarrow> u64" where
  "sub_u64 a b = nat ((int a - int b) mod int u64_size)"

definition saturating_add_u64 :: "u64 \<Rightarrow> u64 \<Rightarrow> u64" where
  "saturating_add_u64 a b = min (a + b) u64_max"

definition saturating_sub_u64 :: "u64 \<Rightarrow> u64 \<Rightarrow> u64" where
  "saturating_sub_u64 a b = a - b"

definition checked_add_u64 :: "u64 \<Rightarrow> u64 \<Rightarrow> u64 option" where
  "checked_add_u64 a b = (if a + b \<le> u64_max then Some (a + b) else None)"

text \<open>\<open>Iterator::sum\<close> over \<open>u64\<close> items.\<close>

primrec sum_u64 :: "u64 list \<Rightarrow> u64" where
  "sum_u64 [] = 0"
| "sum_u64 (x # xs) = add_u64 x (sum_u64 xs)"

section \<open>Rule collections\<close>

named_theorems coord_simps \<open>definitional unfoldings of the small constants and accessors\<close>
named_theorems coord_frame \<open>which tables an operation leaves alone\<close>

section \<open>Arithmetic at its width\<close>

lemma u64_size_pos [simp]: "0 < u64_size"
  by (simp add: u64_size_def)

lemma u64_max_Suc: "Suc u64_max = u64_size"
  by (simp add: u64_size_def u64_max_def)

lemma add_u64_exact: "a + b < u64_size \<Longrightarrow> add_u64 a b = a + b"
  by (simp add: add_u64_def)

lemma add_u64_less [simp]: "add_u64 a b < u64_size"
  by (simp add: add_u64_def)

lemma sub_u64_exact:
  assumes "b \<le> a" "a < u64_size"
  shows "sub_u64 a b = a - b"
proof -
  from assms have "int a - int b = int (a - b)" by linarith
  moreover have "int (a - b) mod int u64_size = int (a - b)"
    using assms by (intro mod_pos_pos_trivial) linarith+
  ultimately show ?thesis by (simp only: sub_u64_def nat_int)
qed

lemma sub_u64_zero [simp]: "a < u64_size \<Longrightarrow> sub_u64 a 0 = a"
  by (simp add: sub_u64_exact)

text \<open>An addition followed by the subtraction of something no larger is exact as
  soon as the result fits, even if the intermediate sum wraps.\<close>

lemma add_sub_u64_exact:
  assumes "c \<le> a + b" "a + b - c < u64_size"
  shows "sub_u64 (add_u64 a b) c = a + b - c"
proof -
  have "(int (add_u64 a b) - int c) mod int u64_size = (int (a + b) - int c) mod int u64_size"
    unfolding add_u64_def of_nat_mod by (rule mod_diff_left_eq)
  also have "int (a + b) - int c = int (a + b - c)"
    using assms(1) by linarith
  also have "int (a + b - c) mod int u64_size = int (a + b - c)"
    using assms(2) by (intro mod_pos_pos_trivial) linarith+
  finally show ?thesis by (simp only: sub_u64_def nat_int)
qed

text \<open>A counter kept modulo the word size follows its exact value through additions and
  through subtractions of what is there.\<close>

lemma add_u64_mod: "add_u64 (a mod u64_size) b = (a + b) mod u64_size"
  by (simp add: add_u64_def mod_add_left_eq)

lemma sub_u64_mod:
  assumes "c \<le> a"
  shows "sub_u64 (a mod u64_size) c = (a - c) mod u64_size"
proof -
  have "(int (a mod u64_size) - int c) mod int u64_size = (int a - int c) mod int u64_size"
    unfolding of_nat_mod by (rule mod_diff_left_eq)
  also have "int a - int c = int (a - c)"
    using assms by linarith
  also have "int (a - c) mod int u64_size = int ((a - c) mod u64_size)"
    by (rule of_nat_mod [symmetric])
  finally show ?thesis by (simp only: sub_u64_def nat_int)
qed

lemma add_sub_u64_mod:
  assumes "c \<le> a + b"
  shows "sub_u64 (add_u64 (a mod u64_size) b) c = (a + b - c) mod u64_size"
  by (simp add: add_u64_mod sub_u64_mod assms)

lemma saturating_add_le:
  assumes "saturating_add_u64 a b \<le> B" "B < u64_max"
  shows "a + b \<le> B"
  using assms by (auto simp: saturating_add_u64_def min_def split: if_splits)

lemma saturating_add_exact:
  "a + b < u64_size \<Longrightarrow> saturating_add_u64 a b = a + b"
  by (simp add: saturating_add_u64_def u64_size_def u64_max_def)

lemma sum_u64_mod: "sum_u64 xs = sum_list xs mod u64_size"
proof (induction xs)
  case Nil
  show ?case by simp
next
  case (Cons x xs)
  then show ?case by (simp add: add_u64_def mod_add_right_eq)
qed

lemma sum_u64_exact: "sum_list xs < u64_size \<Longrightarrow> sum_u64 xs = sum_list xs"
  by (simp add: sum_u64_mod)

section \<open>Lists, options and finite sets\<close>

lemma fcard_finsert_new [simp]: "x |\<notin>| A \<Longrightarrow> fcard (finsert x A) = Suc (fcard A)"
  by (simp add: fcard_finsert_if)

lemma fcard_fminus_member: "x |\<in>| A \<Longrightarrow> Suc (fcard (A |-| {|x|})) = fcard A"
  by (metis fcard_Suc_fminus1)

text \<open>The \<open>?\<close> operator, \<open>collect\<close> into a \<open>Result\<close> of a vector, \<open>transpose\<close> of an
  optional \<open>Result\<close>, and \<open>Result::ok\<close>.\<close>

definition sum_bind :: "'e + 'a \<Rightarrow> ('a \<Rightarrow> 'e + 'b) \<Rightarrow> 'e + 'b" where
  "sum_bind r f = (case r of Inl e \<Rightarrow> Inl e | Inr a \<Rightarrow> f a)"

lemma sum_bind_simps [simp]: "sum_bind (Inl e) f = Inl e" "sum_bind (Inr a) f = f a"
  by (simp_all add: sum_bind_def)

lemma sum_bind_Inr: "sum_bind r f = Inr b \<longleftrightarrow> (\<exists>a. r = Inr a \<and> f a = Inr b)"
  by (cases r) simp_all

primrec collect_result :: "('a \<Rightarrow> 'e + 'b) \<Rightarrow> 'a list \<Rightarrow> 'e + 'b list" where
  "collect_result f [] = Inr []"
| "collect_result f (x # xs) = sum_bind (f x) (\<lambda>y. sum_bind (collect_result f xs) (\<lambda>ys. Inr (y # ys)))"

primrec opt_result :: "('a \<Rightarrow> 'e + 'b) \<Rightarrow> 'a option \<Rightarrow> 'e + 'b option" where
  "opt_result f None = Inr None"
| "opt_result f (Some x) = sum_bind (f x) (\<lambda>y. Inr (Some y))"

definition sum_ok :: "'e + 'a \<Rightarrow> 'a option" where
  "sum_ok r = (case r of Inl _ \<Rightarrow> None | Inr a \<Rightarrow> Some a)"

lemma sum_ok_Some [simp]: "sum_ok r = Some a \<longleftrightarrow> r = Inr a"
  by (cases r) (simp_all add: sum_ok_def)

text \<open>A collection whose every element converts back converts back.\<close>

lemma collect_result_map:
  "(\<And>x. x \<in> set xs \<Longrightarrow> f (g x) = Inr x) \<Longrightarrow> collect_result f (map g xs) = Inr xs"
  by (induction xs) simp_all

lemma opt_result_map:
  "(\<And>x. x \<in> set_option o' \<Longrightarrow> f (g x) = Inr x) \<Longrightarrow> opt_result f (map_option g o') = Inr o'"
  by (cases o') simp_all

lemma collect_result_all:
  "collect_result f xs = Inr ys \<Longrightarrow> (\<And>x y. f x = Inr y \<Longrightarrow> P y) \<Longrightarrow> \<forall>y\<in>set ys. P y"
  by (induction xs arbitrary: ys) (auto simp: sum_bind_Inr)

lemma opt_result_all:
  "opt_result f o' = Inr p \<Longrightarrow> (\<And>x y. f x = Inr y \<Longrightarrow> P y) \<Longrightarrow> \<forall>y\<in>set_option p. P y"
  by (cases o') (auto simp: sum_bind_Inr)

lemma option_map_eq_None [simp]: "(map_option f x = None) = (x = None)"
  by (cases x) simp_all

lemma sum_bind_Inl: "sum_bind r f = Inl e \<longleftrightarrow> r = Inl e \<or> (\<exists>a. r = Inr a \<and> f a = Inl e)"
  by (cases r) simp_all

lemma collect_result_Inl: "collect_result f xs = Inl e \<Longrightarrow> \<exists>x\<in>set xs. f x = Inl e"
  by (induction xs) (auto simp: sum_bind_Inl)

lemma opt_result_Inl: "opt_result f x = Inl e \<Longrightarrow> \<exists>y. x = Some y \<and> f y = Inl e"
  by (cases x) (auto simp: sum_bind_Inl)

end
