(* ===== verification/Btree_Map.thy ===== *)
theory Btree_Map
  imports Prelude
begin

text \<open>
  The \<open>BTreeMap\<close> of the Rust standard library, as far as the model uses it: a
  list of rows in strictly increasing key order, with lookup, insertion, removal,
  iteration (the list itself) and length.  The locale \<open>ordered_table\<close> is the
  interface the replicated tables rely on; its client lemmas are the accounting
  rules of every counter the state machine keeps (a sum of row charges moves by
  exactly the charge of the row written or removed).  The interpretation \<open>bm\<close>
  discharges the interface for the concrete tables.
\<close>

section \<open>Operations\<close>

type_synonym ('k, 'v) btree_map = "('k \<times> 'v) list"

primrec bm_get :: "('k, 'v) btree_map \<Rightarrow> 'k \<Rightarrow> 'v option" where
  "bm_get [] k = None"
| "bm_get (r # m) k = (if fst r = k then Some (snd r) else bm_get m k)"

fun bm_insert :: "'k::linorder \<Rightarrow> 'v \<Rightarrow> ('k, 'v) btree_map \<Rightarrow> ('k, 'v) btree_map" where
  "bm_insert k v [] = [(k, v)]"
| "bm_insert k v ((j, w) # m) =
    (if k < j then (k, v) # (j, w) # m
     else if k = j then (k, v) # m
     else (j, w) # bm_insert k v m)"

definition bm_remove :: "'k \<Rightarrow> ('k, 'v) btree_map \<Rightarrow> ('k, 'v) btree_map" where
  "bm_remove k m = filter (\<lambda>r. fst r \<noteq> k) m"

definition bm_contains :: "('k, 'v) btree_map \<Rightarrow> 'k \<Rightarrow> bool" where
  "bm_contains m k = (bm_get m k \<noteq> None)"

text \<open>The order invariant of the tree: keys strictly increase along the iteration.\<close>

definition bm_ok :: "('k::linorder, 'v) btree_map \<Rightarrow> bool" where
  "bm_ok m = sorted_wrt (<) (map fst m)"

text \<open>The sum of a charge over the rows of a table.\<close>

definition table_sum :: "('k \<Rightarrow> 'v \<Rightarrow> nat) \<Rightarrow> ('k, 'v) btree_map \<Rightarrow> nat" where
  "table_sum f m = sum_list (map (\<lambda>(k, v). f k v) m)"

text \<open>What a lookup contributes to such a sum.\<close>

definition row_charge :: "('k \<Rightarrow> 'v \<Rightarrow> nat) \<Rightarrow> ('k, 'v) btree_map \<Rightarrow> 'k \<Rightarrow> nat" where
  "row_charge f m k = (case bm_get m k of None \<Rightarrow> 0 | Some v \<Rightarrow> f k v)"

section \<open>The table interface\<close>

locale ordered_table =
  fixes get :: "('k \<times> 'v) list \<Rightarrow> 'k \<Rightarrow> 'v option"
    and put :: "'k \<Rightarrow> 'v \<Rightarrow> ('k \<times> 'v) list \<Rightarrow> ('k \<times> 'v) list"
    and del :: "'k \<Rightarrow> ('k \<times> 'v) list \<Rightarrow> ('k \<times> 'v) list"
    and ok :: "('k \<times> 'v) list \<Rightarrow> bool"
  assumes get_put: "get (put k v m) j = (if j = k then Some v else get m j)"
    and get_del: "get (del k m) j = (if j = k then None else get m j)"
    and ok_put: "ok m \<Longrightarrow> ok (put k v m)"
    and ok_del: "ok m \<Longrightarrow> ok (del k m)"
    and rows_put: "ok m \<Longrightarrow> mset (put k v m) = add_mset (k, v) (mset (del k m))"
    and rows_del_some: "ok m \<Longrightarrow> get m k = Some v \<Longrightarrow> mset m = add_mset (k, v) (mset (del k m))"
    and rows_del_none: "get m k = None \<Longrightarrow> del k m = m"
    and rows_get: "ok m \<Longrightarrow> ((k, v) \<in> set m) = (get m k = Some v)"
begin

lemma sum_mset_rows:
  "table_sum f m = sum_mset (image_mset (\<lambda>(k, v). f k v) (mset m))"
  by (simp add: table_sum_def flip: sum_mset_sum_list mset_map)

lemma sum_del:
  assumes "ok m"
  shows "table_sum f (del k m) + (case get m k of None \<Rightarrow> 0 | Some v \<Rightarrow> f k v) = table_sum f m"
proof (cases "get m k")
  case None
  then show ?thesis by (simp add: rows_del_none)
next
  case (Some v)
  show ?thesis
    by (simp add: Some sum_mset_rows rows_del_some [OF assms Some])
qed

lemma sum_put:
  assumes "ok m"
  shows "table_sum f (put k v m) + (case get m k of None \<Rightarrow> 0 | Some w \<Rightarrow> f k w)
    = table_sum f m + f k v"
proof -
  have "table_sum f (put k v m) = f k v + table_sum f (del k m)"
    by (simp add: sum_mset_rows rows_put [OF assms])
  with sum_del [OF assms, of f k] show ?thesis by simp
qed

text \<open>Writing a row that charges what the stored one did leaves the sum alone.\<close>

lemma sum_put_same:
  assumes "ok m" "get m k = Some w" "f k w = f k v"
  shows "table_sum f (put k v m) = table_sum f m"
  using sum_put [OF assms(1), of f k v] assms(2,3) by simp

lemma size_put:
  assumes "ok m"
  shows "length (put k v m) = length m + (if get m k = None then 1 else 0)"
proof -
  have len: "length xs = table_sum (\<lambda>_ _. 1) xs" for xs :: "('k \<times> 'v) list"
    by (induction xs) (auto simp: table_sum_def)
  show ?thesis
    using sum_put [OF assms, of "\<lambda>_ _. 1" k v] unfolding len by (cases "get m k") simp_all
qed

lemma size_del:
  assumes "ok m"
  shows "length (del k m) = length m - (if get m k = None then 0 else 1)"
proof (cases "get m k")
  case None
  then show ?thesis by (simp add: rows_del_none)
next
  case (Some v)
  from rows_del_some [OF assms Some] have "length m = Suc (length (del k m))"
    by (metis size_add_mset size_mset)
  with Some show ?thesis by simp
qed

lemma size_put_cap:
  assumes "ok m" "length m \<le> n" "get m k = None \<longrightarrow> length m < n"
  shows "length (put k v m) \<le> n"
  using assms size_put [OF assms(1), of k v] by auto

lemma all_rows_put:
  assumes "ok m" "\<forall>(j, w)\<in>set m. P j w" "P k v"
  shows "\<forall>(j, w)\<in>set (put k v m). P j w"
proof -
  have "P j w" if "(j, w) \<in> set (put k v m)" for j w
  proof -
    from that ok_put [OF assms(1)] have "get (put k v m) j = Some w" by (simp add: rows_get)
    then have "j = k \<and> w = v \<or> get m j = Some w" by (auto simp: get_put split: if_splits)
    with assms rows_get [OF assms(1)] show ?thesis by fastforce
  qed
  then show ?thesis by auto
qed

lemma all_rows_del:
  assumes "ok m" "\<forall>(j, w)\<in>set m. P j w"
  shows "\<forall>(j, w)\<in>set (del k m). P j w"
proof -
  have "P j w" if "(j, w) \<in> set (del k m)" for j w
  proof -
    from that ok_del [OF assms(1)] have "get (del k m) j = Some w" by (simp add: rows_get)
    then have "get m j = Some w" by (auto simp: get_del split: if_splits)
    with assms rows_get [OF assms(1)] show ?thesis by fastforce
  qed
  then show ?thesis by auto
qed

end

section \<open>The ordered list implements it\<close>

lemma bm_get_insert: "bm_get (bm_insert k v m) j = (if j = k then Some v else bm_get m j)"
  by (induction k v m rule: bm_insert.induct) auto

lemma bm_get_remove: "bm_get (bm_remove k m) j = (if j = k then None else bm_get m j)"
  by (induction m) (auto simp: bm_remove_def)

lemma bm_insert_keys: "set (map fst (bm_insert k v m)) = insert k (set (map fst m))"
  by (induction k v m rule: bm_insert.induct) auto

lemma bm_ok_insert: "bm_ok m \<Longrightarrow> bm_ok (bm_insert k v m)"
proof (induction k v m rule: bm_insert.induct)
  case (1 k v)
  show ?case by (simp add: bm_ok_def)
next
  case (2 k v j w m)
  show ?case
  proof (cases "j < k")
    case True
    from 2 True have "bm_ok (bm_insert k v m)"
      by (simp add: bm_ok_def)
    moreover have "\<forall>x\<in>set (map fst (bm_insert k v m)). j < x"
      unfolding bm_insert_keys using 2(2) True by (auto simp: bm_ok_def)
    ultimately show ?thesis
      using True by (auto simp: bm_ok_def)
  next
    case False
    with 2(2) show ?thesis by (auto simp: bm_ok_def)
  qed
qed

lemma bm_ok_remove: "bm_ok m \<Longrightarrow> bm_ok (bm_remove k m)"
  by (induction m) (auto simp: bm_ok_def bm_remove_def)

lemma bm_get_None_iff: "bm_get m k = None \<longleftrightarrow> k \<notin> fst ` set m"
  by (induction m) (auto split: if_splits)

lemma bm_remove_absent: "bm_get m k = None \<Longrightarrow> bm_remove k m = m"
  unfolding bm_remove_def by (induction m) (auto split: if_splits)

lemma bm_rows_get:
  assumes "bm_ok m"
  shows "(k, v) \<in> set m \<longleftrightarrow> bm_get m k = Some v"
  using assms by (induction m) (force simp: bm_ok_def split: if_splits)+

lemma bm_rows_remove:
  assumes "bm_ok m" "bm_get m k = Some v"
  shows "mset m = add_mset (k, v) (mset (bm_remove k m))"
  using assms
proof (induction m)
  case Nil
  then show ?case by simp
next
  case (Cons r m)
  show ?case
  proof (cases "fst r = k")
    case True
    with Cons.prems(1) have "k \<notin> fst ` set m" by (auto simp: bm_ok_def)
    then have "bm_remove k m = m" by (simp add: bm_remove_absent bm_get_None_iff)
    with True Cons.prems(2) show ?thesis by (cases r) (simp add: bm_remove_def)
  next
    case False
    with Cons show ?thesis by (simp add: bm_remove_def bm_ok_def)
  qed
qed

lemma bm_rows_insert:
  "bm_ok m \<Longrightarrow> mset (bm_insert k v m) = add_mset (k, v) (mset (bm_remove k m))"
proof (induction k v m rule: bm_insert.induct)
  case (1 k v)
  show ?case by (simp add: bm_remove_def)
next
  case (2 k v j w m)
  have "bm_remove k ((j, w) # m) = (j, w) # m" if "k < j"
    using 2(2) that by (intro bm_remove_absent) (auto simp: bm_ok_def bm_get_None_iff)
  moreover have "bm_remove j m = m"
    using 2(2) by (intro bm_remove_absent) (auto simp: bm_ok_def bm_get_None_iff)
  ultimately show ?case
    using 2 by (auto simp: bm_remove_def bm_ok_def)
qed

interpretation bm: ordered_table bm_get bm_insert bm_remove bm_ok
  by unfold_locales
    (auto simp: bm_get_insert bm_get_remove bm_ok_insert bm_ok_remove bm_rows_insert
      bm_rows_remove bm_remove_absent bm_rows_get)

declare bm.get_put [simp] bm.get_del [simp] bm.ok_put [simp] bm.ok_del [simp]

lemma bm_ok_Nil [simp]: "bm_ok []"
  by (simp add: bm_ok_def)

lemma bm_contains_insert [simp]: "bm_contains (bm_insert k v m) j = (j = k \<or> bm_contains m j)"
  by (simp add: bm_contains_def)

lemma row_charge_le:
  assumes "bm_ok m"
  shows "row_charge f m k \<le> table_sum f m"
  using bm.sum_del [OF assms, of f k] by (simp add: row_charge_def)

lemma table_sum_insert:
  assumes "bm_ok m"
  shows "table_sum f (bm_insert k v m) = table_sum f m + f k v - row_charge f m k"
  using bm.sum_put [OF assms, of f k v] by (simp add: row_charge_def)

lemma table_sum_remove:
  assumes "bm_ok m"
  shows "table_sum f (bm_remove k m) = table_sum f m - row_charge f m k"
  using bm.sum_del [OF assms, of f k] by (simp add: row_charge_def)

lemma table_sum_Nil [simp]: "table_sum f [] = 0"
  by (simp add: table_sum_def)

lemma table_sum_bound:
  assumes "\<forall>(k, v)\<in>set m. f k v \<le> c" "length m \<le> n"
  shows "table_sum f m \<le> n * c"
proof -
  have "table_sum f m \<le> length m * c"
    using assms(1) by (induction m) (auto simp: table_sum_def)
  also have "\<dots> \<le> n * c" using assms(2) by simp
  finally show ?thesis .
qed

text \<open>Counting the rows that satisfy a predicate, as a sum of zeros and ones.\<close>

lemma count_rows_table_sum:
  "length (filter (\<lambda>(k, v). P k v) m) = table_sum (\<lambda>k v. if P k v then 1 else 0) m"
  by (induction m) (auto simp: table_sum_def)

text \<open>How a write changes the number of rows that satisfy a condition.\<close>

lemma count_rows_insert:
  assumes "bm_ok m"
  shows "length (filter (\<lambda>(k, v). P k v) (bm_insert k v m))
      + (case bm_get m k of None \<Rightarrow> 0 | Some w \<Rightarrow> if P k w then 1 else 0)
    = length (filter (\<lambda>(k, v). P k v) m) + (if P k v then 1 else 0)"
  unfolding count_rows_table_sum by (rule bm.sum_put [OF assms])

lemma count_rows_remove:
  assumes "bm_ok m"
  shows "length (filter (\<lambda>(k, v). P k v) (bm_remove k m))
      + (case bm_get m k of None \<Rightarrow> 0 | Some w \<Rightarrow> if P k w then 1 else 0)
    = length (filter (\<lambda>(k, v). P k v) m)"
  unfolding count_rows_table_sum by (rule bm.sum_del [OF assms])

lemma count_rows_remove_le:
  "length (filter P (bm_remove k m)) \<le> length (filter P m)"
  by (induction m) (auto simp: bm_remove_def)

text \<open>Rows of the tables a run of writes produces satisfy what the written rows satisfy.\<close>

lemma all_rows_get:
  assumes "bm_ok m"
  shows "(\<forall>(k, v)\<in>set m. P k v) \<longleftrightarrow> (\<forall>k v. bm_get m k = Some v \<longrightarrow> P k v)"
  using bm_rows_get [OF assms] by fastforce

text \<open>The key set of a table.\<close>

lemma bm_length_keys: "bm_ok m \<Longrightarrow> length m = card (fst ` set m)"
  by (metis bm_ok_def distinct_card length_map list.set_map strict_sorted_iff)

lemma bm_keys_insert: "fst ` set (bm_insert k v m) = insert k (fst ` set m)"
  using bm_insert_keys [of k v m] by simp

lemma bm_keys_remove: "fst ` set (bm_remove k m) = fst ` set m - {k}"
  by (auto simp: bm_remove_def)

lemma bm_contains_keys: "bm_contains m k \<longleftrightarrow> k \<in> fst ` set m"
  using bm_get_None_iff [of m k] by (auto simp: bm_contains_def)

lemma count_rows_card:
  assumes "bm_ok m"
  shows "length (filter (\<lambda>(k, v). P k v) m) = card {k. \<exists>v. bm_get m k = Some v \<and> P k v}"
proof -
  have dist: "distinct (map fst m)" using assms by (auto simp: bm_ok_def strict_sorted_iff)
  have "length (filter (\<lambda>(k, v). P k v) m) = card (fst ` set (filter (\<lambda>(k, v). P k v) m))"
    using distinct_card [OF distinct_map_filter [OF dist]] by simp
  also have "fst ` set (filter (\<lambda>(k, v). P k v) m) = {k. \<exists>v. bm_get m k = Some v \<and> P k v}"
    using bm_rows_get [OF assms] by (force simp: image_iff)
  finally show ?thesis .
qed

lemma bm_get_keys: "bm_get m k = Some v \<Longrightarrow> k \<in> fst ` set m"
  using bm_get_None_iff [of m k] by fastforce

end
