(* ===== verification/Coord_Reason.thy ===== *)
theory Coord_Reason
  imports Prelude
begin

text \<open>
  The reason and outcome codes of the coordination protocol
  (\<open>coordination/reason.rs\<close>): the enumerations the two macros generate, their
  wire codes, and the four classifications every answer path consults.  The Rust
  variants \<open>Reason::None\<close> and \<open>Outcome::ClientRetired\<close> are \<open>Reason_None\<close> and
  \<open>Outcome_ClientRetired\<close> here; all other constructors keep their names.
\<close>

section \<open>Reasons\<close>

datatype reason =
    Reason_None
  | IntentSlotsExhausted
  | HeldByOther
  | NotHeld
  | NotHolder
  | EpochMismatch
  | ValueRevisionMismatch
  | AclRevisionMismatch
  | AdminRevisionMismatch
  | SequenceTooOld
  | SequenceGap
  | SequenceConflict
  | ClientRetired
  | PermissionChanged
  | MembershipRevisionMismatch
  | MembershipIntentActive
  | CounterExhausted
  | MembershipCannotCancel
  | OperationIdConflict
  | RetainedSessionCapReached
  | StateBudgetExhausted
  | ActiveClientCap
  | ResourceSlotsExhausted
  | AclSlotsExhausted
  | LastAdministrator
  | MembershipLearnerEnvelope
  | RootAuthorityImmutable

definition all_reasons :: "reason list" where
  "all_reasons =
    [Reason_None,
     IntentSlotsExhausted,
     HeldByOther,
     NotHeld,
     NotHolder,
     EpochMismatch,
     ValueRevisionMismatch,
     AclRevisionMismatch,
     AdminRevisionMismatch,
     SequenceTooOld,
     SequenceGap,
     SequenceConflict,
     ClientRetired,
     PermissionChanged,
     MembershipRevisionMismatch,
     MembershipIntentActive,
     CounterExhausted,
     MembershipCannotCancel,
     OperationIdConflict,
     RetainedSessionCapReached,
     StateBudgetExhausted,
     ActiveClientCap,
     ResourceSlotsExhausted,
     AclSlotsExhausted,
     LastAdministrator,
     MembershipLearnerEnvelope,
     RootAuthorityImmutable]"

primrec reason_code :: "reason \<Rightarrow> i32" where
  "reason_code Reason_None = 0"
| "reason_code IntentSlotsExhausted = 20"
| "reason_code HeldByOther = 1"
| "reason_code NotHeld = 2"
| "reason_code NotHolder = 3"
| "reason_code EpochMismatch = 4"
| "reason_code ValueRevisionMismatch = 5"
| "reason_code AclRevisionMismatch = 6"
| "reason_code AdminRevisionMismatch = 7"
| "reason_code SequenceTooOld = 8"
| "reason_code SequenceGap = 9"
| "reason_code SequenceConflict = 10"
| "reason_code ClientRetired = 11"
| "reason_code PermissionChanged = 12"
| "reason_code MembershipRevisionMismatch = 13"
| "reason_code MembershipIntentActive = 14"
| "reason_code CounterExhausted = 15"
| "reason_code MembershipCannotCancel = 16"
| "reason_code OperationIdConflict = 17"
| "reason_code RetainedSessionCapReached = 18"
| "reason_code StateBudgetExhausted = 19"
| "reason_code ActiveClientCap = 21"
| "reason_code ResourceSlotsExhausted = 22"
| "reason_code AclSlotsExhausted = 23"
| "reason_code LastAdministrator = 24"
| "reason_code MembershipLearnerEnvelope = 25"
| "reason_code RootAuthorityImmutable = 26"

definition reason_from_code :: "i32 \<Rightarrow> reason option" where
  "reason_from_code code =
    (if code = 0 then Some Reason_None
     else if code = 20 then Some IntentSlotsExhausted
     else if code = 1 then Some HeldByOther
     else if code = 2 then Some NotHeld
     else if code = 3 then Some NotHolder
     else if code = 4 then Some EpochMismatch
     else if code = 5 then Some ValueRevisionMismatch
     else if code = 6 then Some AclRevisionMismatch
     else if code = 7 then Some AdminRevisionMismatch
     else if code = 8 then Some SequenceTooOld
     else if code = 9 then Some SequenceGap
     else if code = 10 then Some SequenceConflict
     else if code = 11 then Some ClientRetired
     else if code = 12 then Some PermissionChanged
     else if code = 13 then Some MembershipRevisionMismatch
     else if code = 14 then Some MembershipIntentActive
     else if code = 15 then Some CounterExhausted
     else if code = 16 then Some MembershipCannotCancel
     else if code = 17 then Some OperationIdConflict
     else if code = 18 then Some RetainedSessionCapReached
     else if code = 19 then Some StateBudgetExhausted
     else if code = 21 then Some ActiveClientCap
     else if code = 22 then Some ResourceSlotsExhausted
     else if code = 23 then Some AclSlotsExhausted
     else if code = 24 then Some LastAdministrator
     else if code = 25 then Some MembershipLearnerEnvelope
     else if code = 26 then Some RootAuthorityImmutable
     else None)"

primrec is_reserved :: "reason \<Rightarrow> bool" where
  "is_reserved Reason_None = False"
| "is_reserved IntentSlotsExhausted = True"
| "is_reserved HeldByOther = False"
| "is_reserved NotHeld = False"
| "is_reserved NotHolder = False"
| "is_reserved EpochMismatch = False"
| "is_reserved ValueRevisionMismatch = False"
| "is_reserved AclRevisionMismatch = False"
| "is_reserved AdminRevisionMismatch = False"
| "is_reserved SequenceTooOld = False"
| "is_reserved SequenceGap = False"
| "is_reserved SequenceConflict = False"
| "is_reserved ClientRetired = False"
| "is_reserved PermissionChanged = False"
| "is_reserved MembershipRevisionMismatch = False"
| "is_reserved MembershipIntentActive = False"
| "is_reserved CounterExhausted = False"
| "is_reserved MembershipCannotCancel = False"
| "is_reserved OperationIdConflict = False"
| "is_reserved RetainedSessionCapReached = False"
| "is_reserved StateBudgetExhausted = False"
| "is_reserved ActiveClientCap = False"
| "is_reserved ResourceSlotsExhausted = False"
| "is_reserved AclSlotsExhausted = False"
| "is_reserved LastAdministrator = False"
| "is_reserved MembershipLearnerEnvelope = False"
| "is_reserved RootAuthorityImmutable = False"

primrec is_refusable :: "reason \<Rightarrow> bool" where
  "is_refusable Reason_None = False"
| "is_refusable IntentSlotsExhausted = False"
| "is_refusable HeldByOther = True"
| "is_refusable NotHeld = True"
| "is_refusable NotHolder = True"
| "is_refusable EpochMismatch = True"
| "is_refusable ValueRevisionMismatch = True"
| "is_refusable AclRevisionMismatch = True"
| "is_refusable AdminRevisionMismatch = True"
| "is_refusable SequenceTooOld = True"
| "is_refusable SequenceGap = True"
| "is_refusable SequenceConflict = True"
| "is_refusable ClientRetired = True"
| "is_refusable PermissionChanged = True"
| "is_refusable MembershipRevisionMismatch = True"
| "is_refusable MembershipIntentActive = True"
| "is_refusable CounterExhausted = True"
| "is_refusable MembershipCannotCancel = True"
| "is_refusable OperationIdConflict = True"
| "is_refusable RetainedSessionCapReached = True"
| "is_refusable StateBudgetExhausted = True"
| "is_refusable ActiveClientCap = True"
| "is_refusable ResourceSlotsExhausted = True"
| "is_refusable AclSlotsExhausted = True"
| "is_refusable LastAdministrator = True"
| "is_refusable MembershipLearnerEnvelope = True"
| "is_refusable RootAuthorityImmutable = True"

text \<open>\<open>RefusalReason::new\<close>: a reason a refusal may carry, or nothing.\<close>

definition refusal_reason_new :: "reason \<Rightarrow> reason option" where
  "refusal_reason_new r = (if is_refusable r then Some r else None)"

primrec is_admission_denial :: "reason \<Rightarrow> bool" where
  "is_admission_denial Reason_None = False"
| "is_admission_denial IntentSlotsExhausted = False"
| "is_admission_denial HeldByOther = False"
| "is_admission_denial NotHeld = False"
| "is_admission_denial NotHolder = False"
| "is_admission_denial EpochMismatch = False"
| "is_admission_denial ValueRevisionMismatch = False"
| "is_admission_denial AclRevisionMismatch = False"
| "is_admission_denial AdminRevisionMismatch = False"
| "is_admission_denial SequenceTooOld = False"
| "is_admission_denial SequenceGap = False"
| "is_admission_denial SequenceConflict = False"
| "is_admission_denial ClientRetired = False"
| "is_admission_denial PermissionChanged = False"
| "is_admission_denial MembershipRevisionMismatch = False"
| "is_admission_denial MembershipIntentActive = False"
| "is_admission_denial CounterExhausted = True"
| "is_admission_denial MembershipCannotCancel = False"
| "is_admission_denial OperationIdConflict = False"
| "is_admission_denial RetainedSessionCapReached = False"
| "is_admission_denial StateBudgetExhausted = True"
| "is_admission_denial ActiveClientCap = False"
| "is_admission_denial ResourceSlotsExhausted = True"
| "is_admission_denial AclSlotsExhausted = True"
| "is_admission_denial LastAdministrator = True"
| "is_admission_denial MembershipLearnerEnvelope = True"
| "is_admission_denial RootAuthorityImmutable = True"

primrec may_be_not_consumed :: "reason \<Rightarrow> bool" where
  "may_be_not_consumed Reason_None = False"
| "may_be_not_consumed IntentSlotsExhausted = False"
| "may_be_not_consumed HeldByOther = False"
| "may_be_not_consumed NotHeld = False"
| "may_be_not_consumed NotHolder = False"
| "may_be_not_consumed EpochMismatch = False"
| "may_be_not_consumed ValueRevisionMismatch = False"
| "may_be_not_consumed AclRevisionMismatch = False"
| "may_be_not_consumed AdminRevisionMismatch = False"
| "may_be_not_consumed SequenceTooOld = True"
| "may_be_not_consumed SequenceGap = True"
| "may_be_not_consumed SequenceConflict = True"
| "may_be_not_consumed ClientRetired = True"
| "may_be_not_consumed PermissionChanged = False"
| "may_be_not_consumed MembershipRevisionMismatch = False"
| "may_be_not_consumed MembershipIntentActive = False"
| "may_be_not_consumed CounterExhausted = True"
| "may_be_not_consumed MembershipCannotCancel = False"
| "may_be_not_consumed OperationIdConflict = False"
| "may_be_not_consumed RetainedSessionCapReached = True"
| "may_be_not_consumed StateBudgetExhausted = True"
| "may_be_not_consumed ActiveClientCap = True"
| "may_be_not_consumed ResourceSlotsExhausted = True"
| "may_be_not_consumed AclSlotsExhausted = True"
| "may_be_not_consumed LastAdministrator = True"
| "may_be_not_consumed MembershipLearnerEnvelope = True"
| "may_be_not_consumed RootAuthorityImmutable = True"

primrec may_be_saved_rejection :: "reason \<Rightarrow> bool" where
  "may_be_saved_rejection Reason_None = False"
| "may_be_saved_rejection IntentSlotsExhausted = False"
| "may_be_saved_rejection HeldByOther = True"
| "may_be_saved_rejection NotHeld = True"
| "may_be_saved_rejection NotHolder = True"
| "may_be_saved_rejection EpochMismatch = True"
| "may_be_saved_rejection ValueRevisionMismatch = True"
| "may_be_saved_rejection AclRevisionMismatch = True"
| "may_be_saved_rejection AdminRevisionMismatch = True"
| "may_be_saved_rejection SequenceTooOld = False"
| "may_be_saved_rejection SequenceGap = False"
| "may_be_saved_rejection SequenceConflict = False"
| "may_be_saved_rejection ClientRetired = False"
| "may_be_saved_rejection PermissionChanged = True"
| "may_be_saved_rejection MembershipRevisionMismatch = True"
| "may_be_saved_rejection MembershipIntentActive = True"
| "may_be_saved_rejection CounterExhausted = True"
| "may_be_saved_rejection MembershipCannotCancel = True"
| "may_be_saved_rejection OperationIdConflict = True"
| "may_be_saved_rejection RetainedSessionCapReached = False"
| "may_be_saved_rejection StateBudgetExhausted = True"
| "may_be_saved_rejection ActiveClientCap = False"
| "may_be_saved_rejection ResourceSlotsExhausted = True"
| "may_be_saved_rejection AclSlotsExhausted = True"
| "may_be_saved_rejection LastAdministrator = True"
| "may_be_saved_rejection MembershipLearnerEnvelope = True"
| "may_be_saved_rejection RootAuthorityImmutable = True"

primrec is_terminal_when_not_consumed :: "reason \<Rightarrow> bool" where
  "is_terminal_when_not_consumed Reason_None = False"
| "is_terminal_when_not_consumed IntentSlotsExhausted = False"
| "is_terminal_when_not_consumed HeldByOther = False"
| "is_terminal_when_not_consumed NotHeld = False"
| "is_terminal_when_not_consumed NotHolder = False"
| "is_terminal_when_not_consumed EpochMismatch = False"
| "is_terminal_when_not_consumed ValueRevisionMismatch = False"
| "is_terminal_when_not_consumed AclRevisionMismatch = False"
| "is_terminal_when_not_consumed AdminRevisionMismatch = False"
| "is_terminal_when_not_consumed SequenceTooOld = False"
| "is_terminal_when_not_consumed SequenceGap = False"
| "is_terminal_when_not_consumed SequenceConflict = False"
| "is_terminal_when_not_consumed ClientRetired = True"
| "is_terminal_when_not_consumed PermissionChanged = False"
| "is_terminal_when_not_consumed MembershipRevisionMismatch = False"
| "is_terminal_when_not_consumed MembershipIntentActive = False"
| "is_terminal_when_not_consumed CounterExhausted = True"
| "is_terminal_when_not_consumed MembershipCannotCancel = False"
| "is_terminal_when_not_consumed OperationIdConflict = False"
| "is_terminal_when_not_consumed RetainedSessionCapReached = True"
| "is_terminal_when_not_consumed StateBudgetExhausted = False"
| "is_terminal_when_not_consumed ActiveClientCap = False"
| "is_terminal_when_not_consumed ResourceSlotsExhausted = True"
| "is_terminal_when_not_consumed AclSlotsExhausted = False"
| "is_terminal_when_not_consumed LastAdministrator = True"
| "is_terminal_when_not_consumed MembershipLearnerEnvelope = False"
| "is_terminal_when_not_consumed RootAuthorityImmutable = True"

section \<open>Dispositions and outcomes\<close>

datatype disposition = Consumed | NotConsumed

primrec is_terminal :: "disposition \<Rightarrow> reason \<Rightarrow> bool" where
  "is_terminal Consumed r = True"
| "is_terminal NotConsumed r = is_terminal_when_not_consumed r"

datatype outcome =
    Granted
  | Renewed
  | Mutated
  | Released
  | Revoked
  | GrantUpdated
  | AdminUpdated
  | MembershipAccepted
  | Outcome_ClientRetired
  | MembershipCancelled
  | Rejected

primrec outcome_code :: "outcome \<Rightarrow> i32" where
  "outcome_code Granted = 1"
| "outcome_code Renewed = 2"
| "outcome_code Mutated = 3"
| "outcome_code Released = 4"
| "outcome_code Revoked = 5"
| "outcome_code GrantUpdated = 6"
| "outcome_code AdminUpdated = 7"
| "outcome_code MembershipAccepted = 8"
| "outcome_code Outcome_ClientRetired = 9"
| "outcome_code MembershipCancelled = 10"
| "outcome_code Rejected = 100"

definition outcome_from_code :: "i32 \<Rightarrow> outcome option" where
  "outcome_from_code code =
    (if code = 1 then Some Granted
     else if code = 2 then Some Renewed
     else if code = 3 then Some Mutated
     else if code = 4 then Some Released
     else if code = 5 then Some Revoked
     else if code = 6 then Some GrantUpdated
     else if code = 7 then Some AdminUpdated
     else if code = 8 then Some MembershipAccepted
     else if code = 9 then Some Outcome_ClientRetired
     else if code = 10 then Some MembershipCancelled
     else if code = 100 then Some Rejected
     else None)"

definition is_rejection :: "outcome \<Rightarrow> bool" where
  "is_rejection o' = (o' = Rejected)"

section \<open>Codes and classifications\<close>

lemma reason_from_code_iff: "reason_from_code c = Some r \<longleftrightarrow> reason_code r = c"
proof
  assume "reason_from_code c = Some r"
  then show "reason_code r = c"
    by (auto simp: reason_from_code_def split: if_splits)
next
  assume "reason_code r = c"
  then show "reason_from_code c = Some r"
    by (cases r) (auto simp: reason_from_code_def)
qed

lemma reason_code_inject [simp]: "reason_code r = reason_code s \<longleftrightarrow> r = s"
  by (metis option.inject reason_from_code_iff)

lemma outcome_from_code_iff: "outcome_from_code c = Some o' \<longleftrightarrow> outcome_code o' = c"
proof
  assume "outcome_from_code c = Some o'"
  then show "outcome_code o' = c"
    by (auto simp: outcome_from_code_def split: if_splits)
next
  assume "outcome_code o' = c"
  then show "outcome_from_code c = Some o'"
    by (cases o') (auto simp: outcome_from_code_def)
qed

text \<open>Every reason the declaration lists is in \<open>ALL\<close>, once.\<close>

lemma all_reasons_complete: "set all_reasons = UNIV \<and> distinct all_reasons"
proof -
  have "r \<in> set all_reasons" for r
    by (cases r) (simp_all add: all_reasons_def)
  then show ?thesis by (auto simp: all_reasons_def)
qed

lemma refusable_partition:
  "is_refusable r \<longleftrightarrow> r \<noteq> Reason_None \<and> \<not> is_reserved r"
  by (cases r) simp_all

text \<open>A refusable reason has an answer path: before the log, in the log, or both.\<close>

lemma refusable_answer_path:
  "is_refusable r \<longleftrightarrow> may_be_not_consumed r \<or> may_be_saved_rejection r"
  by (cases r) simp_all

lemma both_answer_paths:
  "may_be_not_consumed r \<and> may_be_saved_rejection r \<longleftrightarrow> is_admission_denial r"
  by (cases r) simp_all

lemma terminal_not_consumed_reachable:
  "is_terminal_when_not_consumed r \<Longrightarrow> may_be_not_consumed r"
  by (cases r) simp_all

lemma saved_rejection_refusable:
  "may_be_saved_rejection r \<Longrightarrow> is_refusable r"
  by (cases r) simp_all

end
