(* ===== verification/Coord_Limits.thy ===== *)
theory Coord_Limits
  imports Prelude
begin

text \<open>
  The logical limits of \<open>coordination/model/limits.rs\<close>: row sizes, byte budgets,
  slot caps, the rights bits and the declared charge of each row.  Rights are
  \<open>64 word\<close> masks, all lengths and counters are natural numbers.  The static
  assertions of the file are the lemmas at the end.
\<close>

unbundle bit_operations_syntax

section \<open>Limits\<close>

definition MAX_NAMESPACE :: nat where
  [coord_simps]: "MAX_NAMESPACE = 64"

definition MAX_KEY :: nat where
  [coord_simps]: "MAX_KEY = 512"

definition MAX_VALUE :: nat where
  [coord_simps]: "MAX_VALUE = 65536"

definition MAX_TICKET :: nat where
  [coord_simps]: "MAX_TICKET = 4095"

definition MAX_JOIN_PERMIT :: nat where
  [coord_simps]: "MAX_JOIN_PERMIT = 8 * 1024"

definition MAX_ENCODED_COMMAND :: nat where
  [coord_simps]: "MAX_ENCODED_COMMAND = 256 * 1024"

definition MAX_ROW_KEY :: u64 where
  [coord_simps]: "MAX_ROW_KEY = MAX_NAMESPACE + MAX_KEY"

definition MAX_COUNTER :: u64 where
  [coord_simps]: "MAX_COUNTER = 9223372036854775807"

definition GROWTH_BUDGET :: u64 where
  [coord_simps]: "GROWTH_BUDGET = 192 * 1024 * 1024"

definition RESERVE_BUDGET :: u64 where
  [coord_simps]: "RESERVE_BUDGET = 128 * 1024 * 1024"

definition LOCAL_HIGH_WATER :: u64 where
  [coord_simps]: "LOCAL_HIGH_WATER = 384 * 1024 * 1024"

definition MAX_RESOURCES_PER_GROUP :: u64 where
  [coord_simps]: "MAX_RESOURCES_PER_GROUP = 100000"

definition MAX_ACL_ROWS_PER_GROUP :: u64 where
  [coord_simps]: "MAX_ACL_ROWS_PER_GROUP = 100000"

definition MAX_GRANTS_PER_RESOURCE :: u64 where
  [coord_simps]: "MAX_GRANTS_PER_RESOURCE = 256"

definition MAX_ADMINS_PER_GROUP :: u64 where
  [coord_simps]: "MAX_ADMINS_PER_GROUP = 64"

definition MAX_AUDIT_ROWS :: u64 where
  [coord_simps]: "MAX_AUDIT_ROWS = 100000"

definition MAX_RETAINED_INTENTS :: u64 where
  [coord_simps]: "MAX_RETAINED_INTENTS = 64"

definition MAX_INTENT_ROWS :: u64 where
  [coord_simps]: "MAX_INTENT_ROWS = MAX_RETAINED_INTENTS + 1"

definition MAX_RETAINED_ROUTES :: u64 where
  [coord_simps]: "MAX_RETAINED_ROUTES = 64"

definition MAX_RETAINED_SESSIONS_PER_GROUP :: u64 where
  [coord_simps]: "MAX_RETAINED_SESSIONS_PER_GROUP = 16384"

definition MAX_RETAINED_SESSIONS_PER_ACTOR :: u64 where
  [coord_simps]: "MAX_RETAINED_SESSIONS_PER_ACTOR = 256"

definition MAX_ACTIVE_CLIENTS_PER_GROUP :: u64 where
  [coord_simps]: "MAX_ACTIVE_CLIENTS_PER_GROUP = 1024"

definition MAX_ACTIVE_CLIENTS_PER_ACTOR :: u64 where
  [coord_simps]: "MAX_ACTIVE_CLIENTS_PER_ACTOR = 8"

definition MIN_TTL_MS :: u64 where
  [coord_simps]: "MIN_TTL_MS = 5000"

definition MAX_TTL_MS :: u64 where
  [coord_simps]: "MAX_TTL_MS = 300000"

section \<open>Rights\<close>

type_synonym rights = "64 word"

definition RIGHT_READ :: rights where [coord_simps]: "RIGHT_READ = 0x01"
definition RIGHT_ACQUIRE :: rights where [coord_simps]: "RIGHT_ACQUIRE = 0x02"
definition RIGHT_RENEW :: rights where [coord_simps]: "RIGHT_RENEW = 0x04"
definition RIGHT_MUTATE :: rights where [coord_simps]: "RIGHT_MUTATE = 0x08"
definition RIGHT_RELEASE :: rights where [coord_simps]: "RIGHT_RELEASE = 0x10"
definition RIGHT_REVOKE :: rights where [coord_simps]: "RIGHT_REVOKE = 0x20"

definition ALL_RIGHTS :: rights where
  [coord_simps]: "ALL_RIGHTS =
    RIGHT_READ OR RIGHT_ACQUIRE OR RIGHT_RENEW OR RIGHT_MUTATE OR RIGHT_RELEASE OR RIGHT_REVOKE"

definition LEASE_SUSTAINING_RIGHTS :: rights where
  [coord_simps]: "LEASE_SUSTAINING_RIGHTS = RIGHT_RENEW OR RIGHT_MUTATE OR RIGHT_RELEASE"

definition rights_are_known :: "rights \<Rightarrow> bool" where
  "rights_are_known rights = (rights AND NOT ALL_RIGHTS = 0)"

section \<open>Charges\<close>

definition key_charge :: "string \<Rightarrow> bytes \<Rightarrow> u64" where
  "key_charge namespace key = length namespace + length key"

definition charge_resource :: "string \<Rightarrow> bytes \<Rightarrow> nat \<Rightarrow> u64" where
  "charge_resource namespace key value_len = 256 + key_charge namespace key + value_len"

definition charge_acl :: "string \<Rightarrow> bytes \<Rightarrow> u64" where
  "charge_acl namespace key = 256 + key_charge namespace key"

definition charge_admin :: u64 where
  "charge_admin = 128"

definition charge_intent :: "nat \<Rightarrow> u64" where
  "charge_intent encoded_plan_len = 1024 + encoded_plan_len"

definition charge_route :: "nat \<Rightarrow> u64" where
  "charge_route ticket_len = 256 + ticket_len"

definition charge_session :: "(string \<times> bytes) option \<Rightarrow> u64" where
  "charge_session saved_key =
    256 + (case saved_key of None \<Rightarrow> 0 | Some (ns, k) \<Rightarrow> key_charge ns k)"

definition charge_audit :: "(string \<times> bytes) option \<Rightarrow> u64" where
  "charge_audit resource =
    256 + (case resource of None \<Rightarrow> 0 | Some (ns, k) \<Rightarrow> key_charge ns k)"

definition MAX_RESERVE_ROW_CHARGE :: u64 where
  [coord_simps]: "MAX_RESERVE_ROW_CHARGE = 256 + MAX_ROW_KEY"

section \<open>The static assertions\<close>

lemma reserve_fits:
  "(MAX_AUDIT_ROWS + MAX_RETAINED_SESSIONS_PER_GROUP) * MAX_RESERVE_ROW_CHARGE \<le> RESERVE_BUDGET"
  by (simp add: coord_simps)

lemma budgets_fit_the_store: "GROWTH_BUDGET + RESERVE_BUDGET < LOCAL_HIGH_WATER"
  by (simp add: coord_simps)

lemma active_is_inside_retained:
  "MAX_ACTIVE_CLIENTS_PER_GROUP \<le> MAX_RETAINED_SESSIONS_PER_GROUP \<and>
   MAX_ACTIVE_CLIENTS_PER_ACTOR \<le> MAX_RETAINED_SESSIONS_PER_ACTOR"
  by (simp add: coord_simps)

section \<open>Bounds the components share\<close>

lemma budgets_below_u64:
  "GROWTH_BUDGET < u64_max" "RESERVE_BUDGET < u64_max" "LOCAL_HIGH_WATER < u64_size"
  by (simp_all add: coord_simps u64_max_def u64_size_def)

lemma max_counter_below_u64: "Suc MAX_COUNTER < u64_size"
  by (simp add: coord_simps u64_size_def)

lemma charge_session_bound:
  assumes "case k of None \<Rightarrow> True | Some (ns, b) \<Rightarrow> length ns \<le> MAX_NAMESPACE \<and> length b \<le> MAX_KEY"
  shows "charge_session k \<le> MAX_RESERVE_ROW_CHARGE" "charge_audit k \<le> MAX_RESERVE_ROW_CHARGE"
  using assms
  by (auto simp: charge_session_def charge_audit_def key_charge_def coord_simps split: option.splits)

lemma rights_are_known_ALL: "rights_are_known ALL_RIGHTS"
  by (simp add: rights_are_known_def)

end
