(* ===== verification/Coord_Ids.thy ===== *)
theory Coord_Ids
  imports Coord_Limits
begin

text \<open>
  Identifier and resource-key validation (\<open>coordination/ids.rs\<close>).  A fixed-width
  identifier (group, node, client, operation id) is the byte list it wraps; the
  width is a parameter of the constructors, as in the \<open>fixed_id\<close> macro.  A
  namespace is a \<open>string\<close> of its UTF-8 bytes.  Resource keys are ordered as the
  derived \<open>Ord\<close> orders them, namespace first.
\<close>

section \<open>Fixed-width identifiers\<close>

definition MAX_NAMESPACE_BYTES :: nat where [coord_simps]: "MAX_NAMESPACE_BYTES = 64"
definition MAX_KEY_BYTES :: nat where [coord_simps]: "MAX_KEY_BYTES = 512"

datatype id_error =
    Id_Length nat nat
  | HexLength nat nat
  | HexDigit
  | NamespaceLength nat
  | NamespaceCharset
  | KeyLength nat

text \<open>\<open>char::to_digit(16)\<close> and \<open>char::from_digit(_, 16)\<close>.\<close>

definition to_digit16 :: "char \<Rightarrow> nat option" where
  "to_digit16 c =
    (let n = of_char c :: nat in
     if 48 \<le> n \<and> n \<le> 57 then Some (n - 48)
     else if 97 \<le> n \<and> n \<le> 102 then Some (n - 87)
     else if 65 \<le> n \<and> n \<le> 70 then Some (n - 55)
     else None)"

definition from_digit16 :: "nat \<Rightarrow> char option" where
  "from_digit16 d =
    (if d < 10 then Some (char_of (48 + d))
     else if d < 16 then Some (char_of (87 + d))
     else None)"

fun decode_hex_chunks :: "string \<Rightarrow> id_error + bytes" where
  "decode_hex_chunks (hi # lo # rest) =
    (case to_digit16 hi of None \<Rightarrow> Inl HexDigit
     | Some h \<Rightarrow> (case to_digit16 lo of None \<Rightarrow> Inl HexDigit
       | Some l \<Rightarrow> (case decode_hex_chunks rest of Inl e \<Rightarrow> Inl e
         | Inr bs \<Rightarrow> Inr (of_nat (h * 16 + l) # bs))))"
| "decode_hex_chunks _ = Inr []"

definition decode_hex :: "nat \<Rightarrow> string \<Rightarrow> id_error + bytes" where
  "decode_hex N s =
    (if length s \<noteq> N * 2 then Inl (HexLength N (length s))
     else decode_hex_chunks s)"

definition hex_nibble :: "nat \<Rightarrow> string" where
  "hex_nibble d = (case from_digit16 d of None \<Rightarrow> [] | Some c \<Rightarrow> [c])"

primrec to_hex :: "bytes \<Rightarrow> string" where
  "to_hex [] = []"
| "to_hex (b # bs) = hex_nibble (unat (drop_bit 4 b)) @ hex_nibble (unat (b AND 0x0f)) @ to_hex bs"

definition id_from_slice :: "nat \<Rightarrow> bytes \<Rightarrow> id_error + bytes" where
  "id_from_slice len bs =
    (if length bs \<noteq> len then Inl (Id_Length len (length bs)) else Inr bs)"

definition id_parse_hex :: "nat \<Rightarrow> string \<Rightarrow> id_error + bytes" where
  "id_parse_hex len s = decode_hex len s"

type_synonym node_id = bytes
type_synonym client_id = bytes
type_synonym operation_id = bytes
type_synonym hash32 = bytes

definition NODE_ID_LEN :: nat where [coord_simps]: "NODE_ID_LEN = 32"
definition CLIENT_ID_LEN :: nat where [coord_simps]: "CLIENT_ID_LEN = 16"
definition OPERATION_ID_LEN :: nat where [coord_simps]: "OPERATION_ID_LEN = 16"
definition GROUP_ID_LEN :: nat where [coord_simps]: "GROUP_ID_LEN = 32"

definition placeholder_node :: node_id where
  "placeholder_node = replicate 32 0"

definition is_placeholder :: "node_id \<Rightarrow> bool" where
  "is_placeholder n = (n = replicate 32 0)"

section \<open>Resource keys\<close>

datatype resource_key = ResourceKey (rk_namespace: string) (rk_key: bytes)

instantiation resource_key :: linorder
begin

definition less_eq_resource_key :: "resource_key \<Rightarrow> resource_key \<Rightarrow> bool" where
  "less_eq_resource_key a b = ((rk_namespace a, rk_key a) \<le> (rk_namespace b, rk_key b))"

definition less_resource_key :: "resource_key \<Rightarrow> resource_key \<Rightarrow> bool" where
  "less_resource_key a b = ((rk_namespace a, rk_key a) < (rk_namespace b, rk_key b))"

instance
proof
  fix x y z :: resource_key
  show "(x < y) = (x \<le> y \<and> \<not> y \<le> x)"
    unfolding less_eq_resource_key_def less_resource_key_def by (rule less_le_not_le)
  show "x \<le> x"
    unfolding less_eq_resource_key_def by (rule order.refl)
  show "x \<le> y \<Longrightarrow> y \<le> z \<Longrightarrow> x \<le> z"
    unfolding less_eq_resource_key_def by (rule order.trans)
  show "x \<le> y \<or> y \<le> x"
    unfolding less_eq_resource_key_def by (rule linear)
  assume "x \<le> y" "y \<le> x"
  then have "(rk_namespace x, rk_key x) = (rk_namespace y, rk_key y)"
    unfolding less_eq_resource_key_def by (rule order.antisym)
  then show "x = y" by (simp add: resource_key.expand)
qed

end

definition is_ascii_lowercase :: "char \<Rightarrow> bool" where
  "is_ascii_lowercase c = (let n = of_char c :: nat in 97 \<le> n \<and> n \<le> 122)"

definition is_ascii_digit :: "char \<Rightarrow> bool" where
  "is_ascii_digit c = (let n = of_char c :: nat in 48 \<le> n \<and> n \<le> 57)"

definition namespace_first_ok :: "char \<Rightarrow> bool" where
  "namespace_first_ok b = (is_ascii_lowercase b \<or> is_ascii_digit b)"

definition namespace_rest_ok :: "char \<Rightarrow> bool" where
  "namespace_rest_ok b =
    (is_ascii_lowercase b \<or> is_ascii_digit b \<or> b = CHR ''.'' \<or> b = CHR ''_'' \<or> b = CHR ''-'')"

definition resource_key_new :: "string \<Rightarrow> bytes \<Rightarrow> id_error + resource_key" where
  "resource_key_new namespace key =
    (if namespace = [] \<or> length namespace > MAX_NAMESPACE_BYTES
     then Inl (NamespaceLength (length namespace))
     else if \<not> namespace_first_ok (hd namespace) then Inl NamespaceCharset
     else if \<not> list_all namespace_rest_ok (tl namespace) then Inl NamespaceCharset
     else if key = [] \<or> length key > MAX_KEY_BYTES then Inl (KeyLength (length key))
     else Inr (ResourceKey namespace key))"

definition rk_charge_len :: "resource_key \<Rightarrow> u64" where
  "rk_charge_len rk = length (rk_namespace rk) + length (rk_key rk)"

text \<open>What a value of type \<open>ResourceKey\<close> guarantees: it passed its constructor.\<close>

definition valid_resource_key :: "resource_key \<Rightarrow> bool" where
  "valid_resource_key rk = (resource_key_new (rk_namespace rk) (rk_key rk) = Inr rk)"

section \<open>Validation\<close>

lemma resource_key_new_valid: "resource_key_new ns k = Inr rk \<Longrightarrow> valid_resource_key rk"
  by (auto simp: resource_key_new_def valid_resource_key_def split: if_splits)

lemma resource_key_new_parts:
  "resource_key_new ns k = Inr rk \<Longrightarrow> rk_namespace rk = ns \<and> rk_key rk = k"
  by (auto simp: resource_key_new_def split: if_splits)

lemma valid_resource_key_bounds:
  assumes "valid_resource_key rk"
  shows "length (rk_namespace rk) \<le> MAX_NAMESPACE" "length (rk_key rk) \<le> MAX_KEY"
    "rk_namespace rk \<noteq> []" "rk_key rk \<noteq> []"
  using assms
  by (auto simp: valid_resource_key_def resource_key_new_def coord_simps split: if_splits)

section \<open>Hexadecimal\<close>

lemma to_digit16_from_digit16: "d < 16 \<Longrightarrow> from_digit16 d = Some c \<Longrightarrow> to_digit16 c = Some d"
  by (auto simp: from_digit16_def to_digit16_def Let_def split: if_splits)

lemma hex_nibble_decode:
  assumes "d < 16"
  obtains c where "hex_nibble d = [c]" "to_digit16 c = Some d"
  using assms to_digit16_from_digit16 [OF assms]
  by (cases "from_digit16 d") (auto simp: hex_nibble_def from_digit16_def split: if_splits)

lemma byte_nibbles:
  fixes b :: byte
  shows "unat (drop_bit 4 b) < 16" "unat (b AND 0x0f) < 16"
    "of_nat (unat (drop_bit 4 b) * 16 + unat (b AND 0x0f)) = b"
proof -
  have b: "unat b < 256" using unsigned_less [of b] by simp
  have hi: "unat (drop_bit 4 b) = unat b div 16"
    by (simp add: drop_bit_eq_div unat_div)
  have lo: "b AND 0x0f = take_bit 4 b"
    by (simp add: take_bit_eq_mask mask_eq_exp_minus_1)
  have lo': "unat (b AND 0x0f) = unat b mod 16"
    unfolding lo by (simp add: take_bit_eq_mod unat_mod)
  show "unat (drop_bit 4 b) < 16" using b unfolding hi by simp
  show "unat (b AND 0x0f) < 16" unfolding lo' by simp
  show "of_nat (unat (drop_bit 4 b) * 16 + unat (b AND 0x0f)) = b"
    unfolding hi lo' by simp
qed

lemma decode_hex_chunks_to_hex: "decode_hex_chunks (to_hex bs) = Inr bs"
proof (induction bs)
  case Nil
  show ?case by simp
next
  case (Cons b bs)
  obtain h where "hex_nibble (unat (drop_bit 4 b)) = [h]" "to_digit16 h = Some (unat (drop_bit 4 b))"
    using hex_nibble_decode [OF byte_nibbles(1)] .
  moreover obtain l where "hex_nibble (unat (b AND 0x0f)) = [l]" "to_digit16 l = Some (unat (b AND 0x0f))"
    using hex_nibble_decode [OF byte_nibbles(2)] .
  ultimately show ?case
    using Cons byte_nibbles(3) [of b] by (simp del: of_nat_add of_nat_mult)
qed

lemma length_to_hex: "length (to_hex bs) = 2 * length bs"
proof (induction bs)
  case Nil
  show ?case by simp
next
  case (Cons b bs)
  obtain h where "hex_nibble (unat (drop_bit 4 b)) = [h]"
    using hex_nibble_decode [OF byte_nibbles(1)] .
  moreover obtain l where "hex_nibble (unat (b AND 0x0f)) = [l]"
    using hex_nibble_decode [OF byte_nibbles(2)] .
  ultimately show ?case using Cons by simp
qed

lemma id_parse_hex_to_hex: "length bs = n \<Longrightarrow> id_parse_hex n (to_hex bs) = Inr bs"
  by (simp add: id_parse_hex_def decode_hex_def length_to_hex decode_hex_chunks_to_hex)

end
