(* ===== verification/Coord_Contract.thy ===== *)
theory Coord_Contract
  imports Coord_Reason Coord_Ids
begin

text \<open>
  The wire types of \<open>coordination/contract.rs\<close>, the system result and operation
  codes, the audit result table and the reply-variant rule.  A wire struct is a
  record with the source's fields (prefixed by the struct's initials), a Fory
  union a datatype.  The forward-compatibility carrier of a union keeps no
  payload: no modelled code looks inside it.  A \<open>Vec<u8>\<close> is a byte list, a Rust
  \<open>String\<close> the list of its UTF-8 bytes.
\<close>

section \<open>Leaf types\<close>

record node_id_v1 =
  nv_node_id :: bytes

record resource_key_v1 =
  rkv_namespace :: string
  rkv_key :: bytes

record log_id_v1 =
  lgv_term :: u64
  lgv_leader_node_id :: bytes
  lgv_index :: u64

record fence_v1 =
  fnv_group_id :: bytes
  fnv_resource :: resource_key_v1
  fnv_epoch :: u64
  fnv_holder :: bytes

record resource_snapshot_v1 =
  rsv_group_id :: bytes
  rsv_resource :: resource_key_v1
  rsv_epoch :: u64
  rsv_holder :: "bytes option"
  rsv_held :: bool
  rsv_ttl_ms :: u64
  rsv_lease_revision :: u64
  rsv_value_revision :: u64
  rsv_acl_revision :: u64
  rsv_value :: "bytes option"
  rsv_value_redacted :: bool

record member_seed_v1 =
  msv_node_id :: bytes
  msv_ticket :: string
  msv_signed_join_permit :: "bytes option"

record saved_snapshot_v1 =
  ssv_group_id :: bytes
  ssv_resource :: resource_key_v1
  ssv_epoch :: u64
  ssv_holder :: "bytes option"
  ssv_held :: bool
  ssv_ttl_ms :: u64
  ssv_lease_revision :: u64
  ssv_value_revision :: u64
  ssv_acl_revision :: u64

record saved_reply_v1 =
  srv_disposition_code :: i32
  srv_outcome_code :: i32
  srv_reason_code :: i32
  srv_snapshot :: "saved_snapshot_v1 option"
  srv_acl_revision :: u64
  srv_admin_revision :: u64
  srv_operation_id :: "bytes option"
  srv_membership_log_id :: "log_id_v1 option"

section \<open>Actions\<close>

record acquire_action_v1 =
  aqv_resource :: resource_key_v1
  aqv_ttl_ms :: u64

record renew_action_v1 =
  rnv_fence :: fence_v1

record compare_and_set_action_v1 =
  casv_fence :: fence_v1
  casv_expected_value_revision :: u64
  casv_new_value :: bytes

record revoke_action_v1 =
  rvv_resource :: resource_key_v1
  rvv_expected_epoch :: "u64 option"

record change_membership_action_v1 =
  cmv_operation_id :: bytes
  cmv_expected_membership_log_id :: "log_id_v1 option"
  cmv_desired_voters :: "node_id_v1 list"
  cmv_retained_learners :: "node_id_v1 list"
  cmv_member_seeds :: "member_seed_v1 list"

record release_action_v1 =
  rlv_fence :: fence_v1

record release_with_value_action_v1 =
  rwv_fence :: fence_v1
  rwv_expected_value_revision :: u64
  rwv_final_value :: bytes

record set_grant_action_v1 =
  sgv_resource :: resource_key_v1
  sgv_target_node_id :: bytes
  sgv_rights :: "64 word"
  sgv_expected_acl_revision :: u64

record set_admin_action_v1 =
  sav_target_node_id :: bytes
  sav_enabled :: bool
  sav_expected_admin_revision :: u64

record cancel_membership_action_v1 =
  clv_operation_id :: bytes
  clv_expected_phase_code :: i32

datatype action_v1 =
    AcquireV1 acquire_action_v1
  | RenewV1 renew_action_v1
  | CompareAndSetV1 compare_and_set_action_v1
  | ReleaseV1 release_action_v1
  | ReleaseWithValueV1 release_with_value_action_v1
  | RevokeV1 revoke_action_v1
  | SetGrantV1 set_grant_action_v1
  | SetAdminV1 set_admin_action_v1
  | ChangeMembershipV1 change_membership_action_v1
  | CancelMembershipV1 cancel_membership_action_v1
  | UnknownActionV1

definition MAX_WIRE_STRING :: nat where
  [coord_simps]: "MAX_WIRE_STRING = 4095"

section \<open>System codes and the audit table\<close>

definition SYS_EXPIRED :: i32 where [coord_simps]: "SYS_EXPIRED = 1"
definition SYS_EXPIRY_STALE :: i32 where [coord_simps]: "SYS_EXPIRY_STALE = 2"
definition SYS_MEMBERSHIP_ADVANCED :: i32 where [coord_simps]: "SYS_MEMBERSHIP_ADVANCED = 3"
definition SYS_MEMBERSHIP_PHASE_MISMATCH :: i32 where
  [coord_simps]: "SYS_MEMBERSHIP_PHASE_MISMATCH = 4"
definition SYS_EXPIRE_MALFORMED :: i32 where [coord_simps]: "SYS_EXPIRE_MALFORMED = 5"
definition SYS_MEMBERSHIP_MALFORMED :: i32 where [coord_simps]: "SYS_MEMBERSHIP_MALFORMED = 6"
definition SYS_GENESIS_INSTALLED :: i32 where [coord_simps]: "SYS_GENESIS_INSTALLED = 7"
definition SYS_GENESIS_ALREADY_INSTALLED :: i32 where
  [coord_simps]: "SYS_GENESIS_ALREADY_INSTALLED = 8"

definition OPERATION_EXPIRE :: i32 where [coord_simps]: "OPERATION_EXPIRE = 100"
definition OPERATION_MEMBERSHIP_PROGRESS :: i32 where
  [coord_simps]: "OPERATION_MEMBERSHIP_PROGRESS = 101"
definition OPERATION_GENESIS :: i32 where [coord_simps]: "OPERATION_GENESIS = 102"

definition AUDIT_RESULTS :: "(i32 \<times> i32 list) list" where
  "AUDIT_RESULTS =
    [(1, [outcome_code Granted, outcome_code Rejected]),
     (2, [outcome_code Renewed, outcome_code Rejected]),
     (3, [outcome_code Mutated, outcome_code Rejected]),
     (4, [outcome_code Released, outcome_code Rejected]),
     (5, [outcome_code Released, outcome_code Rejected]),
     (6, [outcome_code Revoked, outcome_code Rejected]),
     (7, [outcome_code GrantUpdated, outcome_code Rejected]),
     (8, [outcome_code AdminUpdated, outcome_code Rejected]),
     (9, [outcome_code MembershipAccepted, outcome_code Rejected]),
     (10, [outcome_code Outcome_ClientRetired, outcome_code Rejected]),
     (11, [outcome_code MembershipCancelled, outcome_code Rejected]),
     (OPERATION_EXPIRE, [SYS_EXPIRED, SYS_EXPIRY_STALE, SYS_EXPIRE_MALFORMED]),
     (OPERATION_MEMBERSHIP_PROGRESS,
       [SYS_MEMBERSHIP_ADVANCED, SYS_MEMBERSHIP_PHASE_MISMATCH, SYS_MEMBERSHIP_MALFORMED]),
     (OPERATION_GENESIS, [SYS_GENESIS_INSTALLED, SYS_GENESIS_ALREADY_INSTALLED])]"

definition audit_results_for :: "i32 \<Rightarrow> i32 list option" where
  "audit_results_for operation_code =
    map_option snd (find (\<lambda>(operation, _). operation = operation_code) AUDIT_RESULTS)"

section \<open>Commands and replies\<close>

record client_reply_v1 =
  crv_disposition_code :: i32
  crv_outcome_code :: i32
  crv_reason_code :: i32
  crv_snapshot :: "resource_snapshot_v1 option"
  crv_acl_revision :: u64
  crv_admin_revision :: u64
  crv_operation_id :: "bytes option"
  crv_membership_log_id :: "log_id_v1 option"

record system_reply_v1 =
  syv_system_result_code :: i32
  syv_lease_revision :: u64
  syv_membership_log_id :: "log_id_v1 option"

record retirement_reply_v1 =
  rtv_outcome_code :: i32
  rtv_reason_code :: i32

datatype command_reply_v1 =
    ClientReplyV1 client_reply_v1
  | SystemReplyV1 system_reply_v1
  | RetirementReplyV1 retirement_reply_v1
  | NonCommandReplyV1
  | UnknownReplyV1

record client_command_v1 =
  ccv_actor_node_id :: bytes
  ccv_client_id :: bytes
  ccv_sequence :: u64
  ccv_request_hash :: bytes
  ccv_action :: action_v1

record expire_command_v1 =
  exv_resource :: resource_key_v1
  exv_epoch :: u64
  exv_lease_revision :: u64

record membership_progress_command_v1 =
  mpv_operation_id :: bytes
  mpv_expected_phase :: i32
  mpv_new_phase :: i32
  mpv_observed_membership_log_id :: "log_id_v1 option"
  mpv_result_code :: i32

record genesis_command_v1 =
  gnv_signed_genesis :: bytes

record retire_client_command_v1 =
  rcv_actor_node_id :: bytes
  rcv_target_node_id :: bytes
  rcv_target_client_id :: bytes

datatype command_v1 =
    ClientV1 client_command_v1
  | ExpireV1 expire_command_v1
  | MembershipProgressV1 membership_progress_command_v1
  | RetireClientV1 retire_client_command_v1
  | GenesisV1 genesis_command_v1
  | UnknownCommandV1

fun expected_reply_variant :: "command_v1 \<Rightarrow> nat option" where
  "expected_reply_variant (ClientV1 _) = Some 1"
| "expected_reply_variant (ExpireV1 _) = Some 2"
| "expected_reply_variant (MembershipProgressV1 _) = Some 2"
| "expected_reply_variant (GenesisV1 _) = Some 2"
| "expected_reply_variant (RetireClientV1 _) = Some 3"
| "expected_reply_variant UnknownCommandV1 = None"

fun variant_id :: "command_reply_v1 \<Rightarrow> nat option" where
  "variant_id (ClientReplyV1 _) = Some 1"
| "variant_id (SystemReplyV1 _) = Some 2"
| "variant_id (RetirementReplyV1 _) = Some 3"
| "variant_id NonCommandReplyV1 = Some 4"
| "variant_id UnknownReplyV1 = None"

lemma audit_results_client:
  "audit_results_for 1 = Some [1, 100]" "audit_results_for 2 = Some [2, 100]"
  "audit_results_for 3 = Some [3, 100]" "audit_results_for 4 = Some [4, 100]"
  "audit_results_for 5 = Some [4, 100]" "audit_results_for 6 = Some [5, 100]"
  "audit_results_for 7 = Some [6, 100]" "audit_results_for 8 = Some [7, 100]"
  "audit_results_for 9 = Some [8, 100]" "audit_results_for 10 = Some [9, 100]"
  "audit_results_for 11 = Some [10, 100]"
  by (simp_all add: audit_results_for_def AUDIT_RESULTS_def coord_simps)

lemma audit_results_system:
  "audit_results_for 100 = Some [1, 2, 5]" "audit_results_for 101 = Some [3, 4, 6]"
  "audit_results_for 102 = Some [7, 8]"
  by (simp_all add: audit_results_for_def AUDIT_RESULTS_def coord_simps)

end
