(* ===== verification/Coord_Externs.thy ===== *)
theory Coord_Externs
  imports Coord_Contract
begin

text \<open>
  The stored and signed wire types of \<open>coordination/raft.rs\<close> and
  \<open>coordination/rowstream.rs\<close> that the model converts to and from, and the
  functions of other packages the model calls: the Fory codec of each payload
  type, Ed25519 key and signature parsing and verification, BLAKE3 and base58.
  None of these is defined here.  They are the fields of the record \<open>externs\<close>,
  an argument of every definition that calls one; a theorem that relies on a law
  of one of them names the law as a hypothesis.
\<close>

section \<open>Stored rows\<close>

record audit_row_v1 =
  arv_leader_node_id :: bytes
  arv_actor_node_id :: "bytes option"
  arv_operation_code :: i32
  arv_resource :: "resource_key_v1 option"
  arv_result_code :: i32
  arv_epoch :: u64
  arv_value_revision :: u64

record resource_row_v1 =
  rrv_epoch :: u64
  rrv_held :: bool
  rrv_holder_node_id :: "bytes option"
  rrv_ttl_ms :: u64
  rrv_lease_revision :: u64
  rrv_value_revision :: u64
  rrv_value :: bytes
  rrv_acl_revision :: u64

record client_session_v1 =
  csv_last_sequence :: u64
  csv_request_hash :: bytes
  csv_last_result :: "saved_reply_v1 option"
  csv_retired :: bool

record membership_intent_v1 =
  miv_actor_node_id :: bytes
  miv_request_hash :: bytes
  miv_expected_membership :: "log_id_v1 option"
  miv_desired_plan :: change_membership_action_v1
  miv_status_code :: i32
  miv_result_code :: i32
  miv_accepted_log_id :: log_id_v1
  miv_completed_log_id :: "log_id_v1 option"
  miv_observed_membership_log_id :: "log_id_v1 option"

record node_route_v1 =
  nrv_ticket_bytes :: bytes
  nrv_source_operation_id :: bytes
  nrv_introduced_log_id :: log_id_v1

section \<open>Signed documents\<close>

record voter_seed_v1 =
  vsv_node_id :: bytes
  vsv_ticket :: string

record genesis_v1 =
  gdv_format_version :: nat
  gdv_group_id :: bytes
  gdv_authority_domain :: string
  gdv_genesis_nonce :: bytes
  gdv_deployment_profile_code :: i32
  gdv_initial_voters :: "voter_seed_v1 list"
  gdv_initial_admins :: "node_id_v1 list"
  gdv_recovery_export_hash :: "bytes option"

record join_permit_v1 =
  jpv_format_version :: nat
  jpv_group_id :: bytes
  jpv_authority_domain :: string
  jpv_genesis_hash :: bytes
  jpv_candidate_node_id :: bytes
  jpv_candidate_ticket :: string
  jpv_bootstrap_senders :: "node_id_v1 list"
  jpv_join_nonce :: bytes

record signed_document_v1 =
  sdv_format_version :: nat
  sdv_document_bytes :: bytes
  sdv_authority_public_key :: bytes
  sdv_signature :: bytes

section \<open>Functions of other packages\<close>

record externs =
  ser_change_membership :: "change_membership_action_v1 \<Rightarrow> bytes option"
  ser_action :: "action_v1 \<Rightarrow> bytes option"
  ser_command :: "command_v1 \<Rightarrow> bytes option"
  de_signed_document :: "bytes \<Rightarrow> signed_document_v1 option"
  ser_signed_document :: "signed_document_v1 \<Rightarrow> bytes option"
  de_join_permit :: "bytes \<Rightarrow> join_permit_v1 option"
  ser_join_permit :: "join_permit_v1 \<Rightarrow> bytes option"
  de_genesis :: "bytes \<Rightarrow> genesis_v1 option"
  ser_genesis :: "genesis_v1 \<Rightarrow> bytes option"
  verifying_key_ok :: "bytes \<Rightarrow> bool"
  signature_ok :: "bytes \<Rightarrow> bool"
  ed25519_verify :: "bytes \<Rightarrow> bytes \<Rightarrow> bytes \<Rightarrow> bool"
  blake3 :: "bytes \<Rightarrow> bytes"
  bs58_encode :: "bytes \<Rightarrow> string"
  bs58_decode :: "string \<Rightarrow> bytes option"

section \<open>UTF-8\<close>

text \<open>\<open>str::from_utf8\<close>: the well-formed byte sequences of the standard (no
  overlong forms, no surrogates, nothing above U+10FFFF).\<close>

definition utf8_cont :: "nat \<Rightarrow> bool" where
  "utf8_cont b = (128 \<le> b \<and> b \<le> 191)"

fun utf8_valid_nats :: "nat list \<Rightarrow> bool" where
  "utf8_valid_nats [] = True"
| "utf8_valid_nats (a # rest) =
    (if a \<le> 127 then utf8_valid_nats rest
     else if 194 \<le> a \<and> a \<le> 223 then
       (case rest of b # rest' \<Rightarrow> utf8_cont b \<and> utf8_valid_nats rest' | _ \<Rightarrow> False)
     else if 224 \<le> a \<and> a \<le> 239 then
       (case rest of b # c # rest' \<Rightarrow>
          utf8_cont b \<and> utf8_cont c \<and> (a = 224 \<longrightarrow> 160 \<le> b) \<and> (a = 237 \<longrightarrow> b \<le> 159)
            \<and> utf8_valid_nats rest'
        | _ \<Rightarrow> False)
     else if 240 \<le> a \<and> a \<le> 244 then
       (case rest of b # c # d # rest' \<Rightarrow>
          utf8_cont b \<and> utf8_cont c \<and> utf8_cont d \<and> (a = 240 \<longrightarrow> 144 \<le> b) \<and> (a = 244 \<longrightarrow> b \<le> 143)
            \<and> utf8_valid_nats rest'
        | _ \<Rightarrow> False)
     else False)"

definition string_of_bytes :: "bytes \<Rightarrow> string" where
  "string_of_bytes bs = map (\<lambda>b. char_of (unat b)) bs"

definition bytes_of_string :: "string \<Rightarrow> bytes" where
  "bytes_of_string s = map (\<lambda>c. of_nat (of_char c :: nat)) s"

definition from_utf8 :: "bytes \<Rightarrow> string option" where
  "from_utf8 bs = (if utf8_valid_nats (map unat bs) then Some (string_of_bytes bs) else None)"

definition is_ascii :: "string \<Rightarrow> bool" where
  "is_ascii s = list_all (\<lambda>c. (of_char c :: nat) \<le> 127) s"

lemma bytes_of_string_of_bytes [simp]: "bytes_of_string (string_of_bytes bs) = bs"
proof (induction bs)
  case Nil
  show ?case by (simp add: bytes_of_string_def string_of_bytes_def)
next
  case (Cons b bs)
  have "unat b < 256" using unsigned_less [of b] by simp
  with Cons show ?case by (simp add: bytes_of_string_def string_of_bytes_def)
qed

lemma string_of_bytes_of_string [simp]: "string_of_bytes (bytes_of_string s) = s"
proof (induction s)
  case Nil
  show ?case by (simp add: bytes_of_string_def string_of_bytes_def)
next
  case (Cons c s)
  have "(of_char c :: nat) < 256" by (rule nat_of_char_less_256)
  then have "unat (of_nat (of_char c :: nat) :: byte) = (of_char c :: nat)"
    by (simp add: unat_of_nat)
  with Cons show ?case by (simp add: bytes_of_string_def string_of_bytes_def)
qed

lemma length_bytes_of_string [simp]: "length (bytes_of_string s) = length s"
  by (simp add: bytes_of_string_def)

end
