(* ===== verification/Coord_State.thy ===== *)
theory Coord_State
  imports Btree_Map Coord_Externs
begin

text \<open>
  The replicated row set of \<open>coordination/model/state.rs\<close>, its two byte counters
  and its capacity report, and the table writers of
  \<open>coordination/model/tables.rs\<close>.  A writer changes a table and records the row it
  touched; the pair of state and change set it works on is a \<open>world\<close>.  A \<open>BTreeMap\<close>
  is a \<open>btree_map\<close>, a \<open>BTreeSet\<close> an \<open>fset\<close>.
\<close>

section \<open>Rows\<close>

record resource_row =
  rr_epoch :: u64
  rr_held :: bool
  rr_holder :: "node_id option"
  rr_ttl_ms :: u64
  rr_lease_revision :: u64
  rr_value_revision :: u64
  rr_value :: bytes
  rr_acl_revision :: u64

definition default_resource_row :: resource_row where
  "default_resource_row =
    \<lparr> rr_epoch = 0, rr_held = False, rr_holder = None, rr_ttl_ms = 0, rr_lease_revision = 0,
      rr_value_revision = 0, rr_value = [], rr_acl_revision = 0 \<rparr>"

record saved_snapshot =
  ss_resource :: resource_key
  ss_epoch :: u64
  ss_holder :: "node_id option"
  ss_held :: bool
  ss_ttl_ms :: u64
  ss_lease_revision :: u64
  ss_value_revision :: u64
  ss_acl_revision :: u64

definition saved_snapshot_of :: "resource_key \<Rightarrow> resource_row \<Rightarrow> saved_snapshot" where
  "saved_snapshot_of resource row =
    \<lparr> ss_resource = resource, ss_epoch = rr_epoch row, ss_holder = rr_holder row,
      ss_held = rr_held row, ss_ttl_ms = rr_ttl_ms row, ss_lease_revision = rr_lease_revision row,
      ss_value_revision = rr_value_revision row, ss_acl_revision = rr_acl_revision row \<rparr>"

record log_id =
  lg_term :: u64
  lg_leader :: node_id
  lg_index :: u64

record saved_reply =
  sr_outcome :: outcome
  sr_reason :: reason
  sr_snapshot :: "saved_snapshot option"
  sr_acl_revision :: u64
  sr_admin_revision :: u64
  sr_operation_id :: "operation_id option"
  sr_membership_log_id :: "log_id option"

definition sr_resource :: "saved_reply \<Rightarrow> resource_key option" where
  "sr_resource r = map_option ss_resource (sr_snapshot r)"

definition key_parts :: "resource_key \<Rightarrow> string \<times> bytes" where
  "key_parts key = (rk_namespace key, rk_key key)"

definition sr_key_parts :: "saved_reply \<Rightarrow> (string \<times> bytes) option" where
  "sr_key_parts r = map_option key_parts (sr_resource r)"

record session =
  se_last_sequence :: u64
  se_request_hash :: hash32
  se_last_result :: "saved_reply option"
  se_retired :: bool

datatype audit_result = AuditClient outcome | AuditSystem i32

primrec audit_code :: "audit_result \<Rightarrow> i32" where
  "audit_code (AuditClient o') = outcome_code o'"
| "audit_code (AuditSystem code) = code"

primrec audit_is_client :: "audit_result \<Rightarrow> bool" where
  "audit_is_client (AuditClient _) = True"
| "audit_is_client (AuditSystem _) = False"

record audit_row =
  au_leader_node_id :: node_id
  au_actor :: "node_id option"
  au_operation_code :: i32
  au_resource :: "resource_key option"
  au_result :: audit_result
  au_epoch :: u64
  au_value_revision :: u64

section \<open>Membership rows\<close>

record member_seed =
  sd_node_id :: node_id
  sd_ticket :: bytes
  sd_join_permit :: "bytes option"

record membership_plan =
  mp_desired_voters :: "node_id list"
  mp_retained_learners :: "node_id list"
  mp_member_seeds :: "member_seed list"

text \<open>\<open>LogIdV1::from(&LogId)\<close> and \<open>wire::plan_to_wire\<close>: the stored form of a plan,
  which the charge of an intent is measured on.\<close>

definition log_id_to_wire :: "log_id \<Rightarrow> log_id_v1" where
  "log_id_to_wire l =
    \<lparr> lgv_term = lg_term l, lgv_leader_node_id = lg_leader l, lgv_index = lg_index l \<rparr>"

fun seeds_to_wire :: "member_seed list \<Rightarrow> member_seed_v1 list option" where
  "seeds_to_wire [] = Some []"
| "seeds_to_wire (s # ss) =
    (case from_utf8 (sd_ticket s) of
       None \<Rightarrow> None
     | Some ticket \<Rightarrow>
       (case seeds_to_wire ss of
          None \<Rightarrow> None
        | Some rest \<Rightarrow>
            Some (\<lparr> msv_node_id = sd_node_id s, msv_ticket = ticket,
              msv_signed_join_permit = sd_join_permit s \<rparr> # rest)))"

definition plan_to_wire ::
  "membership_plan \<Rightarrow> operation_id \<Rightarrow> log_id option \<Rightarrow> change_membership_action_v1 option" where
  "plan_to_wire plan operation_id expected =
    (case seeds_to_wire (mp_member_seeds plan) of
       None \<Rightarrow> None
     | Some seeds \<Rightarrow>
         Some \<lparr> cmv_operation_id = operation_id,
           cmv_expected_membership_log_id = map_option log_id_to_wire expected,
           cmv_desired_voters = map (\<lambda>n. \<lparr> nv_node_id = n \<rparr>) (mp_desired_voters plan),
           cmv_retained_learners = map (\<lambda>n. \<lparr> nv_node_id = n \<rparr>) (mp_retained_learners plan),
           cmv_member_seeds = seeds \<rparr>)"

definition encoded_len :: "externs \<Rightarrow> membership_plan \<Rightarrow> operation_id \<Rightarrow> log_id option \<Rightarrow> nat" where
  "encoded_len E plan operation_id expected =
    (case plan_to_wire plan operation_id expected of
       None \<Rightarrow> MAX_ENCODED_COMMAND
     | Some wire \<Rightarrow>
       (case ser_change_membership E wire of
          None \<Rightarrow> MAX_ENCODED_COMMAND
        | Some bs \<Rightarrow> length bs))"

record intent =
  in_actor :: node_id
  in_request_hash :: hash32
  in_expected_membership :: "log_id option"
  in_plan :: membership_plan
  in_status_code :: i32
  in_result_code :: i32
  in_accepted_log_id :: log_id
  in_completed_log_id :: "log_id option"
  in_observed_membership_log_id :: "log_id option"

definition charge_len :: "externs \<Rightarrow> intent \<Rightarrow> operation_id \<Rightarrow> nat" where
  "charge_len E i operation_id = encoded_len E (in_plan i) operation_id (in_expected_membership i)"

record route =
  ro_ticket :: bytes
  ro_source_operation_id :: operation_id
  ro_introduced_log_id :: log_id

type_synonym grant_key = "resource_key \<times> node_id"
type_synonym session_key = "node_id \<times> client_id"
type_synonym audit_key = "u64 \<times> u64"

section \<open>The state\<close>

record change_set =
  cs_resources :: "resource_key fset"
  cs_grants :: "grant_key fset"
  cs_admins :: "node_id fset"
  cs_sessions :: "session_key fset"
  cs_intents :: "operation_id fset"
  cs_routes :: "node_id fset"
  cs_audit :: "audit_key fset"

definition empty_changes :: change_set where
  "empty_changes =
    \<lparr> cs_resources = {||}, cs_grants = {||}, cs_admins = {||}, cs_sessions = {||},
      cs_intents = {||}, cs_routes = {||}, cs_audit = {||} \<rparr>"

definition changes_is_empty :: "change_set \<Rightarrow> bool" where
  "changes_is_empty c =
    (cs_resources c = {||} \<and> cs_grants c = {||} \<and> cs_admins c = {||} \<and> cs_sessions c = {||} \<and>
     cs_intents c = {||} \<and> cs_routes c = {||} \<and> cs_audit c = {||})"

record group_authority =
  ga_public_key :: node_id
  ga_domain :: string
  ga_group_id :: bytes
  ga_genesis_hash :: hash32

record committed_membership =
  cm_voters :: "node_id fset"
  cm_learners :: "node_id fset"
  cm_joint :: bool

definition cm_members :: "committed_membership \<Rightarrow> node_id fset" where
  "cm_members m = cm_voters m |\<union>| cm_learners m"

definition cm_contains :: "committed_membership \<Rightarrow> node_id \<Rightarrow> bool" where
  "cm_contains m node = (node |\<in>| cm_voters m \<or> node |\<in>| cm_learners m)"

record state =
  st_resources :: "(resource_key, resource_row) btree_map"
  st_acl :: "(grant_key, rights) btree_map"
  st_admins :: "node_id fset"
  st_sessions :: "(session_key, session) btree_map"
  st_intents :: "(operation_id, intent) btree_map"
  st_routes :: "(node_id, route) btree_map"
  st_audit_tip :: "log_id option"
  st_audit :: "(audit_key, audit_row) btree_map"
  st_growth_bytes :: u64
  st_reserve_bytes :: u64
  st_admin_revision :: u64
  st_authority :: group_authority
  st_deployment_profile_code :: i32
  st_membership :: committed_membership
  st_membership_log_id :: "log_id option"
  st_audit_floor :: "log_id option"
  st_last_applied :: "log_id option"

definition is_root :: "state \<Rightarrow> node_id \<Rightarrow> bool" where
  "is_root s actor = (actor = ga_public_key (st_authority s))"

definition is_administrator :: "state \<Rightarrow> node_id \<Rightarrow> bool" where
  "is_administrator s actor =
    (st_admin_revision s > 0 \<and> (is_root s actor \<or> actor |\<in>| st_admins s))"

definition growth_fits :: "state \<Rightarrow> u64 \<Rightarrow> bool" where
  "growth_fits s added = (saturating_add_u64 (st_growth_bytes s) added \<le> GROWTH_BUDGET)"

definition resource_charge :: "resource_key \<Rightarrow> resource_row \<Rightarrow> u64" where
  "resource_charge k r = charge_resource (rk_namespace k) (rk_key k) (length (rr_value r))"

definition acl_charge :: "grant_key \<Rightarrow> rights \<Rightarrow> u64" where
  "acl_charge gk r = charge_acl (rk_namespace (fst gk)) (rk_key (fst gk))"

definition intent_charge :: "externs \<Rightarrow> operation_id \<Rightarrow> intent \<Rightarrow> u64" where
  "intent_charge E op i = charge_intent (charge_len E i op)"

definition route_charge :: "node_id \<Rightarrow> route \<Rightarrow> u64" where
  "route_charge n r = charge_route (length (ro_ticket r))"

definition session_row_charge :: "session_key \<Rightarrow> session \<Rightarrow> u64" where
  "session_row_charge k s = charge_session (Option.bind (se_last_result s) sr_key_parts)"

definition audit_row_charge :: "audit_key \<Rightarrow> audit_row \<Rightarrow> u64" where
  "audit_row_charge k a = charge_audit (map_option key_parts (au_resource a))"

definition charges :: "('k \<Rightarrow> 'v \<Rightarrow> u64) \<Rightarrow> ('k, 'v) btree_map \<Rightarrow> u64 list" where
  "charges f m = map (\<lambda>(k, v). f k v) m"

definition recompute_growth :: "externs \<Rightarrow> state \<Rightarrow> u64" where
  "recompute_growth E s =
    add_u64 (add_u64 (add_u64 (add_u64
      (sum_u64 (charges resource_charge (st_resources s)))
      (sum_u64 (charges acl_charge (st_acl s))))
      (fcard (st_admins s) * charge_admin mod u64_size))
      (sum_u64 (charges (intent_charge E) (st_intents s))))
      (sum_u64 (charges route_charge (st_routes s)))"

definition recompute_reserve :: "state \<Rightarrow> u64" where
  "recompute_reserve s =
    add_u64 (sum_u64 (charges session_row_charge (st_sessions s)))
      (sum_u64 (charges audit_row_charge (st_audit s)))"

definition counters_match_recomputation :: "externs \<Rightarrow> state \<Rightarrow> bool" where
  "counters_match_recomputation E s =
    (st_growth_bytes s = recompute_growth E s \<and> st_reserve_bytes s = recompute_reserve s)"

section \<open>Capacity\<close>

record capacity =
  ca_retained_group :: u64
  ca_retained_actor :: u64
  ca_active_group :: u64
  ca_active_actor :: u64

definition capacity_for :: "state \<Rightarrow> node_id \<Rightarrow> capacity" where
  "capacity_for s actor =
    \<lparr> ca_retained_group = length (st_sessions s),
      ca_retained_actor = length (filter (\<lambda>(k, v). fst k = actor) (st_sessions s)),
      ca_active_group = length (filter (\<lambda>(k, v). \<not> se_retired v) (st_sessions s)),
      ca_active_actor =
        length (filter (\<lambda>(k, v). fst k = actor \<and> \<not> se_retired v) (st_sessions s)) \<rparr>"

definition retained_exhausted :: "capacity \<Rightarrow> bool" where
  "retained_exhausted c =
    (ca_retained_group c \<ge> MAX_RETAINED_SESSIONS_PER_GROUP \<or>
     ca_retained_actor c \<ge> MAX_RETAINED_SESSIONS_PER_ACTOR)"

definition active_exhausted :: "capacity \<Rightarrow> bool" where
  "active_exhausted c =
    (ca_active_group c \<ge> MAX_ACTIVE_CLIENTS_PER_GROUP \<or>
     ca_active_actor c \<ge> MAX_ACTIVE_CLIENTS_PER_ACTOR)"

section \<open>Table writers\<close>

type_synonym world = "state \<times> change_set"

definition put_resource :: "resource_key \<Rightarrow> resource_row \<Rightarrow> world \<Rightarrow> world" where
  "put_resource key row w =
    ((fst w)\<lparr> st_resources := bm_insert key row (st_resources (fst w)) \<rparr>,
     (snd w)\<lparr> cs_resources := finsert key (cs_resources (snd w)) \<rparr>)"

definition put_grant :: "grant_key \<Rightarrow> rights \<Rightarrow> world \<Rightarrow> bool \<times> world" where
  "put_grant key rights w =
    (bm_get (st_acl (fst w)) key = None,
     (fst w)\<lparr> st_acl := bm_insert key rights (st_acl (fst w)) \<rparr>,
     (snd w)\<lparr> cs_grants := finsert key (cs_grants (snd w)) \<rparr>)"

definition remove_grant :: "grant_key \<Rightarrow> world \<Rightarrow> bool \<times> world" where
  "remove_grant key w =
    (bm_get (st_acl (fst w)) key \<noteq> None,
     (fst w)\<lparr> st_acl := bm_remove key (st_acl (fst w)) \<rparr>,
     (snd w)\<lparr> cs_grants := finsert key (cs_grants (snd w)) \<rparr>)"

definition put_admin :: "node_id \<Rightarrow> world \<Rightarrow> bool \<times> world" where
  "put_admin target w =
    (target |\<notin>| st_admins (fst w),
     (fst w)\<lparr> st_admins := finsert target (st_admins (fst w)) \<rparr>,
     (snd w)\<lparr> cs_admins := finsert target (cs_admins (snd w)) \<rparr>)"

definition remove_admin :: "node_id \<Rightarrow> world \<Rightarrow> bool \<times> world" where
  "remove_admin target w =
    (target |\<in>| st_admins (fst w),
     (fst w)\<lparr> st_admins := st_admins (fst w) |-| {|target|} \<rparr>,
     (snd w)\<lparr> cs_admins := finsert target (cs_admins (snd w)) \<rparr>)"

definition put_session :: "session_key \<Rightarrow> session \<Rightarrow> world \<Rightarrow> world" where
  "put_session key row w =
    ((fst w)\<lparr> st_sessions := bm_insert key row (st_sessions (fst w)) \<rparr>,
     (snd w)\<lparr> cs_sessions := finsert key (cs_sessions (snd w)) \<rparr>)"

definition put_intent :: "operation_id \<Rightarrow> intent \<Rightarrow> world \<Rightarrow> world" where
  "put_intent op i w =
    ((fst w)\<lparr> st_intents := bm_insert op i (st_intents (fst w)) \<rparr>,
     (snd w)\<lparr> cs_intents := finsert op (cs_intents (snd w)) \<rparr>)"

definition remove_intent :: "operation_id \<Rightarrow> world \<Rightarrow> intent option \<times> world" where
  "remove_intent op w =
    (bm_get (st_intents (fst w)) op,
     (fst w)\<lparr> st_intents := bm_remove op (st_intents (fst w)) \<rparr>,
     (snd w)\<lparr> cs_intents := finsert op (cs_intents (snd w)) \<rparr>)"

definition put_route :: "node_id \<Rightarrow> route \<Rightarrow> world \<Rightarrow> world" where
  "put_route node r w =
    ((fst w)\<lparr> st_routes := bm_insert node r (st_routes (fst w)) \<rparr>,
     (snd w)\<lparr> cs_routes := finsert node (cs_routes (snd w)) \<rparr>)"

definition remove_route :: "node_id \<Rightarrow> world \<Rightarrow> route option \<times> world" where
  "remove_route node w =
    (bm_get (st_routes (fst w)) node,
     (fst w)\<lparr> st_routes := bm_remove node (st_routes (fst w)) \<rparr>,
     (snd w)\<lparr> cs_routes := finsert node (cs_routes (snd w)) \<rparr>)"

definition put_audit :: "audit_key \<Rightarrow> audit_row \<Rightarrow> world \<Rightarrow> world" where
  "put_audit key row w =
    ((fst w)\<lparr> st_audit := bm_insert key row (st_audit (fst w)) \<rparr>,
     (snd w)\<lparr> cs_audit := finsert key (cs_audit (snd w)) \<rparr>)"

definition remove_audit :: "audit_key \<Rightarrow> world \<Rightarrow> audit_row option \<times> world" where
  "remove_audit key w =
    (bm_get (st_audit (fst w)) key,
     (fst w)\<lparr> st_audit := bm_remove key (st_audit (fst w)) \<rparr>,
     (snd w)\<lparr> cs_audit := finsert key (cs_audit (snd w)) \<rparr>)"

text \<open>An assignment to a field of the state that is not a table.\<close>

definition upd_state :: "(state \<Rightarrow> state) \<Rightarrow> world \<Rightarrow> world" where
  "upd_state f w = (f (fst w), snd w)"

section \<open>The counters as exact sums\<close>

definition growth_total :: "externs \<Rightarrow> state \<Rightarrow> nat" where
  "growth_total E s =
    table_sum resource_charge (st_resources s) + table_sum acl_charge (st_acl s)
    + fcard (st_admins s) * charge_admin
    + table_sum (intent_charge E) (st_intents s) + table_sum route_charge (st_routes s)"

definition reserve_total :: "state \<Rightarrow> nat" where
  "reserve_total s =
    table_sum session_row_charge (st_sessions s) + table_sum audit_row_charge (st_audit s)"

text \<open>The order invariant of every table.\<close>

definition tables_ok :: "state \<Rightarrow> bool" where
  "tables_ok s =
    (bm_ok (st_resources s) \<and> bm_ok (st_acl s) \<and> bm_ok (st_sessions s) \<and> bm_ok (st_intents s) \<and>
     bm_ok (st_routes s) \<and> bm_ok (st_audit s))"

text \<open>Every row whose key the change set does not list is the row \<open>s\<close> had.\<close>

definition covers :: "state \<Rightarrow> world \<Rightarrow> bool" where
  "covers s w =
    ((\<forall>k. k |\<notin>| cs_resources (snd w) \<longrightarrow> bm_get (st_resources (fst w)) k = bm_get (st_resources s) k) \<and>
     (\<forall>k. k |\<notin>| cs_grants (snd w) \<longrightarrow> bm_get (st_acl (fst w)) k = bm_get (st_acl s) k) \<and>
     (\<forall>k. k |\<notin>| cs_admins (snd w) \<longrightarrow> (k |\<in>| st_admins (fst w)) = (k |\<in>| st_admins s)) \<and>
     (\<forall>k. k |\<notin>| cs_sessions (snd w) \<longrightarrow> bm_get (st_sessions (fst w)) k = bm_get (st_sessions s) k) \<and>
     (\<forall>k. k |\<notin>| cs_intents (snd w) \<longrightarrow> bm_get (st_intents (fst w)) k = bm_get (st_intents s) k) \<and>
     (\<forall>k. k |\<notin>| cs_routes (snd w) \<longrightarrow> bm_get (st_routes (fst w)) k = bm_get (st_routes s) k) \<and>
     (\<forall>k. k |\<notin>| cs_audit (snd w) \<longrightarrow> bm_get (st_audit (fst w)) k = bm_get (st_audit s) k))"

lemma sum_charges: "sum_u64 (charges f m) = table_sum f m mod u64_size"
  by (simp add: sum_u64_mod charges_def table_sum_def)

lemma recompute_growth_mod: "recompute_growth E s = growth_total E s mod u64_size"
  unfolding recompute_growth_def growth_total_def sum_charges add_u64_def
  by (simp add: mod_add_left_eq mod_add_right_eq)

lemma recompute_reserve_mod: "recompute_reserve s = reserve_total s mod u64_size"
  unfolding recompute_reserve_def reserve_total_def sum_charges add_u64_def
  by (simp add: mod_add_left_eq mod_add_right_eq)

lemma recompute_exact:
  "growth_total E s < u64_size \<Longrightarrow> recompute_growth E s = growth_total E s"
  "reserve_total s < u64_size \<Longrightarrow> recompute_reserve s = reserve_total s"
  by (simp_all add: recompute_growth_mod recompute_reserve_mod)

section \<open>Writers record what they write\<close>

lemmas writer_defs = put_resource_def put_grant_def remove_grant_def put_admin_def
  remove_admin_def put_session_def put_intent_def remove_intent_def put_route_def
  remove_route_def put_audit_def remove_audit_def upd_state_def

lemma covers_refl: "covers s (s, c)"
  by (simp add: covers_def)

lemma covers_writers:
  assumes "covers s w"
  shows "covers s (put_resource k r w)" "covers s (snd (put_grant g rt w))"
    "covers s (snd (remove_grant g w))" "covers s (snd (put_admin n w))"
    "covers s (snd (remove_admin n w))" "covers s (put_session sk se w)"
    "covers s (put_intent op i w)" "covers s (snd (remove_intent op w))"
    "covers s (put_route n ro w)" "covers s (snd (remove_route n w))"
    "covers s (put_audit ak a w)" "covers s (snd (remove_audit ak w))"
  using assms unfolding covers_def writer_defs by simp_all

lemma tables_ok_writers:
  assumes "tables_ok (fst w)"
  shows "tables_ok (fst (put_resource k r w))" "tables_ok (fst (snd (put_grant g rt w)))"
    "tables_ok (fst (snd (remove_grant g w)))" "tables_ok (fst (snd (put_admin n w)))"
    "tables_ok (fst (snd (remove_admin n w)))" "tables_ok (fst (put_session sk se w))"
    "tables_ok (fst (put_intent op i w))" "tables_ok (fst (snd (remove_intent op w)))"
    "tables_ok (fst (put_route n ro w))" "tables_ok (fst (snd (remove_route n w)))"
    "tables_ok (fst (put_audit ak a w))" "tables_ok (fst (snd (remove_audit ak w)))"
  using assms unfolding tables_ok_def writer_defs by simp_all

end
