(* ===== verification/Coord_Classify.thy ===== *)
theory Coord_Classify
  imports Coord_State
begin

text \<open>
  The session classifier (\<open>coordination/model/classify.rs\<close>): one function, run by
  preflight and by apply, that answers a \<open>(sequence, request hash)\<close> from the committed
  session row or leaves it unresolved.  Its rows are numbered as in the source.
\<close>

section \<open>Rows and results\<close>

datatype row =
    Row_SequenceZero
  | Row_Replay
  | Row_Retired
  | Row_HashConflict
  | Row_TooOld
  | Row_CeilingExisting
  | Row_ExactNext
  | Row_Gap
  | Row_NoSessionRetainedFull
  | Row_NoSessionActiveFull
  | Row_NoSessionFirst
  | Row_CeilingAbsent
  | Row_NoSessionGap

datatype classification =
    Unresolved row bool
  | Replay row saved_reply
  | ClRefuse row reason

primrec cl_disposition :: "classification \<Rightarrow> disposition option" where
  "cl_disposition (Unresolved _ _) = None"
| "cl_disposition (Replay _ _) = Some Consumed"
| "cl_disposition (ClRefuse _ _) = Some NotConsumed"

primrec cl_row :: "classification \<Rightarrow> row" where
  "cl_row (Unresolved r _) = r"
| "cl_row (Replay r _) = r"
| "cl_row (ClRefuse r _) = r"

primrec cl_is_terminal :: "classification \<Rightarrow> bool" where
  "cl_is_terminal (Unresolved _ _) = False"
| "cl_is_terminal (Replay _ _) = True"
| "cl_is_terminal (ClRefuse _ reason) = is_terminal NotConsumed reason"

section \<open>The classifier\<close>

definition classify_absent :: "u64 \<Rightarrow> capacity \<Rightarrow> classification" where
  "classify_absent sequence cap =
    (if retained_exhausted cap then ClRefuse Row_NoSessionRetainedFull RetainedSessionCapReached
     else if active_exhausted cap then ClRefuse Row_NoSessionActiveFull ActiveClientCap
     else if sequence > MAX_COUNTER then ClRefuse Row_CeilingAbsent CounterExhausted
     else if sequence = 1 then Unresolved Row_NoSessionFirst True
     else ClRefuse Row_NoSessionGap SequenceGap)"

definition classify_present :: "session \<Rightarrow> u64 \<Rightarrow> hash32 \<Rightarrow> classification" where
  "classify_present se sequence request_hash =
    (case (if sequence = se_last_sequence se \<and> request_hash = se_request_hash se
           then se_last_result se else None) of
       Some saved \<Rightarrow> Replay Row_Replay saved
     | None \<Rightarrow>
       if se_retired se then ClRefuse Row_Retired ClientRetired
       else if sequence = se_last_sequence se then ClRefuse Row_HashConflict SequenceConflict
       else if sequence < se_last_sequence se then ClRefuse Row_TooOld SequenceTooOld
       else if se_last_sequence se \<ge> MAX_COUNTER \<or> sequence > MAX_COUNTER
         then ClRefuse Row_CeilingExisting CounterExhausted
       else (case checked_add_u64 (se_last_sequence se) 1 of
           None \<Rightarrow> ClRefuse Row_CeilingExisting CounterExhausted
         | Some nxt \<Rightarrow>
             if sequence = nxt then Unresolved Row_ExactNext False
             else ClRefuse Row_Gap SequenceGap))"

definition classify :: "session option \<Rightarrow> u64 \<Rightarrow> hash32 \<Rightarrow> capacity \<Rightarrow> classification" where
  "classify se sequence request_hash cap =
    (if sequence = 0 then ClRefuse Row_SequenceZero SequenceTooOld
     else case se of
       None \<Rightarrow> classify_absent sequence cap
     | Some s \<Rightarrow> classify_present s sequence request_hash)"

section \<open>What the classifier promises\<close>

lemmas classify_defs = classify_def classify_present_def classify_absent_def

lemma classify_replay_iff:
  "classify se sequence h cap = Replay r saved \<longleftrightarrow>
    r = Row_Replay \<and> sequence \<noteq> 0 \<and>
    (\<exists>s. se = Some s \<and> se_last_sequence s = sequence \<and> se_request_hash s = h \<and>
      se_last_result s = Some saved)"
  by (auto simp: classify_defs checked_add_u64_def split: option.splits if_splits)

lemma classify_unresolved_iff:
  "classify se sequence h cap = Unresolved r creates \<longleftrightarrow>
    (case se of
       None \<Rightarrow> r = Row_NoSessionFirst \<and> creates \<and> sequence = 1 \<and>
         \<not> retained_exhausted cap \<and> \<not> active_exhausted cap
     | Some s \<Rightarrow> r = Row_ExactNext \<and> \<not> creates \<and> sequence = Suc (se_last_sequence s) \<and>
         sequence \<le> MAX_COUNTER \<and> \<not> se_retired s)"
proof (cases se)
  case None
  then show ?thesis
    by (auto simp: classify_defs coord_simps split: if_splits)
next
  case (Some s)
  have "se_last_sequence s + 1 \<le> u64_max" if "\<not> MAX_COUNTER \<le> se_last_sequence s"
    using that by (simp add: coord_simps u64_max_def)
  then show ?thesis
    using Some by (auto simp: classify_defs checked_add_u64_def split: option.splits if_splits)
qed

lemma classify_refuse_reason:
  "classify se sequence h cap = ClRefuse r reason \<Longrightarrow>
    may_be_not_consumed reason \<and> reason \<noteq> Reason_None \<and> \<not> may_be_saved_rejection reason \<or>
    reason = CounterExhausted"
  by (auto simp: classify_defs checked_add_u64_def split: option.splits if_splits)

text \<open>A retired session answers its one preserved result and nothing else.\<close>

lemma classify_retired:
  assumes "se_retired s" "sequence \<noteq> 0"
  shows "classify (Some s) sequence h cap = ClRefuse Row_Retired ClientRetired \<or>
    (\<exists>saved. classify (Some s) sequence h cap = Replay Row_Replay saved \<and>
      se_last_result s = Some saved)"
  using assms by (auto simp: classify_defs split: option.splits if_splits)

end
