(* ===== verification/Ticket.thy ===== *)
theory Ticket
  imports Coord_Externs
begin

text \<open>
  The compact Aster ticket (\<open>core/src/ticket.rs\<close>): an endpoint id, an optional
  relay address, up to fifteen direct addresses and an optional credential, in a
  binary form of at most 256 bytes and as an \<open>aster1\<close>-prefixed base58 string.  The
  decoder's cursor is the suffix of the input it has not read; \<open>pos + n <= len\<close> is
  \<open>n <= length rest\<close>.  The base58 codec is a field of \<open>externs\<close>.
\<close>

unbundle bit_operations_syntax

section \<open>Types\<close>

definition MAX_WIRE_SIZE :: nat where [coord_simps]: "MAX_WIRE_SIZE = 256"
definition MAX_CREDENTIAL_PAYLOAD :: nat where [coord_simps]: "MAX_CREDENTIAL_PAYLOAD = 220"
definition FORMAT_VERSION :: byte where [coord_simps]: "FORMAT_VERSION = 1"
definition STRING_PREFIX :: string where [coord_simps]: "STRING_PREFIX = ''aster1''"
definition MAX_DIRECT_ADDRS :: nat where [coord_simps]: "MAX_DIRECT_ADDRS = 15"

text \<open>\<open>std::net::SocketAddr\<close>: the octets and the port, and for IPv6 the flow
  information and scope id, which the ticket does not carry.\<close>

datatype socket_addr =
    SockV4 bytes "16 word"
  | SockV6 bytes "16 word" "32 word" "32 word"

datatype ticket_credential =
    Open
  | ConsumerRcan bytes
  | Enrollment bytes
  | RegistryRead bytes

record aster_ticket =
  tk_endpoint_id :: bytes
  tk_relay :: "socket_addr option"
  tk_direct_addrs :: "socket_addr list"
  tk_credential :: "ticket_credential option"

datatype ticket_error =
    TooManyDirectAddrs
  | CredentialTooLarge
  | TicketTooLarge
  | TicketTooShort
  | UnsupportedVersion
  | TruncatedRelay
  | ReservedRelayType
  | MissingDirectCount
  | TruncatedBitfield
  | TruncatedDirectAddr
  | ReservedAddressType
  | TruncatedCredentialHeader
  | TruncatedCredentialPayload
  | RegistryReadWidth
  | UnknownCredentialType
  | TrailingBytes
  | MissingPrefix
  | InvalidBase58

section \<open>Encoding\<close>

primrec type_byte :: "ticket_credential \<Rightarrow> byte" where
  "type_byte Open = 0x00"
| "type_byte (ConsumerRcan _) = 0x01"
| "type_byte (Enrollment _) = 0x02"
| "type_byte (RegistryRead _) = 0x03"

primrec payload_bytes :: "ticket_credential \<Rightarrow> bytes" where
  "payload_bytes Open = []"
| "payload_bytes (ConsumerRcan v) = v"
| "payload_bytes (Enrollment v) = v"
| "payload_bytes (RegistryRead ns) = ns"

definition from_tlv :: "byte \<Rightarrow> bytes \<Rightarrow> ticket_error + ticket_credential" where
  "from_tlv ty payload =
    (if ty = 0x00 then Inr Open
     else if ty = 0x01 then Inr (ConsumerRcan payload)
     else if ty = 0x02 then Inr (Enrollment payload)
     else if ty = 0x03 then
       (if length payload = 32 then Inr (RegistryRead payload) else Inl RegistryReadWidth)
     else Inl UnknownCredentialType)"

definition be16 :: "16 word \<Rightarrow> bytes" where
  "be16 p = [ucast (drop_bit 8 p), ucast p]"

definition of_be16 :: "byte \<Rightarrow> byte \<Rightarrow> 16 word" where
  "of_be16 a b = push_bit 8 (ucast a) OR ucast b"

primrec relay_type :: "socket_addr \<Rightarrow> byte" where
  "relay_type (SockV4 _ _) = 0b01"
| "relay_type (SockV6 _ _ _ _) = 0b10"

primrec direct_type :: "socket_addr \<Rightarrow> byte" where
  "direct_type (SockV4 _ _) = 0b00"
| "direct_type (SockV6 _ _ _ _) = 0b01"

primrec encode_addr :: "socket_addr \<Rightarrow> bytes" where
  "encode_addr (SockV4 ip port) = ip @ be16 port"
| "encode_addr (SockV6 ip port _ _) = ip @ be16 port"

definition bitfield_len :: "nat \<Rightarrow> nat" where
  "bitfield_len n = (n * 2 + 7) div 8"

primrec set_types :: "nat \<Rightarrow> socket_addr list \<Rightarrow> bytes \<Rightarrow> bytes" where
  "set_types i [] bf = bf"
| "set_types i (a # as) bf =
    set_types (Suc i) as
      (bf[(i * 2) div 8 := (bf ! ((i * 2) div 8)) OR push_bit (6 - (i * 2) mod 8) (direct_type a)])"

definition encode_direct :: "socket_addr list \<Rightarrow> bytes" where
  "encode_direct as =
    push_bit 4 (of_nat (length as)) #
    (if as = [] then []
     else set_types 0 as (replicate (bitfield_len (length as)) 0) @ concat (map encode_addr as))"

definition ticket_encode :: "aster_ticket \<Rightarrow> ticket_error + bytes" where
  "ticket_encode t =
    (if length (tk_direct_addrs t) > MAX_DIRECT_ADDRS then Inl TooManyDirectAddrs
     else
       let rt = (case tk_relay t of None \<Rightarrow> 0b00 | Some r \<Rightarrow> relay_type r);
           header = push_bit 4 FORMAT_VERSION OR push_bit 2 rt;
           buf = tk_endpoint_id t @ [header]
             @ (case tk_relay t of None \<Rightarrow> [] | Some r \<Rightarrow> encode_addr r)
             @ encode_direct (tk_direct_addrs t)
       in case tk_credential t of
         None \<Rightarrow> if length buf > MAX_WIRE_SIZE then Inl TicketTooLarge else Inr buf
       | Some cred \<Rightarrow>
           let payload = payload_bytes cred in
           if length payload > MAX_CREDENTIAL_PAYLOAD then Inl CredentialTooLarge
           else
             let buf = buf @ [type_byte cred] @ be16 (of_nat (length payload)) @ payload in
             if length buf > MAX_WIRE_SIZE then Inl TicketTooLarge else Inr buf)"

section \<open>Decoding\<close>

definition decode_v4 :: "ticket_error \<Rightarrow> bytes \<Rightarrow> ticket_error + (socket_addr \<times> bytes)" where
  "decode_v4 err bs =
    (if 6 \<le> length bs then Inr (SockV4 (take 4 bs) (of_be16 (bs ! 4) (bs ! 5)), drop 6 bs)
     else Inl err)"

definition decode_v6 :: "ticket_error \<Rightarrow> bytes \<Rightarrow> ticket_error + (socket_addr \<times> bytes)" where
  "decode_v6 err bs =
    (if 18 \<le> length bs
     then Inr (SockV6 (take 16 bs) (of_be16 (bs ! 16) (bs ! 17)) 0 0, drop 18 bs)
     else Inl err)"

definition decode_relay :: "byte \<Rightarrow> bytes \<Rightarrow> ticket_error + (socket_addr option \<times> bytes)" where
  "decode_relay ty bs =
    (if ty = 0b00 then Inr (None, bs)
     else if ty = 0b01 then
       (case decode_v4 TruncatedRelay bs of Inl e \<Rightarrow> Inl e | Inr (a, rest) \<Rightarrow> Inr (Some a, rest))
     else if ty = 0b10 then
       (case decode_v6 TruncatedRelay bs of Inl e \<Rightarrow> Inl e | Inr (a, rest) \<Rightarrow> Inr (Some a, rest))
     else Inl ReservedRelayType)"

definition addr_type_at :: "bytes \<Rightarrow> nat \<Rightarrow> byte" where
  "addr_type_at bf i = drop_bit (6 - (i * 2) mod 8) (bf ! ((i * 2) div 8)) AND 0b11"

text \<open>The loop over the remaining \<open>n\<close> addresses, the next one at index \<open>i\<close>.\<close>

fun decode_addrs :: "bytes \<Rightarrow> nat \<Rightarrow> nat \<Rightarrow> bytes \<Rightarrow> ticket_error + (socket_addr list \<times> bytes)" where
  "decode_addrs bf i 0 bs = Inr ([], bs)"
| "decode_addrs bf i (Suc n) bs =
    (let ty = addr_type_at bf i in
     case (if ty = 0b00 then decode_v4 TruncatedDirectAddr bs
           else if ty = 0b01 then decode_v6 TruncatedDirectAddr bs
           else Inl ReservedAddressType) of
       Inl e \<Rightarrow> Inl e
     | Inr (a, rest) \<Rightarrow>
         (case decode_addrs bf (Suc i) n rest of
            Inl e \<Rightarrow> Inl e
          | Inr (as, rest') \<Rightarrow> Inr (a # as, rest')))"

definition decode_direct :: "bytes \<Rightarrow> ticket_error + (socket_addr list \<times> bytes)" where
  "decode_direct bs =
    (case bs of
       [] \<Rightarrow> Inl MissingDirectCount
     | count_byte # rest \<Rightarrow>
         let n = unat (drop_bit 4 count_byte) in
         if n > 0 then
           (if bitfield_len n \<le> length rest
            then decode_addrs (take (bitfield_len n) rest) 0 n (drop (bitfield_len n) rest)
            else Inl TruncatedBitfield)
         else Inr ([], rest))"

definition decode_credential :: "bytes \<Rightarrow> ticket_error + (ticket_credential option \<times> bytes)" where
  "decode_credential bs =
    (if bs = [] then Inr (None, [])
     else if length bs < 3 then Inl TruncatedCredentialHeader
     else
       let payload_len = unat (of_be16 (bs ! 1) (bs ! 2)); rest = drop 3 bs in
       if payload_len > MAX_CREDENTIAL_PAYLOAD then Inl CredentialTooLarge
       else if payload_len > length rest then Inl TruncatedCredentialPayload
       else case from_tlv (bs ! 0) (take payload_len rest) of
         Inl e \<Rightarrow> Inl e
       | Inr c \<Rightarrow> Inr (Some c, drop payload_len rest))"

definition ticket_decode :: "bytes \<Rightarrow> ticket_error + aster_ticket" where
  "ticket_decode bs =
    (if length bs > MAX_WIRE_SIZE then Inl TicketTooLarge
     else if length bs < 34 then Inl TicketTooShort
     else
       let header = bs ! 32 in
       if drop_bit 4 header \<noteq> FORMAT_VERSION then Inl UnsupportedVersion
       else
         case decode_relay (drop_bit 2 header AND 0b11) (drop 33 bs) of
           Inl e \<Rightarrow> Inl e
         | Inr (relay, rest) \<Rightarrow>
           (case decode_direct rest of
              Inl e \<Rightarrow> Inl e
            | Inr (direct, rest) \<Rightarrow>
              (case decode_credential rest of
                 Inl e \<Rightarrow> Inl e
               | Inr (credential, rest) \<Rightarrow>
                   if rest \<noteq> [] then Inl TrailingBytes
                   else Inr \<lparr> tk_endpoint_id = take 32 bs, tk_relay = relay,
                     tk_direct_addrs = direct, tk_credential = credential \<rparr>)))"

section \<open>String form\<close>

definition strip_prefix :: "string \<Rightarrow> string \<Rightarrow> string option" where
  "strip_prefix p s = (if take (length p) s = p then Some (drop (length p) s) else None)"

definition to_base58_string :: "externs \<Rightarrow> aster_ticket \<Rightarrow> ticket_error + string" where
  "to_base58_string E t =
    (case ticket_encode t of Inl e \<Rightarrow> Inl e
     | Inr wire \<Rightarrow> Inr (STRING_PREFIX @ bs58_encode E wire))"

definition from_base58_str :: "externs \<Rightarrow> string \<Rightarrow> ticket_error + aster_ticket" where
  "from_base58_str E s =
    (case strip_prefix STRING_PREFIX s of
       None \<Rightarrow> Inl MissingPrefix
     | Some payload \<Rightarrow>
       (case bs58_decode E payload of
          None \<Rightarrow> Inl InvalidBase58
        | Some wire \<Rightarrow> ticket_decode wire))"

end
