(* ===== verification/Coord_Shape.thy ===== *)
theory Coord_Shape
  imports Coord_State Ticket
begin

text \<open>
  The request-shape limits of \<open>coordination/model/shape.rs\<close> that do not need the
  signed-document verifier: the enumeration of limits, the key, value, TTL, rights
  and size checks, the deployment profiles, and the member-seed checks.  The plan
  check, which verifies join permits, is in \<open>Coord_Plan\<close>.
\<close>

section \<open>Limits\<close>

datatype shape_limit =
    Lim_Namespace
  | Lim_ResourceKey
  | Lim_Value
  | Lim_Ttl
  | Lim_RightsBits
  | Lim_EncodedCommand
  | Lim_MemberSeedTicket
  | Lim_MemberSeedJoinPermit
  | Lim_NodeIdWidth
  | Lim_FenceGroupWidth
  | Lim_ClientIdWidth
  | Lim_RequestHashWidth
  | Lim_RequestHashMismatch
  | Lim_MembershipPlanSize
  | Lim_MembershipPlanOrder
  | Lim_MembershipPlanRoot
  | Lim_MemberSeedUnknownNode
  | Lim_MemberSeedPermit
  | Lim_MemberSeedTicketEmpty
  | Lim_MemberSeedTicketInvalid
  | Lim_MemberSeedTicketCredential
  | Lim_MemberSeedTicketNode
  | Lim_MemberSeedTicketNonCanonical
  | Lim_MembershipNewVoters

definition MEMBERSHIP_RETAIN :: bool where
  "MEMBERSHIP_RETAIN = False"

definition projected_learners ::
  "node_id fset \<Rightarrow> node_id fset \<Rightarrow> node_id list \<Rightarrow> node_id list \<Rightarrow> nat" where
  "projected_learners current_learners current_members desired_voters retained_learners =
    fcard (current_learners |\<union>|
      fset_of_list (filter (\<lambda>n. n |\<notin>| current_members) (desired_voters @ retained_learners)))"

section \<open>Field checks\<close>

primrec key_limit :: "id_error \<Rightarrow> shape_limit" where
  "key_limit (NamespaceLength _) = Lim_Namespace"
| "key_limit NamespaceCharset = Lim_Namespace"
| "key_limit (KeyLength _) = Lim_ResourceKey"
| "key_limit (Id_Length _ _) = Lim_ResourceKey"
| "key_limit (HexLength _ _) = Lim_ResourceKey"
| "key_limit HexDigit = Lim_ResourceKey"

definition validate_resource_key :: "string \<Rightarrow> bytes \<Rightarrow> shape_limit + resource_key" where
  "validate_resource_key namespace key =
    (case resource_key_new namespace key of Inl e \<Rightarrow> Inl (key_limit e) | Inr k \<Rightarrow> Inr k)"

definition check_value :: "bytes \<Rightarrow> shape_limit option" where
  "check_value value = (if length value > MAX_VALUE then Some Lim_Value else None)"

definition check_ttl :: "u64 \<Rightarrow> shape_limit option" where
  "check_ttl ttl_ms = (if \<not> (MIN_TTL_MS \<le> ttl_ms \<and> ttl_ms \<le> MAX_TTL_MS) then Some Lim_Ttl else None)"

definition check_rights :: "rights \<Rightarrow> shape_limit option" where
  "check_rights rights = (if \<not> rights_are_known rights then Some Lim_RightsBits else None)"

definition check_encoded_command :: "nat \<Rightarrow> shape_limit option" where
  "check_encoded_command len = (if len > MAX_ENCODED_COMMAND then Some Lim_EncodedCommand else None)"

definition MIN_VOTERS :: nat where [coord_simps]: "MIN_VOTERS = 3"
definition MAX_VOTERS :: nat where [coord_simps]: "MAX_VOTERS = 5"
definition MAX_RETAINED_LEARNERS :: nat where [coord_simps]: "MAX_RETAINED_LEARNERS = 2"
definition MAX_NEW_VOTERS :: nat where [coord_simps]: "MAX_NEW_VOTERS = 2"
definition MAX_LEARNER_ENVELOPE :: nat where
  [coord_simps]: "MAX_LEARNER_ENVELOPE = MAX_RETAINED_LEARNERS + MAX_NEW_VOTERS + MAX_RETAINED_LEARNERS"

section \<open>Deployment profiles\<close>

definition PROFILE_PROD :: i32 where [coord_simps]: "PROFILE_PROD = 1"
definition PROFILE_DEV_SINGLE :: i32 where [coord_simps]: "PROFILE_DEV_SINGLE = 2"
definition PROFILE_DEV_EVEN :: i32 where [coord_simps]: "PROFILE_DEV_EVEN = 3"

definition PROFILES :: "i32 list" where
  "PROFILES = [PROFILE_PROD, PROFILE_DEV_SINGLE, PROFILE_DEV_EVEN]"

text \<open>True when the count is not permitted, as in the source.\<close>

definition profile_permits_voters :: "i32 \<Rightarrow> nat \<Rightarrow> bool" where
  "profile_permits_voters code voters =
    (\<not> (if code = PROFILE_PROD then voters = MIN_VOTERS \<or> voters = MAX_VOTERS
        else if code = PROFILE_DEV_SINGLE then voters = 1
        else if code = PROFILE_DEV_EVEN then voters = 2
        else False))"

definition check_membership_plan :: "nat \<Rightarrow> nat \<Rightarrow> i32 \<Rightarrow> shape_limit option" where
  "check_membership_plan voters retained_learners code =
    (if retained_learners > MAX_RETAINED_LEARNERS then Some Lim_MembershipPlanSize
     else if profile_permits_voters code voters then Some Lim_MembershipPlanSize
     else None)"

definition new_voters :: "node_id list \<Rightarrow> node_id fset \<Rightarrow> nat" where
  "new_voters desired current = length (filter (\<lambda>v. v |\<notin>| current) desired)"

fun sorted_unique :: "node_id list \<Rightarrow> bool" where
  "sorted_unique (a # b # rest) = (a < b \<and> sorted_unique (b # rest))"
| "sorted_unique _ = True"

section \<open>Member seeds\<close>

definition check_member_seed :: "nat \<Rightarrow> nat option \<Rightarrow> shape_limit option" where
  "check_member_seed ticket_len join_permit_len =
    (if ticket_len > MAX_TICKET then Some Lim_MemberSeedTicket
     else case join_permit_len of
       None \<Rightarrow> None
     | Some len \<Rightarrow> if len > MAX_JOIN_PERMIT then Some Lim_MemberSeedJoinPermit else None)"

definition check_seed_ticket :: "externs \<Rightarrow> bytes \<Rightarrow> node_id \<Rightarrow> shape_limit option" where
  "check_seed_ticket E ticket node =
    (if ticket = [] then Some Lim_MemberSeedTicketEmpty
     else case from_utf8 ticket of
       None \<Rightarrow> Some Lim_MemberSeedTicketInvalid
     | Some text \<Rightarrow>
       (case from_base58_str E text of
          Inl _ \<Rightarrow> Some Lim_MemberSeedTicketInvalid
        | Inr parsed \<Rightarrow>
          (case to_base58_string E parsed of
             Inl _ \<Rightarrow> Some Lim_MemberSeedTicketInvalid
           | Inr canonical \<Rightarrow>
             if canonical \<noteq> text then Some Lim_MemberSeedTicketNonCanonical
             else if \<not> (tk_credential parsed = None \<or> tk_credential parsed = Some Open)
               then Some Lim_MemberSeedTicketCredential
             else if tk_endpoint_id parsed \<noteq> node then Some Lim_MemberSeedTicketNode
             else None)))"

section \<open>Validation\<close>

lemma validate_resource_key_valid:
  "validate_resource_key ns k = Inr rk \<Longrightarrow> valid_resource_key rk"
  by (auto simp: validate_resource_key_def dest: resource_key_new_valid split: sum.splits)

lemma validate_resource_key_of_valid:
  "valid_resource_key rk \<Longrightarrow> validate_resource_key (rk_namespace rk) (rk_key rk) = Inr rk"
  by (simp add: validate_resource_key_def valid_resource_key_def)

lemma sorted_unique_iff: "sorted_unique ids \<longleftrightarrow> sorted_wrt (<) ids"
proof (induction ids rule: sorted_unique.induct)
  case (1 a b rest)
  then show ?case by (auto dest: less_trans)
qed simp_all

lemma sorted_unique_distinct: "sorted_unique ids \<Longrightarrow> distinct ids"
  by (simp add: sorted_unique_iff strict_sorted_iff)

text \<open>A profile permits at most five voters.\<close>

lemma profile_voters_bound: "\<not> profile_permits_voters code n \<Longrightarrow> 1 \<le> n \<and> n \<le> MAX_VOTERS"
  by (auto simp: profile_permits_voters_def coord_simps split: if_splits)

end
