(* ===== verification/Coord_Resource.thy ===== *)
theory Coord_Resource
  imports Coord_Shape
begin

text \<open>
  The resource actions of \<open>coordination/model/resource.rs\<close>: acquire, renew,
  compare-and-set, release, release with value and revoke, each decided against the
  committed state.  A decision carries the whole row the transition writes.
\<close>

unbundle bit_operations_syntax

section \<open>Actions\<close>

record raw_resource_key =
  rw_namespace :: string
  rw_key :: bytes

definition raw_validate :: "raw_resource_key \<Rightarrow> shape_limit + resource_key" where
  "raw_validate r = validate_resource_key (rw_namespace r) (rw_key r)"

definition raw_of :: "resource_key \<Rightarrow> raw_resource_key" where
  "raw_of k = \<lparr> rw_namespace = rk_namespace k, rw_key = rk_key k \<rparr>"

record fence =
  fn_group :: bytes
  fn_resource :: raw_resource_key
  fn_epoch :: u64
  fn_holder :: node_id

datatype resource_action =
    Acquire raw_resource_key u64
  | Renew fence
  | CompareAndSet fence u64 bytes
  | Release fence
  | ReleaseWithValue fence u64 bytes
  | Revoke raw_resource_key "u64 option"

primrec action_fence :: "resource_action \<Rightarrow> fence option" where
  "action_fence (Acquire _ _) = None"
| "action_fence (Renew f) = Some f"
| "action_fence (CompareAndSet f _ _) = Some f"
| "action_fence (Release f) = Some f"
| "action_fence (ReleaseWithValue f _ _) = Some f"
| "action_fence (Revoke _ _) = None"

primrec raw_resource :: "resource_action \<Rightarrow> raw_resource_key" where
  "raw_resource (Acquire r _) = r"
| "raw_resource (Renew f) = fn_resource f"
| "raw_resource (CompareAndSet f _ _) = fn_resource f"
| "raw_resource (Release f) = fn_resource f"
| "raw_resource (ReleaseWithValue f _ _) = fn_resource f"
| "raw_resource (Revoke r _) = r"

primrec is_safety_reducing :: "resource_action \<Rightarrow> nat \<Rightarrow> bool" where
  "is_safety_reducing (Release _) n = True"
| "is_safety_reducing (Revoke _ _) n = True"
| "is_safety_reducing (ReleaseWithValue _ _ final_value) n = (length final_value \<le> n)"
| "is_safety_reducing (Acquire _ _) n = False"
| "is_safety_reducing (Renew _) n = False"
| "is_safety_reducing (CompareAndSet _ _ _) n = False"

record resource_effect =
  re_key :: resource_key
  re_row :: resource_row
  re_outcome :: outcome
  re_creates_resource :: bool

datatype resource_decision =
    RApply resource_effect
  | RRefuse reason
  | RShapeless shape_limit

definition r_apply :: "resource_key \<Rightarrow> resource_row \<Rightarrow> outcome \<Rightarrow> bool \<Rightarrow> resource_decision" where
  "r_apply key row o' creates =
    RApply \<lparr> re_key = key, re_row = row, re_outcome = o', re_creates_resource = creates \<rparr>"

section \<open>Preconditions\<close>

primrec required_rights :: "resource_action \<Rightarrow> rights" where
  "required_rights (Acquire _ _) = RIGHT_ACQUIRE"
| "required_rights (Renew _) = RIGHT_RENEW"
| "required_rights (CompareAndSet _ _ _) = RIGHT_MUTATE"
| "required_rights (Release _) = RIGHT_RELEASE"
| "required_rights (ReleaseWithValue _ _ _) = RIGHT_RELEASE OR RIGHT_MUTATE"
| "required_rights (Revoke _ _) = RIGHT_REVOKE"

definition granted_rights :: "state \<Rightarrow> resource_key \<Rightarrow> node_id \<Rightarrow> rights" where
  "granted_rights s resource actor =
    (case bm_get (st_acl s) (resource, actor) of None \<Rightarrow> 0 | Some r \<Rightarrow> r)"

definition counters_have_room :: "u64 list \<Rightarrow> bool" where
  "counters_have_room counters = list_all (\<lambda>c. c < MAX_COUNTER) counters"

definition resource_growth_fits :: "state \<Rightarrow> resource_key \<Rightarrow> nat option \<Rightarrow> nat \<Rightarrow> bool" where
  "resource_growth_fits s key old_len new_len =
    (let (ns, k) = key_parts key;
         old = (case old_len of None \<Rightarrow> 0 | Some len \<Rightarrow> charge_resource ns k len);
         new = charge_resource ns k new_len
     in if new \<le> old then True
        else saturating_add_u64 (st_growth_bytes s) (new - old) \<le> GROWTH_BUDGET)"

definition check_shape :: "resource_action \<Rightarrow> shape_limit option" where
  "check_shape action =
    (case (case action of CompareAndSet _ _ v \<Rightarrow> check_value v
           | ReleaseWithValue _ _ v \<Rightarrow> check_value v
           | _ \<Rightarrow> None) of
       Some limit \<Rightarrow> Some limit
     | None \<Rightarrow> (case action of Acquire _ ttl_ms \<Rightarrow> check_ttl ttl_ms | _ \<Rightarrow> None))"

definition check_fence :: "node_id \<Rightarrow> resource_row \<Rightarrow> fence \<Rightarrow> reason option" where
  "check_fence actor row f =
    (if \<not> rr_held row then Some NotHeld
     else if fn_holder f \<noteq> actor \<or> rr_holder row \<noteq> Some actor then Some NotHolder
     else if rr_epoch row \<noteq> fn_epoch f then Some EpochMismatch
     else None)"

section \<open>Decisions\<close>

definition decide_acquire ::
  "state \<Rightarrow> node_id \<Rightarrow> resource_key \<Rightarrow> resource_row option \<Rightarrow> u64 \<Rightarrow> resource_decision" where
  "decide_acquire s actor key existing ttl_ms =
    (let row = (case existing of None \<Rightarrow> default_resource_row | Some r \<Rightarrow> r) in
     if rr_held row then RRefuse HeldByOther
     else if existing = None \<and> length (st_resources s) \<ge> MAX_RESOURCES_PER_GROUP
       then RRefuse ResourceSlotsExhausted
     else if existing = None \<and> \<not> resource_growth_fits s key None 0
       then RRefuse StateBudgetExhausted
     else if \<not> counters_have_room [rr_epoch row, rr_lease_revision row]
       then RRefuse CounterExhausted
     else r_apply key
       (row\<lparr> rr_epoch := add_u64 (rr_epoch row) 1,
             rr_lease_revision := add_u64 (rr_lease_revision row) 1,
             rr_held := True, rr_holder := Some actor, rr_ttl_ms := ttl_ms \<rparr>)
       Granted (existing = None))"

definition decide_renew ::
  "node_id \<Rightarrow> resource_key \<Rightarrow> resource_row option \<Rightarrow> fence \<Rightarrow> resource_decision" where
  "decide_renew actor key existing f =
    (case existing of
       None \<Rightarrow> RRefuse NotHeld
     | Some row \<Rightarrow>
       (case check_fence actor row f of
          Some reason \<Rightarrow> RRefuse reason
        | None \<Rightarrow>
          if \<not> counters_have_room [rr_lease_revision row] then RRefuse CounterExhausted
          else r_apply key (row\<lparr> rr_lease_revision := add_u64 (rr_lease_revision row) 1 \<rparr>)
            Renewed False))"

definition decide_compare_and_set ::
  "state \<Rightarrow> node_id \<Rightarrow> resource_key \<Rightarrow> resource_row option \<Rightarrow> fence \<Rightarrow> u64 \<Rightarrow> bytes \<Rightarrow> resource_decision" where
  "decide_compare_and_set s actor key existing f expected_value_revision new_value =
    (case existing of
       None \<Rightarrow> RRefuse NotHeld
     | Some row \<Rightarrow>
       (case check_fence actor row f of
          Some reason \<Rightarrow> RRefuse reason
        | None \<Rightarrow>
          if rr_value_revision row \<noteq> expected_value_revision then RRefuse ValueRevisionMismatch
          else if \<not> resource_growth_fits s key (Some (length (rr_value row))) (length new_value)
            then RRefuse StateBudgetExhausted
          else if \<not> counters_have_room [rr_value_revision row] then RRefuse CounterExhausted
          else r_apply key
            (row\<lparr> rr_value := new_value, rr_value_revision := add_u64 (rr_value_revision row) 1 \<rparr>)
            Mutated False))"

definition decide_release ::
  "node_id \<Rightarrow> resource_key \<Rightarrow> resource_row option \<Rightarrow> fence \<Rightarrow> resource_decision" where
  "decide_release actor key existing f =
    (case existing of
       None \<Rightarrow> RRefuse NotHeld
     | Some row \<Rightarrow>
       (case check_fence actor row f of
          Some reason \<Rightarrow> RRefuse reason
        | None \<Rightarrow>
          if \<not> counters_have_room [rr_epoch row, rr_lease_revision row] then RRefuse CounterExhausted
          else r_apply key
            (row\<lparr> rr_held := False, rr_holder := None, rr_epoch := add_u64 (rr_epoch row) 1,
                  rr_lease_revision := add_u64 (rr_lease_revision row) 1 \<rparr>)
            Released False))"

definition decide_release_with_value ::
  "state \<Rightarrow> node_id \<Rightarrow> resource_key \<Rightarrow> resource_row option \<Rightarrow> fence \<Rightarrow> u64 \<Rightarrow> bytes \<Rightarrow>
   resource_action \<Rightarrow> resource_decision" where
  "decide_release_with_value s actor key existing f expected_value_revision final_value action =
    (case existing of
       None \<Rightarrow> RRefuse NotHeld
     | Some row \<Rightarrow>
       (case check_fence actor row f of
          Some reason \<Rightarrow> RRefuse reason
        | None \<Rightarrow>
          if rr_value_revision row \<noteq> expected_value_revision then RRefuse ValueRevisionMismatch
          else if \<not> is_safety_reducing action (length (rr_value row))
              \<and> \<not> resource_growth_fits s key (Some (length (rr_value row))) (length final_value)
            then RRefuse StateBudgetExhausted
          else if \<not> counters_have_room [rr_epoch row, rr_lease_revision row, rr_value_revision row]
            then RRefuse CounterExhausted
          else r_apply key
            (row\<lparr> rr_value := final_value, rr_value_revision := add_u64 (rr_value_revision row) 1,
                  rr_held := False, rr_holder := None, rr_epoch := add_u64 (rr_epoch row) 1,
                  rr_lease_revision := add_u64 (rr_lease_revision row) 1 \<rparr>)
            Released False))"

definition decide_revoke ::
  "resource_key \<Rightarrow> resource_row option \<Rightarrow> u64 option \<Rightarrow> resource_decision" where
  "decide_revoke key existing expected_epoch =
    (case existing of
       None \<Rightarrow> RRefuse NotHeld
     | Some row \<Rightarrow>
       if (case expected_epoch of None \<Rightarrow> False | Some expected \<Rightarrow> rr_epoch row \<noteq> expected)
         then RRefuse EpochMismatch
       else if \<not> counters_have_room [rr_epoch row, rr_lease_revision row] then RRefuse CounterExhausted
       else r_apply key
         (row\<lparr> rr_held := False, rr_holder := None, rr_epoch := add_u64 (rr_epoch row) 1,
               rr_lease_revision := add_u64 (rr_lease_revision row) 1 \<rparr>)
         Revoked False)"

definition resource_decide :: "state \<Rightarrow> node_id \<Rightarrow> resource_action \<Rightarrow> resource_decision" where
  "resource_decide s actor action =
    (case raw_validate (raw_resource action) of
       Inl limit \<Rightarrow> RShapeless limit
     | Inr key \<Rightarrow>
       (case check_shape action of
          Some limit \<Rightarrow> RShapeless limit
        | None \<Rightarrow>
          let existing = bm_get (st_resources s) key;
              needed = required_rights action
          in
          if granted_rights s key actor AND needed \<noteq> needed then RRefuse PermissionChanged
          else if (case action_fence action of
                     None \<Rightarrow> False
                   | Some f \<Rightarrow> fn_group f \<noteq> ga_group_id (st_authority s))
            then RRefuse EpochMismatch
          else (case action of
              Acquire _ ttl_ms \<Rightarrow> decide_acquire s actor key existing ttl_ms
            | Renew f \<Rightarrow> decide_renew actor key existing f
            | CompareAndSet f vrev v \<Rightarrow> decide_compare_and_set s actor key existing f vrev v
            | Release f \<Rightarrow> decide_release actor key existing f
            | ReleaseWithValue f vrev v \<Rightarrow>
                decide_release_with_value s actor key existing f vrev v action
            | Revoke _ expected_epoch \<Rightarrow> decide_revoke key existing expected_epoch)))"

end
