(* ===== verification/Coord_Grant.thy ===== *)
theory Coord_Grant
  imports Coord_Resource
begin

text \<open>
  \<open>set_grant\<close> (\<open>coordination/model/grant.rs\<close>): an administrator changes one subject's
  rights on one resource, fencing the current holder when it loses a right that
  sustains its lease.
\<close>

unbundle bit_operations_syntax

record grant_action =
  gt_resource :: raw_resource_key
  gt_subject :: node_id
  gt_rights :: rights
  gt_expected_acl_revision :: u64

record grant_effect =
  ge_key :: resource_key
  ge_subject :: node_id
  ge_row :: resource_row
  ge_creates_resource :: bool
  ge_rights :: "rights option"
  ge_creates_acl_row :: bool
  ge_fenced :: bool

datatype grant_decision =
    GApply grant_effect
  | GNoOp u64
  | GRefuse reason
  | GShapeless shape_limit

primrec grant_outcome :: "grant_decision \<Rightarrow> outcome option" where
  "grant_outcome (GApply _) = Some GrantUpdated"
| "grant_outcome (GNoOp _) = Some GrantUpdated"
| "grant_outcome (GRefuse _) = None"
| "grant_outcome (GShapeless _) = None"

definition grants_on :: "state \<Rightarrow> resource_key \<Rightarrow> u64" where
  "grants_on s key = length (filter (\<lambda>(k, r). fst k = key) (st_acl s))"

definition grant_growth_fits :: "state \<Rightarrow> resource_key \<Rightarrow> bool \<Rightarrow> bool \<Rightarrow> bool" where
  "grant_growth_fits s key creates_resource creates_acl_row =
    (let (ns, k) = key_parts key;
         added = (if creates_resource then charge_resource ns k 0 else 0)
               + (if creates_acl_row then charge_acl ns k else 0)
     in if added = 0 then True
        else saturating_add_u64 (st_growth_bytes s) added \<le> GROWTH_BUDGET)"

definition grant_fences :: "resource_row option \<Rightarrow> rights option \<Rightarrow> grant_action \<Rightarrow> bool" where
  "grant_fences existing_resource existing_rights action =
    (case existing_resource of
       None \<Rightarrow> False
     | Some row \<Rightarrow>
         rr_held row \<and> rr_holder row = Some (gt_subject action) \<and>
         (case existing_rights of
            None \<Rightarrow> False
          | Some before \<Rightarrow> before AND LEASE_SUSTAINING_RIGHTS AND NOT (gt_rights action) \<noteq> 0))"

definition grant_decide :: "state \<Rightarrow> node_id \<Rightarrow> grant_action \<Rightarrow> grant_decision" where
  "grant_decide s actor action =
    (case raw_validate (gt_resource action) of
       Inl limit \<Rightarrow> GShapeless limit
     | Inr key \<Rightarrow>
       (case check_rights (gt_rights action) of
          Some limit \<Rightarrow> GShapeless limit
        | None \<Rightarrow>
          if \<not> is_administrator s actor then GRefuse PermissionChanged
          else
          let existing_resource = bm_get (st_resources s) key;
              current_revision = (case existing_resource of None \<Rightarrow> 0 | Some r \<Rightarrow> rr_acl_revision r)
          in
          if gt_expected_acl_revision action \<noteq> current_revision then GRefuse AclRevisionMismatch
          else
          let existing_rights = bm_get (st_acl s) (key, gt_subject action);
              removing = (gt_rights action = 0);
              changes = (if removing then existing_rights \<noteq> None
                         else existing_rights \<noteq> Some (gt_rights action))
          in
          if \<not> changes then GNoOp current_revision
          else
          let fences = grant_fences existing_resource existing_rights action;
              counters = current_revision #
                (if fences then (case existing_resource of
                     None \<Rightarrow> [] | Some row \<Rightarrow> [rr_epoch row, rr_lease_revision row]) else [])
          in
          if list_ex (\<lambda>c. c \<ge> MAX_COUNTER) counters then GRefuse CounterExhausted
          else
          let creates_resource = (existing_resource = None \<and> \<not> removing);
              creates_acl_row = (existing_rights = None \<and> \<not> removing)
          in
          if \<not> removing \<and> creates_resource \<and> length (st_resources s) \<ge> MAX_RESOURCES_PER_GROUP
            then GRefuse ResourceSlotsExhausted
          else if \<not> removing \<and> creates_acl_row \<and>
              (length (st_acl s) \<ge> MAX_ACL_ROWS_PER_GROUP \<or> grants_on s key \<ge> MAX_GRANTS_PER_RESOURCE)
            then GRefuse AclSlotsExhausted
          else if \<not> removing \<and> \<not> grant_growth_fits s key creates_resource creates_acl_row
            then GRefuse StateBudgetExhausted
          else
          let row = (case existing_resource of None \<Rightarrow> default_resource_row | Some r \<Rightarrow> r);
              row = row\<lparr> rr_acl_revision := add_u64 current_revision 1 \<rparr>;
              row = (if fences
                     then row\<lparr> rr_held := False, rr_holder := None,
                            rr_epoch := add_u64 (rr_epoch row) 1,
                            rr_lease_revision := add_u64 (rr_lease_revision row) 1 \<rparr>
                     else row)
          in GApply \<lparr> ge_key = key, ge_subject = gt_subject action, ge_row = row,
               ge_creates_resource = creates_resource,
               ge_rights = (if \<not> removing then Some (gt_rights action) else None),
               ge_creates_acl_row = creates_acl_row, ge_fenced = fences \<rparr>))"

end
