(* ===== verification/Coord_Admin.thy ===== *)
theory Coord_Admin
  imports Coord_State
begin

text \<open>
  The commands that change authority and leases without a resource right:
  \<open>set_admin\<close> (\<open>coordination/model/admin.rs\<close>), the system \<open>Expire\<close>
  (\<open>coordination/model/expire.rs\<close>) and \<open>retire_client\<close>
  (\<open>coordination/model/retire.rs\<close>).
\<close>

section \<open>Administrators\<close>

record admin_action =
  aa_target :: node_id
  aa_enabled :: bool
  aa_expected_admin_revision :: u64

record admin_effect =
  ae_target :: node_id
  ae_enabled :: bool
  ae_admin_revision :: u64

datatype admin_decision =
    AApply admin_effect
  | ANoOp u64
  | ARefuse reason

primrec admin_outcome :: "admin_decision \<Rightarrow> outcome option" where
  "admin_outcome (AApply _) = Some AdminUpdated"
| "admin_outcome (ANoOp _) = Some AdminUpdated"
| "admin_outcome (ARefuse _) = None"

definition admin_decide :: "state \<Rightarrow> node_id \<Rightarrow> admin_action \<Rightarrow> admin_decision" where
  "admin_decide s actor action =
    (if \<not> is_administrator s actor then ARefuse PermissionChanged
     else if is_root s (aa_target action) then ARefuse RootAuthorityImmutable
     else if aa_expected_admin_revision action \<noteq> st_admin_revision s
       then ARefuse AdminRevisionMismatch
     else if (aa_target action |\<in>| st_admins s) = aa_enabled action
       then ANoOp (st_admin_revision s)
     else if \<not> aa_enabled action \<and> fcard (st_admins s) \<le> 1 then ARefuse LastAdministrator
     else if aa_enabled action \<and> \<not> growth_fits s charge_admin then ARefuse StateBudgetExhausted
     else if aa_enabled action \<and> fcard (st_admins s) \<ge> MAX_ADMINS_PER_GROUP
       then ARefuse AclSlotsExhausted
     else if st_admin_revision s \<ge> MAX_COUNTER then ARefuse CounterExhausted
     else AApply \<lparr> ae_target = aa_target action, ae_enabled = aa_enabled action,
       ae_admin_revision = add_u64 (st_admin_revision s) 1 \<rparr>)"

section \<open>Expiry\<close>

record expire_command =
  ex_resource :: resource_key
  ex_epoch :: u64
  ex_lease_revision :: u64

datatype expire_decision = EApply resource_row | EStale

primrec expire_result_code :: "expire_decision \<Rightarrow> i32" where
  "expire_result_code (EApply _) = SYS_EXPIRED"
| "expire_result_code EStale = SYS_EXPIRY_STALE"

definition expire_decide :: "state \<Rightarrow> expire_command \<Rightarrow> expire_decision" where
  "expire_decide s cmd =
    (case bm_get (st_resources s) (ex_resource cmd) of
       None \<Rightarrow> EStale
     | Some row \<Rightarrow>
       if \<not> rr_held row \<or> rr_epoch row \<noteq> ex_epoch cmd \<or> rr_lease_revision row \<noteq> ex_lease_revision cmd
         then EStale
       else if rr_epoch row \<ge> MAX_COUNTER \<or> rr_lease_revision row \<ge> MAX_COUNTER then EStale
       else EApply (row\<lparr> rr_held := False, rr_holder := None,
         rr_epoch := add_u64 (rr_epoch row) 1,
         rr_lease_revision := add_u64 (rr_lease_revision row) 1 \<rparr>))"

section \<open>Retirement\<close>

record retire_command =
  rc_actor :: node_id
  rc_target_actor :: node_id
  rc_target_client_id :: client_id

datatype retire_effect = Convert | CreateTombstone | AlreadyRetired

datatype retire_decision = TApply retire_effect | TRefuse reason

primrec retire_outcome :: "retire_decision \<Rightarrow> outcome" where
  "retire_outcome (TApply _) = Outcome_ClientRetired"
| "retire_outcome (TRefuse _) = Rejected"

definition retained_exhausted_for_new_row :: "capacity \<Rightarrow> bool" where
  "retained_exhausted_for_new_row cap =
    (ca_retained_group cap \<ge> MAX_RETAINED_SESSIONS_PER_GROUP \<or>
     ca_retained_actor cap \<ge> MAX_RETAINED_SESSIONS_PER_ACTOR)"

definition retire_decide :: "state \<Rightarrow> retire_command \<Rightarrow> retire_decision" where
  "retire_decide s cmd =
    (if \<not> (rc_actor cmd = rc_target_actor cmd \<or> is_administrator s (rc_actor cmd))
       then TRefuse PermissionChanged
     else case bm_get (st_sessions s) (rc_target_actor cmd, rc_target_client_id cmd) of
       Some se \<Rightarrow> if se_retired se then TApply AlreadyRetired else TApply Convert
     | None \<Rightarrow>
         if retained_exhausted_for_new_row (capacity_for s (rc_target_actor cmd))
         then TRefuse RetainedSessionCapReached
         else TApply CreateTombstone)"

definition effect_row :: "state \<Rightarrow> retire_command \<Rightarrow> retire_effect \<Rightarrow> session option" where
  "effect_row s cmd eff =
    (case eff of
       AlreadyRetired \<Rightarrow> None
     | Convert \<Rightarrow>
       (case bm_get (st_sessions s) (rc_target_actor cmd, rc_target_client_id cmd) of
          None \<Rightarrow> None
        | Some existing \<Rightarrow> Some (existing\<lparr> se_retired := True \<rparr>))
     | CreateTombstone \<Rightarrow>
         Some \<lparr> se_last_sequence = 0, se_request_hash = replicate 32 0, se_last_result = None,
           se_retired = True \<rparr>)"

end
