(* ===== verification/Coord_Authority.thy ===== *)
theory Coord_Authority
  imports Coord_Shape
begin

text \<open>
  Signed-document verification (\<open>coordination/model/authority.rs\<close>): opening and
  checking a signed join permit, the startup variant, and verifying and sealing the
  signed genesis.  The Fory codec of the documents, Ed25519 and BLAKE3 are fields of
  \<open>externs\<close>.
\<close>

section \<open>Domains and errors\<close>

definition JOIN_DOMAIN :: bytes where
  "JOIN_DOMAIN = bytes_of_string (''aster-coordination/join/v1'' @ [CHR 0x00])"

definition GENESIS_DOMAIN :: bytes where
  "GENESIS_DOMAIN = bytes_of_string (''aster-coordination/genesis/v1'' @ [CHR 0x00])"

definition PERMIT_FORMAT_VERSION :: nat where [coord_simps]: "PERMIT_FORMAT_VERSION = 1"
definition MAX_AUTHORITY_DOMAIN_BYTES :: nat where [coord_simps]: "MAX_AUTHORITY_DOMAIN_BYTES = 128"

datatype permit_error =
    Pe_Malformed
  | Pe_UnknownFormat nat
  | Pe_NonCanonical
  | Pe_WrongAuthorityKey
  | Pe_BadSignature
  | Pe_WrongDomain
  | Pe_WrongGroup
  | Pe_WrongGenesis
  | Pe_WrongNode
  | Pe_TicketMismatch
  | Pe_BootstrapSenders
  | Pe_FieldWidth

section \<open>Join permits\<close>

definition canonical_candidate_ticket :: "externs \<Rightarrow> node_id \<Rightarrow> permit_error + string" where
  "canonical_candidate_ticket E candidate =
    (case to_base58_string E
        \<lparr> tk_endpoint_id = candidate, tk_relay = None, tk_direct_addrs = [],
          tk_credential = Some Open \<rparr> of
       Inl _ \<Rightarrow> Inl Pe_TicketMismatch
     | Inr t \<Rightarrow> Inr t)"

definition join_signing_bytes :: "bytes \<Rightarrow> bytes" where
  "join_signing_bytes document_bytes = JOIN_DOMAIN @ document_bytes"

definition genesis_signing_bytes :: "bytes \<Rightarrow> bytes" where
  "genesis_signing_bytes document_bytes = GENESIS_DOMAIN @ document_bytes"

definition open_signed_permit ::
  "externs \<Rightarrow> bytes \<Rightarrow> bytes \<Rightarrow> permit_error + (join_permit_v1 \<times> bytes)" where
  "open_signed_permit E authority_public_key permit_bytes =
    (case de_signed_document E permit_bytes of
       None \<Rightarrow> Inl Pe_Malformed
     | Some envelope \<Rightarrow>
       if sdv_format_version envelope \<noteq> PERMIT_FORMAT_VERSION
         then Inl (Pe_UnknownFormat (sdv_format_version envelope))
       else if length (sdv_authority_public_key envelope) \<noteq> 32 \<or> length (sdv_signature envelope) \<noteq> 64
         then Inl Pe_FieldWidth
       else if sdv_authority_public_key envelope \<noteq> authority_public_key
         then Inl Pe_WrongAuthorityKey
       else if \<not> verifying_key_ok E authority_public_key then Inl Pe_Malformed
       else if \<not> signature_ok E (sdv_signature envelope) then Inl Pe_Malformed
       else if \<not> ed25519_verify E authority_public_key
           (join_signing_bytes (sdv_document_bytes envelope)) (sdv_signature envelope)
         then Inl Pe_BadSignature
       else case de_join_permit E (sdv_document_bytes envelope) of
         None \<Rightarrow> Inl Pe_Malformed
       | Some permit \<Rightarrow>
         (case ser_join_permit E permit of
            None \<Rightarrow> Inl Pe_Malformed
          | Some reencoded \<Rightarrow>
            if reencoded \<noteq> sdv_document_bytes envelope then Inl Pe_NonCanonical
            else Inr (permit, sdv_document_bytes envelope)))"

text \<open>\<open>Ok(())\<close> is \<open>None\<close> in the checks below.\<close>

definition check_permit_shape :: "join_permit_v1 \<Rightarrow> permit_error option" where
  "check_permit_shape permit =
    (if jpv_format_version permit \<noteq> PERMIT_FORMAT_VERSION
       then Some (Pe_UnknownFormat (jpv_format_version permit))
     else if length (jpv_group_id permit) \<noteq> 32 \<or> length (jpv_genesis_hash permit) \<noteq> 32
       \<or> length (jpv_candidate_node_id permit) \<noteq> 32 \<or> length (jpv_join_nonce permit) \<noteq> 32
       \<or> jpv_authority_domain permit = []
       \<or> length (jpv_authority_domain permit) > MAX_AUTHORITY_DOMAIN_BYTES
       \<or> \<not> is_ascii (jpv_authority_domain permit)
       \<or> jpv_candidate_ticket permit = []
       \<or> length (jpv_candidate_ticket permit) > MAX_WIRE_STRING
       then Some Pe_FieldWidth
     else if jpv_bootstrap_senders permit = [] then Some Pe_BootstrapSenders
     else if list_ex (\<lambda>n. length (nv_node_id n) \<noteq> 32) (jpv_bootstrap_senders permit)
       then Some Pe_FieldWidth
     else if \<not> sorted_unique (map nv_node_id (jpv_bootstrap_senders permit))
       then Some Pe_BootstrapSenders
     else None)"

definition check_permit :: "externs \<Rightarrow> group_authority \<Rightarrow> join_permit_v1 \<Rightarrow> node_id \<Rightarrow> permit_error option" where
  "check_permit E authority permit candidate =
    (case check_permit_shape permit of
       Some e \<Rightarrow> Some e
     | None \<Rightarrow>
       if jpv_authority_domain permit \<noteq> ga_domain authority then Some Pe_WrongDomain
       else if jpv_group_id permit \<noteq> ga_group_id authority then Some Pe_WrongGroup
       else if jpv_genesis_hash permit \<noteq> ga_genesis_hash authority then Some Pe_WrongGenesis
       else if jpv_candidate_node_id permit \<noteq> candidate then Some Pe_WrongNode
       else case canonical_candidate_ticket E candidate of
         Inl e \<Rightarrow> Some e
       | Inr ticket \<Rightarrow>
           if jpv_candidate_ticket permit \<noteq> ticket then Some Pe_TicketMismatch else None)"

definition verify_join_permit :: "externs \<Rightarrow> group_authority \<Rightarrow> bytes \<Rightarrow> node_id \<Rightarrow> permit_error option" where
  "verify_join_permit E authority permit_bytes candidate =
    (case open_signed_permit E (ga_public_key authority) permit_bytes of
       Inl e \<Rightarrow> Some e
     | Inr (permit, _) \<Rightarrow> check_permit E authority permit candidate)"

record verified_join_permit =
  vj_document_bytes :: bytes
  vj_group_id :: bytes
  vj_genesis_hash :: hash32
  vj_candidate :: node_id
  vj_bootstrap_senders :: "node_id list"

definition permits_sender :: "verified_join_permit \<Rightarrow> node_id \<Rightarrow> bool" where
  "permits_sender vj node = (node \<in> set (vj_bootstrap_senders vj))"

definition verify_join_permit_for_start ::
  "externs \<Rightarrow> bytes \<Rightarrow> string \<Rightarrow> bytes \<Rightarrow> node_id \<Rightarrow> permit_error + verified_join_permit" where
  "verify_join_permit_for_start E authority_public_key authority_domain permit_bytes candidate =
    (case open_signed_permit E authority_public_key permit_bytes of
       Inl e \<Rightarrow> Inl e
     | Inr (permit, document_bytes) \<Rightarrow>
       (case check_permit_shape permit of
          Some e \<Rightarrow> Inl e
        | None \<Rightarrow>
          if jpv_authority_domain permit \<noteq> authority_domain then Inl Pe_WrongDomain
          else if jpv_candidate_node_id permit \<noteq> candidate then Inl Pe_WrongNode
          else case canonical_candidate_ticket E candidate of
            Inl e \<Rightarrow> Inl e
          | Inr ticket \<Rightarrow>
            if jpv_candidate_ticket permit \<noteq> ticket then Inl Pe_TicketMismatch
            else if list_ex (\<lambda>n. length (nv_node_id n) \<noteq> 32) (jpv_bootstrap_senders permit)
              then Inl Pe_FieldWidth
            else if length (jpv_group_id permit) \<noteq> 32 then Inl Pe_FieldWidth
            else if length (jpv_genesis_hash permit) \<noteq> 32 then Inl Pe_FieldWidth
            else Inr \<lparr> vj_document_bytes = document_bytes, vj_group_id = jpv_group_id permit,
              vj_genesis_hash = jpv_genesis_hash permit, vj_candidate = candidate,
              vj_bootstrap_senders = map nv_node_id (jpv_bootstrap_senders permit) \<rparr>))"

section \<open>Genesis\<close>

datatype genesis_error =
    Ge_Malformed
  | Ge_UnknownFormat nat
  | Ge_NonCanonical
  | Ge_WrongAuthorityKey
  | Ge_BadSignature
  | Ge_WrongDomain
  | Ge_FieldWidth
  | Ge_UnknownProfile i32
  | Ge_VoterCount i32 nat
  | Ge_InitialVoters
  | Ge_RootIsNotDelegable
  | Ge_RootIsNotAMember
  | Ge_InitialAdmins
  | Ge_VoterSeedTicket shape_limit

record verified_voter_seed =
  vv_node_id :: node_id
  vv_ticket :: string

record verified_genesis =
  vg_document_bytes :: bytes
  vg_genesis_hash :: hash32
  vg_group_id :: bytes
  vg_authority_public_key :: bytes
  vg_authority_domain :: string
  vg_deployment_profile_code :: i32
  vg_initial_voters :: "verified_voter_seed list"
  vg_initial_admins :: "node_id list"
  vg_recovery_export_hash :: "hash32 option"

definition is_initial_voter :: "verified_genesis \<Rightarrow> node_id \<Rightarrow> bool" where
  "is_initial_voter g node = list_ex (\<lambda>v. vv_node_id v = node) (vg_initial_voters g)"

definition genesis_hash :: "externs \<Rightarrow> bytes \<Rightarrow> hash32" where
  "genesis_hash E document_bytes = blake3 E (GENESIS_DOMAIN @ document_bytes)"

fun seal_voters :: "externs \<Rightarrow> voter_seed_v1 list \<Rightarrow> genesis_error + verified_voter_seed list" where
  "seal_voters E [] = Inr []"
| "seal_voters E (seed # seeds) =
    (if length (vsv_node_id seed) \<noteq> 32 then Inl Ge_FieldWidth
     else if length (vsv_ticket seed) > MAX_TICKET
       then Inl (Ge_VoterSeedTicket Lim_MemberSeedTicket)
     else case check_seed_ticket E (bytes_of_string (vsv_ticket seed)) (vsv_node_id seed) of
       Some limit \<Rightarrow> Inl (Ge_VoterSeedTicket limit)
     | None \<Rightarrow>
       (case seal_voters E seeds of
          Inl e \<Rightarrow> Inl e
        | Inr rest \<Rightarrow>
            Inr (\<lparr> vv_node_id = vsv_node_id seed, vv_ticket = vsv_ticket seed \<rparr> # rest)))"

definition seal_genesis ::
  "externs \<Rightarrow> bytes \<Rightarrow> string \<Rightarrow> genesis_v1 \<Rightarrow> bytes \<Rightarrow> genesis_error + verified_genesis" where
  "seal_genesis E authority_public_key authority_domain genesis document_bytes =
    (if gdv_format_version genesis \<noteq> PERMIT_FORMAT_VERSION
       then Inl (Ge_UnknownFormat (gdv_format_version genesis))
     else if length (gdv_group_id genesis) \<noteq> 32 \<or> length (gdv_genesis_nonce genesis) \<noteq> 32
       \<or> gdv_authority_domain genesis = []
       \<or> length (gdv_authority_domain genesis) > MAX_AUTHORITY_DOMAIN_BYTES
       \<or> \<not> is_ascii (gdv_authority_domain genesis)
       then Inl Ge_FieldWidth
     else if (case gdv_recovery_export_hash genesis of None \<Rightarrow> False | Some h \<Rightarrow> length h \<noteq> 32)
       then Inl Ge_FieldWidth
     else if gdv_authority_domain genesis \<noteq> authority_domain then Inl Ge_WrongDomain
     else if gdv_deployment_profile_code genesis \<notin> set PROFILES
       then Inl (Ge_UnknownProfile (gdv_deployment_profile_code genesis))
     else if profile_permits_voters (gdv_deployment_profile_code genesis)
         (length (gdv_initial_voters genesis))
       then Inl (Ge_VoterCount (gdv_deployment_profile_code genesis)
         (length (gdv_initial_voters genesis)))
     else case seal_voters E (gdv_initial_voters genesis) of
       Inl e \<Rightarrow> Inl e
     | Inr voters \<Rightarrow>
       if voters = [] \<or> \<not> sorted_unique (map vv_node_id voters) then Inl Ge_InitialVoters
       else if list_ex (\<lambda>n. length (nv_node_id n) \<noteq> 32) (gdv_initial_admins genesis)
         then Inl Ge_FieldWidth
       else
         let admins = map nv_node_id (gdv_initial_admins genesis) in
         if admins = [] \<or> length admins > MAX_ADMINS_PER_GROUP \<or> \<not> sorted_unique admins
           then Inl Ge_InitialAdmins
         else if authority_public_key \<in> set admins then Inl Ge_RootIsNotDelegable
         else if list_ex (\<lambda>v. vv_node_id v = authority_public_key) voters
           then Inl Ge_RootIsNotAMember
         else Inr \<lparr> vg_document_bytes = document_bytes,
           vg_genesis_hash = genesis_hash E document_bytes,
           vg_group_id = gdv_group_id genesis,
           vg_authority_public_key = authority_public_key,
           vg_authority_domain = gdv_authority_domain genesis,
           vg_deployment_profile_code = gdv_deployment_profile_code genesis,
           vg_initial_voters = voters, vg_initial_admins = admins,
           vg_recovery_export_hash = gdv_recovery_export_hash genesis \<rparr>)"

definition verify_genesis ::
  "externs \<Rightarrow> bytes \<Rightarrow> string \<Rightarrow> bytes \<Rightarrow> genesis_error + verified_genesis" where
  "verify_genesis E authority_public_key authority_domain signed_bytes =
    (case de_signed_document E signed_bytes of
       None \<Rightarrow> Inl Ge_Malformed
     | Some envelope \<Rightarrow>
       if sdv_format_version envelope \<noteq> PERMIT_FORMAT_VERSION
         then Inl (Ge_UnknownFormat (sdv_format_version envelope))
       else if length (sdv_authority_public_key envelope) \<noteq> 32 \<or> length (sdv_signature envelope) \<noteq> 64
         then Inl Ge_FieldWidth
       else if sdv_authority_public_key envelope \<noteq> authority_public_key
         then Inl Ge_WrongAuthorityKey
       else if \<not> verifying_key_ok E authority_public_key then Inl Ge_Malformed
       else if \<not> signature_ok E (sdv_signature envelope) then Inl Ge_Malformed
       else if \<not> ed25519_verify E authority_public_key
           (GENESIS_DOMAIN @ sdv_document_bytes envelope) (sdv_signature envelope)
         then Inl Ge_BadSignature
       else case de_genesis E (sdv_document_bytes envelope) of
         None \<Rightarrow> Inl Ge_Malformed
       | Some genesis \<Rightarrow>
         (case ser_genesis E genesis of
            None \<Rightarrow> Inl Ge_Malformed
          | Some reencoded \<Rightarrow>
            if reencoded \<noteq> sdv_document_bytes envelope then Inl Ge_NonCanonical
            else seal_genesis E authority_public_key authority_domain genesis
              (sdv_document_bytes envelope)))"

definition signed_document_from_parts :: "externs \<Rightarrow> bytes \<Rightarrow> bytes \<Rightarrow> bytes \<Rightarrow> bytes option" where
  "signed_document_from_parts E document_bytes authority_public_key signature =
    ser_signed_document E
      \<lparr> sdv_format_version = PERMIT_FORMAT_VERSION, sdv_document_bytes = document_bytes,
        sdv_authority_public_key = authority_public_key, sdv_signature = signature \<rparr>"

section \<open>What a verified genesis guarantees\<close>

lemma seal_voters_sound:
  "seal_voters E seeds = Inr voters \<Longrightarrow>
    list_all2 (\<lambda>seed v. vv_node_id v = vsv_node_id seed \<and> vv_ticket v = vsv_ticket seed) seeds voters \<and>
    (\<forall>v\<in>set voters. length (vv_node_id v) = 32 \<and> length (vv_ticket v) \<le> MAX_TICKET \<and>
      check_seed_ticket E (bytes_of_string (vv_ticket v)) (vv_node_id v) = None)"
  by (induction seeds arbitrary: voters) (auto split: if_splits option.splits sum.splits)

lemma seal_genesis_sound:
  assumes "seal_genesis E pk domain genesis document = Inr g"
  shows "vg_authority_public_key g = pk" "vg_authority_domain g = domain" "vg_document_bytes g = document"
    "vg_genesis_hash g = genesis_hash E document" "vg_deployment_profile_code g \<in> set PROFILES"
    "\<not> profile_permits_voters (vg_deployment_profile_code g) (length (vg_initial_voters g))"
    "sorted_unique (map vv_node_id (vg_initial_voters g))"
    "vg_initial_admins g \<noteq> []" "length (vg_initial_admins g) \<le> MAX_ADMINS_PER_GROUP"
    "sorted_unique (vg_initial_admins g)" "\<forall>n\<in>set (vg_initial_admins g). length n = 32"
    "pk \<notin> set (vg_initial_admins g)" "\<not> is_initial_voter g pk" "length (vg_group_id g) = 32"
proof -
  obtain voters where v: "seal_voters E (gdv_initial_voters genesis) = Inr voters"
    using assms
    by (cases "seal_voters E (gdv_initial_voters genesis)") (auto simp: seal_genesis_def split: if_splits)
  have "length voters = length (gdv_initial_voters genesis)"
    using seal_voters_sound [OF v] by (auto dest: list_all2_lengthD)
  with assms v show "vg_authority_public_key g = pk" "vg_authority_domain g = domain" "vg_document_bytes g = document"
    "vg_genesis_hash g = genesis_hash E document" "vg_deployment_profile_code g \<in> set PROFILES"
    "\<not> profile_permits_voters (vg_deployment_profile_code g) (length (vg_initial_voters g))"
    "sorted_unique (map vv_node_id (vg_initial_voters g))"
    "vg_initial_admins g \<noteq> []" "length (vg_initial_admins g) \<le> MAX_ADMINS_PER_GROUP"
    "sorted_unique (vg_initial_admins g)" "\<forall>n\<in>set (vg_initial_admins g). length n = 32"
    "pk \<notin> set (vg_initial_admins g)" "\<not> is_initial_voter g pk" "length (vg_group_id g) = 32"
    by (auto simp: seal_genesis_def is_initial_voter_def Let_def list_ex_iff split: if_splits)
qed

lemma check_seed_ticket_sound:
  assumes "check_seed_ticket E ticket node = None"
  shows "\<exists>text t. from_utf8 ticket = Some text \<and> from_base58_str E text = Inr t \<and> to_base58_string E t = Inr text \<and>
    (tk_credential t = None \<or> tk_credential t = Some Open) \<and> tk_endpoint_id t = node"
  using assms by (auto simp: check_seed_ticket_def split: if_splits option.splits sum.splits)

lemma seal_genesis_tickets:
  assumes "seal_genesis E pk domain genesis document = Inr g"
  shows "\<forall>v\<in>set (vg_initial_voters g). length (vv_node_id v) = 32 \<and>
    (\<exists>text t. from_utf8 (bytes_of_string (vv_ticket v)) = Some text \<and> from_base58_str E text = Inr t \<and>
      to_base58_string E t = Inr text \<and> (tk_credential t = None \<or> tk_credential t = Some Open) \<and>
      tk_endpoint_id t = vv_node_id v)"
proof -
  obtain voters where "seal_voters E (gdv_initial_voters genesis) = Inr voters" "vg_initial_voters g = voters"
    using assms
    by (cases "seal_voters E (gdv_initial_voters genesis)") (auto simp: seal_genesis_def Let_def split: if_splits)
  with seal_voters_sound show ?thesis using check_seed_ticket_sound by blast
qed

lemma verify_genesis_sealed:
  assumes "verify_genesis E pk domain bs = Inr g"
  obtains envelope genesis where "de_signed_document E bs = Some envelope"
    "sdv_authority_public_key envelope = pk"
    "ed25519_verify E pk (GENESIS_DOMAIN @ sdv_document_bytes envelope) (sdv_signature envelope)"
    "de_genesis E (sdv_document_bytes envelope) = Some genesis"
    "ser_genesis E genesis = Some (sdv_document_bytes envelope)"
    "seal_genesis E pk domain genesis (sdv_document_bytes envelope) = Inr g"
  using assms by (auto simp: verify_genesis_def split: option.splits if_splits)

end
