(* ===== verification/Coord_Plan.thy ===== *)
theory Coord_Plan
  imports Coord_Authority
begin

text \<open>
  The membership-plan shape check, \<open>plan_shape\<close> of \<open>coordination/model/shape.rs\<close>:
  every bound a plan can violate, in the order the source tests them, including the
  verification of the join permit of every new node.
\<close>

definition plan_names :: "membership_plan \<Rightarrow> node_id \<Rightarrow> bool" where
  "plan_names plan node =
    (node \<in> set (mp_desired_voters plan) \<or> node \<in> set (mp_retained_learners plan))"

definition check_plan_seed ::
  "externs \<Rightarrow> membership_plan \<Rightarrow> node_id fset \<Rightarrow> group_authority \<Rightarrow> member_seed \<Rightarrow> shape_limit option" where
  "check_plan_seed E plan current_members authority seed =
    (case check_member_seed (length (sd_ticket seed)) (map_option length (sd_join_permit seed)) of
       Some limit \<Rightarrow> Some limit
     | None \<Rightarrow>
       if \<not> plan_names plan (sd_node_id seed) then Some Lim_MemberSeedUnknownNode
       else case check_seed_ticket E (sd_ticket seed) (sd_node_id seed) of
         Some limit \<Rightarrow> Some limit
       | None \<Rightarrow>
         (case (sd_node_id seed |\<notin>| current_members, sd_join_permit seed) of
            (True, Some permit) \<Rightarrow>
              if verify_join_permit E authority permit (sd_node_id seed) \<noteq> None
              then Some Lim_MemberSeedPermit else None
          | (False, None) \<Rightarrow> None
          | _ \<Rightarrow> Some Lim_MemberSeedPermit))"

fun check_plan_seeds ::
  "externs \<Rightarrow> membership_plan \<Rightarrow> node_id fset \<Rightarrow> group_authority \<Rightarrow> member_seed list \<Rightarrow> shape_limit option" where
  "check_plan_seeds E plan current_members authority [] = None"
| "check_plan_seeds E plan current_members authority (seed # seeds) =
    (case check_plan_seed E plan current_members authority seed of
       Some limit \<Rightarrow> Some limit
     | None \<Rightarrow> check_plan_seeds E plan current_members authority seeds)"

definition seeded :: "membership_plan \<Rightarrow> node_id \<Rightarrow> bool" where
  "seeded plan node = list_ex (\<lambda>s. sd_node_id s = node) (mp_member_seeds plan)"

definition plan_shape ::
  "externs \<Rightarrow> membership_plan \<Rightarrow> committed_membership \<Rightarrow> group_authority \<Rightarrow> i32 \<Rightarrow> shape_limit option" where
  "plan_shape E plan current authority profile =
    (let current_members = cm_members current in
     case check_membership_plan (length (mp_desired_voters plan))
         (length (mp_retained_learners plan)) profile of
       Some limit \<Rightarrow> Some limit
     | None \<Rightarrow>
       if \<not> sorted_unique (mp_desired_voters plan) \<or> \<not> sorted_unique (mp_retained_learners plan)
         then Some Lim_MembershipPlanOrder
       else if \<not> sorted_unique (map sd_node_id (mp_member_seeds plan))
         then Some Lim_MembershipPlanOrder
       else if list_ex (\<lambda>v. v \<in> set (mp_retained_learners plan)) (mp_desired_voters plan)
         then Some Lim_MembershipPlanOrder
       else if list_ex (\<lambda>n. n = ga_public_key authority)
           (mp_desired_voters plan @ mp_retained_learners plan)
         then Some Lim_MembershipPlanRoot
       else if new_voters (mp_desired_voters plan) current_members > MAX_NEW_VOTERS
         then Some Lim_MembershipNewVoters
       else case check_plan_seeds E plan current_members authority (mp_member_seeds plan) of
         Some limit \<Rightarrow> Some limit
       | None \<Rightarrow>
         if list_ex (\<lambda>n. n |\<notin>| current_members \<and> \<not> seeded plan n)
             (mp_desired_voters plan @ mp_retained_learners plan)
           then Some Lim_MemberSeedUnknownNode
         else None)"

section \<open>What an accepted plan satisfies\<close>

lemma check_plan_seeds_None:
  "check_plan_seeds E plan cur auth seeds = None \<longleftrightarrow>
    (\<forall>seed\<in>set seeds. check_plan_seed E plan cur auth seed = None)"
  by (induction seeds) (auto split: option.splits)

lemma check_plan_seed_None:
  assumes "check_plan_seed E plan cur auth seed = None"
  shows "plan_names plan (sd_node_id seed)" "length (sd_ticket seed) \<le> MAX_TICKET"
    "check_seed_ticket E (sd_ticket seed) (sd_node_id seed) = None"
    "sd_node_id seed |\<notin>| cur \<Longrightarrow>
      \<exists>p. sd_join_permit seed = Some p \<and> verify_join_permit E auth p (sd_node_id seed) = None"
    "sd_node_id seed |\<in>| cur \<Longrightarrow> sd_join_permit seed = None"
    "check_member_seed (length (sd_ticket seed)) (map_option length (sd_join_permit seed)) = None"
  using assms
  by (auto simp: check_plan_seed_def check_member_seed_def split: option.splits if_splits bool.splits)

lemma plan_shape_None:
  assumes "plan_shape E plan current auth profile = None"
  shows "sorted_unique (mp_desired_voters plan)" "sorted_unique (mp_retained_learners plan)"
    "sorted_unique (map sd_node_id (mp_member_seeds plan))"
    "1 \<le> length (mp_desired_voters plan)" "length (mp_desired_voters plan) \<le> MAX_VOTERS"
    "length (mp_retained_learners plan) \<le> MAX_RETAINED_LEARNERS"
    "set (mp_desired_voters plan) \<inter> set (mp_retained_learners plan) = {}"
    "\<not> plan_names plan (ga_public_key auth)"
    "new_voters (mp_desired_voters plan) (cm_members current) \<le> MAX_NEW_VOTERS"
    "\<forall>seed\<in>set (mp_member_seeds plan). check_plan_seed E plan (cm_members current) auth seed = None"
    "\<forall>n. plan_names plan n \<longrightarrow> n |\<in>| cm_members current \<or> seeded plan n"
    "\<not> profile_permits_voters profile (length (mp_desired_voters plan))"
proof -
  have "check_membership_plan (length (mp_desired_voters plan))
      (length (mp_retained_learners plan)) profile = None"
    using assms by (auto simp: plan_shape_def Let_def split: option.splits)
  then show "1 \<le> length (mp_desired_voters plan)" "length (mp_desired_voters plan) \<le> MAX_VOTERS"
    "\<not> profile_permits_voters profile (length (mp_desired_voters plan))"
    "length (mp_retained_learners plan) \<le> MAX_RETAINED_LEARNERS"
    using profile_voters_bound by (auto simp: check_membership_plan_def split: if_splits)
  show "sorted_unique (mp_desired_voters plan)" "sorted_unique (mp_retained_learners plan)"
    "sorted_unique (map sd_node_id (mp_member_seeds plan))"
    "set (mp_desired_voters plan) \<inter> set (mp_retained_learners plan) = {}"
    "\<not> plan_names plan (ga_public_key auth)"
    "new_voters (mp_desired_voters plan) (cm_members current) \<le> MAX_NEW_VOTERS"
    "\<forall>n. plan_names plan n \<longrightarrow> n |\<in>| cm_members current \<or> seeded plan n"
    using assms
    by (auto simp: plan_shape_def Let_def plan_names_def list_ex_iff split: option.splits if_splits)
  show "\<forall>seed\<in>set (mp_member_seeds plan). check_plan_seed E plan (cm_members current) auth seed = None"
    using assms
    by (auto simp: plan_shape_def Let_def check_plan_seeds_None split: option.splits if_splits)
qed

text \<open>A plan seeds at most the nodes it names, so it introduces at most seven routes.\<close>

lemma plan_seed_count:
  assumes "plan_shape E plan current auth profile = None"
  shows "length (mp_member_seeds plan) \<le> MAX_VOTERS + MAX_RETAINED_LEARNERS"
proof -
  let ?ids = "map sd_node_id (mp_member_seeds plan)"
  have "set ?ids \<subseteq> set (mp_desired_voters plan @ mp_retained_learners plan)"
  proof
    fix n
    assume "n \<in> set ?ids"
    then obtain seed where "seed \<in> set (mp_member_seeds plan)" "n = sd_node_id seed" by auto
    with plan_shape_None(10) [OF assms] have "plan_names plan n"
      by (auto intro: check_plan_seed_None(1))
    then show "n \<in> set (mp_desired_voters plan @ mp_retained_learners plan)"
      by (simp add: plan_names_def)
  qed
  then have "card (set ?ids) \<le> length (mp_desired_voters plan @ mp_retained_learners plan)"
    by (meson List.finite_set card_length card_mono le_trans)
  moreover have "card (set ?ids) = length (mp_member_seeds plan)"
    using sorted_unique_distinct [OF plan_shape_None(3) [OF assms]]
    by (metis distinct_card length_map)
  ultimately show ?thesis
    using plan_shape_None(5,6) [OF assms] by simp
qed

end
