(* ===== verification/Coord_Membership.thy ===== *)
theory Coord_Membership
  imports Coord_Plan
begin

text \<open>
  Membership intents (\<open>coordination/model/membership.rs\<close>): accepting a plan,
  advancing and cancelling it, evicting terminal history and retaining routes.
\<close>

section \<open>Phases\<close>

definition PHASE_PENDING :: i32 where [coord_simps]: "PHASE_PENDING = 1"
definition PHASE_ADDING_LEARNERS :: i32 where [coord_simps]: "PHASE_ADDING_LEARNERS = 2"
definition PHASE_CHANGING_VOTERS :: i32 where [coord_simps]: "PHASE_CHANGING_VOTERS = 3"
definition PHASE_COMPLETED :: i32 where [coord_simps]: "PHASE_COMPLETED = 4"
definition PHASE_FAILED :: i32 where [coord_simps]: "PHASE_FAILED = 5"
definition PHASE_CANCEL_REQUESTED :: i32 where [coord_simps]: "PHASE_CANCEL_REQUESTED = 6"
definition PHASE_CANCELLED :: i32 where [coord_simps]: "PHASE_CANCELLED = 7"

definition is_terminal_phase :: "i32 \<Rightarrow> bool" where
  "is_terminal_phase phase =
    (phase = PHASE_COMPLETED \<or> phase = PHASE_FAILED \<or> phase = PHASE_CANCELLED)"

definition is_legal_transition :: "i32 \<Rightarrow> i32 \<Rightarrow> bool" where
  "is_legal_transition from to =
    (if is_terminal_phase from then False
     else (from = PHASE_PENDING \<and> to = PHASE_ADDING_LEARNERS)
       \<or> (from = PHASE_ADDING_LEARNERS \<and> to = PHASE_CHANGING_VOTERS)
       \<or> (from = PHASE_CHANGING_VOTERS \<and> to = PHASE_COMPLETED)
       \<or> (from = PHASE_CANCEL_REQUESTED \<and> to = PHASE_CANCELLED)
       \<or> to = PHASE_FAILED)"

section \<open>Commands and effects\<close>

record change_membership_action =
  ma_operation_id :: operation_id
  ma_expected_membership_log_id :: "log_id option"
  ma_plan :: membership_plan

record cancel_membership_action =
  mc_operation_id :: operation_id
  mc_expected_phase_code :: i32

record membership_progress_command =
  pg_operation_id :: operation_id
  pg_expected_phase :: i32
  pg_new_phase :: i32
  pg_observed_membership_log_id :: "log_id option"
  pg_result_code :: i32

record intent_effect =
  ie_operation_id :: operation_id
  ie_intent :: intent
  ie_outcome :: outcome
  ie_evict :: "operation_id list"
  ie_routes :: "(node_id \<times> route) list"
  ie_evict_routes :: "node_id list"

datatype membership_decision =
    MApply intent_effect
  | MExisting i32
  | MRefuse reason
  | MShapeless shape_limit

primrec membership_outcome :: "membership_decision \<Rightarrow> outcome option" where
  "membership_outcome (MApply e) = Some (ie_outcome e)"
| "membership_outcome (MExisting _) = Some MembershipAccepted"
| "membership_outcome (MRefuse _) = None"
| "membership_outcome (MShapeless _) = None"

text \<open>\<open>LogId::new(0, [0u8; 32], 0)\<close>, the placeholder apply stamps over.\<close>

definition unstamped_log_id :: log_id where
  "unstamped_log_id = \<lparr> lg_term = 0, lg_leader = replicate 32 0, lg_index = 0 \<rparr>"

section \<open>Accepting a plan\<close>

definition growth_delta :: "externs \<Rightarrow> state \<Rightarrow> intent_effect \<Rightarrow> u64" where
  "growth_delta E s eff =
    (let op = ie_operation_id eff;
         added = intent_charge E op (ie_intent eff)
               + sum_list (map (\<lambda>(n, r). route_charge n r) (ie_routes eff));
         freed = row_charge (intent_charge E) (st_intents s) op
               + sum_list (map (\<lambda>id. row_charge (intent_charge E) (st_intents s) id) (ie_evict eff))
               + sum_list (map (\<lambda>(n, r). row_charge route_charge (st_routes s) n) (ie_routes eff))
               + sum_list (map (\<lambda>n. row_charge route_charge (st_routes s) n) (ie_evict_routes eff))
     in saturating_sub_u64 added freed)"

definition route_evictions :: "state \<Rightarrow> (node_id \<times> route) list \<Rightarrow> node_id list" where
  "route_evictions s incoming =
    (let new_nodes = length (filter (\<lambda>(n, r). \<not> bm_contains (st_routes s) n) incoming) in
     if new_nodes = 0 then []
     else
       let candidates = sort (map (\<lambda>(n, r).
               ((lg_term (ro_introduced_log_id r), lg_index (ro_introduced_log_id r)), n))
             (filter (\<lambda>(n, r). \<not> cm_contains (st_membership s) n \<and>
                 \<not> list_ex (\<lambda>(m, r'). m = n) incoming) (st_routes s)));
           retained = length (st_routes s);
           over = saturating_sub_u64 (retained + new_nodes) MAX_RETAINED_ROUTES
       in map snd (take over candidates))"

definition routes_from :: "change_membership_action \<Rightarrow> (node_id \<times> route) list" where
  "routes_from action =
    map (\<lambda>seed. (sd_node_id seed,
          \<lparr> ro_ticket = sd_ticket seed, ro_source_operation_id = ma_operation_id action,
            ro_introduced_log_id = unstamped_log_id \<rparr>))
      (filter (\<lambda>seed. sd_ticket seed \<noteq> []) (mp_member_seeds (ma_plan action)))"

definition change_effect :: "state \<Rightarrow> node_id \<Rightarrow> hash32 \<Rightarrow> change_membership_action \<Rightarrow> intent_effect" where
  "change_effect s actor request_hash action =
    (let intent =
           \<lparr> in_actor = actor, in_request_hash = request_hash,
             in_expected_membership = ma_expected_membership_log_id action,
             in_plan = ma_plan action, in_status_code = PHASE_PENDING, in_result_code = 0,
             in_accepted_log_id = unstamped_log_id, in_completed_log_id = None,
             in_observed_membership_log_id = None \<rparr>;
         routes = routes_from action
     in \<lparr> ie_operation_id = ma_operation_id action, ie_intent = intent,
          ie_outcome = MembershipAccepted, ie_evict = [], ie_routes = routes,
          ie_evict_routes = route_evictions s routes \<rparr>)"

definition decide_change ::
  "externs \<Rightarrow> state \<Rightarrow> node_id \<Rightarrow> hash32 \<Rightarrow> change_membership_action \<Rightarrow> membership_decision" where
  "decide_change E s actor request_hash action =
    (if \<not> is_administrator s actor then MRefuse PermissionChanged
     else case bm_get (st_intents s) (ma_operation_id action) of
       Some existing \<Rightarrow>
         if in_request_hash existing = request_hash then MExisting (in_status_code existing)
         else MRefuse OperationIdConflict
     | None \<Rightarrow>
       if ma_expected_membership_log_id action \<noteq> st_membership_log_id s
         then MRefuse MembershipRevisionMismatch
       else case plan_shape E (ma_plan action) (st_membership s) (st_authority s)
           (st_deployment_profile_code s) of
         Some limit \<Rightarrow> MShapeless limit
       | None \<Rightarrow>
         if list_ex (\<lambda>(op, i). \<not> is_terminal_phase (in_status_code i)) (st_intents s)
           then MRefuse MembershipIntentActive
         else if projected_learners (cm_learners (st_membership s)) (cm_members (st_membership s))
             (mp_desired_voters (ma_plan action)) (mp_retained_learners (ma_plan action))
             > MAX_LEARNER_ENVELOPE
           then MRefuse MembershipLearnerEnvelope
         else
           let effect = change_effect s actor request_hash action in
           if \<not> growth_fits s (growth_delta E s effect) then MRefuse StateBudgetExhausted
           else MApply effect)"

section \<open>Cancelling and advancing\<close>

definition completed_key :: "intent \<Rightarrow> u64 \<times> u64" where
  "completed_key i =
    (case in_completed_log_id i of None \<Rightarrow> (u64_max, u64_max) | Some l \<Rightarrow> (lg_term l, lg_index l))"

definition evictions :: "state \<Rightarrow> u64 \<Rightarrow> operation_id list" where
  "evictions s incoming_terminal =
    (let terminal = sort (map (\<lambda>(id, i). (completed_key i, id))
           (filter (\<lambda>(id, i). is_terminal_phase (in_status_code i)) (st_intents s)));
         over = saturating_sub_u64 (length terminal + incoming_terminal) MAX_RETAINED_INTENTS
     in map snd (take over terminal))"

definition decide_cancel :: "state \<Rightarrow> node_id \<Rightarrow> cancel_membership_action \<Rightarrow> membership_decision" where
  "decide_cancel s actor action =
    (if \<not> is_administrator s actor then MRefuse PermissionChanged
     else case bm_get (st_intents s) (mc_operation_id action) of
       None \<Rightarrow> MRefuse MembershipCannotCancel
     | Some existing \<Rightarrow>
       if in_status_code existing \<noteq> mc_expected_phase_code action
         then MRefuse MembershipRevisionMismatch
       else if in_status_code existing = PHASE_PENDING then
         MApply \<lparr> ie_operation_id = mc_operation_id action,
           ie_intent = existing\<lparr> in_status_code := PHASE_CANCELLED,
             in_result_code := SYS_MEMBERSHIP_ADVANCED \<rparr>,
           ie_outcome = MembershipCancelled, ie_evict = evictions s 1,
           ie_routes = [], ie_evict_routes = [] \<rparr>
       else if in_status_code existing = PHASE_ADDING_LEARNERS then
         MApply \<lparr> ie_operation_id = mc_operation_id action,
           ie_intent = existing\<lparr> in_status_code := PHASE_CANCEL_REQUESTED \<rparr>,
           ie_outcome = MembershipCancelled, ie_evict = [],
           ie_routes = [], ie_evict_routes = [] \<rparr>
       else MRefuse MembershipCannotCancel)"

definition completion_is_observable ::
  "state \<Rightarrow> intent \<Rightarrow> membership_progress_command \<Rightarrow> bool" where
  "completion_is_observable s i cmd =
    (if pg_observed_membership_log_id cmd \<noteq> st_membership_log_id s then False
     else if cm_joint (st_membership s) then False
     else cm_voters (st_membership s) = fset_of_list (mp_desired_voters (in_plan i))
       \<and> cm_learners (st_membership s) = fset_of_list (mp_retained_learners (in_plan i)))"

definition decide_progress :: "state \<Rightarrow> membership_progress_command \<Rightarrow> intent_effect option" where
  "decide_progress s cmd =
    (case bm_get (st_intents s) (pg_operation_id cmd) of
       None \<Rightarrow> None
     | Some existing \<Rightarrow>
       if in_status_code existing \<noteq> pg_expected_phase cmd then None
       else if \<not> is_legal_transition (in_status_code existing) (pg_new_phase cmd) then None
       else if pg_new_phase cmd = PHASE_COMPLETED \<and> \<not> completion_is_observable s existing cmd
         then None
       else
         let i = existing\<lparr> in_status_code := pg_new_phase cmd,
               in_observed_membership_log_id := pg_observed_membership_log_id cmd \<rparr>;
             becoming_terminal = is_terminal_phase (pg_new_phase cmd);
             i = (if becoming_terminal then i\<lparr> in_result_code := pg_result_code cmd \<rparr> else i)
         in Some \<lparr> ie_operation_id = pg_operation_id cmd, ie_intent = i,
              ie_outcome = MembershipAccepted,
              ie_evict = (if becoming_terminal then evictions s 1 else []),
              ie_routes = [], ie_evict_routes = [] \<rparr>)"

definition progress_result_code :: "bool \<Rightarrow> i32" where
  "progress_result_code applied =
    (if applied then SYS_MEMBERSHIP_ADVANCED else SYS_MEMBERSHIP_PHASE_MISMATCH)"

end
