(* ===== verification/Coord_Apply.thy ===== *)
theory Coord_Apply
  imports Coord_Classify Coord_Grant Coord_Admin Coord_Membership
begin

text \<open>
  The apply step (\<open>coordination/model/apply.rs\<close>): answering a request before it is
  proposed, applying a committed command of every shape, the delivery guard, the
  session, audit and intent writers, and audit pruning.  Functions that mutate the
  state take and return a \<open>world\<close>; \<open>apply_command_recording\<close> returns the fault or
  the reply together with the world it leaves behind.
\<close>

section \<open>Actions\<close>

record client_ref =
  cl_actor :: node_id
  cl_client_id :: client_id
  cl_sequence :: u64
  cl_request_hash :: hash32

datatype action =
    ActResource resource_action
  | ActGrant grant_action
  | ActAdmin admin_action
  | ActChangeMembership change_membership_action
  | ActCancelMembership cancel_membership_action

datatype action_decision =
    DResource resource_decision
  | DGrant grant_decision
  | DAdmin admin_decision
  | DMembership membership_decision

primrec resource_operation_code :: "resource_action \<Rightarrow> i32" where
  "resource_operation_code (Acquire _ _) = 1"
| "resource_operation_code (Renew _) = 2"
| "resource_operation_code (CompareAndSet _ _ _) = 3"
| "resource_operation_code (Release _) = 4"
| "resource_operation_code (ReleaseWithValue _ _ _) = 5"
| "resource_operation_code (Revoke _ _) = 6"

primrec operation_code :: "action \<Rightarrow> i32" where
  "operation_code (ActResource r) = resource_operation_code r"
| "operation_code (ActGrant _) = 7"
| "operation_code (ActAdmin _) = 8"
| "operation_code (ActChangeMembership _) = 9"
| "operation_code (ActCancelMembership _) = 11"

primrec action_operation_id :: "action \<Rightarrow> operation_id option" where
  "action_operation_id (ActChangeMembership m) = Some (ma_operation_id m)"
| "action_operation_id (ActCancelMembership m) = Some (mc_operation_id m)"
| "action_operation_id (ActResource _) = None"
| "action_operation_id (ActGrant _) = None"
| "action_operation_id (ActAdmin _) = None"

primrec validated_resource :: "action \<Rightarrow> resource_key option" where
  "validated_resource (ActResource r) = sum_ok (raw_validate (raw_resource r))"
| "validated_resource (ActGrant g) = sum_ok (raw_validate (gt_resource g))"
| "validated_resource (ActAdmin _) = None"
| "validated_resource (ActChangeMembership _) = None"
| "validated_resource (ActCancelMembership _) = None"

definition action_decide :: "externs \<Rightarrow> action \<Rightarrow> state \<Rightarrow> node_id \<Rightarrow> hash32 \<Rightarrow> action_decision" where
  "action_decide E a s actor request_hash =
    (case a of
       ActResource r \<Rightarrow> DResource (resource_decide s actor r)
     | ActGrant g \<Rightarrow> DGrant (grant_decide s actor g)
     | ActAdmin m \<Rightarrow> DAdmin (admin_decide s actor m)
     | ActChangeMembership m \<Rightarrow> DMembership (decide_change E s actor request_hash m)
     | ActCancelMembership m \<Rightarrow> DMembership (decide_cancel s actor m))"

section \<open>Results\<close>

record client_result =
  cr_disposition :: disposition
  cr_reply :: saved_reply
  cr_replayed :: bool

definition cr_is_terminal :: "client_result \<Rightarrow> bool" where
  "cr_is_terminal r = is_terminal (cr_disposition r) (sr_reason (cr_reply r))"

definition is_forced_shape_rejection :: "client_result \<Rightarrow> bool" where
  "is_forced_shape_rejection r =
    (sr_outcome (cr_reply r) = Rejected \<and> sr_reason (cr_reply r) = Reason_None)"

datatype status_denial = NotAuthorized | ShapeDenial shape_limit

datatype admission =
    Resolved client_result
  | Deny reason
  | Status status_denial
  | Admit

datatype genesis_refusal =
    DoesNotVerify genesis_error
  | NamesAnotherGroup
  | NotTheBoundDocument
  | OtherDeploymentProfile
  | MembershipIsJoint
  | MembershipHasLearners
  | VotersDiffer

datatype fault =
    LogIdNotAdvancing log_id log_id
  | UnknownCommand
  | AuditAheadOfLastApplied log_id "log_id option"
  | GenesisRefused genesis_refusal

definition rejection :: "state \<Rightarrow> resource_key option \<Rightarrow> reason \<Rightarrow> saved_reply" where
  "rejection s resource reason =
    (let snapshot = map_option (\<lambda>key.
           case bm_get (st_resources s) key of
             None \<Rightarrow> saved_snapshot_of key default_resource_row
           | Some row \<Rightarrow> saved_snapshot_of key row) resource
     in \<lparr> sr_outcome = Rejected, sr_reason = reason, sr_snapshot = snapshot,
          sr_acl_revision = (case snapshot of None \<Rightarrow> 0 | Some ss \<Rightarrow> ss_acl_revision ss),
          sr_admin_revision = st_admin_revision s, sr_operation_id = None,
          sr_membership_log_id = None \<rparr>)"

section \<open>Preflight\<close>

definition project_refusal :: "reason option \<Rightarrow> shape_limit option \<Rightarrow> admission" where
  "project_refusal refusal shapeless =
    (case (refusal, shapeless) of
       (_, Some limit) \<Rightarrow> Status (ShapeDenial limit)
     | (Some reason, None) \<Rightarrow>
         if reason = PermissionChanged then Status NotAuthorized
         else if is_admission_denial reason then Deny reason
         else Admit
     | (None, None) \<Rightarrow> Admit)"

fun project :: "action_decision \<Rightarrow> admission" where
  "project (DResource (RApply _)) = Admit"
| "project (DGrant (GApply _)) = Admit"
| "project (DAdmin (AApply _)) = Admit"
| "project (DGrant (GNoOp _)) = Admit"
| "project (DAdmin (ANoOp _)) = Admit"
| "project (DMembership (MApply _)) = Admit"
| "project (DMembership (MExisting _)) = Admit"
| "project (DResource (RRefuse r)) = project_refusal (Some r) None"
| "project (DGrant (GRefuse r)) = project_refusal (Some r) None"
| "project (DAdmin (ARefuse r)) = project_refusal (Some r) None"
| "project (DMembership (MRefuse r)) = project_refusal (Some r) None"
| "project (DResource (RShapeless l)) = project_refusal None (Some l)"
| "project (DGrant (GShapeless l)) = project_refusal None (Some l)"
| "project (DMembership (MShapeless l)) = project_refusal None (Some l)"

definition classify_client :: "state \<Rightarrow> client_ref \<Rightarrow> classification" where
  "classify_client s client =
    classify (bm_get (st_sessions s) (cl_actor client, cl_client_id client))
      (cl_sequence client) (cl_request_hash client) (capacity_for s (cl_actor client))"

definition replayed_result :: "saved_reply \<Rightarrow> client_result" where
  "replayed_result saved =
    \<lparr> cr_disposition = Consumed, cr_reply = saved, cr_replayed = True \<rparr>"

definition refused_result :: "saved_reply \<Rightarrow> client_result" where
  "refused_result reply =
    \<lparr> cr_disposition = NotConsumed, cr_reply = reply, cr_replayed = False \<rparr>"

definition consumed_result :: "saved_reply \<Rightarrow> client_result" where
  "consumed_result reply =
    \<lparr> cr_disposition = Consumed, cr_reply = reply, cr_replayed = False \<rparr>"

definition preflight :: "externs \<Rightarrow> state \<Rightarrow> client_ref \<Rightarrow> action \<Rightarrow> admission" where
  "preflight E s client a =
    (case classify_client s client of
       Replay _ saved \<Rightarrow> Resolved (replayed_result saved)
     | ClRefuse _ reason \<Rightarrow> Resolved (refused_result (rejection s (validated_resource a) reason))
     | Unresolved _ _ \<Rightarrow> project (action_decide E a s (cl_actor client) (cl_request_hash client)))"

definition preflight_shapeless :: "state \<Rightarrow> client_ref \<Rightarrow> admission option" where
  "preflight_shapeless s client =
    (case classify_client s client of
       Replay _ saved \<Rightarrow> Some (Resolved (replayed_result saved))
     | ClRefuse _ reason \<Rightarrow> Some (Resolved (refused_result (rejection s None reason)))
     | Unresolved _ _ \<Rightarrow> None)"

section \<open>Commands\<close>

datatype reply_shape = ShapeClient | ShapeRetirement | ShapeSystem

record shapeless_command =
  sc_operation_code :: i32
  sc_reply_shape :: reply_shape
  sc_system_result_code :: i32
  sc_actor :: "node_id option"
  sc_resource :: "resource_key option"

datatype command =
    CUnknown
  | CClient client_ref action
  | CRejectedClient client_ref i32 "resource_key option"
  | CShapeless shapeless_command
  | CExpire expire_command
  | CMembershipProgress membership_progress_command
  | CRetireClient retire_command
  | CGenesis bytes

record system_result =
  sy_system_result_code :: i32
  sy_lease_revision :: u64

record retirement_result =
  rt_outcome :: outcome
  rt_reason :: reason

definition rt_is_terminal :: "retirement_result \<Rightarrow> bool" where
  "rt_is_terminal r =
    (rt_outcome r = Outcome_ClientRetired \<or> is_terminal_when_not_consumed (rt_reason r))"

datatype command_reply =
    ReplyClient client_result
  | ReplySystem system_result
  | ReplyRetirement retirement_result

definition OPERATION_RETIRE_CLIENT :: i32 where
  [coord_simps]: "OPERATION_RETIRE_CLIENT = 10"

definition is_system_operation :: "i32 \<Rightarrow> bool" where
  "is_system_operation code =
    (code = OPERATION_EXPIRE \<or> code = OPERATION_MEMBERSHIP_PROGRESS \<or> code = OPERATION_GENESIS)"

section \<open>Audit\<close>

definition log_key :: "log_id \<Rightarrow> audit_key" where
  "log_key l = (lg_term l, lg_index l)"

definition set_growth :: "u64 \<Rightarrow> world \<Rightarrow> world" where
  "set_growth n w = upd_state (\<lambda>s. s\<lparr> st_growth_bytes := n \<rparr>) w"

definition set_reserve :: "u64 \<Rightarrow> world \<Rightarrow> world" where
  "set_reserve n w = upd_state (\<lambda>s. s\<lparr> st_reserve_bytes := n \<rparr>) w"

text \<open>One iteration of the pruning loop: drop the oldest row, release its charge,
  move the floor to the oldest row still retained.\<close>

definition prune_step :: "audit_key \<Rightarrow> audit_row \<Rightarrow> world \<Rightarrow> world" where
  "prune_step key row w =
    (let w = snd (remove_audit key w);
         w = set_reserve (sub_u64 (st_reserve_bytes (fst w)) (audit_row_charge key row)) w
     in upd_state (\<lambda>s. s\<lparr> st_audit_floor :=
          (case st_audit s of
             [] \<Rightarrow> Some \<lparr> lg_term = fst key, lg_leader = au_leader_node_id row, lg_index = snd key \<rparr>
           | (k, oldest) # _ \<Rightarrow>
               Some \<lparr> lg_term = fst k, lg_leader = au_leader_node_id oldest, lg_index = snd k \<rparr>) \<rparr>) w)"

lemma prune_step_shorter:
  assumes "st_audit (fst w) = (key, row) # rest"
  shows "length (st_audit (fst (prune_step key row w))) < length (st_audit (fst w))"
proof -
  have "length (filter (\<lambda>r. fst r \<noteq> key) rest) < Suc (length rest)"
    by (simp add: le_imp_less_Suc)
  with assms show ?thesis
    by (simp add: prune_step_def Let_def set_reserve_def upd_state_def remove_audit_def bm_remove_def)
qed

function prune_audit :: "world \<Rightarrow> world" where
  "prune_audit w =
    (if length (st_audit (fst w)) > MAX_AUDIT_ROWS
     then (case st_audit (fst w) of
             [] \<Rightarrow> w
           | (key, row) # _ \<Rightarrow> prune_audit (prune_step key row w))
     else w)"
  by pat_completeness auto
termination
proof (relation "measure (\<lambda>w. length (st_audit (fst w)))")
  fix w :: world and x xs key row
  assume "st_audit (fst w) = x # xs" and "(key, row) = x"
  then show "(prune_step key row w, w) \<in> measure (\<lambda>w. length (st_audit (fst w)))"
    using prune_step_shorter [of w key row xs] by (simp only: in_measure)
qed simp

declare prune_audit.simps [simp del]

definition write_audit_row :: "log_id \<Rightarrow> audit_row \<Rightarrow> world \<Rightarrow> world" where
  "write_audit_row l row w =
    (let w = set_reserve (add_u64 (st_reserve_bytes (fst w))
               (charge_audit (map_option key_parts (au_resource row)))) w;
         w = put_audit (log_key l) row w;
         w = upd_state (\<lambda>s. s\<lparr> st_audit_tip := Some l \<rparr>) w
     in prune_audit w)"

definition write_audit :: "log_id \<Rightarrow> client_ref \<Rightarrow> saved_reply \<Rightarrow> action \<Rightarrow> world \<Rightarrow> world" where
  "write_audit l client reply a w =
    write_audit_row l
      \<lparr> au_leader_node_id = lg_leader l, au_actor = Some (cl_actor client),
        au_operation_code = operation_code a, au_resource = sr_resource reply,
        au_result = AuditClient (sr_outcome reply),
        au_epoch = (case sr_snapshot reply of None \<Rightarrow> 0 | Some ss \<Rightarrow> ss_epoch ss),
        au_value_revision = (case sr_snapshot reply of None \<Rightarrow> 0 | Some ss \<Rightarrow> ss_value_revision ss) \<rparr> w"

section \<open>Sessions\<close>

definition session_charge :: "session \<Rightarrow> u64" where
  "session_charge se = charge_session (map_option key_parts (Option.bind (se_last_result se) sr_resource))"

definition old_session_charge :: "state \<Rightarrow> session_key \<Rightarrow> u64" where
  "old_session_charge s key =
    (case bm_get (st_sessions s) key of None \<Rightarrow> 0 | Some se \<Rightarrow> session_charge se)"

definition write_session :: "client_ref \<Rightarrow> saved_reply option \<Rightarrow> world \<Rightarrow> world" where
  "write_session client result w =
    (let key = (cl_actor client, cl_client_id client);
         previous = old_session_charge (fst w) key;
         row = \<lparr> se_last_sequence = cl_sequence client, se_request_hash = cl_request_hash client,
                 se_last_result = result,
                 se_retired = (case bm_get (st_sessions (fst w)) key of
                                 None \<Rightarrow> False | Some se \<Rightarrow> se_retired se) \<rparr>;
         w = set_reserve (sub_u64 (add_u64 (st_reserve_bytes (fst w)) (session_charge row)) previous) w
     in put_session key row w)"

section \<open>Intents and routes\<close>

fun evict_intents :: "externs \<Rightarrow> operation_id list \<Rightarrow> world \<Rightarrow> world" where
  "evict_intents E [] w = w"
| "evict_intents E (op # ops) w =
    (case remove_intent op w of (old, w) \<Rightarrow>
       evict_intents E ops
         (case old of
            None \<Rightarrow> w
          | Some i \<Rightarrow> set_growth (sub_u64 (st_growth_bytes (fst w)) (intent_charge E op i)) w))"

fun evict_routes :: "node_id list \<Rightarrow> world \<Rightarrow> world" where
  "evict_routes [] w = w"
| "evict_routes (n # ns) w =
    (case remove_route n w of (old, w) \<Rightarrow>
       evict_routes ns
         (case old of
            None \<Rightarrow> w
          | Some r \<Rightarrow> set_growth (sub_u64 (st_growth_bytes (fst w)) (route_charge n r)) w))"

definition stamp_route :: "log_id \<Rightarrow> route \<Rightarrow> route" where
  "stamp_route l r =
    (if lg_index (ro_introduced_log_id r) = 0 then r\<lparr> ro_introduced_log_id := l \<rparr> else r)"

fun write_routes :: "log_id \<Rightarrow> (node_id \<times> route) list \<Rightarrow> world \<Rightarrow> world" where
  "write_routes l [] w = w"
| "write_routes l ((n, r) # rs) w =
    (let r = stamp_route l r;
         previous = row_charge route_charge (st_routes (fst w)) n;
         w = set_growth (sub_u64 (add_u64 (st_growth_bytes (fst w)) (route_charge n r)) previous) w
     in write_routes l rs (put_route n r w))"

definition stamp_intent :: "log_id \<Rightarrow> intent \<Rightarrow> intent" where
  "stamp_intent l i =
    (let i = (if lg_index (in_accepted_log_id i) = 0 then i\<lparr> in_accepted_log_id := l \<rparr> else i)
     in if is_terminal_phase (in_status_code i) \<and> in_completed_log_id i = None
        then i\<lparr> in_completed_log_id := Some l \<rparr> else i)"

definition write_intent :: "externs \<Rightarrow> log_id \<Rightarrow> intent_effect \<Rightarrow> world \<Rightarrow> world" where
  "write_intent E l eff w =
    (let w = evict_intents E (ie_evict eff) w;
         i = stamp_intent l (ie_intent eff);
         op = ie_operation_id eff;
         previous = row_charge (intent_charge E) (st_intents (fst w)) op;
         w = set_growth (sub_u64 (add_u64 (st_growth_bytes (fst w)) (intent_charge E op i)) previous) w;
         w = put_intent op i w;
         w = evict_routes (ie_evict_routes eff) w
     in write_routes l (ie_routes eff) w)"

section \<open>Replies\<close>

definition admin_reply :: "u64 \<Rightarrow> saved_reply" where
  "admin_reply admin_revision =
    \<lparr> sr_outcome = AdminUpdated, sr_reason = Reason_None, sr_snapshot = None, sr_acl_revision = 0,
      sr_admin_revision = admin_revision, sr_operation_id = None, sr_membership_log_id = None \<rparr>"

definition no_op_grant_reply :: "state \<Rightarrow> resource_key option \<Rightarrow> u64 \<Rightarrow> saved_reply" where
  "no_op_grant_reply s resource acl_revision =
    \<lparr> sr_outcome = GrantUpdated, sr_reason = Reason_None,
      sr_snapshot = Option.bind resource (\<lambda>key.
        map_option (saved_snapshot_of key) (bm_get (st_resources s) key)),
      sr_acl_revision = acl_revision, sr_admin_revision = 0, sr_operation_id = None,
      sr_membership_log_id = None \<rparr>"

definition membership_reply :: "outcome \<Rightarrow> operation_id \<Rightarrow> log_id option \<Rightarrow> client_result" where
  "membership_reply o' op membership_log_id =
    consumed_result
      \<lparr> sr_outcome = o', sr_reason = Reason_None, sr_snapshot = None, sr_acl_revision = 0,
        sr_admin_revision = 0, sr_operation_id = Some op, sr_membership_log_id = membership_log_id \<rparr>"

definition charge_resource_row :: "resource_key \<Rightarrow> nat \<Rightarrow> world \<Rightarrow> world" where
  "charge_resource_row key new_value_len w =
    (let (ns, k) = key_parts key;
         old = (case bm_get (st_resources (fst w)) key of
                  None \<Rightarrow> 0 | Some row \<Rightarrow> charge_resource ns k (length (rr_value row)));
         new = charge_resource ns k new_value_len
     in set_growth (sub_u64 (add_u64 (st_growth_bytes (fst w)) new) old) w)"

definition consumed_success :: "outcome \<Rightarrow> resource_key \<Rightarrow> resource_row \<Rightarrow> client_result" where
  "consumed_success o' key row =
    consumed_result
      \<lparr> sr_outcome = o', sr_reason = Reason_None, sr_snapshot = Some (saved_snapshot_of key row),
        sr_acl_revision = rr_acl_revision row, sr_admin_revision = 0, sr_operation_id = None,
        sr_membership_log_id = None \<rparr>"

section \<open>Applying a decision\<close>

definition apply_resource_effect :: "resource_effect \<Rightarrow> world \<Rightarrow> client_result \<times> world" where
  "apply_resource_effect eff w =
    (let w = charge_resource_row (re_key eff) (length (rr_value (re_row eff))) w;
         w = put_resource (re_key eff) (re_row eff) w
     in (consumed_success (re_outcome eff) (re_key eff) (re_row eff), w))"

definition apply_grant_effect :: "grant_effect \<Rightarrow> world \<Rightarrow> client_result \<times> world" where
  "apply_grant_effect eff w =
    (let w = charge_resource_row (ge_key eff) (length (rr_value (ge_row eff))) w;
         w = put_resource (ge_key eff) (ge_row eff) w;
         acl_key = (ge_key eff, ge_subject eff);
         (ns, k) = key_parts (ge_key eff);
         w = (case ge_rights eff of
                Some rights \<Rightarrow>
                  let w = (if ge_creates_acl_row eff
                           then set_growth (add_u64 (st_growth_bytes (fst w)) (charge_acl ns k)) w
                           else w)
                  in snd (put_grant acl_key rights w)
              | None \<Rightarrow>
                  (case remove_grant acl_key w of (removed, w) \<Rightarrow>
                     if removed
                     then set_growth (sub_u64 (st_growth_bytes (fst w)) (charge_acl ns k)) w
                     else w))
     in (consumed_success GrantUpdated (ge_key eff) (ge_row eff), w))"

definition apply_admin_effect :: "admin_effect \<Rightarrow> world \<Rightarrow> client_result \<times> world" where
  "apply_admin_effect eff w =
    (let w = (if ae_enabled eff
              then (case put_admin (ae_target eff) w of (added, w) \<Rightarrow>
                      if added then set_growth (add_u64 (st_growth_bytes (fst w)) charge_admin) w
                      else w)
              else (case remove_admin (ae_target eff) w of (removed, w) \<Rightarrow>
                      if removed then set_growth (sub_u64 (st_growth_bytes (fst w)) charge_admin) w
                      else w));
         w = upd_state (\<lambda>s. s\<lparr> st_admin_revision := ae_admin_revision eff \<rparr>) w
     in (consumed_result (admin_reply (ae_admin_revision eff)), w))"

definition apply_decided ::
  "externs \<Rightarrow> log_id \<Rightarrow> client_ref \<Rightarrow> action \<Rightarrow> world \<Rightarrow> client_result \<times> world" where
  "apply_decided E l client a w =
    (case action_decide E a (fst w) (cl_actor client) (cl_request_hash client) of
       DResource (RApply eff) \<Rightarrow> apply_resource_effect eff w
     | DGrant (GApply eff) \<Rightarrow> apply_grant_effect eff w
     | DAdmin (AApply eff) \<Rightarrow> apply_admin_effect eff w
     | DAdmin (ANoOp admin_revision) \<Rightarrow> (consumed_result (admin_reply admin_revision), w)
     | DMembership (MApply eff) \<Rightarrow>
         let w = write_intent E l eff w in
         (membership_reply (ie_outcome eff) (ie_operation_id eff) (st_membership_log_id (fst w)), w)
     | DMembership (MExisting _) \<Rightarrow>
         (membership_reply MembershipAccepted (the (action_operation_id a))
            (st_membership_log_id (fst w)), w)
     | DGrant (GNoOp acl_revision) \<Rightarrow>
         (consumed_result (no_op_grant_reply (fst w) (validated_resource a) acl_revision), w)
     | DResource (RRefuse reason) \<Rightarrow>
         (consumed_result (rejection (fst w) (validated_resource a) reason), w)
     | DGrant (GRefuse reason) \<Rightarrow>
         (consumed_result (rejection (fst w) (validated_resource a) reason), w)
     | DAdmin (ARefuse reason) \<Rightarrow>
         (consumed_result (rejection (fst w) (validated_resource a) reason), w)
     | DMembership (MRefuse reason) \<Rightarrow>
         (consumed_result (rejection (fst w) (validated_resource a) reason), w)
     | DResource (RShapeless _) \<Rightarrow>
         (consumed_result (rejection (fst w) (validated_resource a) Reason_None), w)
     | DGrant (GShapeless _) \<Rightarrow>
         (consumed_result (rejection (fst w) (validated_resource a) Reason_None), w)
     | DMembership (MShapeless _) \<Rightarrow>
         (consumed_result (rejection (fst w) (validated_resource a) Reason_None), w))"

section \<open>Applying a command\<close>

definition apply_client ::
  "externs \<Rightarrow> log_id \<Rightarrow> client_ref \<Rightarrow> action \<Rightarrow> world \<Rightarrow> client_result \<times> world" where
  "apply_client E l client a w =
    (case (case classify_client (fst w) client of
             Replay _ saved \<Rightarrow> ((replayed_result saved, w), False)
           | ClRefuse _ reason \<Rightarrow>
               ((refused_result (rejection (fst w) (validated_resource a) reason), w), False)
           | Unresolved _ _ \<Rightarrow> (apply_decided E l client a w, True)) of
       ((result, w), writes_session) \<Rightarrow>
         let w = (if writes_session then write_session client (Some (cr_reply result)) w else w)
         in (result, write_audit l client (cr_reply result) a w))"

definition apply_rejected_client ::
  "log_id \<Rightarrow> client_ref \<Rightarrow> i32 \<Rightarrow> resource_key option \<Rightarrow> world \<Rightarrow> client_result \<times> world" where
  "apply_rejected_client l client code resource w =
    (case (case classify_client (fst w) client of
             Replay _ saved \<Rightarrow> (replayed_result saved, False)
           | ClRefuse _ reason \<Rightarrow> (refused_result (rejection (fst w) resource reason), False)
           | Unresolved _ _ \<Rightarrow> (consumed_result (rejection (fst w) resource Reason_None), True)) of
       (result, writes_session) \<Rightarrow>
         let w = (if writes_session then write_session client (Some (cr_reply result)) w else w)
         in (result, write_audit_row l
               \<lparr> au_leader_node_id = lg_leader l, au_actor = Some (cl_actor client),
                 au_operation_code = code, au_resource = sr_resource (cr_reply result),
                 au_result = AuditClient (sr_outcome (cr_reply result)),
                 au_epoch = 0, au_value_revision = 0 \<rparr> w))"

definition apply_shapeless :: "log_id \<Rightarrow> shapeless_command \<Rightarrow> world \<Rightarrow> command_reply \<times> world" where
  "apply_shapeless l cmd w =
    ((case sc_reply_shape cmd of
        ShapeClient \<Rightarrow> ReplyClient (refused_result (rejection (fst w) (sc_resource cmd) Reason_None))
      | ShapeRetirement \<Rightarrow> ReplyRetirement \<lparr> rt_outcome = Rejected, rt_reason = Reason_None \<rparr>
      | ShapeSystem \<Rightarrow>
          ReplySystem \<lparr> sy_system_result_code = sc_system_result_code cmd, sy_lease_revision = 0 \<rparr>),
     write_audit_row l
       \<lparr> au_leader_node_id = lg_leader l,
         au_actor = (case sc_reply_shape cmd of ShapeSystem \<Rightarrow> Some (lg_leader l) | _ \<Rightarrow> sc_actor cmd),
         au_operation_code = sc_operation_code cmd, au_resource = sc_resource cmd,
         au_result = (case sc_reply_shape cmd of
             ShapeSystem \<Rightarrow> AuditSystem (sc_system_result_code cmd) | _ \<Rightarrow> AuditClient Rejected),
         au_epoch = 0, au_value_revision = 0 \<rparr> w)"

definition apply_retire :: "log_id \<Rightarrow> retire_command \<Rightarrow> world \<Rightarrow> retirement_result \<times> world" where
  "apply_retire l cmd w =
    (case (case retire_decide (fst w) cmd of
             TApply eff \<Rightarrow>
               (\<lparr> rt_outcome = Outcome_ClientRetired, rt_reason = Reason_None \<rparr>,
                (case effect_row (fst w) cmd eff of
                   None \<Rightarrow> w
                 | Some row \<Rightarrow>
                     let key = (rc_target_actor cmd, rc_target_client_id cmd);
                         previous = old_session_charge (fst w) key;
                         w = set_reserve (sub_u64 (add_u64 (st_reserve_bytes (fst w))
                               (session_charge row)) previous) w
                     in put_session key row w))
           | TRefuse reason \<Rightarrow> (\<lparr> rt_outcome = Rejected, rt_reason = reason \<rparr>, w)) of
       (result, w) \<Rightarrow>
         (result, write_audit_row l
            \<lparr> au_leader_node_id = lg_leader l, au_actor = Some (rc_actor cmd),
              au_operation_code = OPERATION_RETIRE_CLIENT, au_resource = None,
              au_result = AuditClient (rt_outcome result), au_epoch = 0, au_value_revision = 0 \<rparr> w))"

definition apply_expire :: "log_id \<Rightarrow> expire_command \<Rightarrow> world \<Rightarrow> system_result \<times> world" where
  "apply_expire l cmd w =
    (let decision = expire_decide (fst w) cmd;
         w = (case decision of EApply row \<Rightarrow> put_resource (ex_resource cmd) row w | EStale \<Rightarrow> w);
         row = bm_get (st_resources (fst w)) (ex_resource cmd);
         lease_revision = (case row of None \<Rightarrow> 0 | Some r \<Rightarrow> rr_lease_revision r);
         epoch = (case row of None \<Rightarrow> 0 | Some r \<Rightarrow> rr_epoch r)
     in (\<lparr> sy_system_result_code = expire_result_code decision, sy_lease_revision = lease_revision \<rparr>,
         write_audit_row l
           \<lparr> au_leader_node_id = lg_leader l, au_actor = Some (lg_leader l),
             au_operation_code = OPERATION_EXPIRE, au_resource = Some (ex_resource cmd),
             au_result = AuditSystem (expire_result_code decision),
             au_epoch = epoch, au_value_revision = 0 \<rparr> w))"

definition apply_membership_progress ::
  "externs \<Rightarrow> log_id \<Rightarrow> membership_progress_command \<Rightarrow> world \<Rightarrow> system_result \<times> world" where
  "apply_membership_progress E l cmd w =
    (case (case decide_progress (fst w) cmd of
             Some eff \<Rightarrow> (SYS_MEMBERSHIP_ADVANCED, write_intent E l eff w)
           | None \<Rightarrow> (SYS_MEMBERSHIP_PHASE_MISMATCH, w)) of
       (code, w) \<Rightarrow>
         (\<lparr> sy_system_result_code = code, sy_lease_revision = 0 \<rparr>,
          write_audit_row l
            \<lparr> au_leader_node_id = lg_leader l, au_actor = Some (lg_leader l),
              au_operation_code = OPERATION_MEMBERSHIP_PROGRESS, au_resource = None,
              au_result = AuditSystem code, au_epoch = 0, au_value_revision = 0 \<rparr> w))"

fun put_admins :: "node_id list \<Rightarrow> world \<Rightarrow> world" where
  "put_admins [] w = w"
| "put_admins (n # ns) w = put_admins ns (snd (put_admin n w))"

definition genesis_audit_row :: "log_id \<Rightarrow> i32 \<Rightarrow> audit_row" where
  "genesis_audit_row l code =
    \<lparr> au_leader_node_id = lg_leader l, au_actor = Some (lg_leader l),
      au_operation_code = OPERATION_GENESIS, au_resource = None, au_result = AuditSystem code,
      au_epoch = 0, au_value_revision = 0 \<rparr>"

definition apply_genesis ::
  "externs \<Rightarrow> log_id \<Rightarrow> bytes \<Rightarrow> world \<Rightarrow> (fault + system_result) \<times> world" where
  "apply_genesis E l signed_genesis w =
    (let s = fst w; authority = st_authority s in
     case verify_genesis E (ga_public_key authority) (ga_domain authority) signed_genesis of
       Inl err \<Rightarrow> (Inl (GenesisRefused (DoesNotVerify err)), w)
     | Inr g \<Rightarrow>
       if vg_group_id g \<noteq> ga_group_id authority then (Inl (GenesisRefused NamesAnotherGroup), w)
       else if vg_genesis_hash g \<noteq> ga_genesis_hash authority
         then (Inl (GenesisRefused NotTheBoundDocument), w)
       else if vg_deployment_profile_code g \<noteq> st_deployment_profile_code s
         then (Inl (GenesisRefused OtherDeploymentProfile), w)
       else if st_admin_revision s > 0 then
         (Inr \<lparr> sy_system_result_code = SYS_GENESIS_ALREADY_INSTALLED, sy_lease_revision = 0 \<rparr>,
          write_audit_row l (genesis_audit_row l SYS_GENESIS_ALREADY_INSTALLED) w)
       else if cm_joint (st_membership s) then (Inl (GenesisRefused MembershipIsJoint), w)
       else if cm_learners (st_membership s) \<noteq> {||}
         then (Inl (GenesisRefused MembershipHasLearners), w)
       else if fset_of_list (map vv_node_id (vg_initial_voters g)) \<noteq> cm_voters (st_membership s)
         then (Inl (GenesisRefused VotersDiffer), w)
       else
         let w = put_admins (vg_initial_admins g) w;
             w = upd_state (\<lambda>s. s\<lparr> st_admin_revision := 1 \<rparr>) w;
             w = set_growth (recompute_growth E (fst w)) w
         in (Inr \<lparr> sy_system_result_code = SYS_GENESIS_INSTALLED, sy_lease_revision = 0 \<rparr>,
             write_audit_row l (genesis_audit_row l SYS_GENESIS_INSTALLED) w))"

definition guard_delivery :: "state \<Rightarrow> log_id \<Rightarrow> fault option" where
  "guard_delivery s l =
    (case st_last_applied s of
       Some lst \<Rightarrow>
         if lg_index l \<le> lg_index lst then Some (LogIdNotAdvancing l lst)
         else (case st_audit_tip s of
             None \<Rightarrow> None
           | Some tip \<Rightarrow>
               if lg_index tip < lg_index lst \<or> tip = lst then None
               else Some (AuditAheadOfLastApplied tip (Some lst)))
     | None \<Rightarrow>
         (case st_audit_tip s of
            None \<Rightarrow> None
          | Some tip \<Rightarrow> Some (AuditAheadOfLastApplied tip None)))"

definition dispatch_command ::
  "externs \<Rightarrow> log_id \<Rightarrow> command \<Rightarrow> world \<Rightarrow> (fault + command_reply) \<times> world" where
  "dispatch_command E l cmd w =
    (case cmd of
       CUnknown \<Rightarrow> (Inl UnknownCommand, w)
     | CClient client a \<Rightarrow>
         (case apply_client E l client a w of (r, w) \<Rightarrow> (Inr (ReplyClient r), w))
     | CRejectedClient client code resource \<Rightarrow>
         (case apply_rejected_client l client code resource w of (r, w) \<Rightarrow> (Inr (ReplyClient r), w))
     | CShapeless sc \<Rightarrow> (case apply_shapeless l sc w of (r, w) \<Rightarrow> (Inr r, w))
     | CExpire ex \<Rightarrow> (case apply_expire l ex w of (r, w) \<Rightarrow> (Inr (ReplySystem r), w))
     | CMembershipProgress p \<Rightarrow>
         (case apply_membership_progress E l p w of (r, w) \<Rightarrow> (Inr (ReplySystem r), w))
     | CRetireClient rc \<Rightarrow> (case apply_retire l rc w of (r, w) \<Rightarrow> (Inr (ReplyRetirement r), w))
     | CGenesis doc \<Rightarrow>
         (case apply_genesis E l doc w of
            (Inl f, w) \<Rightarrow> (Inl f, w)
          | (Inr r, w) \<Rightarrow> (Inr (ReplySystem r), w)))"

definition apply_command_recording ::
  "externs \<Rightarrow> log_id \<Rightarrow> command \<Rightarrow> world \<Rightarrow> (fault + command_reply) \<times> world" where
  "apply_command_recording E l cmd w =
    (case guard_delivery (fst w) l of
       Some f \<Rightarrow> (Inl f, w)
     | None \<Rightarrow>
       (case dispatch_command E l cmd w of
          (Inl f, w) \<Rightarrow> (Inl f, w)
        | (Inr reply, w) \<Rightarrow>
            (Inr reply, upd_state (\<lambda>s. s\<lparr> st_last_applied := Some l \<rparr>) w)))"

definition apply_command :: "externs \<Rightarrow> state \<Rightarrow> log_id \<Rightarrow> command \<Rightarrow> (fault + command_reply) \<times> state" where
  "apply_command E s l cmd =
    (case apply_command_recording E l cmd (s, empty_changes) of (r, w) \<Rightarrow> (r, fst w))"

definition apply_client_command ::
  "externs \<Rightarrow> state \<Rightarrow> log_id \<Rightarrow> client_ref \<Rightarrow> action \<Rightarrow> (fault + client_result option) \<times> state" where
  "apply_client_command E s l client a =
    (case apply_command E s l (CClient client a) of
       (Inl f, s) \<Rightarrow> (Inl f, s)
     | (Inr (ReplyClient r), s) \<Rightarrow> (Inr (Some r), s)
     | (Inr _, s) \<Rightarrow> (Inr None, s))"

end
