(* ===== verification/Coord_Growth.thy ===== *)
theory Coord_Growth
  imports Coord_Apply
begin

text \<open>
  The growth counter.  Each business writer of \<open>Coord_Apply\<close> moves the counter by the
  charge it adds and the charge it removes; the counter therefore stays equal to the sum
  of the charges of the stored rows, modulo the word size, through every writer, and
  exactly while that sum is inside the growth budget.
\<close>

section \<open>How a table write moves the total\<close>

lemma row_charge_get: "row_charge f m k = (case bm_get m k of None \<Rightarrow> 0 | Some v \<Rightarrow> f k v)"
  by (simp add: row_charge_def)

lemma growth_total_put_resource:
  assumes "bm_ok (st_resources (fst w))"
  shows "growth_total E (fst (put_resource k r w)) + row_charge resource_charge (st_resources (fst w)) k
    = growth_total E (fst w) + resource_charge k r"
  using bm.sum_put [OF assms, of resource_charge k r]
  by (simp add: growth_total_def put_resource_def row_charge_def)

lemma growth_total_put_grant:
  assumes "bm_ok (st_acl (fst w))"
  shows "growth_total E (fst (snd (put_grant k r w))) + row_charge acl_charge (st_acl (fst w)) k
    = growth_total E (fst w) + acl_charge k r"
  using bm.sum_put [OF assms, of acl_charge k r]
  by (simp add: growth_total_def put_grant_def row_charge_def)

lemma growth_total_remove_grant:
  assumes "bm_ok (st_acl (fst w))"
  shows "growth_total E (fst (snd (remove_grant k w))) + row_charge acl_charge (st_acl (fst w)) k
    = growth_total E (fst w)"
  using bm.sum_del [OF assms, of acl_charge k]
  by (simp add: growth_total_def remove_grant_def row_charge_def)

lemma growth_total_put_intent:
  assumes "bm_ok (st_intents (fst w))"
  shows "growth_total E (fst (put_intent k i w)) + row_charge (intent_charge E) (st_intents (fst w)) k
    = growth_total E (fst w) + intent_charge E k i"
  using bm.sum_put [OF assms, of "intent_charge E" k i]
  by (simp add: growth_total_def put_intent_def row_charge_def)

lemma growth_total_remove_intent:
  assumes "bm_ok (st_intents (fst w))"
  shows "growth_total E (fst (snd (remove_intent k w))) + row_charge (intent_charge E) (st_intents (fst w)) k
    = growth_total E (fst w)"
  using bm.sum_del [OF assms, of "intent_charge E" k]
  by (simp add: growth_total_def remove_intent_def row_charge_def)

lemma growth_total_put_route:
  assumes "bm_ok (st_routes (fst w))"
  shows "growth_total E (fst (put_route k r w)) + row_charge route_charge (st_routes (fst w)) k
    = growth_total E (fst w) + route_charge k r"
  using bm.sum_put [OF assms, of route_charge k r]
  by (simp add: growth_total_def put_route_def row_charge_def)

lemma growth_total_remove_route:
  assumes "bm_ok (st_routes (fst w))"
  shows "growth_total E (fst (snd (remove_route k w))) + row_charge route_charge (st_routes (fst w)) k
    = growth_total E (fst w)"
  using bm.sum_del [OF assms, of route_charge k]
  by (simp add: growth_total_def remove_route_def row_charge_def)

lemma growth_total_put_admin:
  "growth_total E (fst (snd (put_admin n w)))
    = growth_total E (fst w) + (if n |\<in>| st_admins (fst w) then 0 else charge_admin)"
  by (auto simp: growth_total_def put_admin_def finsert_absorb algebra_simps)

lemma growth_total_remove_admin:
  "growth_total E (fst (snd (remove_admin n w))) + (if n |\<in>| st_admins (fst w) then charge_admin else 0)
    = growth_total E (fst w)"
proof (cases "n |\<in>| st_admins (fst w)")
  case True
  then obtain m where "fcard (st_admins (fst w)) = Suc m"
    using fcard_fminus_member by metis
  with True show ?thesis by (simp add: growth_total_def remove_admin_def)
next
  case False
  then have "st_admins (fst w) |-| {|n|} = st_admins (fst w)" by auto
  with False show ?thesis by (simp add: growth_total_def remove_admin_def)
qed

lemma growth_total_set [simp]:
  "growth_total E (fst (set_growth n w)) = growth_total E (fst w)"
  "growth_total E (fst (set_reserve n w)) = growth_total E (fst w)"
  by (simp_all add: growth_total_def set_growth_def set_reserve_def upd_state_def)

section \<open>The counter follows the total\<close>

definition growth_tracks :: "externs \<Rightarrow> state \<Rightarrow> bool" where
  "growth_tracks E s = (st_growth_bytes s = growth_total E s mod u64_size)"

lemma growth_tracks_recompute: "growth_tracks E s = (st_growth_bytes s = recompute_growth E s)"
  by (simp add: growth_tracks_def recompute_growth_mod)

lemma growth_tracks_exact:
  "growth_tracks E s \<Longrightarrow> growth_total E s \<le> GROWTH_BUDGET \<Longrightarrow> st_growth_bytes s = growth_total E s"
  using budgets_below_u64(1) by (simp add: growth_tracks_def u64_max_def u64_size_def)

text \<open>A counter assignment followed by a table write that leaves the counter alone.\<close>

lemma growth_tracks_write:
  assumes "growth_tracks E (fst w)" "growth_total E (fst w') + old = growth_total E (fst w) + new"
    "st_growth_bytes (fst w') = sub_u64 (add_u64 (st_growth_bytes (fst w)) new) old"
  shows "growth_tracks E (fst w')"
proof -
  have "growth_total E (fst w') = growth_total E (fst w) + new - old" using assms(2) by linarith
  with assms add_sub_u64_mod [of old "growth_total E (fst w)" new] show ?thesis
    by (simp add: growth_tracks_def)
qed

lemma growth_tracks_add:
  assumes "growth_tracks E (fst w)" "growth_total E (fst w') = growth_total E (fst w) + new"
    "st_growth_bytes (fst w') = add_u64 (st_growth_bytes (fst w)) new"
  shows "growth_tracks E (fst w')"
  using assms add_u64_mod [of "growth_total E (fst w)" new] by (simp add: growth_tracks_def)

lemma growth_tracks_sub:
  assumes "growth_tracks E (fst w)" "growth_total E (fst w') + old = growth_total E (fst w)"
    "st_growth_bytes (fst w') = sub_u64 (st_growth_bytes (fst w)) old"
  shows "growth_tracks E (fst w')"
proof -
  have "growth_total E (fst w') = growth_total E (fst w) - old" using assms(2) by simp
  with assms sub_u64_mod [of old "growth_total E (fst w)"] show ?thesis
    by (simp add: growth_tracks_def)
qed

lemma growth_tracks_same:
  assumes "growth_tracks E (fst w)" "growth_total E (fst w') = growth_total E (fst w)"
    "st_growth_bytes (fst w') = st_growth_bytes (fst w)"
  shows "growth_tracks E (fst w')"
  using assms by (simp add: growth_tracks_def)

text \<open>The counter is not a table, and a table write is not a counter assignment.\<close>

lemma set_growth_fields [simp]:
  "st_growth_bytes (fst (set_growth n w)) = n"
  "st_resources (fst (set_growth n w)) = st_resources (fst w)"
  "st_acl (fst (set_growth n w)) = st_acl (fst w)"
  "st_admins (fst (set_growth n w)) = st_admins (fst w)"
  "st_intents (fst (set_growth n w)) = st_intents (fst w)"
  "st_routes (fst (set_growth n w)) = st_routes (fst w)"
  "snd (set_growth n w) = snd w"
  by (simp_all add: set_growth_def upd_state_def)

lemma writers_keep_growth [simp]:
  "st_growth_bytes (fst (put_resource k r w)) = st_growth_bytes (fst w)"
  "st_growth_bytes (fst (snd (put_grant g rt w))) = st_growth_bytes (fst w)"
  "st_growth_bytes (fst (snd (remove_grant g w))) = st_growth_bytes (fst w)"
  "st_growth_bytes (fst (snd (put_admin n w))) = st_growth_bytes (fst w)"
  "st_growth_bytes (fst (snd (remove_admin n w))) = st_growth_bytes (fst w)"
  "st_growth_bytes (fst (put_intent op i w)) = st_growth_bytes (fst w)"
  "st_growth_bytes (fst (snd (remove_intent op w))) = st_growth_bytes (fst w)"
  "st_growth_bytes (fst (put_route n ro w)) = st_growth_bytes (fst w)"
  "st_growth_bytes (fst (snd (remove_route n w))) = st_growth_bytes (fst w)"
  by (simp_all add: writer_defs)

section \<open>Resource, grant and administrator effects\<close>

lemma charge_resource_row_eq:
  "charge_resource_row key (length (rr_value row)) w =
    set_growth (sub_u64 (add_u64 (st_growth_bytes (fst w)) (resource_charge key row))
      (row_charge resource_charge (st_resources (fst w)) key)) w"
  by (simp add: charge_resource_row_def key_parts_def resource_charge_def row_charge_def Let_def
      split: option.splits)

text \<open>The resource write both the resource and the grant effect start with.\<close>

definition write_resource :: "resource_key \<Rightarrow> resource_row \<Rightarrow> world \<Rightarrow> world" where
  "write_resource key row w = put_resource key row (charge_resource_row key (length (rr_value row)) w)"

lemma write_resource_growth:
  assumes "bm_ok (st_resources (fst w))"
  shows "growth_total E (fst (write_resource key row w)) + row_charge resource_charge (st_resources (fst w)) key
      = growth_total E (fst w) + resource_charge key row"
    and "growth_tracks E (fst w) \<Longrightarrow> growth_tracks E (fst (write_resource key row w))"
proof -
  let ?old = "row_charge resource_charge (st_resources (fst w)) key"
  let ?w = "charge_resource_row key (length (rr_value row)) w"
  show tot: "growth_total E (fst (write_resource key row w)) + ?old
      = growth_total E (fst w) + resource_charge key row"
    using growth_total_put_resource [of ?w E key row] assms
    by (simp add: charge_resource_row_eq write_resource_def)
  assume "growth_tracks E (fst w)"
  moreover have "st_growth_bytes (fst (write_resource key row w))
      = sub_u64 (add_u64 (st_growth_bytes (fst w)) (resource_charge key row)) ?old"
    by (simp add: charge_resource_row_eq write_resource_def)
  ultimately show "growth_tracks E (fst (write_resource key row w))"
    by (rule growth_tracks_write [OF _ tot])
qed

lemma write_resource_fields [simp]:
  "st_resources (fst (write_resource key row w)) = bm_insert key row (st_resources (fst w))"
  "st_acl (fst (write_resource key row w)) = st_acl (fst w)"
  "st_admins (fst (write_resource key row w)) = st_admins (fst w)"
  "st_intents (fst (write_resource key row w)) = st_intents (fst w)"
  "st_routes (fst (write_resource key row w)) = st_routes (fst w)"
  "snd (write_resource key row w) = (snd w)\<lparr> cs_resources := finsert key (cs_resources (snd w)) \<rparr>"
  by (simp_all add: write_resource_def charge_resource_row_eq put_resource_def)

lemma apply_resource_effect_eq:
  "apply_resource_effect eff w =
    (consumed_success (re_outcome eff) (re_key eff) (re_row eff), write_resource (re_key eff) (re_row eff) w)"
  by (simp add: apply_resource_effect_def write_resource_def Let_def)

text \<open>The grant half of a grant effect.\<close>

definition write_grant :: "grant_effect \<Rightarrow> world \<Rightarrow> world" where
  "write_grant eff w =
    (let acl_key = (ge_key eff, ge_subject eff); charge = acl_charge acl_key 0 in
     case ge_rights eff of
       Some rights \<Rightarrow>
         snd (put_grant acl_key rights
           (if ge_creates_acl_row eff then set_growth (add_u64 (st_growth_bytes (fst w)) charge) w else w))
     | None \<Rightarrow>
         if bm_get (st_acl (fst w)) acl_key \<noteq> None
         then set_growth (sub_u64 (st_growth_bytes (fst w)) charge) (snd (remove_grant acl_key w))
         else snd (remove_grant acl_key w))"

lemma apply_grant_effect_eq:
  "apply_grant_effect eff w =
    (consumed_success GrantUpdated (ge_key eff) (ge_row eff),
     write_grant eff (write_resource (ge_key eff) (ge_row eff) w))"
  by (simp add: apply_grant_effect_def write_grant_def write_resource_def Let_def key_parts_def
      acl_charge_def remove_grant_def split: option.splits)

lemma acl_charge_any: "acl_charge k r = acl_charge k r'"
  by (simp add: acl_charge_def)

lemma acl_row_charge:
  "row_charge acl_charge m k = (if bm_get m k = None then 0 else acl_charge k r)"
  by (auto simp: row_charge_def acl_charge_def split: option.splits)

lemma write_grant_total:
  assumes "bm_ok (st_acl (fst w))"
  shows "growth_total E (fst (write_grant eff w)) + row_charge acl_charge (st_acl (fst w)) (ge_key eff, ge_subject eff)
    = growth_total E (fst w) + (if ge_rights eff = None then 0 else acl_charge (ge_key eff, ge_subject eff) 0)"
proof (cases "ge_rights eff")
  case None
  then show ?thesis
    using growth_total_remove_grant [OF assms] by (simp add: write_grant_def Let_def)
next
  case (Some rights)
  let ?k = "(ge_key eff, ge_subject eff)"
  have "growth_total E (fst (snd (put_grant ?k rights (set_growth n w)))) + row_charge acl_charge (st_acl (fst w)) ?k
      = growth_total E (fst w) + acl_charge ?k rights" for n
    using growth_total_put_grant [of "set_growth n w" E ?k rights] assms by simp
  with Some show ?thesis
    using growth_total_put_grant [OF assms, of E ?k rights] acl_charge_any [of ?k rights 0]
    by (simp add: write_grant_def Let_def)
qed

lemma write_grant_tracks:
  assumes ok: "bm_ok (st_acl (fst w))" and tr: "growth_tracks E (fst w)"
    and cr: "ge_rights eff \<noteq> None \<Longrightarrow>
      ge_creates_acl_row eff = (bm_get (st_acl (fst w)) (ge_key eff, ge_subject eff) = None)"
  shows "growth_tracks E (fst (write_grant eff w))"
proof -
  let ?k = "(ge_key eff, ge_subject eff)"
  let ?absent = "bm_get (st_acl (fst w)) ?k = None"
  note facts = write_grant_total [OF ok, of E eff] acl_row_charge [of "st_acl (fst w)" ?k 0] cr
  have counter: "st_growth_bytes (fst (write_grant eff w)) =
      (if ge_rights eff = None
       then if ?absent then st_growth_bytes (fst w) else sub_u64 (st_growth_bytes (fst w)) (acl_charge ?k 0)
       else if ?absent then add_u64 (st_growth_bytes (fst w)) (acl_charge ?k 0) else st_growth_bytes (fst w))"
    using cr by (auto simp: write_grant_def Let_def split: option.splits)
  consider "(ge_rights eff = None) = ?absent" | "ge_rights eff = None" "\<not> ?absent"
    | "ge_rights eff \<noteq> None" "?absent"
    by blast
  then show ?thesis
  proof cases
    case 1
    then have "growth_total E (fst (write_grant eff w)) = growth_total E (fst w)"
      using facts(1,2) by (simp split: if_splits)
    with 1 counter show ?thesis by (intro growth_tracks_same [OF tr]) (simp_all split: if_splits)
  next
    case 2
    then have "growth_total E (fst (write_grant eff w)) + acl_charge ?k 0 = growth_total E (fst w)"
      using facts(1,2) by (simp split: if_splits)
    with 2 counter show ?thesis by (intro growth_tracks_sub [OF tr]) (simp_all split: if_splits)
  next
    case 3
    then have "growth_total E (fst (write_grant eff w)) = growth_total E (fst w) + acl_charge ?k 0"
      using facts(1,2) by (simp split: if_splits)
    with 3 counter show ?thesis by (intro growth_tracks_add [OF tr]) (simp_all split: if_splits)
  qed
qed

lemma apply_admin_effect_growth:
  "growth_total E (fst (snd (apply_admin_effect eff w))) \<le>
      growth_total E (fst w) + (if ae_enabled eff then charge_admin else 0)"
  "growth_tracks E (fst w) \<Longrightarrow> growth_tracks E (fst (snd (apply_admin_effect eff w)))"
proof -
  let ?w = "snd (apply_admin_effect eff w)"
  let ?n = "ae_target eff"
  have rev: "growth_total E (s\<lparr> st_admin_revision := r \<rparr>) = growth_total E s" for s r
    by (simp add: growth_total_def)
  have w: "growth_total E (fst ?w) = growth_total E (fst (if ae_enabled eff then snd (put_admin ?n w) else snd (remove_admin ?n w)))"
    by (simp add: apply_admin_effect_def Let_def upd_state_def rev put_admin_def remove_admin_def)
  then show "growth_total E (fst ?w) \<le> growth_total E (fst w) + (if ae_enabled eff then charge_admin else 0)"
    using growth_total_put_admin [of E ?n w] growth_total_remove_admin [of E ?n w]
    by (simp split: if_splits)
  have g: "st_growth_bytes (fst ?w) =
      (if ae_enabled eff then if ?n |\<in>| st_admins (fst w) then st_growth_bytes (fst w)
         else add_u64 (st_growth_bytes (fst w)) charge_admin
       else if ?n |\<in>| st_admins (fst w) then sub_u64 (st_growth_bytes (fst w)) charge_admin
         else st_growth_bytes (fst w))"
    by (simp add: apply_admin_effect_def Let_def upd_state_def put_admin_def remove_admin_def)
  assume tr: "growth_tracks E (fst w)"
  consider "ae_enabled eff" "?n |\<in>| st_admins (fst w)" | "ae_enabled eff" "?n |\<notin>| st_admins (fst w)"
    | "\<not> ae_enabled eff" "?n |\<in>| st_admins (fst w)" | "\<not> ae_enabled eff" "?n |\<notin>| st_admins (fst w)"
    by blast
  then show "growth_tracks E (fst ?w)"
  proof cases
    case 1
    then show ?thesis
      using growth_total_put_admin [of E ?n w] w g by (intro growth_tracks_same [OF tr]) simp_all
  next
    case 2
    then show ?thesis
      using growth_total_put_admin [of E ?n w] w g
      by (intro growth_tracks_add [OF tr, of _ charge_admin]) simp_all
  next
    case 3
    then show ?thesis
      using growth_total_remove_admin [of E ?n w] w g
      by (intro growth_tracks_sub [OF tr, of _ charge_admin]) simp_all
  next
    case 4
    then show ?thesis
      using growth_total_remove_admin [of E ?n w] w g by (intro growth_tracks_same [OF tr]) simp_all
  qed
qed

section \<open>Intent effects\<close>

lemma writers_other_tables [simp]:
  "st_routes (fst (put_intent op i w)) = st_routes (fst w)"
  "st_routes (fst (snd (remove_intent op w))) = st_routes (fst w)"
  "st_intents (fst (put_route n r w)) = st_intents (fst w)"
  "st_intents (fst (snd (remove_route n w))) = st_intents (fst w)"
  "st_intents (fst (put_intent op i w)) = bm_insert op i (st_intents (fst w))"
  "st_intents (fst (snd (remove_intent op w))) = bm_remove op (st_intents (fst w))"
  "st_routes (fst (put_route n r w)) = bm_insert n r (st_routes (fst w))"
  "st_routes (fst (snd (remove_route n w))) = bm_remove n (st_routes (fst w))"
  by (simp_all add: writer_defs)

text \<open>One iteration of each eviction loop.\<close>

definition drop_intent :: "externs \<Rightarrow> operation_id \<Rightarrow> world \<Rightarrow> world" where
  "drop_intent E op w =
    (case bm_get (st_intents (fst w)) op of
       None \<Rightarrow> snd (remove_intent op w)
     | Some i \<Rightarrow>
         set_growth (sub_u64 (st_growth_bytes (fst w)) (intent_charge E op i)) (snd (remove_intent op w)))"

definition drop_route :: "node_id \<Rightarrow> world \<Rightarrow> world" where
  "drop_route n w =
    (case bm_get (st_routes (fst w)) n of
       None \<Rightarrow> snd (remove_route n w)
     | Some r \<Rightarrow>
         set_growth (sub_u64 (st_growth_bytes (fst w)) (route_charge n r)) (snd (remove_route n w)))"

lemma evict_intents_Cons: "evict_intents E (op # ops) w = evict_intents E ops (drop_intent E op w)"
  by (simp add: drop_intent_def remove_intent_def split: option.splits)

lemma evict_routes_Cons: "evict_routes (n # ns) w = evict_routes ns (drop_route n w)"
  by (simp add: drop_route_def remove_route_def split: option.splits)

lemma drop_fields [simp]:
  "st_intents (fst (drop_intent E op w)) = bm_remove op (st_intents (fst w))"
  "st_routes (fst (drop_intent E op w)) = st_routes (fst w)"
  "st_routes (fst (drop_route n w)) = bm_remove n (st_routes (fst w))"
  "st_intents (fst (drop_route n w)) = st_intents (fst w)"
  by (simp_all add: drop_intent_def drop_route_def split: option.splits)

lemma drop_intent_growth:
  assumes "bm_ok (st_intents (fst w))"
  shows "growth_total E (fst (drop_intent E op w)) + row_charge (intent_charge E) (st_intents (fst w)) op
      = growth_total E (fst w)"
    and "growth_tracks E (fst w) \<Longrightarrow> growth_tracks E (fst (drop_intent E op w))"
proof -
  show tot: "growth_total E (fst (drop_intent E op w)) + row_charge (intent_charge E) (st_intents (fst w)) op
      = growth_total E (fst w)"
    using growth_total_remove_intent [OF assms, of E op] by (simp add: drop_intent_def split: option.splits)
  show "growth_tracks E (fst (drop_intent E op w))" if "growth_tracks E (fst w)"
    using tot
    by (cases "bm_get (st_intents (fst w)) op")
      (auto simp: drop_intent_def row_charge_def intro: growth_tracks_same [OF that] growth_tracks_sub [OF that])
qed

lemma drop_route_growth:
  assumes "bm_ok (st_routes (fst w))"
  shows "growth_total E (fst (drop_route n w)) + row_charge route_charge (st_routes (fst w)) n
      = growth_total E (fst w)"
    and "growth_tracks E (fst w) \<Longrightarrow> growth_tracks E (fst (drop_route n w))"
proof -
  show tot: "growth_total E (fst (drop_route n w)) + row_charge route_charge (st_routes (fst w)) n
      = growth_total E (fst w)"
    using growth_total_remove_route [OF assms, of E n] by (simp add: drop_route_def split: option.splits)
  show "growth_tracks E (fst (drop_route n w))" if "growth_tracks E (fst w)"
    using tot
    by (cases "bm_get (st_routes (fst w)) n")
      (auto simp: drop_route_def row_charge_def intro: growth_tracks_same [OF that] growth_tracks_sub [OF that])
qed

declare evict_intents.simps(2) [simp del] evict_routes.simps(2) [simp del]
  evict_intents_Cons [simp] evict_routes_Cons [simp]

lemma evict_intents_ok [simp]:
  "bm_ok (st_intents (fst w)) \<Longrightarrow> bm_ok (st_intents (fst (evict_intents E ops w)))"
  by (induction ops arbitrary: w) simp_all

lemma evict_intents_routes [simp]: "st_routes (fst (evict_intents E ops w)) = st_routes (fst w)"
  by (induction ops arbitrary: w) simp_all

lemma evict_intents_get:
  "bm_get (st_intents (fst (evict_intents E ops w))) k =
    (if k \<in> set ops then None else bm_get (st_intents (fst w)) k)"
  by (induction ops arbitrary: w) simp_all

lemma evict_intents_total:
  "bm_ok (st_intents (fst w)) \<Longrightarrow>
    growth_total E (fst (evict_intents E ops w)) \<le> growth_total E (fst w)"
proof (induction ops arbitrary: w)
  case (Cons op ops)
  have "growth_total E (fst (evict_intents E ops (drop_intent E op w))) \<le> growth_total E (fst (drop_intent E op w))"
    using Cons by simp
  then show ?case
    using drop_intent_growth(1) [OF Cons.prems, of E op] unfolding evict_intents_Cons by linarith
qed simp

lemma evict_intents_tracks:
  "bm_ok (st_intents (fst w)) \<Longrightarrow> growth_tracks E (fst w) \<Longrightarrow>
    growth_tracks E (fst (evict_intents E ops w))"
  by (induction ops arbitrary: w) (simp_all add: drop_intent_growth(2))

lemma evict_routes_ok [simp]:
  "bm_ok (st_routes (fst w)) \<Longrightarrow> bm_ok (st_routes (fst (evict_routes ns w)))"
  by (induction ns arbitrary: w) simp_all

lemma evict_routes_intents [simp]: "st_intents (fst (evict_routes ns w)) = st_intents (fst w)"
  by (induction ns arbitrary: w) simp_all

lemma evict_routes_get:
  "bm_get (st_routes (fst (evict_routes ns w))) k =
    (if k \<in> set ns then None else bm_get (st_routes (fst w)) k)"
  by (induction ns arbitrary: w) simp_all

lemma evict_routes_total:
  "bm_ok (st_routes (fst w)) \<Longrightarrow> distinct ns \<Longrightarrow>
    growth_total E (fst (evict_routes ns w)) + sum_list (map (row_charge route_charge (st_routes (fst w))) ns)
      = growth_total E (fst w)"
proof (induction ns arbitrary: w)
  case (Cons n ns)
  have "map (row_charge route_charge (st_routes (fst (drop_route n w)))) ns
      = map (row_charge route_charge (st_routes (fst w))) ns"
    using Cons.prems(2) by (intro map_cong) (auto simp: row_charge_def)
  moreover have "growth_total E (fst (evict_routes ns (drop_route n w)))
      + sum_list (map (row_charge route_charge (st_routes (fst (drop_route n w)))) ns)
      = growth_total E (fst (drop_route n w))"
    using Cons.prems by (intro Cons.IH) simp_all
  ultimately show ?case
    using drop_route_growth(1) [OF Cons.prems(1), of E n]
    unfolding evict_routes_Cons list.map sum_list.Cons by presburger
qed simp

lemma evict_routes_tracks:
  "bm_ok (st_routes (fst w)) \<Longrightarrow> growth_tracks E (fst w) \<Longrightarrow>
    growth_tracks E (fst (evict_routes ns w))"
  by (induction ns arbitrary: w) (simp_all add: drop_route_growth(2))

text \<open>One iteration of the route loop.\<close>

definition add_route :: "log_id \<Rightarrow> node_id \<Rightarrow> route \<Rightarrow> world \<Rightarrow> world" where
  "add_route l n r w =
    put_route n (stamp_route l r)
      (set_growth (sub_u64 (add_u64 (st_growth_bytes (fst w)) (route_charge n (stamp_route l r)))
        (row_charge route_charge (st_routes (fst w)) n)) w)"

lemma write_routes_Cons [simp]:
  "write_routes l (p # rs) w = write_routes l rs (add_route l (fst p) (snd p) w)"
  by (cases p) (simp add: add_route_def Let_def)

declare write_routes.simps(2) [simp del]

lemma stamp_route_charge [simp]: "route_charge n (stamp_route l r) = route_charge n r"
  by (simp add: route_charge_def stamp_route_def)

lemma add_route_fields [simp]:
  "st_routes (fst (add_route l n r w)) = bm_insert n (stamp_route l r) (st_routes (fst w))"
  "st_intents (fst (add_route l n r w)) = st_intents (fst w)"
  by (simp_all add: add_route_def)

lemma add_route_growth:
  assumes "bm_ok (st_routes (fst w))"
  shows "growth_total E (fst (add_route l n r w)) + row_charge route_charge (st_routes (fst w)) n
      = growth_total E (fst w) + route_charge n r"
    and "growth_tracks E (fst w) \<Longrightarrow> growth_tracks E (fst (add_route l n r w))"
proof -
  show tot: "growth_total E (fst (add_route l n r w)) + row_charge route_charge (st_routes (fst w)) n
      = growth_total E (fst w) + route_charge n r"
    using growth_total_put_route [of "set_growth k w" for k] assms by (simp add: add_route_def)
  show "growth_tracks E (fst (add_route l n r w))" if "growth_tracks E (fst w)"
    by (rule growth_tracks_write [OF that tot]) (simp add: add_route_def)
qed

lemma write_routes_intents [simp]: "st_intents (fst (write_routes l rs w)) = st_intents (fst w)"
  by (induction rs arbitrary: w) simp_all

lemma write_routes_ok [simp]:
  "bm_ok (st_routes (fst w)) \<Longrightarrow> bm_ok (st_routes (fst (write_routes l rs w)))"
  by (induction rs arbitrary: w) simp_all

lemma write_routes_tracks:
  "bm_ok (st_routes (fst w)) \<Longrightarrow> growth_tracks E (fst w) \<Longrightarrow>
    growth_tracks E (fst (write_routes l rs w))"
  by (induction rs arbitrary: w) (simp_all add: add_route_growth(2))

lemma write_routes_total:
  "bm_ok (st_routes (fst w)) \<Longrightarrow> distinct (map fst rs) \<Longrightarrow>
    growth_total E (fst (write_routes l rs w))
        + sum_list (map (\<lambda>(n, r). row_charge route_charge (st_routes (fst w)) n) rs)
      = growth_total E (fst w) + sum_list (map (\<lambda>(n, r). route_charge n r) rs)"
proof (induction rs arbitrary: w)
  case (Cons p rs)
  let ?w = "add_route l (fst p) (snd p) w"
  have "map (\<lambda>(n, r). row_charge route_charge (st_routes (fst ?w)) n) rs
      = map (\<lambda>(n, r). row_charge route_charge (st_routes (fst w)) n) rs"
    using Cons.prems(2) by (intro map_cong) (auto simp: row_charge_def image_iff)
  moreover have "growth_total E (fst (write_routes l rs ?w))
        + sum_list (map (\<lambda>(n, r). row_charge route_charge (st_routes (fst ?w)) n) rs)
      = growth_total E (fst ?w) + sum_list (map (\<lambda>(n, r). route_charge n r) rs)"
    using Cons.prems by (intro Cons.IH) simp_all
  ultimately show ?case
    using add_route_growth(1) [OF Cons.prems(1), of E l "fst p" "snd p"]
    unfolding write_routes_Cons list.map sum_list.Cons case_prod_beta by presburger
qed simp

text \<open>The intent write in the middle of \<open>write_intent\<close>.\<close>

definition store_intent :: "externs \<Rightarrow> operation_id \<Rightarrow> intent \<Rightarrow> world \<Rightarrow> world" where
  "store_intent E op i w =
    put_intent op i
      (set_growth (sub_u64 (add_u64 (st_growth_bytes (fst w)) (intent_charge E op i))
        (row_charge (intent_charge E) (st_intents (fst w)) op)) w)"

lemma write_intent_eq:
  "write_intent E l eff w =
    write_routes l (ie_routes eff) (evict_routes (ie_evict_routes eff)
      (store_intent E (ie_operation_id eff) (stamp_intent l (ie_intent eff))
        (evict_intents E (ie_evict eff) w)))"
  by (simp add: write_intent_def store_intent_def Let_def)

lemma stamp_intent_fields [simp]:
  "in_plan (stamp_intent l i) = in_plan i"
  "in_expected_membership (stamp_intent l i) = in_expected_membership i"
  "in_status_code (stamp_intent l i) = in_status_code i"
  "in_actor (stamp_intent l i) = in_actor i"
  "in_request_hash (stamp_intent l i) = in_request_hash i"
  "in_observed_membership_log_id (stamp_intent l i) = in_observed_membership_log_id i"
  by (simp_all add: stamp_intent_def Let_def)

lemma stamp_intent_charge [simp]: "intent_charge E op (stamp_intent l i) = intent_charge E op i"
  by (simp add: intent_charge_def charge_len_def)

lemma store_intent_fields [simp]:
  "st_intents (fst (store_intent E op i w)) = bm_insert op i (st_intents (fst w))"
  "st_routes (fst (store_intent E op i w)) = st_routes (fst w)"
  by (simp_all add: store_intent_def)

lemma store_intent_growth:
  assumes "bm_ok (st_intents (fst w))"
  shows "growth_total E (fst (store_intent E op i w)) + row_charge (intent_charge E) (st_intents (fst w)) op
      = growth_total E (fst w) + intent_charge E op i"
    and "growth_tracks E (fst w) \<Longrightarrow> growth_tracks E (fst (store_intent E op i w))"
proof -
  show tot: "growth_total E (fst (store_intent E op i w)) + row_charge (intent_charge E) (st_intents (fst w)) op
      = growth_total E (fst w) + intent_charge E op i"
    using growth_total_put_intent [of "set_growth k w" for k] assms by (simp add: store_intent_def)
  show "growth_tracks E (fst (store_intent E op i w))" if "growth_tracks E (fst w)"
    by (rule growth_tracks_write [OF that tot]) (simp add: store_intent_def)
qed

lemma write_intent_tracks:
  assumes "bm_ok (st_intents (fst w))" "bm_ok (st_routes (fst w))" "growth_tracks E (fst w)"
  shows "growth_tracks E (fst (write_intent E l eff w))"
  unfolding write_intent_eq using assms
  by (intro write_routes_tracks evict_routes_tracks store_intent_growth(2) evict_intents_tracks) simp_all

text \<open>A rewrite of a stored intent that keeps its plan charges nothing new.\<close>

lemma write_intent_rewrite_total:
  assumes ok: "bm_ok (st_intents (fst w))" and kept: "ie_operation_id eff \<notin> set (ie_evict eff)"
    and old: "bm_get (st_intents (fst w)) (ie_operation_id eff) = Some old"
    and same: "intent_charge E (ie_operation_id eff) old = intent_charge E (ie_operation_id eff) (ie_intent eff)"
    and no_routes: "ie_routes eff = []" "ie_evict_routes eff = []"
  shows "growth_total E (fst (write_intent E l eff w)) \<le> growth_total E (fst w)"
proof -
  let ?w = "evict_intents E (ie_evict eff) w"
  have "row_charge (intent_charge E) (st_intents (fst ?w)) (ie_operation_id eff)
      = intent_charge E (ie_operation_id eff) (ie_intent eff)"
    using kept old same by (simp add: row_charge_def evict_intents_get)
  then have "growth_total E (fst (write_intent E l eff w)) = growth_total E (fst ?w)"
    using store_intent_growth(1) [of ?w E "ie_operation_id eff" "stamp_intent l (ie_intent eff)"] ok
    by (simp add: write_intent_eq no_routes)
  with evict_intents_total [OF ok] show ?thesis by simp
qed

text \<open>Accepting a plan charges the intent and its routes and frees what they replace.\<close>

lemma write_intent_accept_total:
  assumes ok: "bm_ok (st_intents (fst w))" "bm_ok (st_routes (fst w))" and no_evict: "ie_evict eff = []"
    and dist: "distinct (ie_evict_routes eff)" "distinct (map fst (ie_routes eff))"
    and disj: "\<forall>n\<in>set (ie_evict_routes eff). n \<notin> fst ` set (ie_routes eff)"
  shows "growth_total E (fst (write_intent E l eff w))
      + (row_charge (intent_charge E) (st_intents (fst w)) (ie_operation_id eff)
         + sum_list (map (\<lambda>(n, r). row_charge route_charge (st_routes (fst w)) n) (ie_routes eff))
         + sum_list (map (row_charge route_charge (st_routes (fst w))) (ie_evict_routes eff)))
    = growth_total E (fst w) + (intent_charge E (ie_operation_id eff) (ie_intent eff)
         + sum_list (map (\<lambda>(n, r). route_charge n r) (ie_routes eff)))"
proof -
  let ?a = "store_intent E (ie_operation_id eff) (stamp_intent l (ie_intent eff)) w"
  let ?b = "evict_routes (ie_evict_routes eff) ?a"
  have "map (\<lambda>(n, r). row_charge route_charge (st_routes (fst ?b)) n) (ie_routes eff)
      = map (\<lambda>(n, r). row_charge route_charge (st_routes (fst w)) n) (ie_routes eff)"
    using disj by (intro map_cong) (auto simp: row_charge_def evict_routes_get image_iff)
  moreover have "growth_total E (fst (write_routes l (ie_routes eff) ?b))
        + sum_list (map (\<lambda>(n, r). row_charge route_charge (st_routes (fst ?b)) n) (ie_routes eff))
      = growth_total E (fst ?b) + sum_list (map (\<lambda>(n, r). route_charge n r) (ie_routes eff))"
    using ok dist by (intro write_routes_total) simp_all
  moreover have "growth_total E (fst ?b)
        + sum_list (map (row_charge route_charge (st_routes (fst w))) (ie_evict_routes eff))
      = growth_total E (fst ?a)"
    using evict_routes_total [of ?a "ie_evict_routes eff" E] ok dist by simp
  moreover have "growth_total E (fst ?a) + row_charge (intent_charge E) (st_intents (fst w)) (ie_operation_id eff)
      = growth_total E (fst w) + intent_charge E (ie_operation_id eff) (ie_intent eff)"
    using store_intent_growth(1) [OF ok(1), of E "ie_operation_id eff" "stamp_intent l (ie_intent eff)"] by simp
  ultimately show ?thesis unfolding write_intent_eq no_evict evict_intents.simps(1) by presburger
qed

end
