(* ===== verification/Coord_Audit.thy ===== *)
theory Coord_Audit
  imports Coord_Growth
begin

text \<open>
  The audit and session writers: what they leave alone, the order of the audit table,
  retention, and the reserve counter.  \<open>business\<close> forgets the fields these writers may
  change, so that an equation between two values of it says that the rest of the state is
  unchanged.
\<close>

section \<open>Frames\<close>

definition business :: "state \<Rightarrow> state" where
  "business s = s\<lparr> st_sessions := [], st_audit := [], st_audit_tip := None, st_audit_floor := None,
    st_reserve_bytes := 0, st_last_applied := None \<rparr>"

lemma business_eqD:
  assumes "business s = business t"
  shows "st_resources s = st_resources t" "st_acl s = st_acl t" "st_admins s = st_admins t"
    "st_intents s = st_intents t" "st_routes s = st_routes t"
    "st_growth_bytes s = st_growth_bytes t" "st_admin_revision s = st_admin_revision t"
    "st_authority s = st_authority t" "st_deployment_profile_code s = st_deployment_profile_code t"
    "st_membership s = st_membership t" "st_membership_log_id s = st_membership_log_id t"
proof -
  have "st_resources (business s) = st_resources (business t)" "st_acl (business s) = st_acl (business t)"
    "st_admins (business s) = st_admins (business t)" "st_intents (business s) = st_intents (business t)"
    "st_routes (business s) = st_routes (business t)"
    "st_growth_bytes (business s) = st_growth_bytes (business t)"
    "st_admin_revision (business s) = st_admin_revision (business t)"
    "st_authority (business s) = st_authority (business t)"
    "st_deployment_profile_code (business s) = st_deployment_profile_code (business t)"
    "st_membership (business s) = st_membership (business t)"
    "st_membership_log_id (business s) = st_membership_log_id (business t)"
    by (simp_all add: assms)
  then show "st_resources s = st_resources t" "st_acl s = st_acl t" "st_admins s = st_admins t"
    "st_intents s = st_intents t" "st_routes s = st_routes t"
    "st_growth_bytes s = st_growth_bytes t" "st_admin_revision s = st_admin_revision t"
    "st_authority s = st_authority t" "st_deployment_profile_code s = st_deployment_profile_code t"
    "st_membership s = st_membership t" "st_membership_log_id s = st_membership_log_id t"
    by (simp_all add: business_def)
qed

lemma business_upd [simp]:
  "business (s\<lparr> st_last_applied := x \<rparr>) = business s"
  "business (s\<lparr> st_reserve_bytes := n \<rparr>) = business s"
  "business (s\<lparr> st_audit_tip := x \<rparr>) = business s"
  "business (s\<lparr> st_audit_floor := x \<rparr>) = business s"
  "business (s\<lparr> st_audit := a \<rparr>) = business s"
  "business (s\<lparr> st_sessions := m \<rparr>) = business s"
  by (simp_all add: business_def)

lemma set_reserve_fields [simp]:
  "business (fst (set_reserve n w)) = business (fst w)"
  "st_reserve_bytes (fst (set_reserve n w)) = n"
  "st_sessions (fst (set_reserve n w)) = st_sessions (fst w)"
  "st_audit (fst (set_reserve n w)) = st_audit (fst w)"
  "st_audit_tip (fst (set_reserve n w)) = st_audit_tip (fst w)"
  "st_audit_floor (fst (set_reserve n w)) = st_audit_floor (fst w)"
  "st_last_applied (fst (set_reserve n w)) = st_last_applied (fst w)"
  "snd (set_reserve n w) = snd w"
  by (simp_all add: set_reserve_def upd_state_def)

text \<open>The complementary frame: \<open>outer\<close> forgets the fields a business writer may change.\<close>

definition outer :: "state \<Rightarrow> state" where
  "outer s = s\<lparr> st_resources := [], st_acl := [], st_admins := {||}, st_intents := [], st_routes := [],
    st_growth_bytes := 0, st_admin_revision := 0 \<rparr>"

lemma outer_eqD:
  assumes "outer s = outer t"
  shows "st_sessions s = st_sessions t" "st_audit s = st_audit t" "st_audit_tip s = st_audit_tip t"
    "st_audit_floor s = st_audit_floor t" "st_reserve_bytes s = st_reserve_bytes t"
    "st_last_applied s = st_last_applied t" "st_authority s = st_authority t"
    "st_deployment_profile_code s = st_deployment_profile_code t"
    "st_membership s = st_membership t" "st_membership_log_id s = st_membership_log_id t"
proof -
  have "st_sessions (outer s) = st_sessions (outer t)" "st_audit (outer s) = st_audit (outer t)"
    "st_audit_tip (outer s) = st_audit_tip (outer t)" "st_audit_floor (outer s) = st_audit_floor (outer t)"
    "st_reserve_bytes (outer s) = st_reserve_bytes (outer t)"
    "st_last_applied (outer s) = st_last_applied (outer t)"
    "st_authority (outer s) = st_authority (outer t)"
    "st_deployment_profile_code (outer s) = st_deployment_profile_code (outer t)"
    "st_membership (outer s) = st_membership (outer t)"
    "st_membership_log_id (outer s) = st_membership_log_id (outer t)"
    by (simp_all add: assms)
  then show "st_sessions s = st_sessions t" "st_audit s = st_audit t" "st_audit_tip s = st_audit_tip t"
    "st_audit_floor s = st_audit_floor t" "st_reserve_bytes s = st_reserve_bytes t"
    "st_last_applied s = st_last_applied t" "st_authority s = st_authority t"
    "st_deployment_profile_code s = st_deployment_profile_code t"
    "st_membership s = st_membership t" "st_membership_log_id s = st_membership_log_id t"
    by (simp_all add: outer_def)
qed

lemma outer_writers [simp]:
  "outer (fst (put_resource k r w)) = outer (fst w)"
  "outer (fst (snd (put_grant g rt w))) = outer (fst w)"
  "outer (fst (snd (remove_grant g w))) = outer (fst w)"
  "outer (fst (snd (put_admin n w))) = outer (fst w)"
  "outer (fst (snd (remove_admin n w))) = outer (fst w)"
  "outer (fst (put_intent op i w)) = outer (fst w)"
  "outer (fst (snd (remove_intent op w))) = outer (fst w)"
  "outer (fst (put_route n ro w)) = outer (fst w)"
  "outer (fst (snd (remove_route n w))) = outer (fst w)"
  "outer (fst (set_growth b w)) = outer (fst w)"
  "outer (fst (upd_state (\<lambda>s. s\<lparr> st_admin_revision := b \<rparr>) w)) = outer (fst w)"
  by (simp_all add: outer_def writer_defs set_growth_def)

lemma writers_admin_revision [simp]:
  "st_admin_revision (fst (put_resource k r w)) = st_admin_revision (fst w)"
  "st_admin_revision (fst (snd (put_grant g rt w))) = st_admin_revision (fst w)"
  "st_admin_revision (fst (snd (remove_grant g w))) = st_admin_revision (fst w)"
  "st_admin_revision (fst (snd (put_admin n w))) = st_admin_revision (fst w)"
  "st_admin_revision (fst (put_intent op i w)) = st_admin_revision (fst w)"
  "st_admin_revision (fst (snd (remove_intent op w))) = st_admin_revision (fst w)"
  "st_admin_revision (fst (put_route n ro w)) = st_admin_revision (fst w)"
  "st_admin_revision (fst (snd (remove_route n w))) = st_admin_revision (fst w)"
  "st_admin_revision (fst (set_growth b w)) = st_admin_revision (fst w)"
  by (simp_all add: writer_defs set_growth_def)

lemma write_resource_frame [simp]:
  "outer (fst (write_resource key row w)) = outer (fst w)"
  "st_admin_revision (fst (write_resource key row w)) = st_admin_revision (fst w)"
  by (simp_all add: write_resource_def charge_resource_row_eq)

lemma write_grant_frame [simp]:
  "outer (fst (write_grant eff w)) = outer (fst w)"
  "st_admin_revision (fst (write_grant eff w)) = st_admin_revision (fst w)"
  "st_resources (fst (write_grant eff w)) = st_resources (fst w)"
  "st_admins (fst (write_grant eff w)) = st_admins (fst w)"
  "st_intents (fst (write_grant eff w)) = st_intents (fst w)"
  "st_routes (fst (write_grant eff w)) = st_routes (fst w)"
  by (simp_all add: write_grant_def Let_def put_grant_def remove_grant_def outer_def set_growth_def
      upd_state_def split: option.splits)

lemma write_grant_acl:
  "st_acl (fst (write_grant eff w)) =
    (case ge_rights eff of
       Some rights \<Rightarrow> bm_insert (ge_key eff, ge_subject eff) rights (st_acl (fst w))
     | None \<Rightarrow> bm_remove (ge_key eff, ge_subject eff) (st_acl (fst w)))"
  by (simp add: write_grant_def Let_def put_grant_def remove_grant_def split: option.splits)

lemma apply_admin_effect_frame [simp]:
  "outer (fst (snd (apply_admin_effect eff w))) = outer (fst w)"
  "st_resources (fst (snd (apply_admin_effect eff w))) = st_resources (fst w)"
  "st_acl (fst (snd (apply_admin_effect eff w))) = st_acl (fst w)"
  "st_intents (fst (snd (apply_admin_effect eff w))) = st_intents (fst w)"
  "st_routes (fst (snd (apply_admin_effect eff w))) = st_routes (fst w)"
  "st_admin_revision (fst (snd (apply_admin_effect eff w))) = ae_admin_revision eff"
  "st_admins (fst (snd (apply_admin_effect eff w))) =
    (if ae_enabled eff then finsert (ae_target eff) (st_admins (fst w))
     else st_admins (fst w) |-| {|ae_target eff|})"
  by (simp_all add: apply_admin_effect_def Let_def put_admin_def remove_admin_def upd_state_def outer_def
      set_growth_def)

text \<open>The intent loops touch the intent and route tables and the counter only.\<close>

definition off_intents :: "state \<Rightarrow> state" where
  "off_intents s = s\<lparr> st_intents := [], st_routes := [], st_growth_bytes := 0 \<rparr>"

lemma off_intents_eqD:
  assumes "off_intents s = off_intents t"
  shows "outer s = outer t" "st_resources s = st_resources t" "st_acl s = st_acl t"
    "st_admins s = st_admins t" "st_admin_revision s = st_admin_revision t"
proof -
  have "outer (off_intents s) = outer (off_intents t)"
    "st_resources (off_intents s) = st_resources (off_intents t)" "st_acl (off_intents s) = st_acl (off_intents t)"
    "st_admins (off_intents s) = st_admins (off_intents t)"
    "st_admin_revision (off_intents s) = st_admin_revision (off_intents t)"
    by (simp_all add: assms)
  then show "outer s = outer t" "st_resources s = st_resources t" "st_acl s = st_acl t"
    "st_admins s = st_admins t" "st_admin_revision s = st_admin_revision t"
    by (simp_all add: outer_def off_intents_def)
qed

lemma off_intents_loops [simp]:
  "off_intents (fst (drop_intent E op w)) = off_intents (fst w)"
  "off_intents (fst (drop_route n w)) = off_intents (fst w)"
  "off_intents (fst (add_route l n r w)) = off_intents (fst w)"
  "off_intents (fst (store_intent E op i w)) = off_intents (fst w)"
  by (simp_all add: off_intents_def drop_intent_def drop_route_def add_route_def store_intent_def
      set_growth_def writer_defs split: option.splits)

lemma off_intents_evict_intents [simp]: "off_intents (fst (evict_intents E ops w)) = off_intents (fst w)"
  by (induction ops arbitrary: w) simp_all

lemma off_intents_evict_routes [simp]: "off_intents (fst (evict_routes ns w)) = off_intents (fst w)"
  by (induction ns arbitrary: w) simp_all

lemma off_intents_write_routes [simp]: "off_intents (fst (write_routes l rs w)) = off_intents (fst w)"
  by (induction rs arbitrary: w) simp_all

lemma off_intents_write_intent [simp]: "off_intents (fst (write_intent E l eff w)) = off_intents (fst w)"
  by (simp add: write_intent_eq)

lemmas write_intent_frame [simp] = off_intents_eqD [OF off_intents_write_intent]

lemma put_admins_frame [simp]:
  "outer (fst (put_admins ns w)) = outer (fst w)"
  "st_resources (fst (put_admins ns w)) = st_resources (fst w)"
  "st_acl (fst (put_admins ns w)) = st_acl (fst w)"
  "st_intents (fst (put_admins ns w)) = st_intents (fst w)"
  "st_routes (fst (put_admins ns w)) = st_routes (fst w)"
  "st_admins (fst (put_admins ns w)) = st_admins (fst w) |\<union>| fset_of_list ns"
  by (induction ns arbitrary: w) (auto simp: put_admin_def outer_def)

section \<open>Pruning\<close>

lemma prune_step_fields [simp]:
  "business (fst (prune_step k row w)) = business (fst w)"
  "st_sessions (fst (prune_step k row w)) = st_sessions (fst w)"
  "st_audit (fst (prune_step k row w)) = bm_remove k (st_audit (fst w))"
  "st_audit_tip (fst (prune_step k row w)) = st_audit_tip (fst w)"
  "st_last_applied (fst (prune_step k row w)) = st_last_applied (fst w)"
  "st_reserve_bytes (fst (prune_step k row w)) =
    sub_u64 (st_reserve_bytes (fst w)) (audit_row_charge k row)"
  by (simp_all add: prune_step_def Let_def upd_state_def remove_audit_def set_reserve_def)

lemma prune_audit_induct [case_names Stop Step]:
  assumes stop: "\<And>w. length (st_audit (fst w)) \<le> MAX_AUDIT_ROWS \<Longrightarrow> P w w"
    and step: "\<And>w k row rest. st_audit (fst w) = (k, row) # rest \<Longrightarrow>
      MAX_AUDIT_ROWS < length (st_audit (fst w)) \<Longrightarrow>
      P (prune_step k row w) (prune_audit (prune_step k row w)) \<Longrightarrow>
      P w (prune_audit (prune_step k row w))"
  shows "P w (prune_audit w)"
proof (induction w rule: prune_audit.induct)
  case (1 w)
  show ?case
  proof (cases "length (st_audit (fst w)) > MAX_AUDIT_ROWS")
    case False
    then show ?thesis by (simp add: prune_audit.simps stop)
  next
    case True
    then obtain k row rest where rows: "st_audit (fst w) = (k, row) # rest"
      by (cases "st_audit (fst w)") auto
    then have "prune_audit w = prune_audit (prune_step k row w)"
      using True by (subst prune_audit.simps) simp
    with rows True 1 [OF True rows] show ?thesis by (simp add: step)
  qed
qed

lemma prune_audit_frame [simp]:
  "business (fst (prune_audit w)) = business (fst w)"
  "st_sessions (fst (prune_audit w)) = st_sessions (fst w)"
  "st_audit_tip (fst (prune_audit w)) = st_audit_tip (fst w)"
  "st_last_applied (fst (prune_audit w)) = st_last_applied (fst w)"
  by (induction w rule: prune_audit_induct; simp)+

lemma bm_ok_Cons:
  "bm_ok ((k, v) # m) \<longleftrightarrow> bm_ok m \<and> (\<forall>(j, w)\<in>set m. k < j)"
  by (auto simp: bm_ok_def)

lemma bm_remove_head: "bm_ok ((k, v) # m) \<Longrightarrow> bm_remove k ((k, v) # m) = m"
  by (auto simp: bm_ok_Cons bm_remove_def filter_id_conv)

lemma bm_ok_drop [simp]: "bm_ok m \<Longrightarrow> bm_ok (drop n m)"
  by (simp add: bm_ok_def sorted_wrt_drop flip: drop_map)

lemma prune_audit_rows:
  "bm_ok (st_audit (fst w)) \<Longrightarrow>
    st_audit (fst (prune_audit w)) = drop (length (st_audit (fst w)) - MAX_AUDIT_ROWS) (st_audit (fst w))"
proof (induction w rule: prune_audit_induct)
  case (Stop w)
  then show ?case by simp
next
  case (Step w k row rest)
  have "bm_remove k (st_audit (fst w)) = rest"
    using Step(1,4) by (simp add: bm_remove_head)
  moreover have "bm_ok rest" using Step(1,4) by (simp add: bm_ok_Cons)
  moreover have "length (st_audit (fst w)) - MAX_AUDIT_ROWS = Suc (length rest - MAX_AUDIT_ROWS)"
    using Step(1,2) by simp
  ultimately show ?case using Step by simp
qed

text \<open>After pruning the floor names the oldest retained row, if anything was pruned.\<close>

definition head_log_id :: "(audit_key, audit_row) btree_map \<Rightarrow> log_id option" where
  "head_log_id m =
    (case m of [] \<Rightarrow> None
     | (k, r) # _ \<Rightarrow> Some \<lparr> lg_term = fst k, lg_leader = au_leader_node_id r, lg_index = snd k \<rparr>)"

lemma prune_audit_length: "length (st_audit (fst (prune_audit w))) \<le> MAX_AUDIT_ROWS"
  by (induction w rule: prune_audit_induct) simp_all

lemma prune_step_floor:
  assumes "bm_remove k (st_audit (fst w)) \<noteq> []"
  shows "st_audit_floor (fst (prune_step k row w)) = head_log_id (bm_remove k (st_audit (fst w)))"
  using assms
  by (auto simp: prune_step_def Let_def upd_state_def remove_audit_def set_reserve_def head_log_id_def
      split: list.splits)

lemma prune_audit_floor:
  "bm_ok (st_audit (fst w)) \<Longrightarrow>
    st_audit_floor (fst w) = None \<or> st_audit_floor (fst w) = head_log_id (st_audit (fst w)) \<Longrightarrow>
    st_audit_floor (fst (prune_audit w)) = None \<or>
    st_audit_floor (fst (prune_audit w)) = head_log_id (st_audit (fst (prune_audit w)))"
proof (induction w rule: prune_audit_induct)
  case (Stop w)
  then show ?case by simp
next
  case (Step w k row rest)
  have rest: "bm_remove k (st_audit (fst w)) = rest" "bm_ok rest"
    using Step(1,4) by (simp_all add: bm_remove_head bm_ok_Cons)
  have "rest \<noteq> []" using Step(1,2) by (auto simp: coord_simps)
  then have "st_audit_floor (fst (prune_step k row w)) = head_log_id rest"
    using rest by (simp add: prune_step_floor)
  with Step(3) rest show ?case by simp
qed

section \<open>The reserve counter\<close>

definition reserve_tracks :: "state \<Rightarrow> bool" where
  "reserve_tracks s = (st_reserve_bytes s = reserve_total s mod u64_size)"

lemma reserve_tracks_recompute: "reserve_tracks s = (st_reserve_bytes s = recompute_reserve s)"
  by (simp add: reserve_tracks_def recompute_reserve_mod)

lemma session_charge_eq: "session_charge se = session_row_charge k se"
  by (cases "se_last_result se") (simp_all add: session_charge_def session_row_charge_def sr_key_parts_def)

lemma old_session_charge_eq: "old_session_charge s k = row_charge session_row_charge (st_sessions s) k"
  by (simp add: old_session_charge_def row_charge_def session_charge_eq split: option.splits)

lemma reserve_total_sessions:
  assumes "bm_ok (st_sessions s)"
  shows "reserve_total (s\<lparr> st_sessions := bm_insert k se (st_sessions s) \<rparr>)
      + row_charge session_row_charge (st_sessions s) k = reserve_total s + session_row_charge k se"
  using bm.sum_put [OF assms, of session_row_charge k se] by (simp add: reserve_total_def row_charge_def)

text \<open>A session write: the new row's charge in, the old row's charge out.\<close>

definition store_session :: "session_key \<Rightarrow> session \<Rightarrow> world \<Rightarrow> world" where
  "store_session key row w =
    put_session key row (set_reserve (sub_u64 (add_u64 (st_reserve_bytes (fst w)) (session_charge row))
      (old_session_charge (fst w) key)) w)"

definition next_session :: "state \<Rightarrow> client_ref \<Rightarrow> saved_reply option \<Rightarrow> session" where
  "next_session s client result =
    \<lparr> se_last_sequence = cl_sequence client, se_request_hash = cl_request_hash client,
      se_last_result = result,
      se_retired = (case bm_get (st_sessions s) (cl_actor client, cl_client_id client) of
                      None \<Rightarrow> False | Some se \<Rightarrow> se_retired se) \<rparr>"

lemma write_session_eq:
  "write_session client result w =
    store_session (cl_actor client, cl_client_id client) (next_session (fst w) client result) w"
  by (simp add: write_session_def store_session_def next_session_def Let_def)

lemma store_session_fields [simp]:
  "business (fst (store_session k se w)) = business (fst w)"
  "st_sessions (fst (store_session k se w)) = bm_insert k se (st_sessions (fst w))"
  "st_audit (fst (store_session k se w)) = st_audit (fst w)"
  "st_audit_tip (fst (store_session k se w)) = st_audit_tip (fst w)"
  "st_audit_floor (fst (store_session k se w)) = st_audit_floor (fst w)"
  "st_last_applied (fst (store_session k se w)) = st_last_applied (fst w)"
  by (simp_all add: store_session_def put_session_def set_reserve_def upd_state_def)

lemma store_session_tracks:
  assumes "bm_ok (st_sessions (fst w))" "reserve_tracks (fst w)"
  shows "reserve_tracks (fst (store_session k se w))"
proof -
  let ?old = "row_charge session_row_charge (st_sessions (fst w)) k"
  have "reserve_total (fst (store_session k se w)) + ?old = reserve_total (fst w) + session_row_charge k se"
    using reserve_total_sessions [OF assms(1), of k se] by (simp add: reserve_total_def)
  moreover have "st_reserve_bytes (fst (store_session k se w))
      = sub_u64 (add_u64 (reserve_total (fst w) mod u64_size) (session_row_charge k se)) ?old"
    using assms(2)
    by (simp add: store_session_def put_session_def reserve_tracks_def old_session_charge_eq
        session_charge_eq [of se k])
  ultimately show ?thesis
    using add_sub_u64_mod [of ?old "reserve_total (fst w)" "session_row_charge k se"]
    unfolding reserve_tracks_def by (metis add_diff_cancel_right' le_add2)
qed

lemma reserve_total_audit_insert:
  assumes "bm_ok (st_audit s)" "bm_get (st_audit s) k = None"
  shows "reserve_total (s\<lparr> st_audit := bm_insert k r (st_audit s) \<rparr>) = reserve_total s + audit_row_charge k r"
  using bm.sum_put [OF assms(1), of audit_row_charge k r] assms(2) by (simp add: reserve_total_def)

lemma prune_audit_reserve:
  "bm_ok (st_audit (fst w)) \<Longrightarrow> reserve_tracks (fst w) \<Longrightarrow> reserve_tracks (fst (prune_audit w))"
proof (induction w rule: prune_audit_induct)
  case (Stop w)
  then show ?case by simp
next
  case (Step w k row rest)
  have rest: "bm_remove k (st_audit (fst w)) = rest" "bm_ok rest"
    using Step(1,4) by (simp_all add: bm_remove_head bm_ok_Cons)
  have "reserve_total (fst w) = reserve_total (fst (prune_step k row w)) + audit_row_charge k row"
    using Step(1) rest by (simp add: reserve_total_def table_sum_def)
  then have "reserve_tracks (fst (prune_step k row w))"
    using Step(5) sub_u64_mod [of "audit_row_charge k row" "reserve_total (fst w)"]
    by (simp add: reserve_tracks_def)
  with Step(3) rest show ?case by simp
qed

section \<open>Appending an audit row\<close>

lemma bm_insert_append:
  "\<forall>(j, w)\<in>set m. j < k \<Longrightarrow> bm_insert k v m = m @ [(k, v)]"
  by (induction k v m rule: bm_insert.induct) auto

lemma write_audit_row_frame [simp]:
  "business (fst (write_audit_row l row w)) = business (fst w)"
  "st_sessions (fst (write_audit_row l row w)) = st_sessions (fst w)"
  "st_audit_tip (fst (write_audit_row l row w)) = Some l"
  "st_last_applied (fst (write_audit_row l row w)) = st_last_applied (fst w)"
  by (simp_all add: write_audit_row_def Let_def upd_state_def put_audit_def set_reserve_def)

text \<open>The table before pruning.\<close>

lemma write_audit_row_rows:
  assumes "bm_ok (st_audit (fst w))" "\<forall>(j, r)\<in>set (st_audit (fst w)). j < log_key l"
  shows "st_audit (fst (write_audit_row l row w)) =
    drop (Suc (length (st_audit (fst w))) - MAX_AUDIT_ROWS) (st_audit (fst w) @ [(log_key l, row)])"
proof -
  have ins: "bm_insert (log_key l) row (st_audit (fst w)) = st_audit (fst w) @ [(log_key l, row)]"
    using assms(2) by (rule bm_insert_append)
  then have "bm_ok (st_audit (fst w) @ [(log_key l, row)])"
    using bm.ok_put [OF assms(1), of "log_key l" row] by simp
  then show ?thesis
    unfolding write_audit_row_def Let_def
    by (subst prune_audit_rows) (simp_all add: upd_state_def put_audit_def ins)
qed

lemma write_audit_row_reserve:
  assumes "bm_ok (st_audit (fst w))" "bm_get (st_audit (fst w)) (log_key l) = None" "reserve_tracks (fst w)"
  shows "reserve_tracks (fst (write_audit_row l row w))"
proof -
  have "reserve_total (fst w) mod u64_size = st_reserve_bytes (fst w)"
    using assms(3) by (simp add: reserve_tracks_def)
  then show ?thesis
    unfolding write_audit_row_def Let_def
    using assms reserve_total_audit_insert [OF assms(1,2), of row]
      add_u64_mod [of "reserve_total (fst w)" "audit_row_charge (log_key l) row"]
    by (intro prune_audit_reserve)
      (simp_all add: upd_state_def put_audit_def reserve_tracks_def reserve_total_def audit_row_charge_def
        add.assoc)
qed

end
