(* ===== verification/Coord_Lease.thy ===== *)
theory Coord_Lease
  imports Coord_Audit
begin

text \<open>
  The lease protocol.  A resource row is seen as a fenced register: an epoch, the node that
  holds the lease if any, a value and its revision.  \<open>register_step\<close> is the abstract
  protocol; every decision of the resource, grant and expiry code that writes a row makes
  one of its steps, and the epoch order it gives is the fencing guarantee.
\<close>

unbundle bit_operations_syntax

section \<open>The abstract register\<close>

record register =
  rg_epoch :: nat
  rg_lease :: "node_id option"
  rg_value :: bytes
  rg_value_revision :: nat

datatype lease_event =
    Take node_id
  | Keep node_id
  | Store node_id bytes
  | Give node_id "bytes option"
  | FenceOff

inductive register_step :: "lease_event \<Rightarrow> register \<Rightarrow> register \<Rightarrow> bool" where
  take: "rg_lease r = None \<Longrightarrow>
    register_step (Take n) r (r\<lparr> rg_epoch := Suc (rg_epoch r), rg_lease := Some n \<rparr>)"
| keep: "rg_lease r = Some n \<Longrightarrow> register_step (Keep n) r r"
| store: "rg_lease r = Some n \<Longrightarrow>
    register_step (Store n v) r (r\<lparr> rg_value := v, rg_value_revision := Suc (rg_value_revision r) \<rparr>)"
| give: "rg_lease r = Some n \<Longrightarrow>
    register_step (Give n None) r (r\<lparr> rg_epoch := Suc (rg_epoch r), rg_lease := None \<rparr>)"
| give_value: "rg_lease r = Some n \<Longrightarrow>
    register_step (Give n (Some v)) r
      (r\<lparr> rg_epoch := Suc (rg_epoch r), rg_lease := None, rg_value := v,
         rg_value_revision := Suc (rg_value_revision r) \<rparr>)"
| fence_off: "register_step FenceOff r (r\<lparr> rg_epoch := Suc (rg_epoch r), rg_lease := None \<rparr>)"

inductive_cases register_stepE: "register_step ev r r'"

text \<open>The order the protocol induces: an unchanged epoch means an unchanged lease, an
  unchanged value revision an unchanged value.\<close>

definition register_le :: "register \<Rightarrow> register \<Rightarrow> bool" where
  "register_le r r' =
    ((rg_epoch r < rg_epoch r' \<or> rg_epoch r = rg_epoch r' \<and> rg_lease r = rg_lease r') \<and>
     (rg_value_revision r < rg_value_revision r' \<or>
      rg_value_revision r = rg_value_revision r' \<and> rg_value r = rg_value r'))"

lemma register_le_refl [simp]: "register_le r r"
  by (simp add: register_le_def)

lemma register_le_trans: "register_le a b \<Longrightarrow> register_le b c \<Longrightarrow> register_le a c"
  by (auto simp: register_le_def)

lemma register_step_le: "register_step ev r r' \<Longrightarrow> register_le r r'"
  by (elim register_stepE) (simp_all add: register_le_def)

section \<open>Rows as registers\<close>

definition row_register :: "resource_row \<Rightarrow> register" where
  "row_register row =
    \<lparr> rg_epoch = rr_epoch row, rg_lease = (if rr_held row then rr_holder row else None),
      rg_value = rr_value row, rg_value_revision = rr_value_revision row \<rparr>"

definition register_of :: "state \<Rightarrow> resource_key \<Rightarrow> register" where
  "register_of s k =
    row_register (case bm_get (st_resources s) k of None \<Rightarrow> default_resource_row | Some r \<Rightarrow> r)"

definition row_or_default :: "state \<Rightarrow> resource_key \<Rightarrow> resource_row" where
  "row_or_default s key = (case bm_get (st_resources s) key of None \<Rightarrow> default_resource_row | Some r \<Rightarrow> r)"

lemma register_of_row: "register_of s k = row_register (row_or_default s k)"
  by (simp add: register_of_def row_or_default_def)

lemma row_register_epoch [simp]: "rg_epoch (row_register row) = rr_epoch row"
  by (simp add: row_register_def)

lemma register_of_cong: "st_resources s = st_resources t \<Longrightarrow> register_of s = register_of t"
  by (simp add: register_of_def fun_eq_iff)

lemma incr_counter [simp]: "c < MAX_COUNTER \<Longrightarrow> add_u64 c (Suc 0) = Suc c"
  using max_counter_below_u64 by (simp add: add_u64_exact)

section \<open>What an applied resource action did\<close>

text \<open>The last match of \<open>resource::decide\<close>, and the checks before it.\<close>

definition resource_body :: "state \<Rightarrow> node_id \<Rightarrow> resource_key \<Rightarrow> resource_action \<Rightarrow> resource_decision" where
  "resource_body s actor key a =
    (let existing = bm_get (st_resources s) key in
     case a of
       Acquire _ ttl_ms \<Rightarrow> decide_acquire s actor key existing ttl_ms
     | Renew f \<Rightarrow> decide_renew actor key existing f
     | CompareAndSet f vrev v \<Rightarrow> decide_compare_and_set s actor key existing f vrev v
     | Release f \<Rightarrow> decide_release actor key existing f
     | ReleaseWithValue f vrev v \<Rightarrow> decide_release_with_value s actor key existing f vrev v a
     | Revoke _ expected_epoch \<Rightarrow> decide_revoke key existing expected_epoch)"

lemmas resource_body_defs = resource_body_def decide_acquire_def decide_renew_def
  decide_compare_and_set_def decide_release_def decide_release_with_value_def decide_revoke_def
  r_apply_def Let_def

lemma resource_body_key: "resource_body s actor key a = RApply eff \<Longrightarrow> re_key eff = key"
  by (auto simp: resource_body_defs split: resource_action.splits if_splits option.splits)

lemma resource_decide_cases:
  assumes "raw_validate (raw_resource a) = Inr key" "check_shape a = None"
    "granted_rights s key actor AND required_rights a = required_rights a"
    "pred_option (\<lambda>f. fn_group f = ga_group_id (st_authority s)) (action_fence a)"
  shows "resource_decide s actor a = resource_body s actor key a"
  using assms by (cases "action_fence a") (simp_all add: resource_decide_def resource_body_def Let_def)

lemma resource_decide_apply:
  assumes "resource_decide s actor a = RApply eff"
  shows "raw_validate (raw_resource a) = Inr (re_key eff)" "check_shape a = None"
    "granted_rights s (re_key eff) actor AND required_rights a = required_rights a"
    "pred_option (\<lambda>f. fn_group f = ga_group_id (st_authority s)) (action_fence a)"
    "resource_body s actor (re_key eff) a = RApply eff"
proof -
  obtain key where key: "raw_validate (raw_resource a) = Inr key"
    using assms by (cases "raw_validate (raw_resource a)") (auto simp: resource_decide_def)
  have shape: "check_shape a = None"
    using assms key by (auto simp: resource_decide_def split: option.splits)
  have rights: "granted_rights s key actor AND required_rights a = required_rights a"
    using assms key shape by (auto simp: resource_decide_def Let_def split: if_splits)
  have grp: "pred_option (\<lambda>f. fn_group f = ga_group_id (st_authority s)) (action_fence a)"
    using assms key shape rights
    by (cases "action_fence a") (auto simp: resource_decide_def Let_def split: if_splits)
  note body = resource_decide_cases [OF key shape rights grp]
  then have eq: "re_key eff = key" using assms resource_body_key by metis
  with key shape rights grp body assms show "raw_validate (raw_resource a) = Inr (re_key eff)"
    "check_shape a = None"
    "granted_rights s (re_key eff) actor AND required_rights a = required_rights a"
    "pred_option (\<lambda>f. fn_group f = ga_group_id (st_authority s)) (action_fence a)"
    "resource_body s actor (re_key eff) a = RApply eff"
    by simp_all
qed

primrec action_event :: "node_id \<Rightarrow> resource_action \<Rightarrow> lease_event" where
  "action_event n (Acquire _ _) = Take n"
| "action_event n (Renew _) = Keep n"
| "action_event n (CompareAndSet _ _ v) = Store n v"
| "action_event n (Release _) = Give n None"
| "action_event n (ReleaseWithValue _ _ v) = Give n (Some v)"
| "action_event n (Revoke _ _) = FenceOff"

lemma check_fence_None:
  "check_fence actor row f = None \<longleftrightarrow>
    rr_held row \<and> fn_holder f = actor \<and> rr_holder row = Some actor \<and> rr_epoch row = fn_epoch f"
  by (auto simp: check_fence_def)

text \<open>The row an applied action writes, as a function of the row it found, and the counters
  it moves.\<close>

primrec new_row :: "node_id \<Rightarrow> resource_action \<Rightarrow> resource_row \<Rightarrow> resource_row" where
  "new_row n (Acquire _ ttl) row =
    row\<lparr> rr_epoch := Suc (rr_epoch row), rr_lease_revision := Suc (rr_lease_revision row),
         rr_held := True, rr_holder := Some n, rr_ttl_ms := ttl \<rparr>"
| "new_row n (Renew _) row = row\<lparr> rr_lease_revision := Suc (rr_lease_revision row) \<rparr>"
| "new_row n (CompareAndSet _ _ v) row =
    row\<lparr> rr_value := v, rr_value_revision := Suc (rr_value_revision row) \<rparr>"
| "new_row n (Release _) row =
    row\<lparr> rr_held := False, rr_holder := None, rr_epoch := Suc (rr_epoch row),
         rr_lease_revision := Suc (rr_lease_revision row) \<rparr>"
| "new_row n (ReleaseWithValue _ _ v) row =
    row\<lparr> rr_value := v, rr_value_revision := Suc (rr_value_revision row),
         rr_held := False, rr_holder := None, rr_epoch := Suc (rr_epoch row),
         rr_lease_revision := Suc (rr_lease_revision row) \<rparr>"
| "new_row n (Revoke _ _) row =
    row\<lparr> rr_held := False, rr_holder := None, rr_epoch := Suc (rr_epoch row),
         rr_lease_revision := Suc (rr_lease_revision row) \<rparr>"

primrec moved_counters :: "resource_action \<Rightarrow> resource_row \<Rightarrow> u64 list" where
  "moved_counters (Acquire _ _) row = [rr_epoch row, rr_lease_revision row]"
| "moved_counters (Renew _) row = [rr_lease_revision row]"
| "moved_counters (CompareAndSet _ _ _) row = [rr_value_revision row]"
| "moved_counters (Release _) row = [rr_epoch row, rr_lease_revision row]"
| "moved_counters (ReleaseWithValue _ _ _) row = [rr_epoch row, rr_lease_revision row, rr_value_revision row]"
| "moved_counters (Revoke _ _) row = [rr_epoch row, rr_lease_revision row]"

lemma resource_body_apply:
  assumes "resource_body s actor key a = RApply eff"
  shows "re_row eff = new_row actor a (row_or_default s key)"
    "counters_have_room (moved_counters a (row_or_default s key))"
    "action_fence a = Some f \<Longrightarrow> check_fence actor (row_or_default s key) f = None"
    "a = Acquire raw ttl \<Longrightarrow> \<not> rr_held (row_or_default s key)"
  using assms
  by (cases a; auto simp: resource_body_defs row_or_default_def counters_have_room_def
      split: option.splits if_splits)+

text \<open>An applied action makes the step its name says on the register of its key.\<close>

lemma resource_apply_step:
  assumes "resource_body s actor key a = RApply eff"
  shows "register_step (action_event actor a) (register_of s key) (row_register (re_row eff))"
proof -
  let ?row = "row_or_default s key"
  have held: "rg_lease (row_register ?row) = Some actor" if "action_fence a = Some f" for f
    using resource_body_apply(3) [OF assms that] by (simp add: check_fence_None row_register_def)
  have free: "rg_lease (row_register ?row) = None" if "a = Acquire raw ttl" for raw ttl
    using resource_body_apply(4) [OF assms that] by (simp add: row_register_def)
  have "register_step (action_event actor a) (row_register ?row) (row_register (new_row actor a ?row))"
    using held free register_step.intros [of "row_register ?row"]
    by (cases a) (auto simp: row_register_def split: if_splits)
  then show ?thesis by (simp add: register_of_row resource_body_apply(1) [OF assms])
qed

text \<open>A fenced action applied for the holder at exactly the current epoch; one that names a
  value revision named the current one.\<close>

lemma resource_apply_fenced:
  assumes "resource_body s actor key a = RApply eff" "action_fence a = Some f"
  shows "fn_holder f = actor" "rg_lease (register_of s key) = Some actor"
    "fn_epoch f = rg_epoch (register_of s key)"
  using resource_body_apply(3) [OF assms] by (simp_all add: check_fence_None register_of_row row_register_def)

primrec action_value_revision :: "resource_action \<Rightarrow> u64 option" where
  "action_value_revision (Acquire _ _) = None"
| "action_value_revision (Renew _) = None"
| "action_value_revision (CompareAndSet _ vrev _) = Some vrev"
| "action_value_revision (Release _) = None"
| "action_value_revision (ReleaseWithValue _ vrev _) = Some vrev"
| "action_value_revision (Revoke _ _) = None"

lemma resource_apply_revision:
  assumes "resource_body s actor key a = RApply eff" "action_value_revision a = Some vrev"
  shows "vrev = rg_value_revision (register_of s key)"
  using assms
  by (cases a) (auto simp: resource_body_defs register_of_def row_register_def
      split: option.splits if_splits)

section \<open>What an applied grant did\<close>

text \<open>The row a grant writes: the next ACL revision, and the lease fenced off if the holder
  lost a right that sustains it.\<close>

definition grant_row :: "bool \<Rightarrow> resource_row \<Rightarrow> resource_row" where
  "grant_row fences row =
    (let row = row\<lparr> rr_acl_revision := Suc (rr_acl_revision row) \<rparr> in
     if fences
     then row\<lparr> rr_held := False, rr_holder := None, rr_epoch := Suc (rr_epoch row),
            rr_lease_revision := Suc (rr_lease_revision row) \<rparr>
     else row)"

lemma grant_decide_checks:
  assumes "grant_decide s actor a = GApply eff"
  obtains key where "raw_validate (gt_resource a) = Inr key" "check_rights (gt_rights a) = None"
    "is_administrator s actor"
    "gt_expected_acl_revision a = rr_acl_revision (row_or_default s key)"
proof -
  obtain key where key: "raw_validate (gt_resource a) = Inr key"
    using assms by (cases "raw_validate (gt_resource a)") (auto simp: grant_decide_def)
  have rights: "check_rights (gt_rights a) = None"
    using assms key by (auto simp: grant_decide_def split: option.splits)
  have admin: "is_administrator s actor"
    using assms key rights by (auto simp: grant_decide_def split: if_splits)
  have "gt_expected_acl_revision a = rr_acl_revision (row_or_default s key)"
    using assms key rights admin
    by (cases "bm_get (st_resources s) key")
      (auto simp: grant_decide_def Let_def row_or_default_def default_resource_row_def split: if_splits)
  with key rights admin show ?thesis by (rule that)
qed

text \<open>The rest of \<open>grant::decide\<close> once those checks passed.\<close>

definition grant_body :: "state \<Rightarrow> resource_key \<Rightarrow> grant_action \<Rightarrow> grant_decision" where
  "grant_body s key a =
    (let existing_resource = bm_get (st_resources s) key;
         existing_rights = bm_get (st_acl s) (key, gt_subject a);
         removing = (gt_rights a = 0);
         row = row_or_default s key;
         fences = grant_fences existing_resource existing_rights a;
         creates_resource = (existing_resource = None \<and> \<not> removing);
         creates_acl_row = (existing_rights = None \<and> \<not> removing)
     in
     if \<not> (if removing then existing_rights \<noteq> None else existing_rights \<noteq> Some (gt_rights a))
       then GNoOp (rr_acl_revision row)
     else if rr_acl_revision row \<ge> MAX_COUNTER \<or>
         fences \<and> (rr_epoch row \<ge> MAX_COUNTER \<or> rr_lease_revision row \<ge> MAX_COUNTER)
       then GRefuse CounterExhausted
     else if \<not> removing \<and> creates_resource \<and> length (st_resources s) \<ge> MAX_RESOURCES_PER_GROUP
       then GRefuse ResourceSlotsExhausted
     else if \<not> removing \<and> creates_acl_row \<and>
         (length (st_acl s) \<ge> MAX_ACL_ROWS_PER_GROUP \<or> grants_on s key \<ge> MAX_GRANTS_PER_RESOURCE)
       then GRefuse AclSlotsExhausted
     else if \<not> removing \<and> \<not> grant_growth_fits s key creates_resource creates_acl_row
       then GRefuse StateBudgetExhausted
     else GApply \<lparr> ge_key = key, ge_subject = gt_subject a, ge_row = grant_row fences row,
       ge_creates_resource = creates_resource,
       ge_rights = (if \<not> removing then Some (gt_rights a) else None),
       ge_creates_acl_row = creates_acl_row, ge_fenced = fences \<rparr>)"

lemma grant_decide_body:
  assumes "raw_validate (gt_resource a) = Inr key" "check_rights (gt_rights a) = None"
    "is_administrator s actor" "gt_expected_acl_revision a = rr_acl_revision (row_or_default s key)"
  shows "grant_decide s actor a = grant_body s key a"
proof (cases "bm_get (st_resources s) key")
  case None
  then have "grant_fences (bm_get (st_resources s) key) r a = False" for r
    by (simp add: grant_fences_def)
  with None assms show ?thesis
    by (simp add: grant_decide_def grant_body_def row_or_default_def default_resource_row_def
        grant_row_def Let_def)
next
  case (Some row)
  have "list_ex (\<lambda>c. MAX_COUNTER \<le> c) (rr_acl_revision row #
      (if f then [rr_epoch row, rr_lease_revision row] else [])) =
    (rr_acl_revision row \<ge> MAX_COUNTER \<or>
       f \<and> (rr_epoch row \<ge> MAX_COUNTER \<or> rr_lease_revision row \<ge> MAX_COUNTER))" for f
    by simp
  with Some assms show ?thesis
    unfolding grant_decide_def grant_body_def row_or_default_def
    by (simp add: grant_row_def Let_def not_le)
qed

lemma grant_body_apply:
  assumes "grant_body s key a = GApply eff"
  shows "ge_key eff = key" "ge_subject eff = gt_subject a"
    "ge_rights eff = (if gt_rights a = 0 then None else Some (gt_rights a))"
    "ge_creates_acl_row eff = (bm_get (st_acl s) (key, gt_subject a) = None \<and> gt_rights a \<noteq> 0)"
    "ge_fenced eff = grant_fences (bm_get (st_resources s) key) (bm_get (st_acl s) (key, gt_subject a)) a"
    "ge_row eff = grant_row (ge_fenced eff) (row_or_default s key)"
    "rr_acl_revision (row_or_default s key) < MAX_COUNTER"
    "ge_fenced eff \<Longrightarrow> rr_epoch (row_or_default s key) < MAX_COUNTER \<and>
      rr_lease_revision (row_or_default s key) < MAX_COUNTER"
    "gt_rights a = 0 \<Longrightarrow> bm_get (st_acl s) (key, gt_subject a) \<noteq> None"
    "gt_rights a \<noteq> 0 \<Longrightarrow> bm_get (st_resources s) key = None \<Longrightarrow>
      length (st_resources s) < MAX_RESOURCES_PER_GROUP"
    "ge_creates_acl_row eff \<Longrightarrow>
      length (st_acl s) < MAX_ACL_ROWS_PER_GROUP \<and> grants_on s key < MAX_GRANTS_PER_RESOURCE"
    "gt_rights a \<noteq> 0 \<Longrightarrow>
      grant_growth_fits s key (bm_get (st_resources s) key = None) (ge_creates_acl_row eff)"
  using assms by (auto simp: grant_body_def Let_def not_le split: if_splits)

lemma grant_fences_held:
  assumes "grant_fences (bm_get (st_resources s) key) rights a"
  shows "rg_lease (register_of s key) = Some (gt_subject a)"
  using assms by (auto simp: grant_fences_def register_of_def row_register_def split: option.splits)

lemma grant_row_register:
  "row_register (grant_row fences row) =
    (if fences then (row_register row)\<lparr> rg_epoch := Suc (rr_epoch row), rg_lease := None \<rparr>
     else row_register row)"
  by (simp add: grant_row_def row_register_def Let_def)

text \<open>A grant leaves the register of its resource alone or fences its holder off.\<close>

lemma grant_apply_step:
  assumes "grant_body s key a = GApply eff"
  shows "row_register (ge_row eff) = register_of s key \<or>
    register_step FenceOff (register_of s key) (row_register (ge_row eff)) \<and>
    rg_lease (register_of s key) = Some (gt_subject a)"
proof (cases "ge_fenced eff")
  case True
  then have "rg_lease (register_of s key) = Some (gt_subject a)"
    using grant_body_apply(5) [OF assms] grant_fences_held by metis
  moreover have "register_step FenceOff (register_of s key) (row_register (ge_row eff))"
    using fence_off [of "register_of s key"] True
    by (simp add: grant_body_apply(6) [OF assms] grant_row_register register_of_row)
  ultimately show ?thesis by simp
next
  case False
  then show ?thesis
    by (simp add: grant_body_apply(6) [OF assms] grant_row_register register_of_row)
qed

section \<open>What an applied expiry did\<close>

lemma expire_apply:
  assumes "expire_decide s cmd = EApply row"
  shows "bm_get (st_resources s) (ex_resource cmd) = Some (row_or_default s (ex_resource cmd))"
    "rr_held (row_or_default s (ex_resource cmd))"
    "rr_epoch (row_or_default s (ex_resource cmd)) = ex_epoch cmd"
    "rr_lease_revision (row_or_default s (ex_resource cmd)) = ex_lease_revision cmd"
    "ex_epoch cmd < MAX_COUNTER" "ex_lease_revision cmd < MAX_COUNTER"
    "row = (row_or_default s (ex_resource cmd))\<lparr> rr_held := False, rr_holder := None,
      rr_epoch := Suc (ex_epoch cmd), rr_lease_revision := Suc (ex_lease_revision cmd) \<rparr>"
  using assms
  by (auto simp: expire_decide_def row_or_default_def not_le split: option.splits if_splits)

lemma expire_apply_step:
  assumes "expire_decide s cmd = EApply row"
  shows "register_step FenceOff (register_of s (ex_resource cmd)) (row_register row)"
  using fence_off [of "register_of s (ex_resource cmd)"] expire_apply(3,7) [OF assms]
  by (simp add: register_of_row row_register_def)

section \<open>Actions that free space\<close>

lemma safety_reducing_decided:
  assumes key: "raw_validate (raw_resource a) = Inr key"
    and safe: "is_safety_reducing a (length (rr_value (row_or_default s key)))"
  shows "case resource_decide s actor a of
      RRefuse r \<Rightarrow> r \<noteq> StateBudgetExhausted \<and> r \<noteq> ResourceSlotsExhausted
    | RApply eff \<Rightarrow> resource_charge key (re_row eff) \<le> resource_charge key (row_or_default s key)
    | RShapeless _ \<Rightarrow> True"
  using assms
  by (cases a; cases "bm_get (st_resources s) key")
    (auto simp: resource_decide_def Let_def row_or_default_def decide_release_def decide_release_with_value_def
      decide_revoke_def r_apply_def check_fence_def resource_charge_def key_parts_def charge_resource_def
      split: option.splits if_splits)

end
