(* ===== verification/Coord_Step.thy ===== *)
theory Coord_Step
  imports Coord_Audit
begin

text \<open>
  The anatomy of an applied command.  Whatever its shape, a command that does not fault makes
  at most one write to the business tables (\<open>business_write\<close>, one rule per deciding module),
  then at most one session write (\<open>session_write\<close>), then appends the audit row
  \<open>audit_row_of\<close>.  \<open>dispatch_steps\<close> is that decomposition of \<open>apply_command_recording\<close>; the
  proofs about whole commands are case analyses over the two relations.
\<close>

section \<open>The three writes\<close>

definition genesis_installs :: "externs \<Rightarrow> state \<Rightarrow> bytes \<Rightarrow> verified_genesis \<Rightarrow> bool" where
  "genesis_installs E s doc g =
    (verify_genesis E (ga_public_key (st_authority s)) (ga_domain (st_authority s)) doc = Inr g \<and>
     vg_group_id g = ga_group_id (st_authority s) \<and> vg_genesis_hash g = ga_genesis_hash (st_authority s) \<and>
     vg_deployment_profile_code g = st_deployment_profile_code s \<and> st_admin_revision s = 0 \<and>
     \<not> cm_joint (st_membership s) \<and> cm_learners (st_membership s) = {||} \<and>
     fset_of_list (map vv_node_id (vg_initial_voters g)) = cm_voters (st_membership s))"

definition install_genesis :: "externs \<Rightarrow> verified_genesis \<Rightarrow> world \<Rightarrow> world" where
  "install_genesis E g w =
    (let w = upd_state (\<lambda>s. s\<lparr> st_admin_revision := 1 \<rparr>) (put_admins (vg_initial_admins g) w)
     in set_growth (recompute_growth E (fst w)) w)"

inductive business_write :: "externs \<Rightarrow> log_id \<Rightarrow> command \<Rightarrow> world \<Rightarrow> world \<Rightarrow> bool" where
  bw_none: "business_write E l cmd w w"
| bw_resource: "resource_decide (fst w) (cl_actor client) a = RApply eff \<Longrightarrow>
    business_write E l (CClient client (ActResource a)) w (write_resource (re_key eff) (re_row eff) w)"
| bw_grant: "grant_decide (fst w) (cl_actor client) g = GApply eff \<Longrightarrow>
    business_write E l (CClient client (ActGrant g)) w
      (write_grant eff (write_resource (ge_key eff) (ge_row eff) w))"
| bw_admin: "admin_decide (fst w) (cl_actor client) ad = AApply eff \<Longrightarrow>
    business_write E l (CClient client (ActAdmin ad)) w (snd (apply_admin_effect eff w))"
| bw_change: "decide_change E (fst w) (cl_actor client) (cl_request_hash client) m = MApply eff \<Longrightarrow>
    business_write E l (CClient client (ActChangeMembership m)) w (write_intent E l eff w)"
| bw_cancel: "decide_cancel (fst w) (cl_actor client) c = MApply eff \<Longrightarrow>
    business_write E l (CClient client (ActCancelMembership c)) w (write_intent E l eff w)"
| bw_expire: "expire_decide (fst w) ex = EApply row \<Longrightarrow>
    business_write E l (CExpire ex) w (put_resource (ex_resource ex) row w)"
| bw_progress: "decide_progress (fst w) p = Some eff \<Longrightarrow>
    business_write E l (CMembershipProgress p) w (write_intent E l eff w)"
| bw_genesis: "genesis_installs E (fst w) doc g \<Longrightarrow>
    business_write E l (CGenesis doc) w (install_genesis E g w)"

inductive_cases business_writeE
  [consumes 1, case_names None Resource Grant Admin Change Cancel Expire Progress Genesis]:
  "business_write E l cmd w w'"

inductive session_write :: "command \<Rightarrow> command_reply \<Rightarrow> world \<Rightarrow> world \<Rightarrow> bool" where
  sw_none: "session_write cmd reply w w"
| sw_client: "classify_client (fst w) client = Unresolved row creates \<Longrightarrow>
    session_write (CClient client a) (ReplyClient r) w (write_session client (Some (cr_reply r)) w)"
| sw_rejected: "classify_client (fst w) client = Unresolved row creates \<Longrightarrow>
    session_write (CRejectedClient client code res) (ReplyClient r) w
      (write_session client (Some (cr_reply r)) w)"
| sw_retire: "retire_decide (fst w) rc = TApply eff \<Longrightarrow> effect_row (fst w) rc eff = Some row \<Longrightarrow>
    session_write (CRetireClient rc) (ReplyRetirement r) w
      (store_session (rc_target_actor rc, rc_target_client_id rc) row w)"

inductive_cases session_writeE [consumes 1, case_names None Client Rejected Retire]: "session_write cmd reply w w'"

definition client_audit_row :: "log_id \<Rightarrow> client_ref \<Rightarrow> i32 \<Rightarrow> client_result \<Rightarrow> u64 \<Rightarrow> u64 \<Rightarrow> audit_row" where
  "client_audit_row l client code r e v =
    \<lparr> au_leader_node_id = lg_leader l, au_actor = Some (cl_actor client), au_operation_code = code,
      au_resource = sr_resource (cr_reply r), au_result = AuditClient (sr_outcome (cr_reply r)),
      au_epoch = e, au_value_revision = v \<rparr>"

definition system_audit_row :: "log_id \<Rightarrow> i32 \<Rightarrow> resource_key option \<Rightarrow> i32 \<Rightarrow> u64 \<Rightarrow> audit_row" where
  "system_audit_row l code res result e =
    \<lparr> au_leader_node_id = lg_leader l, au_actor = Some (lg_leader l), au_operation_code = code,
      au_resource = res, au_result = AuditSystem result, au_epoch = e, au_value_revision = 0 \<rparr>"

definition shapeless_audit_row :: "log_id \<Rightarrow> shapeless_command \<Rightarrow> audit_row" where
  "shapeless_audit_row l sc =
    \<lparr> au_leader_node_id = lg_leader l,
      au_actor = (case sc_reply_shape sc of ShapeSystem \<Rightarrow> Some (lg_leader l) | _ \<Rightarrow> sc_actor sc),
      au_operation_code = sc_operation_code sc, au_resource = sc_resource sc,
      au_result = (case sc_reply_shape sc of
          ShapeSystem \<Rightarrow> AuditSystem (sc_system_result_code sc) | _ \<Rightarrow> AuditClient Rejected),
      au_epoch = 0, au_value_revision = 0 \<rparr>"

definition retire_audit_row :: "log_id \<Rightarrow> retire_command \<Rightarrow> outcome \<Rightarrow> audit_row" where
  "retire_audit_row l rc outcome =
    \<lparr> au_leader_node_id = lg_leader l, au_actor = Some (rc_actor rc),
      au_operation_code = OPERATION_RETIRE_CLIENT, au_resource = None,
      au_result = AuditClient outcome, au_epoch = 0, au_value_revision = 0 \<rparr>"

text \<open>The row a command and its reply are audited as; the state is the one the business write
  left.\<close>

inductive audit_row_of :: "log_id \<Rightarrow> command \<Rightarrow> command_reply \<Rightarrow> state \<Rightarrow> audit_row \<Rightarrow> bool" where
  ar_client: "audit_row_of l (CClient client a) (ReplyClient r) s
    (client_audit_row l client (operation_code a) r
      (case sr_snapshot (cr_reply r) of None \<Rightarrow> 0 | Some ss \<Rightarrow> ss_epoch ss)
      (case sr_snapshot (cr_reply r) of None \<Rightarrow> 0 | Some ss \<Rightarrow> ss_value_revision ss))"
| ar_rejected: "audit_row_of l (CRejectedClient client code res) (ReplyClient r) s
    (client_audit_row l client code r 0 0)"
| ar_shapeless: "audit_row_of l (CShapeless sc) reply s (shapeless_audit_row l sc)"
| ar_expire: "sy_system_result_code r \<in> {SYS_EXPIRED, SYS_EXPIRY_STALE} \<Longrightarrow>
    audit_row_of l (CExpire ex) (ReplySystem r) s
      (system_audit_row l OPERATION_EXPIRE (Some (ex_resource ex)) (sy_system_result_code r)
        (case bm_get (st_resources s) (ex_resource ex) of None \<Rightarrow> 0 | Some row \<Rightarrow> rr_epoch row))"
| ar_progress: "sy_system_result_code r \<in> {SYS_MEMBERSHIP_ADVANCED, SYS_MEMBERSHIP_PHASE_MISMATCH} \<Longrightarrow>
    audit_row_of l (CMembershipProgress p) (ReplySystem r) s
      (system_audit_row l OPERATION_MEMBERSHIP_PROGRESS None (sy_system_result_code r) 0)"
| ar_retire: "rt_outcome r \<in> {Outcome_ClientRetired, Rejected} \<Longrightarrow>
    audit_row_of l (CRetireClient rc) (ReplyRetirement r) s (retire_audit_row l rc (rt_outcome r))"
| ar_genesis: "sy_system_result_code r \<in> {SYS_GENESIS_INSTALLED, SYS_GENESIS_ALREADY_INSTALLED} \<Longrightarrow>
    audit_row_of l (CGenesis doc) (ReplySystem r) s
      (system_audit_row l OPERATION_GENESIS None (sy_system_result_code r) 0)"

inductive_cases audit_row_ofE
  [consumes 1, case_names Client Rejected Shapeless Expire Progress Retire Genesis]:
  "audit_row_of l cmd reply s row"

text \<open>The reply to a client command.\<close>

definition client_answer :: "externs \<Rightarrow> log_id \<Rightarrow> client_ref \<Rightarrow> action \<Rightarrow> world \<Rightarrow> client_result" where
  "client_answer E l client a w =
    (case classify_client (fst w) client of
       Replay _ saved \<Rightarrow> replayed_result saved
     | ClRefuse _ reason \<Rightarrow> refused_result (rejection (fst w) (validated_resource a) reason)
     | Unresolved _ _ \<Rightarrow> fst (apply_decided E l client a w))"

definition rejected_answer :: "client_ref \<Rightarrow> resource_key option \<Rightarrow> state \<Rightarrow> client_result" where
  "rejected_answer client res s =
    (case classify_client s client of
       Replay _ saved \<Rightarrow> replayed_result saved
     | ClRefuse _ reason \<Rightarrow> refused_result (rejection s res reason)
     | Unresolved _ _ \<Rightarrow> consumed_result (rejection s res Reason_None))"

definition answered :: "externs \<Rightarrow> log_id \<Rightarrow> command \<Rightarrow> world \<Rightarrow> command_reply \<Rightarrow> bool" where
  "answered E l cmd w reply =
    (case cmd of
       CClient client a \<Rightarrow> reply = ReplyClient (client_answer E l client a w)
     | CRejectedClient client _ res \<Rightarrow> reply = ReplyClient (rejected_answer client res (fst w))
     | _ \<Rightarrow> True)"

definition command_step ::
  "externs \<Rightarrow> log_id \<Rightarrow> command \<Rightarrow> command_reply \<Rightarrow> world \<Rightarrow> world \<Rightarrow> bool" where
  "command_step E l cmd reply w w' =
    (\<exists>w1 w2 row. business_write E l cmd w w1 \<and> session_write cmd reply w1 w2 \<and>
       audit_row_of l cmd reply (fst w1) row \<and> answered E l cmd w reply \<and> w' = write_audit_row l row w2)"

lemma command_stepI:
  assumes "business_write E l cmd w w1" "session_write cmd reply w1 w2"
    "audit_row_of l cmd reply (fst w1) row" "answered E l cmd w reply"
  shows "command_step E l cmd reply w (write_audit_row l row w2)"
  using assms unfolding command_step_def by blast

lemma command_stepE [elim?]:
  assumes "command_step E l cmd reply w w'"
  obtains w1 w2 row where "business_write E l cmd w w1" "session_write cmd reply w1 w2"
    "audit_row_of l cmd reply (fst w1) row" "answered E l cmd w reply" "w' = write_audit_row l row w2"
  using assms unfolding command_step_def by blast

section \<open>Frames of the writes\<close>

lemma install_genesis_frame [simp]:
  "outer (fst (install_genesis E g w)) = outer (fst w)"
  "st_resources (fst (install_genesis E g w)) = st_resources (fst w)"
  "st_acl (fst (install_genesis E g w)) = st_acl (fst w)"
  "st_intents (fst (install_genesis E g w)) = st_intents (fst w)"
  "st_routes (fst (install_genesis E g w)) = st_routes (fst w)"
  "st_admins (fst (install_genesis E g w)) = st_admins (fst w) |\<union>| fset_of_list (vg_initial_admins g)"
  "st_admin_revision (fst (install_genesis E g w)) = 1"
  using outer_writers(10,11)
  by (simp_all add: install_genesis_def Let_def, simp_all add: set_growth_def upd_state_def)

lemma business_write_outer: "business_write E l cmd w w' \<Longrightarrow> outer (fst w') = outer (fst w)"
  by (induction rule: business_write.induct) simp_all

lemma session_write_business: "session_write cmd reply w w' \<Longrightarrow> business (fst w') = business (fst w)"
  by (induction rule: session_write.induct) (simp_all add: write_session_eq)

lemma session_write_audit:
  "session_write cmd reply w w' \<Longrightarrow> st_audit (fst w') = st_audit (fst w) \<and>
    st_audit_tip (fst w') = st_audit_tip (fst w) \<and> st_audit_floor (fst w') = st_audit_floor (fst w) \<and>
    st_last_applied (fst w') = st_last_applied (fst w)"
  by (induction rule: session_write.induct) (simp_all add: write_session_eq)

lemma classify_client_cong: "st_sessions s = st_sessions t \<Longrightarrow> classify_client s c = classify_client t c"
  by (simp add: classify_client_def capacity_for_def)

section \<open>Every command takes these steps\<close>

lemma apply_decided_write:
  "business_write E l (CClient client a) w (snd (apply_decided E l client a w))"
proof (cases a)
  case (ActResource r)
  then show ?thesis
    by (cases "resource_decide (fst w) (cl_actor client) r")
      (auto simp: apply_decided_def action_decide_def apply_resource_effect_eq intro: business_write.intros)
next
  case (ActGrant g)
  then show ?thesis
    by (cases "grant_decide (fst w) (cl_actor client) g")
      (auto simp: apply_decided_def action_decide_def apply_grant_effect_eq intro: business_write.intros)
next
  case (ActAdmin ad)
  then show ?thesis
    by (cases "admin_decide (fst w) (cl_actor client) ad")
      (auto simp: apply_decided_def action_decide_def intro: business_write.intros)
next
  case (ActChangeMembership m)
  then show ?thesis
    by (cases "decide_change E (fst w) (cl_actor client) (cl_request_hash client) m")
      (auto simp: apply_decided_def action_decide_def Let_def intro: business_write.intros)
next
  case (ActCancelMembership c)
  then show ?thesis
    by (cases "decide_cancel (fst w) (cl_actor client) c")
      (auto simp: apply_decided_def action_decide_def Let_def intro: business_write.intros)
qed

lemma apply_client_step:
  assumes "apply_client E l client a w = (r, w')"
  shows "command_step E l (CClient client a) (ReplyClient r) w w'"
proof (cases "classify_client (fst w) client")
  case (Unresolved row creates)
  obtain r1 w1 where d: "apply_decided E l client a w = (r1, w1)"
    by (cases "apply_decided E l client a w")
  have bw: "business_write E l (CClient client a) w w1"
    using apply_decided_write [of E l client a w] d by simp
  then have "classify_client (fst w1) client = Unresolved row creates"
    using Unresolved classify_client_cong outer_eqD(1) [OF business_write_outer] by metis
  then have sw: "session_write (CClient client a) (ReplyClient r1) w1 (write_session client (Some (cr_reply r1)) w1)"
    by (rule sw_client)
  have "r = r1" "w' = write_audit_row l (client_audit_row l client (operation_code a) r1
      (case sr_snapshot (cr_reply r1) of None \<Rightarrow> 0 | Some ss \<Rightarrow> ss_epoch ss)
      (case sr_snapshot (cr_reply r1) of None \<Rightarrow> 0 | Some ss \<Rightarrow> ss_value_revision ss))
        (write_session client (Some (cr_reply r1)) w1)"
    using assms Unresolved d by (auto simp: apply_client_def write_audit_def client_audit_row_def)
  then show ?thesis
    using command_stepI [OF bw sw ar_client] d Unresolved by (simp add: answered_def client_answer_def)
qed (use assms in \<open>auto simp: apply_client_def write_audit_def answered_def client_answer_def
       simp flip: client_audit_row_def intro!: command_stepI bw_none sw_none ar_client\<close>)

lemma apply_rejected_client_step:
  assumes "apply_rejected_client l client code res w = (r, w')"
  shows "command_step E l (CRejectedClient client code res) (ReplyClient r) w w'"
  using assms
  by (cases "classify_client (fst w) client")
    (auto simp: apply_rejected_client_def answered_def rejected_answer_def simp flip: client_audit_row_def
      intro!: command_stepI bw_none ar_rejected intro: sw_none sw_rejected)

lemma apply_retire_step:
  assumes "apply_retire l rc w = (r, w')"
  shows "command_step E l (CRetireClient rc) (ReplyRetirement r) w w'"
proof -
  have *: "command_step E l (CRetireClient rc) (ReplyRetirement r) w
      (write_audit_row l (retire_audit_row l rc (rt_outcome r)) w2)"
    if "session_write (CRetireClient rc) (ReplyRetirement r) w w2"
      "rt_outcome r \<in> {Outcome_ClientRetired, Rejected}" for w2
    using command_stepI [OF bw_none that(1) ar_retire [OF that(2)]] by (simp add: answered_def)
  show ?thesis
  proof (cases "retire_decide (fst w) rc")
    case (TApply eff)
    then show ?thesis
      using assms * [OF sw_retire [OF TApply]] * [OF sw_none]
      by (cases "effect_row (fst w) rc eff")
        (auto simp: apply_retire_def Let_def simp flip: retire_audit_row_def store_session_def)
  next
    case (TRefuse reason)
    then show ?thesis
      using assms * [OF sw_none] by (auto simp: apply_retire_def simp flip: retire_audit_row_def)
  qed
qed

lemma apply_expire_step:
  assumes "apply_expire l ex w = (r, w')"
  shows "command_step E l (CExpire ex) (ReplySystem r) w w'"
proof (cases "expire_decide (fst w) ex")
  case (EApply row)
  let ?w1 = "put_resource (ex_resource ex) row w"
  have "w' = write_audit_row l (system_audit_row l OPERATION_EXPIRE (Some (ex_resource ex)) (sy_system_result_code r)
      (case bm_get (st_resources (fst ?w1)) (ex_resource ex) of None \<Rightarrow> 0 | Some row \<Rightarrow> rr_epoch row)) ?w1"
    "sy_system_result_code r = SYS_EXPIRED"
    using assms EApply by (auto simp: apply_expire_def Let_def system_audit_row_def)
  then show ?thesis
    using command_stepI [OF bw_expire [OF EApply] sw_none ar_expire, of r E l] by (simp add: answered_def)
next
  case EStale
  then have "w' = write_audit_row l (system_audit_row l OPERATION_EXPIRE (Some (ex_resource ex)) (sy_system_result_code r)
      (case bm_get (st_resources (fst w)) (ex_resource ex) of None \<Rightarrow> 0 | Some row \<Rightarrow> rr_epoch row)) w"
    "sy_system_result_code r = SYS_EXPIRY_STALE"
    using assms by (auto simp: apply_expire_def Let_def system_audit_row_def)
  then show ?thesis
    using command_stepI [OF bw_none sw_none ar_expire, of r E l ex w] by (simp add: answered_def)
qed

lemma apply_membership_progress_step:
  assumes "apply_membership_progress E l p w = (r, w')"
  shows "command_step E l (CMembershipProgress p) (ReplySystem r) w w'"
proof -
  have *: "command_step E l (CMembershipProgress p) (ReplySystem r) w (write_audit_row l
      (system_audit_row l OPERATION_MEMBERSHIP_PROGRESS None (sy_system_result_code r) 0) w1)"
    if "business_write E l (CMembershipProgress p) w w1"
      "sy_system_result_code r \<in> {SYS_MEMBERSHIP_ADVANCED, SYS_MEMBERSHIP_PHASE_MISMATCH}" for w1
    using command_stepI [OF that(1) sw_none ar_progress [OF that(2)]] by (simp add: answered_def)
  show ?thesis
    using assms * [OF bw_progress] * [OF bw_none]
    by (cases "decide_progress (fst w) p")
      (auto simp: apply_membership_progress_def simp flip: system_audit_row_def)
qed

lemma apply_genesis_step:
  assumes "apply_genesis E l doc w = (Inr r, w')"
  shows "command_step E l (CGenesis doc) (ReplySystem r) w w'"
proof -
  have *: "command_step E l (CGenesis doc) (ReplySystem r) w
      (write_audit_row l (genesis_audit_row l (sy_system_result_code r)) w1)"
    if "business_write E l (CGenesis doc) w w1"
      "sy_system_result_code r \<in> {SYS_GENESIS_INSTALLED, SYS_GENESIS_ALREADY_INSTALLED}" for w1
    using command_stepI [OF that(1) sw_none ar_genesis [OF that(2)]]
    by (simp add: answered_def system_audit_row_def genesis_audit_row_def)
  obtain g where g: "verify_genesis E (ga_public_key (st_authority (fst w))) (ga_domain (st_authority (fst w))) doc = Inr g"
    using assms by (cases "verify_genesis E (ga_public_key (st_authority (fst w))) (ga_domain (st_authority (fst w))) doc")
      (simp_all add: apply_genesis_def)
  show ?thesis
  proof (cases "st_admin_revision (fst w) > 0")
    case True
    with assms g show ?thesis
      using * [OF bw_none] by (auto simp: apply_genesis_def Let_def split: if_splits)
  next
    case False
    with assms g have "genesis_installs E (fst w) doc g"
      by (auto simp: apply_genesis_def genesis_installs_def Let_def split: if_splits)
    moreover have "sy_system_result_code r = SYS_GENESIS_INSTALLED"
      "w' = write_audit_row l (genesis_audit_row l SYS_GENESIS_INSTALLED) (install_genesis E g w)"
      using assms g False
      by (auto simp: apply_genesis_def install_genesis_def Let_def split: if_splits)
    ultimately show ?thesis using * [OF bw_genesis] by auto
  qed
qed

theorem dispatch_steps:
  assumes "dispatch_command E l cmd w = (Inr reply, w')"
  shows "command_step E l cmd reply w w'"
proof (cases cmd)
  case (CShapeless sc)
  have "w' = write_audit_row l (shapeless_audit_row l sc) w"
    using assms CShapeless by (auto simp: dispatch_command_def apply_shapeless_def shapeless_audit_row_def)
  then show ?thesis
    using command_stepI [OF bw_none sw_none ar_shapeless] CShapeless by (simp add: answered_def)
qed (use assms in \<open>auto simp: dispatch_command_def split: prod.splits sum.splits
       dest: apply_client_step apply_rejected_client_step apply_retire_step apply_expire_step
         apply_membership_progress_step apply_genesis_step\<close>)

text \<open>A fault changes nothing.\<close>

lemma dispatch_fault: "dispatch_command E l cmd w = (Inl f, w') \<Longrightarrow> w' = w"
  by (cases cmd)
    (auto simp: dispatch_command_def apply_genesis_def Let_def split: prod.splits sum.splits if_splits)

lemma dispatch_total:
  assumes "cmd \<noteq> CUnknown" "\<forall>doc. cmd \<noteq> CGenesis doc"
  shows "\<exists>reply w'. dispatch_command E l cmd w = (Inr reply, w')"
  using assms by (cases cmd) (auto simp: dispatch_command_def split: prod.splits)

lemma recording_cases:
  assumes "apply_command_recording E l cmd w = (r, w')"
  obtains (Fault) f where "r = Inl f" "w' = w"
  | (Applied) reply w1 where "r = Inr reply" "guard_delivery (fst w) l = None"
      "command_step E l cmd reply w w1" "w' = upd_state (\<lambda>s. s\<lparr> st_last_applied := Some l \<rparr>) w1"
proof (cases "guard_delivery (fst w) l")
  case None
  obtain x w1 where d: "dispatch_command E l cmd w = (x, w1)" by (cases "dispatch_command E l cmd w")
  show thesis
  proof (cases x)
    case (Inl f)
    with assms None d dispatch_fault [of E l cmd w f w1] show thesis
      by (intro Fault) (auto simp: apply_command_recording_def)
  next
    case (Inr reply)
    with assms None d dispatch_steps [of E l cmd w reply w1] show thesis
      by (intro Applied) (auto simp: apply_command_recording_def)
  qed
qed (use assms Fault in \<open>auto simp: apply_command_recording_def\<close>)

lemma apply_command_world:
  obtains c where "apply_command_recording E l cmd (s, empty_changes) =
    (fst (apply_command E s l cmd), (snd (apply_command E s l cmd), c))"
  by (cases "apply_command_recording E l cmd (s, empty_changes)") (auto simp: apply_command_def)

lemma apply_command_cases:
  obtains (Fault) f where "apply_command E s l cmd = (Inl f, s)"
  | (Applied) reply w1 where "fst (apply_command E s l cmd) = Inr reply" "guard_delivery s l = None"
      "command_step E l cmd reply (s, empty_changes) w1"
      "snd (apply_command E s l cmd) = (fst w1)\<lparr> st_last_applied := Some l \<rparr>"
proof -
  obtain c where c: "apply_command_recording E l cmd (s, empty_changes) =
    (fst (apply_command E s l cmd), (snd (apply_command E s l cmd), c))"
    by (rule apply_command_world)
  then show thesis
    by (cases rule: recording_cases)
      (auto simp: upd_state_def prod_eq_iff intro: Fault Applied)
qed

end
