(* ===== verification/Coord_Wire.thy ===== *)
theory Coord_Wire
  imports Coord_Apply
begin

text \<open>
  Conversions between model rows and stored wire rows
  (\<open>coordination/model/wire.rs\<close>).  Widening is total except for a plan whose
  ticket is not UTF-8; narrowing checks every width, code and pairing the model
  relies on.  A row that satisfies its width predicate survives the round trip,
  and every row narrowing accepts satisfies it.
\<close>

section \<open>Narrowing\<close>

datatype wire_error =
    We_NodeIdWidth
  | We_OperationIdWidth
  | We_HashWidth
  | We_ResourceKey
  | We_OutcomeCode
  | We_ReasonCode
  | We_DispositionCode
  | We_PhaseCode
  | We_TicketEncoding
  | We_LeaseIncoherent
  | We_IntentCompletionIncoherent
  | We_GroupMismatch
  | We_KeyMismatch

definition wire_node_id :: "bytes \<Rightarrow> wire_error + node_id" where
  "wire_node_id bs = (if length bs = NODE_ID_LEN then Inr bs else Inl We_NodeIdWidth)"

definition wire_operation_id :: "bytes \<Rightarrow> wire_error + operation_id" where
  "wire_operation_id bs = (if length bs = OPERATION_ID_LEN then Inr bs else Inl We_OperationIdWidth)"

definition wire_hash :: "bytes \<Rightarrow> wire_error + hash32" where
  "wire_hash bs = (if length bs = 32 then Inr bs else Inl We_HashWidth)"

definition wire_resource_key :: "resource_key_v1 \<Rightarrow> wire_error + resource_key" where
  "wire_resource_key k =
    (case resource_key_new (rkv_namespace k) (rkv_key k) of
       Inl _ \<Rightarrow> Inl We_ResourceKey | Inr key \<Rightarrow> Inr key)"

definition resource_key_to_wire :: "resource_key \<Rightarrow> resource_key_v1" where
  "resource_key_to_wire key = \<lparr> rkv_namespace = rk_namespace key, rkv_key = rk_key key \<rparr>"

definition log_id_from_wire :: "log_id_v1 \<Rightarrow> wire_error + log_id" where
  "log_id_from_wire l =
    sum_bind (wire_node_id (lgv_leader_node_id l)) (\<lambda>leader.
      Inr \<lparr> lg_term = lgv_term l, lg_leader = leader, lg_index = lgv_index l \<rparr>)"

definition opt_log_id :: "log_id_v1 option \<Rightarrow> wire_error + log_id option" where
  "opt_log_id l = opt_result log_id_from_wire l"

text \<open>\<open>Option::ok_or\<close>.\<close>

definition ok_or :: "'a option \<Rightarrow> 'e \<Rightarrow> 'e + 'a" where
  "ok_or x e = (case x of None \<Rightarrow> Inl e | Some a \<Rightarrow> Inr a)"

section \<open>Audit rows\<close>

definition audit_row_to_wire :: "audit_row \<Rightarrow> audit_row_v1" where
  "audit_row_to_wire row =
    \<lparr> arv_leader_node_id = au_leader_node_id row, arv_actor_node_id = au_actor row,
      arv_operation_code = au_operation_code row,
      arv_resource = map_option resource_key_to_wire (au_resource row),
      arv_result_code = audit_code (au_result row), arv_epoch = au_epoch row,
      arv_value_revision = au_value_revision row \<rparr>"

definition audit_row_from_wire :: "audit_row_v1 \<Rightarrow> wire_error + audit_row" where
  "audit_row_from_wire row =
    sum_bind (opt_result wire_resource_key (arv_resource row)) (\<lambda>resource.
    sum_bind (wire_node_id (arv_leader_node_id row)) (\<lambda>leader.
    sum_bind (opt_result wire_node_id (arv_actor_node_id row)) (\<lambda>actor.
    sum_bind (if is_system_operation (arv_operation_code row)
              then Inr (AuditSystem (arv_result_code row))
              else sum_bind (ok_or (outcome_from_code (arv_result_code row)) We_OutcomeCode)
                (\<lambda>o'. Inr (AuditClient o'))) (\<lambda>result.
      Inr \<lparr> au_leader_node_id = leader, au_actor = actor,
        au_operation_code = arv_operation_code row, au_resource = resource, au_result = result,
        au_epoch = arv_epoch row, au_value_revision = arv_value_revision row \<rparr>))))"

section \<open>Resource rows\<close>

definition resource_row_to_wire :: "resource_row \<Rightarrow> resource_row_v1" where
  "resource_row_to_wire row =
    \<lparr> rrv_epoch = rr_epoch row, rrv_held = rr_held row, rrv_holder_node_id = rr_holder row,
      rrv_ttl_ms = rr_ttl_ms row, rrv_lease_revision = rr_lease_revision row,
      rrv_value_revision = rr_value_revision row, rrv_value = rr_value row,
      rrv_acl_revision = rr_acl_revision row \<rparr>"

definition resource_row_from_wire :: "resource_row_v1 \<Rightarrow> wire_error + resource_row" where
  "resource_row_from_wire row =
    sum_bind (opt_result wire_node_id (rrv_holder_node_id row)) (\<lambda>holder.
      if rrv_held row \<noteq> (holder \<noteq> None) then Inl We_LeaseIncoherent
      else Inr \<lparr> rr_epoch = rrv_epoch row, rr_held = rrv_held row, rr_holder = holder,
        rr_ttl_ms = rrv_ttl_ms row, rr_lease_revision = rrv_lease_revision row,
        rr_value_revision = rrv_value_revision row, rr_value = rrv_value row,
        rr_acl_revision = rrv_acl_revision row \<rparr>)"

section \<open>Sessions\<close>

definition saved_snapshot_to_wire :: "bytes \<Rightarrow> saved_snapshot \<Rightarrow> saved_snapshot_v1" where
  "saved_snapshot_to_wire gid s =
    \<lparr> ssv_group_id = gid, ssv_resource = resource_key_to_wire (ss_resource s),
      ssv_epoch = ss_epoch s, ssv_holder = ss_holder s, ssv_held = ss_held s,
      ssv_ttl_ms = ss_ttl_ms s, ssv_lease_revision = ss_lease_revision s,
      ssv_value_revision = ss_value_revision s, ssv_acl_revision = ss_acl_revision s \<rparr>"

definition saved_snapshot_from_wire :: "bytes \<Rightarrow> saved_snapshot_v1 \<Rightarrow> wire_error + saved_snapshot" where
  "saved_snapshot_from_wire gid s =
    (if ssv_group_id s \<noteq> gid then Inl We_GroupMismatch
     else sum_bind (opt_result wire_node_id (ssv_holder s)) (\<lambda>holder.
       if ssv_held s \<noteq> (holder \<noteq> None) then Inl We_LeaseIncoherent
       else sum_bind (wire_resource_key (ssv_resource s)) (\<lambda>resource.
         Inr \<lparr> ss_resource = resource, ss_epoch = ssv_epoch s, ss_holder = holder,
           ss_held = ssv_held s, ss_ttl_ms = ssv_ttl_ms s,
           ss_lease_revision = ssv_lease_revision s, ss_value_revision = ssv_value_revision s,
           ss_acl_revision = ssv_acl_revision s \<rparr>)))"

primrec disposition_code :: "disposition \<Rightarrow> i32" where
  "disposition_code Consumed = 1"
| "disposition_code NotConsumed = 2"

definition STORED_DISPOSITION :: disposition where
  "STORED_DISPOSITION = Consumed"

definition saved_reply_to_wire :: "bytes \<Rightarrow> saved_reply \<Rightarrow> saved_reply_v1" where
  "saved_reply_to_wire gid r =
    \<lparr> srv_disposition_code = disposition_code STORED_DISPOSITION,
      srv_outcome_code = outcome_code (sr_outcome r), srv_reason_code = reason_code (sr_reason r),
      srv_snapshot = map_option (saved_snapshot_to_wire gid) (sr_snapshot r),
      srv_acl_revision = sr_acl_revision r, srv_admin_revision = sr_admin_revision r,
      srv_operation_id = sr_operation_id r,
      srv_membership_log_id = map_option log_id_to_wire (sr_membership_log_id r) \<rparr>"

definition saved_reply_from_wire :: "bytes \<Rightarrow> saved_reply_v1 \<Rightarrow> wire_error + saved_reply" where
  "saved_reply_from_wire gid r =
    (if srv_disposition_code r \<noteq> disposition_code STORED_DISPOSITION then Inl We_DispositionCode
     else sum_bind (opt_result (saved_snapshot_from_wire gid) (srv_snapshot r)) (\<lambda>snapshot.
       sum_bind (ok_or (outcome_from_code (srv_outcome_code r)) We_OutcomeCode) (\<lambda>o'.
       sum_bind (ok_or (reason_from_code (srv_reason_code r)) We_ReasonCode) (\<lambda>reason.
       sum_bind (opt_result wire_operation_id (srv_operation_id r)) (\<lambda>op.
       sum_bind (opt_log_id (srv_membership_log_id r)) (\<lambda>l.
         Inr \<lparr> sr_outcome = o', sr_reason = reason, sr_snapshot = snapshot,
           sr_acl_revision = srv_acl_revision r, sr_admin_revision = srv_admin_revision r,
           sr_operation_id = op, sr_membership_log_id = l \<rparr>))))))"

definition session_to_wire :: "bytes \<Rightarrow> session \<Rightarrow> client_session_v1" where
  "session_to_wire gid se =
    \<lparr> csv_last_sequence = se_last_sequence se, csv_request_hash = se_request_hash se,
      csv_last_result = map_option (saved_reply_to_wire gid) (se_last_result se),
      csv_retired = se_retired se \<rparr>"

definition session_from_wire :: "bytes \<Rightarrow> client_session_v1 \<Rightarrow> wire_error + session" where
  "session_from_wire gid se =
    sum_bind (wire_hash (csv_request_hash se)) (\<lambda>h.
    sum_bind (opt_result (saved_reply_from_wire gid) (csv_last_result se)) (\<lambda>result.
      Inr \<lparr> se_last_sequence = csv_last_sequence se, se_request_hash = h,
        se_last_result = result, se_retired = csv_retired se \<rparr>))"

section \<open>Plans, intents and routes\<close>

definition seed_from_wire :: "member_seed_v1 \<Rightarrow> wire_error + member_seed" where
  "seed_from_wire s =
    sum_bind (wire_node_id (msv_node_id s)) (\<lambda>node.
      Inr \<lparr> sd_node_id = node, sd_ticket = bytes_of_string (msv_ticket s),
        sd_join_permit = msv_signed_join_permit s \<rparr>)"

definition plan_from_wire ::
  "change_membership_action_v1 \<Rightarrow> wire_error + (operation_id \<times> log_id option \<times> membership_plan)" where
  "plan_from_wire w =
    sum_bind (collect_result seed_from_wire (cmv_member_seeds w)) (\<lambda>seeds.
    sum_bind (wire_operation_id (cmv_operation_id w)) (\<lambda>op.
    sum_bind (opt_log_id (cmv_expected_membership_log_id w)) (\<lambda>expected.
    sum_bind (collect_result (wire_node_id \<circ> nv_node_id) (cmv_desired_voters w)) (\<lambda>voters.
    sum_bind (collect_result (wire_node_id \<circ> nv_node_id) (cmv_retained_learners w)) (\<lambda>learners.
      Inr (op, expected, \<lparr> mp_desired_voters = voters, mp_retained_learners = learners,
        mp_member_seeds = seeds \<rparr>))))))"

definition intent_to_wire :: "operation_id \<Rightarrow> intent \<Rightarrow> wire_error + membership_intent_v1" where
  "intent_to_wire op i =
    sum_bind (ok_or (plan_to_wire (in_plan i) op (in_expected_membership i)) We_TicketEncoding) (\<lambda>plan.
      Inr \<lparr> miv_actor_node_id = in_actor i, miv_request_hash = in_request_hash i,
        miv_expected_membership = map_option log_id_to_wire (in_expected_membership i),
        miv_desired_plan = plan, miv_status_code = in_status_code i,
        miv_result_code = in_result_code i,
        miv_accepted_log_id = log_id_to_wire (in_accepted_log_id i),
        miv_completed_log_id = map_option log_id_to_wire (in_completed_log_id i),
        miv_observed_membership_log_id =
          map_option log_id_to_wire (in_observed_membership_log_id i) \<rparr>)"

definition PHASES :: "i32 list" where
  "PHASES = [PHASE_PENDING, PHASE_ADDING_LEARNERS, PHASE_CHANGING_VOTERS, PHASE_COMPLETED,
    PHASE_FAILED, PHASE_CANCEL_REQUESTED, PHASE_CANCELLED]"

definition intent_from_wire :: "operation_id \<Rightarrow> membership_intent_v1 \<Rightarrow> wire_error + intent" where
  "intent_from_wire op w =
    sum_bind (plan_from_wire (miv_desired_plan w)) (\<lambda>(plan_op, plan_expected, plan).
    if plan_op \<noteq> op then Inl We_KeyMismatch
    else sum_bind (opt_log_id (miv_expected_membership w)) (\<lambda>expected.
    if plan_expected \<noteq> expected then Inl We_KeyMismatch
    else if miv_status_code w \<notin> set PHASES then Inl We_PhaseCode
    else sum_bind (opt_log_id (miv_completed_log_id w)) (\<lambda>completed.
    if is_terminal_phase (miv_status_code w) \<noteq> (completed \<noteq> None)
      then Inl We_IntentCompletionIncoherent
    else
    sum_bind (wire_node_id (miv_actor_node_id w)) (\<lambda>actor.
    sum_bind (wire_hash (miv_request_hash w)) (\<lambda>h.
    sum_bind (log_id_from_wire (miv_accepted_log_id w)) (\<lambda>accepted.
    sum_bind (opt_log_id (miv_observed_membership_log_id w)) (\<lambda>observed.
      Inr \<lparr> in_actor = actor, in_request_hash = h, in_expected_membership = expected,
        in_plan = plan, in_status_code = miv_status_code w, in_result_code = miv_result_code w,
        in_accepted_log_id = accepted, in_completed_log_id = completed,
        in_observed_membership_log_id = observed \<rparr>)))))))"

definition route_to_wire :: "route \<Rightarrow> node_route_v1" where
  "route_to_wire r =
    \<lparr> nrv_ticket_bytes = ro_ticket r, nrv_source_operation_id = ro_source_operation_id r,
      nrv_introduced_log_id = log_id_to_wire (ro_introduced_log_id r) \<rparr>"

definition route_from_wire :: "node_route_v1 \<Rightarrow> wire_error + route" where
  "route_from_wire w =
    sum_bind (wire_operation_id (nrv_source_operation_id w)) (\<lambda>op.
    sum_bind (log_id_from_wire (nrv_introduced_log_id w)) (\<lambda>l.
      Inr \<lparr> ro_ticket = nrv_ticket_bytes w, ro_source_operation_id = op,
        ro_introduced_log_id = l \<rparr>))"

section \<open>Rows that can be stored\<close>

text \<open>What the fixed-width array types of the model rows guarantee (32-byte node ids
  and hashes, 16-byte operation ids, keys that passed their constructor) and the
  pairings narrowing insists on.\<close>

definition wide_node :: "node_id \<Rightarrow> bool" where
  "wide_node n = (length n = NODE_ID_LEN)"

definition wide_op :: "operation_id \<Rightarrow> bool" where
  "wide_op op = (length op = OPERATION_ID_LEN)"

definition wide_log :: "log_id \<Rightarrow> bool" where
  "wide_log l = wide_node (lg_leader l)"

definition storable_resource :: "resource_row \<Rightarrow> bool" where
  "storable_resource row =
    (pred_option wide_node (rr_holder row) \<and> rr_held row = (rr_holder row \<noteq> None))"

definition storable_snapshot :: "saved_snapshot \<Rightarrow> bool" where
  "storable_snapshot s =
    (pred_option wide_node (ss_holder s) \<and> ss_held s = (ss_holder s \<noteq> None) \<and>
     valid_resource_key (ss_resource s))"

definition storable_reply :: "saved_reply \<Rightarrow> bool" where
  "storable_reply r =
    (pred_option storable_snapshot (sr_snapshot r) \<and> pred_option wide_op (sr_operation_id r) \<and>
     pred_option wide_log (sr_membership_log_id r))"

definition storable_session :: "session \<Rightarrow> bool" where
  "storable_session se =
    (length (se_request_hash se) = 32 \<and> pred_option storable_reply (se_last_result se))"

definition storable_audit :: "audit_row \<Rightarrow> bool" where
  "storable_audit row =
    (wide_node (au_leader_node_id row) \<and> pred_option wide_node (au_actor row) \<and>
     pred_option valid_resource_key (au_resource row) \<and>
     is_system_operation (au_operation_code row) = (\<not> audit_is_client (au_result row)))"

definition storable_seed :: "member_seed \<Rightarrow> bool" where
  "storable_seed s = (wide_node (sd_node_id s) \<and> from_utf8 (sd_ticket s) \<noteq> None)"

definition storable_plan :: "membership_plan \<Rightarrow> bool" where
  "storable_plan p =
    (list_all wide_node (mp_desired_voters p) \<and> list_all wide_node (mp_retained_learners p) \<and>
     list_all storable_seed (mp_member_seeds p))"

definition storable_intent :: "intent \<Rightarrow> bool" where
  "storable_intent i =
    (wide_node (in_actor i) \<and> length (in_request_hash i) = 32 \<and>
     pred_option wide_log (in_expected_membership i) \<and> storable_plan (in_plan i) \<and>
     in_status_code i \<in> set PHASES \<and> wide_log (in_accepted_log_id i) \<and>
     pred_option wide_log (in_completed_log_id i) \<and>
     is_terminal_phase (in_status_code i) = (in_completed_log_id i \<noteq> None) \<and>
     pred_option wide_log (in_observed_membership_log_id i))"

definition storable_route :: "route \<Rightarrow> bool" where
  "storable_route r = (wide_op (ro_source_operation_id r) \<and> wide_log (ro_introduced_log_id r))"

section \<open>Round trips\<close>

lemma wire_node_id_wide [simp]: "wide_node n \<Longrightarrow> wire_node_id n = Inr n"
  by (simp add: wide_node_def wire_node_id_def)

lemma wire_operation_id_wide [simp]: "wide_op op \<Longrightarrow> wire_operation_id op = Inr op"
  by (simp add: wide_op_def wire_operation_id_def)

lemma opt_wire_node_id [simp]: "pred_option wide_node n \<Longrightarrow> opt_result wire_node_id n = Inr n"
  by (cases n) simp_all

lemma opt_wire_operation_id [simp]: "pred_option wide_op n \<Longrightarrow> opt_result wire_operation_id n = Inr n"
  by (cases n) simp_all

lemma wire_resource_key_back [simp]:
  "valid_resource_key k \<Longrightarrow> wire_resource_key (resource_key_to_wire k) = Inr k"
  by (simp add: wire_resource_key_def resource_key_to_wire_def valid_resource_key_def)

lemma log_id_back [simp]: "wide_log l \<Longrightarrow> log_id_from_wire (log_id_to_wire l) = Inr l"
  by (simp add: log_id_from_wire_def log_id_to_wire_def wide_log_def)

lemma opt_log_id_back [simp]:
  "pred_option wide_log l \<Longrightarrow> opt_log_id (map_option log_id_to_wire l) = Inr l"
  unfolding opt_log_id_def by (cases l) simp_all

lemma ok_or_codes [simp]:
  "ok_or (outcome_from_code (outcome_code o')) e = Inr o'"
  "ok_or (reason_from_code (reason_code r)) e = Inr r"
  using outcome_from_code_iff [of "outcome_code o'" o'] reason_from_code_iff [of "reason_code r" r]
  by (simp_all add: ok_or_def)

lemma resource_row_back: "storable_resource row \<Longrightarrow> resource_row_from_wire (resource_row_to_wire row) = Inr row"
  by (simp add: storable_resource_def resource_row_from_wire_def resource_row_to_wire_def)

lemma audit_row_back:
  assumes "storable_audit row"
  shows "audit_row_from_wire (audit_row_to_wire row) = Inr row"
proof -
  have "opt_result wire_resource_key (map_option resource_key_to_wire (au_resource row))
      = Inr (au_resource row)"
    using assms by (cases "au_resource row") (simp_all add: storable_audit_def)
  with assms show ?thesis
    by (cases "au_result row") (simp_all add: storable_audit_def audit_row_from_wire_def audit_row_to_wire_def)
qed

lemma snapshot_back:
  "storable_snapshot s \<Longrightarrow> saved_snapshot_from_wire gid (saved_snapshot_to_wire gid s) = Inr s"
  by (simp add: storable_snapshot_def saved_snapshot_from_wire_def saved_snapshot_to_wire_def)

lemma reply_back:
  assumes "storable_reply r"
  shows "saved_reply_from_wire gid (saved_reply_to_wire gid r) = Inr r"
proof -
  have "opt_result (saved_snapshot_from_wire gid)
      (map_option (saved_snapshot_to_wire gid) (sr_snapshot r)) = Inr (sr_snapshot r)"
    using assms by (cases "sr_snapshot r") (simp_all add: storable_reply_def snapshot_back)
  with assms show ?thesis
    by (simp add: storable_reply_def saved_reply_from_wire_def saved_reply_to_wire_def)
qed

lemma session_back:
  assumes "storable_session se"
  shows "session_from_wire gid (session_to_wire gid se) = Inr se"
proof -
  have "opt_result (saved_reply_from_wire gid)
      (map_option (saved_reply_to_wire gid) (se_last_result se)) = Inr (se_last_result se)"
    using assms by (cases "se_last_result se") (simp_all add: storable_session_def reply_back)
  with assms show ?thesis
    by (simp add: storable_session_def session_from_wire_def session_to_wire_def wire_hash_def)
qed

lemma seeds_back:
  assumes "list_all storable_seed seeds"
  shows "\<exists>ws. seeds_to_wire seeds = Some ws \<and> collect_result seed_from_wire ws = Inr seeds"
  using assms
proof (induction seeds)
  case Nil
  show ?case by simp
next
  case (Cons s seeds)
  then obtain ws where ws: "seeds_to_wire seeds = Some ws" "collect_result seed_from_wire ws = Inr seeds"
    by auto
  from Cons.prems obtain tick where tick: "from_utf8 (sd_ticket s) = Some tick"
    by (auto simp: storable_seed_def)
  then have "bytes_of_string tick = sd_ticket s"
    by (auto simp: from_utf8_def split: if_splits)
  with Cons.prems have "seed_from_wire \<lparr> msv_node_id = sd_node_id s, msv_ticket = tick,
      msv_signed_join_permit = sd_join_permit s \<rparr> = Inr s"
    by (simp add: storable_seed_def seed_from_wire_def)
  with ws tick show ?case by simp
qed

lemma nodes_back:
  "list_all wide_node ns \<Longrightarrow>
    collect_result (wire_node_id \<circ> nv_node_id) (map (\<lambda>n. \<lparr> nv_node_id = n \<rparr>) ns) = Inr ns"
  by (induction ns) simp_all

lemma plan_back:
  assumes "storable_plan p" "wide_op op" "pred_option wide_log expected"
  shows "\<exists>w. plan_to_wire p op expected = Some w \<and> plan_from_wire w = Inr (op, expected, p)"
proof -
  from assms(1) obtain ws where "seeds_to_wire (mp_member_seeds p) = Some ws"
    "collect_result seed_from_wire ws = Inr (mp_member_seeds p)"
    using seeds_back by (auto simp: storable_plan_def)
  with assms show ?thesis
    by (simp add: storable_plan_def plan_to_wire_def plan_from_wire_def nodes_back)
qed

lemma intent_back:
  assumes "storable_intent i" "wide_op op"
  shows "sum_bind (intent_to_wire op i) (intent_from_wire op) = Inr i"
proof -
  from assms obtain w where w: "plan_to_wire (in_plan i) op (in_expected_membership i) = Some w"
    "plan_from_wire w = Inr (op, in_expected_membership i, in_plan i)"
    using plan_back [of "in_plan i" op "in_expected_membership i"] by (auto simp: storable_intent_def)
  with assms show ?thesis
    by (simp add: storable_intent_def intent_to_wire_def intent_from_wire_def ok_or_def wire_hash_def)
qed

lemma route_back: "storable_route r \<Longrightarrow> route_from_wire (route_to_wire r) = Inr r"
  by (simp add: storable_route_def route_from_wire_def route_to_wire_def)

end
