(* ===== verification/Coord_Boundary.thy ===== *)
theory Coord_Boundary
  imports Coord_Wire
begin

text \<open>
  The production boundary: narrowing a wire command (\<open>coordination/model/boundary.rs\<close>),
  the canonical request hash (\<open>coordination/hash.rs\<close>), the forced apply of shape
  violations, and the projection of results onto the public replies
  (\<open>coordination/model/project.rs\<close>).
\<close>

unbundle bit_operations_syntax

section \<open>The request hash\<close>

definition ACTION_DOMAIN :: bytes where
  "ACTION_DOMAIN = bytes_of_string ''aster-coordination/action/v1'' @ [0]"

datatype hash_error = He_UnknownVariant | He_Encode

definition canonical_bytes :: "externs \<Rightarrow> action_v1 \<Rightarrow> hash_error + bytes" where
  "canonical_bytes E a =
    (if a = UnknownActionV1 then Inl He_UnknownVariant
     else ok_or (ser_action E a) He_Encode)"

definition request_hash :: "externs \<Rightarrow> action_v1 \<Rightarrow> hash_error + hash32" where
  "request_hash E a =
    sum_bind (canonical_bytes E a) (\<lambda>encoded. Inr (blake3 E (ACTION_DOMAIN @ encoded)))"

section \<open>Narrowing\<close>

datatype narrow_error = UnknownVariant | MalformedField shape_limit

definition narrow_node_id :: "bytes \<Rightarrow> narrow_error + node_id" where
  "narrow_node_id bs =
    (if length bs = NODE_ID_LEN then Inr bs else Inl (MalformedField Lim_NodeIdWidth))"

definition narrow_client_id :: "bytes \<Rightarrow> narrow_error + client_id" where
  "narrow_client_id bs =
    (if length bs = CLIENT_ID_LEN then Inr bs else Inl (MalformedField Lim_ClientIdWidth))"

definition narrow_hash :: "bytes \<Rightarrow> narrow_error + hash32" where
  "narrow_hash bs =
    (if length bs = 32 then Inr bs else Inl (MalformedField Lim_RequestHashWidth))"

definition raw_key :: "resource_key_v1 \<Rightarrow> raw_resource_key" where
  "raw_key k = \<lparr> rw_namespace = rkv_namespace k, rw_key = rkv_key k \<rparr>"

definition narrow_fence :: "fence_v1 \<Rightarrow> narrow_error + fence" where
  "narrow_fence f =
    sum_bind (if length (fnv_group_id f) = GROUP_ID_LEN then Inr (fnv_group_id f)
              else Inl (MalformedField Lim_FenceGroupWidth)) (\<lambda>gid.
    sum_bind (narrow_node_id (fnv_holder f)) (\<lambda>holder.
      Inr \<lparr> fn_group = gid, fn_resource = raw_key (fnv_resource f), fn_epoch = fnv_epoch f,
        fn_holder = holder \<rparr>))"

definition narrow_log_id :: "log_id_v1 \<Rightarrow> narrow_error + log_id" where
  "narrow_log_id l =
    (case log_id_from_wire l of
       Inl _ \<Rightarrow> Inl (MalformedField Lim_NodeIdWidth) | Inr r \<Rightarrow> Inr r)"

definition narrow_seed :: "member_seed_v1 \<Rightarrow> narrow_error + member_seed" where
  "narrow_seed s =
    sum_bind (narrow_node_id (msv_node_id s)) (\<lambda>node.
      Inr \<lparr> sd_node_id = node, sd_ticket = bytes_of_string (msv_ticket s),
        sd_join_permit = msv_signed_join_permit s \<rparr>)"

definition narrow_change_membership ::
  "change_membership_action_v1 \<Rightarrow> narrow_error + change_membership_action" where
  "narrow_change_membership a =
    sum_bind (narrow_client_id (cmv_operation_id a)) (\<lambda>op.
    sum_bind (opt_result narrow_log_id (cmv_expected_membership_log_id a)) (\<lambda>expected.
    sum_bind (collect_result (narrow_node_id \<circ> nv_node_id) (cmv_desired_voters a)) (\<lambda>voters.
    sum_bind (collect_result (narrow_node_id \<circ> nv_node_id) (cmv_retained_learners a)) (\<lambda>learners.
    sum_bind (collect_result narrow_seed (cmv_member_seeds a)) (\<lambda>seeds.
      Inr \<lparr> ma_operation_id = op, ma_expected_membership_log_id = expected,
        ma_plan = \<lparr> mp_desired_voters = voters, mp_retained_learners = learners,
          mp_member_seeds = seeds \<rparr> \<rparr>)))))"

fun action_from_wire :: "action_v1 \<Rightarrow> narrow_error + action" where
  "action_from_wire (AcquireV1 a) =
    Inr (ActResource (Acquire (raw_key (aqv_resource a)) (aqv_ttl_ms a)))"
| "action_from_wire (RenewV1 a) =
    sum_bind (narrow_fence (rnv_fence a)) (\<lambda>f. Inr (ActResource (Renew f)))"
| "action_from_wire (CompareAndSetV1 a) =
    sum_bind (narrow_fence (casv_fence a)) (\<lambda>f.
      Inr (ActResource (CompareAndSet f (casv_expected_value_revision a) (casv_new_value a))))"
| "action_from_wire (ReleaseV1 a) =
    sum_bind (narrow_fence (rlv_fence a)) (\<lambda>f. Inr (ActResource (Release f)))"
| "action_from_wire (ReleaseWithValueV1 a) =
    sum_bind (narrow_fence (rwv_fence a)) (\<lambda>f.
      Inr (ActResource (ReleaseWithValue f (rwv_expected_value_revision a) (rwv_final_value a))))"
| "action_from_wire (RevokeV1 a) =
    Inr (ActResource (Revoke (raw_key (rvv_resource a)) (rvv_expected_epoch a)))"
| "action_from_wire (SetGrantV1 a) =
    sum_bind (narrow_node_id (sgv_target_node_id a)) (\<lambda>subject.
      Inr (ActGrant \<lparr> gt_resource = raw_key (sgv_resource a), gt_subject = subject,
        gt_rights = sgv_rights a, gt_expected_acl_revision = sgv_expected_acl_revision a \<rparr>))"
| "action_from_wire (SetAdminV1 a) =
    sum_bind (narrow_node_id (sav_target_node_id a)) (\<lambda>target.
      Inr (ActAdmin \<lparr> aa_target = target, aa_enabled = sav_enabled a,
        aa_expected_admin_revision = sav_expected_admin_revision a \<rparr>))"
| "action_from_wire (ChangeMembershipV1 a) =
    sum_bind (narrow_change_membership a) (\<lambda>m. Inr (ActChangeMembership m))"
| "action_from_wire (CancelMembershipV1 a) =
    sum_bind (narrow_client_id (clv_operation_id a)) (\<lambda>op.
      Inr (ActCancelMembership \<lparr> mc_operation_id = op,
        mc_expected_phase_code = clv_expected_phase_code a \<rparr>))"
| "action_from_wire UnknownActionV1 = Inl UnknownVariant"

definition narrow_client :: "client_command_v1 \<Rightarrow> narrow_error + client_ref" where
  "narrow_client c =
    sum_bind (narrow_node_id (ccv_actor_node_id c)) (\<lambda>actor.
    sum_bind (narrow_client_id (ccv_client_id c)) (\<lambda>cid.
    sum_bind (narrow_hash (ccv_request_hash c)) (\<lambda>h.
      Inr \<lparr> cl_actor = actor, cl_client_id = cid, cl_sequence = ccv_sequence c,
        cl_request_hash = h \<rparr>)))"

definition narrow_hashed_action :: "externs \<Rightarrow> client_command_v1 \<Rightarrow> narrow_error + action" where
  "narrow_hashed_action E c =
    sum_bind (action_from_wire (ccv_action c)) (\<lambda>narrowed.
      case request_hash E (ccv_action c) of
        Inl _ \<Rightarrow> Inl (MalformedField Lim_RequestHashMismatch)
      | Inr expected \<Rightarrow>
          sum_bind (narrow_hash (ccv_request_hash c)) (\<lambda>h.
            if h \<noteq> expected then Inl (MalformedField Lim_RequestHashMismatch) else Inr narrowed))"

fun command_from_wire :: "externs \<Rightarrow> command_v1 \<Rightarrow> narrow_error + command" where
  "command_from_wire E (ClientV1 c) =
    sum_bind (narrow_client c) (\<lambda>client.
    sum_bind (narrow_hashed_action E c) (\<lambda>a. Inr (CClient client a)))"
| "command_from_wire E (ExpireV1 e) =
    (case raw_validate (raw_key (exv_resource e)) of
       Inl limit \<Rightarrow> Inl (MalformedField limit)
     | Inr key \<Rightarrow>
         Inr (CExpire \<lparr> ex_resource = key, ex_epoch = exv_epoch e,
           ex_lease_revision = exv_lease_revision e \<rparr>))"
| "command_from_wire E (MembershipProgressV1 m) =
    sum_bind (narrow_client_id (mpv_operation_id m)) (\<lambda>op.
    sum_bind (opt_result narrow_log_id (mpv_observed_membership_log_id m)) (\<lambda>observed.
      Inr (CMembershipProgress \<lparr> pg_operation_id = op, pg_expected_phase = mpv_expected_phase m,
        pg_new_phase = mpv_new_phase m, pg_observed_membership_log_id = observed,
        pg_result_code = mpv_result_code m \<rparr>)))"
| "command_from_wire E (RetireClientV1 r) =
    sum_bind (narrow_node_id (rcv_actor_node_id r)) (\<lambda>actor.
    sum_bind (narrow_node_id (rcv_target_node_id r)) (\<lambda>target.
    sum_bind (narrow_client_id (rcv_target_client_id r)) (\<lambda>cid.
      Inr (CRetireClient \<lparr> rc_actor = actor, rc_target_actor = target,
        rc_target_client_id = cid \<rparr>))))"
| "command_from_wire E (GenesisV1 g) = Inr (CGenesis (gnv_signed_genesis g))"
| "command_from_wire E UnknownCommandV1 = Inr CUnknown"

section \<open>Shape rejections\<close>

definition unknown_variant :: "command_v1 \<Rightarrow> bool" where
  "unknown_variant cmd =
    (case cmd of
       UnknownCommandV1 \<Rightarrow> True
     | ClientV1 c \<Rightarrow> ccv_action c = UnknownActionV1
     | _ \<Rightarrow> False)"

definition wire_action_key :: "action_v1 \<Rightarrow> raw_resource_key option" where
  "wire_action_key a =
    (case a of
       AcquireV1 x \<Rightarrow> Some (raw_key (aqv_resource x))
     | RenewV1 x \<Rightarrow> Some (raw_key (fnv_resource (rnv_fence x)))
     | CompareAndSetV1 x \<Rightarrow> Some (raw_key (fnv_resource (casv_fence x)))
     | ReleaseV1 x \<Rightarrow> Some (raw_key (fnv_resource (rlv_fence x)))
     | ReleaseWithValueV1 x \<Rightarrow> Some (raw_key (fnv_resource (rwv_fence x)))
     | RevokeV1 x \<Rightarrow> Some (raw_key (rvv_resource x))
     | SetGrantV1 x \<Rightarrow> Some (raw_key (sgv_resource x))
     | _ \<Rightarrow> None)"

definition wire_resource :: "action_v1 \<Rightarrow> resource_key option" where
  "wire_resource a = Option.bind (wire_action_key a) (\<lambda>raw. sum_ok (raw_validate raw))"

primrec wire_operation_code :: "action_v1 \<Rightarrow> i32" where
  "wire_operation_code (AcquireV1 _) = 1"
| "wire_operation_code (RenewV1 _) = 2"
| "wire_operation_code (CompareAndSetV1 _) = 3"
| "wire_operation_code (ReleaseV1 _) = 4"
| "wire_operation_code (ReleaseWithValueV1 _) = 5"
| "wire_operation_code (RevokeV1 _) = 6"
| "wire_operation_code (SetGrantV1 _) = 7"
| "wire_operation_code (SetAdminV1 _) = 8"
| "wire_operation_code (ChangeMembershipV1 _) = 9"
| "wire_operation_code (CancelMembershipV1 _) = 11"
| "wire_operation_code UnknownActionV1 = 0"

fun shape_rejection :: "command_v1 \<Rightarrow> command" where
  "shape_rejection (ClientV1 c) =
    (case narrow_client c of
       Inr client \<Rightarrow>
         CRejectedClient client (wire_operation_code (ccv_action c)) (wire_resource (ccv_action c))
     | Inl _ \<Rightarrow>
         CShapeless \<lparr> sc_operation_code = wire_operation_code (ccv_action c),
           sc_reply_shape = ShapeClient, sc_system_result_code = 0,
           sc_actor = sum_ok (narrow_node_id (ccv_actor_node_id c)),
           sc_resource = wire_resource (ccv_action c) \<rparr>)"
| "shape_rejection (RetireClientV1 r) =
    CShapeless \<lparr> sc_operation_code = OPERATION_RETIRE_CLIENT, sc_reply_shape = ShapeRetirement,
      sc_system_result_code = 0, sc_actor = sum_ok (narrow_node_id (rcv_actor_node_id r)),
      sc_resource = None \<rparr>"
| "shape_rejection (ExpireV1 _) =
    CShapeless \<lparr> sc_operation_code = OPERATION_EXPIRE, sc_reply_shape = ShapeSystem,
      sc_system_result_code = SYS_EXPIRE_MALFORMED, sc_actor = None, sc_resource = None \<rparr>"
| "shape_rejection (MembershipProgressV1 _) =
    CShapeless \<lparr> sc_operation_code = OPERATION_MEMBERSHIP_PROGRESS, sc_reply_shape = ShapeSystem,
      sc_system_result_code = SYS_MEMBERSHIP_MALFORMED, sc_actor = None, sc_resource = None \<rparr>"
| "shape_rejection (GenesisV1 g) = CGenesis (gnv_signed_genesis g)"
| "shape_rejection UnknownCommandV1 = CUnknown"

text \<open>A command that does not encode measures \<open>usize::MAX\<close>, which is over the cap.\<close>

definition oversized :: "externs \<Rightarrow> command_v1 \<Rightarrow> bool" where
  "oversized E cmd =
    (check_encoded_command (case ser_command E cmd of None \<Rightarrow> u64_max | Some bs \<Rightarrow> length bs) \<noteq> None)"

definition command_for_apply :: "externs \<Rightarrow> command_v1 \<Rightarrow> narrow_error + command" where
  "command_for_apply E cmd =
    (if unknown_variant cmd then Inl UnknownVariant
     else if oversized E cmd then Inr (shape_rejection cmd)
     else case command_from_wire E cmd of
       Inr model \<Rightarrow> Inr model
     | Inl UnknownVariant \<Rightarrow> Inl UnknownVariant
     | Inl (MalformedField _) \<Rightarrow> Inr (shape_rejection cmd))"

section \<open>Projecting a reply\<close>

datatype provenance = FirstAttempt | ReplayProvenance

definition project_snapshot :: "bytes \<Rightarrow> provenance \<Rightarrow> bytes option \<Rightarrow> saved_snapshot \<Rightarrow> resource_snapshot_v1" where
  "project_snapshot gid prov v s =
    (let (v, redacted) = (case prov of FirstAttempt \<Rightarrow> (v, False) | ReplayProvenance \<Rightarrow> (None, True)) in
     \<lparr> rsv_group_id = gid,
       rsv_resource = \<lparr> rkv_namespace = rk_namespace (ss_resource s), rkv_key = rk_key (ss_resource s) \<rparr>,
       rsv_epoch = ss_epoch s, rsv_holder = ss_holder s, rsv_held = ss_held s,
       rsv_ttl_ms = ss_ttl_ms s, rsv_lease_revision = ss_lease_revision s,
       rsv_value_revision = ss_value_revision s, rsv_acl_revision = ss_acl_revision s,
       rsv_value = v, rsv_value_redacted = redacted \<rparr>)"

definition client_reply ::
  "bytes \<Rightarrow> saved_reply \<Rightarrow> disposition \<Rightarrow> provenance \<Rightarrow> bytes option \<Rightarrow> client_reply_v1" where
  "client_reply gid reply d prov v =
    \<lparr> crv_disposition_code = (case d of Consumed \<Rightarrow> 1 | NotConsumed \<Rightarrow> 2),
      crv_outcome_code = outcome_code (sr_outcome reply),
      crv_reason_code = reason_code (sr_reason reply),
      crv_snapshot = map_option (project_snapshot gid prov v) (sr_snapshot reply),
      crv_acl_revision = sr_acl_revision reply, crv_admin_revision = sr_admin_revision reply,
      crv_operation_id = sr_operation_id reply,
      crv_membership_log_id = map_option log_id_to_wire (sr_membership_log_id reply) \<rparr>"

definition system_reply :: "i32 \<Rightarrow> u64 \<Rightarrow> log_id option \<Rightarrow> system_reply_v1" where
  "system_reply code lease_revision l =
    \<lparr> syv_system_result_code = code, syv_lease_revision = lease_revision,
      syv_membership_log_id = map_option log_id_to_wire l \<rparr>"

definition retirement_reply :: "outcome \<Rightarrow> reason \<Rightarrow> retirement_reply_v1" where
  "retirement_reply o' reason =
    \<lparr> rtv_outcome_code = outcome_code o', rtv_reason_code = reason_code reason \<rparr>"

definition reply_value :: "state \<Rightarrow> command \<Rightarrow> client_result \<Rightarrow> bytes option" where
  "reply_value s cmd result =
    (if cr_replayed result then None
     else Option.bind (sr_resource (cr_reply result)) (\<lambda>key.
       Option.bind (case cmd of CClient client _ \<Rightarrow> Some (cl_actor client) | _ \<Rightarrow> None) (\<lambda>actor.
         if granted_rights s key actor AND RIGHT_READ \<noteq> 0
         then map_option rr_value (bm_get (st_resources s) key) else None)))"

definition client_reply_for :: "state \<Rightarrow> bytes \<Rightarrow> command \<Rightarrow> client_result \<Rightarrow> client_reply_v1" where
  "client_reply_for s gid cmd result =
    client_reply gid (cr_reply result) (cr_disposition result)
      (if cr_replayed result then ReplayProvenance else FirstAttempt) (reply_value s cmd result)"

definition reply_to_wire :: "state \<Rightarrow> bytes \<Rightarrow> command \<Rightarrow> command_reply \<Rightarrow> command_reply_v1" where
  "reply_to_wire s gid cmd reply =
    (case reply of
       ReplyClient result \<Rightarrow> ClientReplyV1 (client_reply_for s gid cmd result)
     | ReplySystem r \<Rightarrow>
         SystemReplyV1 (system_reply (sy_system_result_code r) (sy_lease_revision r)
           (st_membership_log_id s))
     | ReplyRetirement r \<Rightarrow> RetirementReplyV1 (retirement_reply (rt_outcome r) (rt_reason r)))"

definition apply_wire_command_recording ::
  "externs \<Rightarrow> log_id \<Rightarrow> bytes \<Rightarrow> command_v1 \<Rightarrow> world \<Rightarrow> (fault + command_reply_v1) \<times> world" where
  "apply_wire_command_recording E l gid cmd w =
    (case command_for_apply E cmd of
       Inl _ \<Rightarrow> (Inl UnknownCommand, w)
     | Inr model \<Rightarrow>
       (case apply_command_recording E l model w of
          (Inl f, w) \<Rightarrow> (Inl f, w)
        | (Inr reply, w) \<Rightarrow> (Inr (reply_to_wire (fst w) gid model reply), w)))"

definition apply_wire_command ::
  "externs \<Rightarrow> state \<Rightarrow> log_id \<Rightarrow> bytes \<Rightarrow> command_v1 \<Rightarrow> (fault + command_reply_v1) \<times> state" where
  "apply_wire_command E s l gid cmd =
    (case apply_wire_command_recording E l gid cmd (s, empty_changes) of (r, w) \<Rightarrow> (r, fst w))"

end
