(* ===== verification/Coord_Rows.thy ===== *)
theory Coord_Rows
  imports Coord_Boundary
begin

text \<open>
  What a stored state must satisfy to be opened (\<open>coordination/storage/rows.rs\<close>):
  the metadata rules and the seventeen row invariants, in the order a load applies
  them.  A check that returns \<open>Ok(())\<close> is \<open>True\<close>; \<open>validate_rows\<close> reports the name of
  the first rule that fails.  OpenRaft's membership is its list of configurations and
  its node map, the two things its accessors expose.
\<close>

section \<open>The durable state\<close>

record raft_membership =
  om_configs :: "node_id fset list"
  om_nodes :: "node_id fset"

record stored_membership =
  sm_log_id :: "log_id option"
  sm_membership :: raft_membership

text \<open>Where a group restored from an export came from (\<open>raft.rs\<close>).\<close>

record recovered_from_v1 =
  rfv_source_group_id :: bytes
  rfv_source_genesis_hash :: bytes
  rfv_source_authority_public_key :: bytes
  rfv_source_authority_domain :: string
  rfv_export_hash :: bytes
  rfv_source_last_applied :: "log_id_v1 option"

record durable_state =
  ds_model :: state
  ds_membership :: stored_membership
  ds_recovery_export_hash :: "bytes option"
  ds_recovered_from :: "recovered_from_v1 option"

text \<open>\<open>Membership::voter_ids\<close>: the union of every configuration.\<close>

definition voter_ids :: "raft_membership \<Rightarrow> node_id fset" where
  "voter_ids m = foldr (|\<union>|) (om_configs m) {||}"

definition membership_names_root :: "raft_membership \<Rightarrow> node_id \<Rightarrow> bool" where
  "membership_names_root m root = (root |\<in>| voter_ids m \<or> root |\<in>| om_nodes m)"

definition project_membership :: "raft_membership \<Rightarrow> committed_membership" where
  "project_membership m =
    \<lparr> cm_voters = voter_ids m,
      cm_learners = ffilter (\<lambda>n. \<not> list_ex (\<lambda>c. n |\<in>| c) (om_configs m)) (om_nodes m),
      cm_joint = (length (om_configs m) > 1) \<rparr>"

section \<open>Metadata rules\<close>

definition check_authority_domain :: "string \<Rightarrow> bool" where
  "check_authority_domain domain =
    (domain \<noteq> [] \<and> length domain \<le> MAX_AUTHORITY_DOMAIN_BYTES \<and> is_ascii domain)"

text \<open>An id that names an applied entry: at or below \<open>last_applied\<close>.\<close>

definition id_within :: "state \<Rightarrow> log_id \<Rightarrow> bool" where
  "id_within s l = (case st_last_applied s of None \<Rightarrow> False | Some lst \<Rightarrow> lg_index l \<le> lg_index lst)"

definition membership_id_ok :: "state \<Rightarrow> log_id \<Rightarrow> bool" where
  "membership_id_ok s l =
    (case st_last_applied s of
       None \<Rightarrow> False
     | Some lst \<Rightarrow> \<not> lg_index l > lg_index lst \<and> \<not> (lg_index l = lg_index lst \<and> l \<noteq> lst))"

definition validate_meta :: "externs \<Rightarrow> durable_state \<Rightarrow> string option" where
  "validate_meta E d =
    (let s = ds_model d;
         m = sm_membership (ds_membership d);
         membership_log_id = sm_log_id (ds_membership d);
         named = (om_configs m \<noteq> [] \<or> om_nodes m \<noteq> {||})
     in
     if \<not> verifying_key_ok E (ga_public_key (st_authority s)) then Some ''authority_public_key''
     else if \<not> check_authority_domain (ga_domain (st_authority s)) then Some ''authority_domain''
     else if st_growth_bytes s > GROWTH_BUDGET then Some ''aggregate_growth_bytes''
     else if st_reserve_bytes s > RESERVE_BUDGET then Some ''aggregate_reserve_bytes''
     else if st_deployment_profile_code s \<notin> set PROFILES then Some ''deployment_profile_code''
     else if length (om_configs m) > 2 then Some ''membership''
     else if list_ex (\<lambda>c. profile_permits_voters (st_deployment_profile_code s) (fcard c)) (om_configs m)
       then Some ''membership''
     else if fcard (cm_learners (st_membership s)) > MAX_LEARNER_ENVELOPE then Some ''membership''
     else if named \<noteq> (membership_log_id \<noteq> None) then Some ''membership''
     else if \<not> pred_option (membership_id_ok s) membership_log_id then Some ''membership''
     else if st_membership s \<noteq> project_membership m then Some ''membership''
     else if st_membership_log_id s \<noteq> membership_log_id then Some ''membership''
     else if \<not> pred_option (id_within s) (st_audit_floor s) then Some ''audit_floor''
     else None)"

section \<open>Row rules\<close>

definition check_root_not_a_member :: "durable_state \<Rightarrow> bool" where
  "check_root_not_a_member d =
    (\<not> membership_names_root (sm_membership (ds_membership d)) (ga_public_key (st_authority (ds_model d))))"

definition check_table_caps :: "state \<Rightarrow> bool" where
  "check_table_caps s =
    (length (st_resources s) \<le> MAX_RESOURCES_PER_GROUP \<and>
     length (st_acl s) \<le> MAX_ACL_ROWS_PER_GROUP \<and>
     fcard (st_admins s) \<le> MAX_ADMINS_PER_GROUP \<and>
     length (st_sessions s) \<le> MAX_RETAINED_SESSIONS_PER_GROUP \<and>
     length (st_intents s) \<le> MAX_INTENT_ROWS \<and>
     length (st_routes s) \<le> MAX_RETAINED_ROUTES \<and>
     length (st_audit s) \<le> MAX_AUDIT_ROWS)"

definition check_grants_per_resource :: "state \<Rightarrow> bool" where
  "check_grants_per_resource s =
    list_all (\<lambda>((r, _), _).
      length (filter (\<lambda>(k, _). fst k = r) (st_acl s)) \<le> MAX_GRANTS_PER_RESOURCE) (st_acl s)"

definition check_sessions_per_actor :: "state \<Rightarrow> bool" where
  "check_sessions_per_actor s =
    list_all (\<lambda>((actor, _), _).
      length (filter (\<lambda>(k, _). fst k = actor) (st_sessions s)) \<le> MAX_RETAINED_SESSIONS_PER_ACTOR)
      (st_sessions s)"

definition check_active_clients :: "state \<Rightarrow> bool" where
  "check_active_clients s =
    (list_all (\<lambda>((actor, _), _).
       length (filter (\<lambda>(k, v). fst k = actor \<and> \<not> se_retired v) (st_sessions s))
         \<le> MAX_ACTIVE_CLIENTS_PER_ACTOR) (st_sessions s) \<and>
     length (filter (\<lambda>(k, v). \<not> se_retired v) (st_sessions s)) \<le> MAX_ACTIVE_CLIENTS_PER_GROUP)"

definition check_aggregate_counters :: "externs \<Rightarrow> state \<Rightarrow> bool" where
  "check_aggregate_counters E s =
    (st_growth_bytes s = recompute_growth E s \<and> st_reserve_bytes s = recompute_reserve s)"

text \<open>\<open>Iterator::max_by_key\<close> on the index: the last row among those of greatest index.\<close>

fun max_by_index :: "(audit_key, audit_row) btree_map \<Rightarrow> (audit_key \<times> audit_row) option" where
  "max_by_index [] = None"
| "max_by_index (r # rs) =
    (case max_by_index rs of
       None \<Rightarrow> Some r
     | Some b \<Rightarrow> if snd (fst r) \<le> snd (fst b) then Some b else Some r)"

definition row_log_id :: "audit_key \<times> audit_row \<Rightarrow> log_id" where
  "row_log_id r =
    \<lparr> lg_term = fst (fst r), lg_leader = au_leader_node_id (snd r), lg_index = snd (fst r) \<rparr>"

definition rebuild_audit_tip :: "(audit_key, audit_row) btree_map \<Rightarrow> log_id option" where
  "rebuild_audit_tip audit = map_option row_log_id (max_by_index audit)"

definition check_audit_tip :: "state \<Rightarrow> bool" where
  "check_audit_tip s =
    (let tip = rebuild_audit_tip (st_audit s) in
     st_audit_tip s = tip \<and>
     (case tip of
        None \<Rightarrow> True
      | Some t \<Rightarrow>
        (case st_last_applied s of
           None \<Rightarrow> False
         | Some lst \<Rightarrow> \<not> lg_index t > lg_index lst \<and> \<not> (lg_index t = lg_index lst \<and> t \<noteq> lst))))"

definition check_audit_floor :: "state \<Rightarrow> bool" where
  "check_audit_floor s =
    (case st_audit_floor s of
       None \<Rightarrow> True
     | Some fl \<Rightarrow>
       (case st_audit s of
          [] \<Rightarrow> True
        | oldest # _ \<Rightarrow> fl = row_log_id oldest))"

fun audit_keys_ascend :: "audit_key list \<Rightarrow> bool" where
  "audit_keys_ascend (a # b # rest) = (snd a < snd b \<and> audit_keys_ascend (b # rest))"
| "audit_keys_ascend _ = True"

definition check_audit_key_order :: "state \<Rightarrow> bool" where
  "check_audit_key_order s = audit_keys_ascend (map fst (st_audit s))"

definition audit_row_ok :: "audit_row \<Rightarrow> bool" where
  "audit_row_ok row =
    (case audit_results_for (au_operation_code row) of
       None \<Rightarrow> False
     | Some allowed \<Rightarrow>
         is_system_operation (au_operation_code row) \<noteq> audit_is_client (au_result row) \<and>
         audit_code (au_result row) \<in> set allowed \<and>
         au_epoch row \<le> MAX_COUNTER \<and> au_value_revision row \<le> MAX_COUNTER)"

definition check_audit_rows :: "state \<Rightarrow> bool" where
  "check_audit_rows s = list_all (\<lambda>(_, row). audit_row_ok row) (st_audit s)"

definition ttl_is_legal :: "u64 \<Rightarrow> bool \<Rightarrow> bool" where
  "ttl_is_legal ttl_ms held =
    (if MIN_TTL_MS \<le> ttl_ms \<and> ttl_ms \<le> MAX_TTL_MS then True else \<not> held \<and> ttl_ms = 0)"

definition resource_row_ok :: "resource_row \<Rightarrow> bool" where
  "resource_row_ok row =
    (length (rr_value row) \<le> MAX_VALUE \<and> ttl_is_legal (rr_ttl_ms row) (rr_held row) \<and>
     rr_epoch row \<le> MAX_COUNTER \<and> rr_lease_revision row \<le> MAX_COUNTER \<and>
     rr_value_revision row \<le> MAX_COUNTER \<and> rr_acl_revision row \<le> MAX_COUNTER)"

definition check_resource_rows :: "state \<Rightarrow> bool" where
  "check_resource_rows s = list_all (\<lambda>(_, row). resource_row_ok row) (st_resources s)"

definition check_grant_rows :: "state \<Rightarrow> bool" where
  "check_grant_rows s =
    list_all (\<lambda>((resource, _), rights).
      rights \<noteq> 0 \<and> rights_are_known rights \<and> bm_contains (st_resources s) resource) (st_acl s)"

definition check_admin_revision :: "state \<Rightarrow> bool" where
  "check_admin_revision s =
    (st_admin_revision s \<le> MAX_COUNTER \<and>
     (st_admin_revision s = 0) = (st_admins s = {||}) \<and>
     ga_public_key (st_authority s) |\<notin>| st_admins s)"

definition snapshot_ok :: "saved_snapshot \<Rightarrow> bool" where
  "snapshot_ok ss =
    (ss_epoch ss \<le> MAX_COUNTER \<and> ss_lease_revision ss \<le> MAX_COUNTER \<and>
     ss_value_revision ss \<le> MAX_COUNTER \<and> ss_acl_revision ss \<le> MAX_COUNTER \<and>
     ttl_is_legal (ss_ttl_ms ss) (ss_held ss) \<and> ss_held ss = (ss_holder ss \<noteq> None))"

definition saved_reply_ok :: "saved_reply \<Rightarrow> bool" where
  "saved_reply_ok r =
    (\<not> is_reserved (sr_reason r) \<and>
     (sr_outcome r = Rejected \<or> sr_reason r = Reason_None) \<and>
     sr_acl_revision r \<le> MAX_COUNTER \<and> sr_admin_revision r \<le> MAX_COUNTER \<and>
     pred_option snapshot_ok (sr_snapshot r))"

definition session_ok :: "session \<Rightarrow> bool" where
  "session_ok se =
    (se_last_sequence se \<le> MAX_COUNTER \<and>
     \<not> (se_last_result se = None \<and> se_last_sequence se \<noteq> 0) \<and>
     pred_option saved_reply_ok (se_last_result se))"

definition check_session_rows :: "state \<Rightarrow> bool" where
  "check_session_rows s = list_all (\<lambda>(_, se). session_ok se) (st_sessions s)"

definition seed_row_ok :: "externs \<Rightarrow> group_authority \<Rightarrow> member_seed \<Rightarrow> bool" where
  "seed_row_ok E authority seed =
    (check_member_seed (length (sd_ticket seed)) (map_option length (sd_join_permit seed)) = None \<and>
     check_seed_ticket E (sd_ticket seed) (sd_node_id seed) = None \<and>
     pred_option (\<lambda>permit. verify_join_permit E authority permit (sd_node_id seed) = None)
       (sd_join_permit seed))"

definition plan_row_ok :: "externs \<Rightarrow> group_authority \<Rightarrow> i32 \<Rightarrow> membership_plan \<Rightarrow> bool" where
  "plan_row_ok E authority profile plan =
    (\<not> profile_permits_voters profile (length (mp_desired_voters plan)) \<and>
     length (mp_retained_learners plan) \<le> MAX_RETAINED_LEARNERS \<and>
     sorted_unique (mp_desired_voters plan) \<and> sorted_unique (mp_retained_learners plan) \<and>
     sorted_unique (map sd_node_id (mp_member_seeds plan)) \<and>
     list_all (seed_row_ok E authority) (mp_member_seeds plan))"

definition active_intents :: "state \<Rightarrow> nat" where
  "active_intents s = length (filter (\<lambda>(_, i). \<not> is_terminal_phase (in_status_code i)) (st_intents s))"

definition check_intent_rows :: "externs \<Rightarrow> state \<Rightarrow> bool" where
  "check_intent_rows E s =
    (active_intents s \<le> 1 \<and>
     length (st_intents s) - active_intents s \<le> MAX_RETAINED_INTENTS \<and>
     list_all (\<lambda>(_, i). plan_row_ok E (st_authority s) (st_deployment_profile_code s) (in_plan i))
       (st_intents s))"

definition intent_stamps_ok :: "state \<Rightarrow> intent \<Rightarrow> bool" where
  "intent_stamps_ok s i =
    (id_within s (in_accepted_log_id i) \<and>
     (case in_completed_log_id i of
        None \<Rightarrow> True
      | Some c \<Rightarrow> id_within s c \<and> \<not> lg_index c < lg_index (in_accepted_log_id i)) \<and>
     pred_option (id_within s) (in_observed_membership_log_id i))"

definition check_stamped_log_ids :: "state \<Rightarrow> bool" where
  "check_stamped_log_ids s =
    (list_all (\<lambda>(_, i). intent_stamps_ok s i) (st_intents s) \<and>
     list_all (\<lambda>(_, r). id_within s (ro_introduced_log_id r)) (st_routes s))"

definition check_route_rows :: "externs \<Rightarrow> state \<Rightarrow> bool" where
  "check_route_rows E s =
    list_all (\<lambda>(n, r). check_seed_ticket E (ro_ticket r) n = None) (st_routes s)"

section \<open>The validator\<close>

definition INVARIANTS :: "externs \<Rightarrow> (string \<times> (durable_state \<Rightarrow> bool)) list" where
  "INVARIANTS E =
    [(''membership'', check_root_not_a_member),
     (''table-row-caps'', check_table_caps \<circ> ds_model),
     (''grants-per-resource'', check_grants_per_resource \<circ> ds_model),
     (''sessions-per-actor'', check_sessions_per_actor \<circ> ds_model),
     (''active-clients'', check_active_clients \<circ> ds_model),
     (''aggregate-counters'', check_aggregate_counters E \<circ> ds_model),
     (''audit-tip'', check_audit_tip \<circ> ds_model),
     (''audit-floor'', check_audit_floor \<circ> ds_model),
     (''audit-key-order'', check_audit_key_order \<circ> ds_model),
     (''audit-row-shape'', check_audit_rows \<circ> ds_model),
     (''resource-row-shape'', check_resource_rows \<circ> ds_model),
     (''grant-row-shape'', check_grant_rows \<circ> ds_model),
     (''admin-revision'', check_admin_revision \<circ> ds_model),
     (''session-row-shape'', check_session_rows \<circ> ds_model),
     (''intent-row-shape'', check_intent_rows E \<circ> ds_model),
     (''route-row-shape'', check_route_rows E \<circ> ds_model),
     (''stamped-log-ids'', check_stamped_log_ids \<circ> ds_model)]"

definition validate_rows :: "externs \<Rightarrow> durable_state \<Rightarrow> string option" where
  "validate_rows E d = map_option fst (find (\<lambda>(_, check). \<not> check d) (INVARIANTS E))"

definition validate :: "externs \<Rightarrow> durable_state \<Rightarrow> string option" where
  "validate E d = (case validate_meta E d of Some what \<Rightarrow> Some what | None \<Rightarrow> validate_rows E d)"

lemma validate_rows_None:
  "validate_rows E d = None \<longleftrightarrow> list_all (\<lambda>(_, check). check d) (INVARIANTS E)"
  by (auto simp: validate_rows_def find_None_iff list_all_iff)

end
