(* ===== verification/Log_Machine.thy ===== *)
theory Log_Machine
  imports Prelude
begin

text \<open>
  The interface of a machine that applies a log: one fallible step per entry, and a run that
  applies entries in order and stops at the first error.  \<open>log_machine\<close> relates the two;
  \<open>monotone_machine\<close> adds a preorder every step moves up in, \<open>invariant_machine\<close> an invariant
  that legal entries preserve.  The coordination state machine provides all three.
\<close>

locale log_machine =
  fixes step :: "'e \<Rightarrow> 'm \<Rightarrow> 'x + ('r \<times> 'm)"
    and run :: "'e list \<Rightarrow> 'm \<Rightarrow> 'x + ('r list \<times> 'm)"
  assumes run_Nil: "run [] m = Inr ([], m)"
    and run_Cons: "run (e # es) m =
      sum_bind (step e m) (\<lambda>(r, m). sum_bind (run es m) (\<lambda>(rs, m). Inr (r # rs, m)))"
begin

lemma run_Cons_Inr:
  "run (e # es) m = Inr (rs, m') \<longleftrightarrow>
    (\<exists>r m1 rs'. step e m = Inr (r, m1) \<and> run es m1 = Inr (rs', m') \<and> rs = r # rs')"
  by (auto simp: run_Cons sum_bind_Inr)

lemma run_length: "run es m = Inr (rs, m') \<Longrightarrow> length rs = length es"
  by (induction es arbitrary: m rs) (auto simp: run_Nil run_Cons_Inr)

lemma run_append:
  "run (xs @ ys) m = Inr (rs, m') \<longleftrightarrow>
    (\<exists>r1 m1 r2. run xs m = Inr (r1, m1) \<and> run ys m1 = Inr (r2, m') \<and> rs = r1 @ r2)"
proof (induction xs arbitrary: m rs)
  case Nil
  then show ?case by (simp add: run_Nil)
next
  case (Cons x xs)
  show ?case by (fastforce simp: run_Cons_Inr Cons)
qed

text \<open>Entries that satisfy a condition on the state each of them meets.\<close>

fun legal_run :: "('e \<Rightarrow> 'm \<Rightarrow> bool) \<Rightarrow> 'e list \<Rightarrow> 'm \<Rightarrow> bool" where
  "legal_run P [] m = True"
| "legal_run P (e # es) m =
    (P e m \<and> (case step e m of Inl _ \<Rightarrow> True | Inr (_, m') \<Rightarrow> legal_run P es m'))"

lemma run_invariant:
  assumes "\<And>e m r m'. P e m \<Longrightarrow> good m \<Longrightarrow> step e m = Inr (r, m') \<Longrightarrow> good m'"
    and "legal_run P es m" "good m" "run es m = Inr (rs, m')"
  shows "good m'"
  using assms(2-)
proof (induction es arbitrary: m rs)
  case (Cons e es)
  then obtain r m1 rs' where s: "step e m = Inr (r, m1)" "run es m1 = Inr (rs', m')"
    by (auto simp: run_Cons_Inr)
  with Cons.prems have "P e m" "legal_run P es m1" by simp_all
  with Cons.IH [of m1] Cons.prems s show ?case using assms(1) by blast
qed (simp add: run_Nil)

end

locale monotone_machine = log_machine step run
  for step :: "'e \<Rightarrow> 'm \<Rightarrow> 'x + ('r \<times> 'm)" and run :: "'e list \<Rightarrow> 'm \<Rightarrow> 'x + ('r list \<times> 'm)" +
  fixes le :: "'m \<Rightarrow> 'm \<Rightarrow> bool"
  assumes le_refl: "le m m"
    and le_trans: "le a b \<Longrightarrow> le b c \<Longrightarrow> le a c"
    and step_le: "step e m = Inr (r, m') \<Longrightarrow> le m m'"
begin

lemma run_le: "run es m = Inr (rs, m') \<Longrightarrow> le m m'"
  by (induction es arbitrary: m rs) (auto simp: run_Nil run_Cons_Inr le_refl dest: step_le intro: le_trans)

lemma run_le_between: "run (xs @ ys) m = Inr (rs, m') \<Longrightarrow> \<exists>r1 m1. run xs m = Inr (r1, m1) \<and> le m m1 \<and> le m1 m'"
  by (auto simp: run_append dest: run_le)

end

locale invariant_machine = log_machine step run
  for step :: "'e \<Rightarrow> 'm \<Rightarrow> 'x + ('r \<times> 'm)" and run :: "'e list \<Rightarrow> 'm \<Rightarrow> 'x + ('r list \<times> 'm)" +
  fixes legal :: "'e \<Rightarrow> 'm \<Rightarrow> bool" and good :: "'m \<Rightarrow> bool"
  assumes step_inv: "legal e m \<Longrightarrow> good m \<Longrightarrow> step e m = Inr (r, m') \<Longrightarrow> good m'"
begin

lemma run_inv: "legal_run legal es m \<Longrightarrow> good m \<Longrightarrow> run es m = Inr (rs, m') \<Longrightarrow> good m'"
  using run_invariant [of legal good] step_inv by blast

end

end
