(* ===== verification/Coord_Machine.thy ===== *)
theory Coord_Machine
  imports Coord_Rows Log_Machine
begin

text \<open>
  The replicated state machine's apply loop (\<open>coordination/storage/machine.rs\<close>): a batch
  of committed entries, each a blank, a native membership change or a command, applied
  in order to a private copy that is published only if every entry applied.
\<close>

datatype entry_payload =
    Blank
  | MembershipPayload raft_membership
  | Normal command_v1

record raft_entry =
  en_log_id :: log_id
  en_payload :: entry_payload

datatype machine_error =
    ApplyFault fault
  | NamesRoot
  | LearnerEnvelope nat

record machine =
  mc_durable :: durable_state
  mc_changes :: change_set

definition apply_blank :: "log_id \<Rightarrow> machine \<Rightarrow> machine_error + (command_reply_v1 \<times> machine)" where
  "apply_blank l m =
    (let d = mc_durable m in
     case guard_delivery (ds_model d) l of
       Some f \<Rightarrow> Inl (ApplyFault f)
     | None \<Rightarrow>
         Inr (NonCommandReplyV1,
           m\<lparr> mc_durable := d\<lparr> ds_model := (ds_model d)\<lparr> st_last_applied := Some l \<rparr> \<rparr> \<rparr>))"

definition apply_membership ::
  "log_id \<Rightarrow> raft_membership \<Rightarrow> machine \<Rightarrow> machine_error + (command_reply_v1 \<times> machine)" where
  "apply_membership l membership m =
    (let d = mc_durable m; s = ds_model d in
     case guard_delivery s l of
       Some f \<Rightarrow> Inl (ApplyFault f)
     | None \<Rightarrow>
       let projection = project_membership membership in
       if membership_names_root membership (ga_public_key (st_authority s)) then Inl NamesRoot
       else if fcard (cm_learners projection) > MAX_LEARNER_ENVELOPE
         then Inl (LearnerEnvelope (fcard (cm_learners projection)))
       else Inr (NonCommandReplyV1,
         m\<lparr> mc_durable := d\<lparr>
              ds_model := s\<lparr> st_membership := projection, st_membership_log_id := Some l,
                st_last_applied := Some l \<rparr>,
              ds_membership := \<lparr> sm_log_id = Some l, sm_membership = membership \<rparr> \<rparr> \<rparr>))"

definition apply_normal ::
  "externs \<Rightarrow> log_id \<Rightarrow> bytes \<Rightarrow> command_v1 \<Rightarrow> machine \<Rightarrow> machine_error + (command_reply_v1 \<times> machine)" where
  "apply_normal E l gid cmd m =
    (let d = mc_durable m in
     case apply_wire_command_recording E l gid cmd (ds_model d, mc_changes m) of
       (Inl f, _) \<Rightarrow> Inl (ApplyFault f)
     | (Inr reply, (s, c)) \<Rightarrow>
         Inr (reply, \<lparr> mc_durable = d\<lparr> ds_model := s \<rparr>, mc_changes = c \<rparr>))"

definition apply_entry ::
  "externs \<Rightarrow> bytes \<Rightarrow> raft_entry \<Rightarrow> machine \<Rightarrow> machine_error + (command_reply_v1 \<times> machine)" where
  "apply_entry E gid e m =
    (case en_payload e of
       Blank \<Rightarrow> apply_blank (en_log_id e) m
     | MembershipPayload membership \<Rightarrow> apply_membership (en_log_id e) membership m
     | Normal cmd \<Rightarrow> apply_normal E (en_log_id e) gid cmd m)"

fun apply_entries ::
  "externs \<Rightarrow> bytes \<Rightarrow> raft_entry list \<Rightarrow> machine \<Rightarrow> machine_error + (command_reply_v1 list \<times> machine)" where
  "apply_entries E gid [] m = Inr ([], m)"
| "apply_entries E gid (e # es) m =
    sum_bind (apply_entry E gid e m) (\<lambda>(reply, m).
    sum_bind (apply_entries E gid es m) (\<lambda>(replies, m).
      Inr (reply # replies, m)))"

text \<open>The batch starts from an empty change set and stamps the group of the working
  state; an error drops the working state.\<close>

definition machine_apply ::
  "externs \<Rightarrow> raft_entry list \<Rightarrow> durable_state \<Rightarrow>
   machine_error + (command_reply_v1 list \<times> durable_state \<times> change_set)" where
  "machine_apply E es d =
    sum_bind (apply_entries E (ga_group_id (st_authority (ds_model d))) es
        \<lparr> mc_durable = d, mc_changes = empty_changes \<rparr>)
      (\<lambda>(replies, m). Inr (replies, mc_durable m, mc_changes m))"

interpretation lm: log_machine "apply_entry E gid" "apply_entries E gid" for E gid
  by unfold_locales simp_all

lemma machine_apply_Inr:
  "machine_apply E es d = Inr (replies, d', c) \<longleftrightarrow>
    apply_entries E (ga_group_id (st_authority (ds_model d))) es \<lparr> mc_durable = d, mc_changes = empty_changes \<rparr>
      = Inr (replies, \<lparr> mc_durable = d', mc_changes = c \<rparr>)"
  by (fastforce simp: machine_apply_def sum_bind_Inr)

text \<open>The three ways an entry is applied.\<close>

lemma apply_entry_cases:
  assumes "apply_entry E gid e m = Inr (reply, m')"
  obtains (Empty) "en_payload e = Blank" "guard_delivery (ds_model (mc_durable m)) (en_log_id e) = None"
      "ds_model (mc_durable m') = (ds_model (mc_durable m))\<lparr> st_last_applied := Some (en_log_id e) \<rparr>"
      "ds_membership (mc_durable m') = ds_membership (mc_durable m)" "mc_changes m' = mc_changes m"
      "reply = NonCommandReplyV1"
  | (Member) membership where "en_payload e = MembershipPayload membership"
      "guard_delivery (ds_model (mc_durable m)) (en_log_id e) = None"
      "\<not> membership_names_root membership (ga_public_key (st_authority (ds_model (mc_durable m))))"
      "fcard (cm_learners (project_membership membership)) \<le> MAX_LEARNER_ENVELOPE"
      "ds_model (mc_durable m') = (ds_model (mc_durable m))\<lparr> st_membership := project_membership membership,
         st_membership_log_id := Some (en_log_id e), st_last_applied := Some (en_log_id e) \<rparr>"
      "ds_membership (mc_durable m') = \<lparr> sm_log_id = Some (en_log_id e), sm_membership = membership \<rparr>"
      "mc_changes m' = mc_changes m" "reply = NonCommandReplyV1"
  | (Command) wire model r where "en_payload e = Normal wire" "command_for_apply E wire = Inr model"
      "apply_command_recording E (en_log_id e) model (ds_model (mc_durable m), mc_changes m)
         = (Inr r, (ds_model (mc_durable m'), mc_changes m'))"
      "ds_membership (mc_durable m') = ds_membership (mc_durable m)"
      "reply = reply_to_wire (ds_model (mc_durable m')) gid model r"
proof (cases "en_payload e")
  case Blank
  with assms show thesis
    by (intro Empty) (auto simp: apply_entry_def apply_blank_def Let_def split: option.splits)
next
  case (MembershipPayload membership)
  with assms show thesis
    by (intro Member)
      (auto simp: apply_entry_def apply_membership_def Let_def not_less split: option.splits if_splits)
next
  case (Normal wire)
  with assms show thesis
    by (cases "command_for_apply E wire")
      (auto simp: apply_entry_def apply_normal_def apply_wire_command_recording_def Let_def
        split: prod.splits sum.splits intro!: Command)
qed

end
