(* ===== verification/Coord_Fence.thy ===== *)
theory Coord_Fence
  imports Coord_Lease Coord_Step Coord_Machine
begin

text \<open>
  The state machine refines the fenced register of \<open>Coord_Lease\<close>.  Every applied command
  leaves the register of a key alone or makes one step of it, and only the command that is
  entitled to that step does (\<open>issued_by\<close>).  Runs of log entries then move every register up
  in \<open>register_le\<close>, which is what makes an epoch a fencing token.
\<close>

unbundle bit_operations_syntax

section \<open>Who may make a step\<close>

definition issued_by :: "state \<Rightarrow> command \<Rightarrow> resource_key \<Rightarrow> lease_event \<Rightarrow> bool" where
  "issued_by s cmd k ev =
    (case cmd of
       CClient client (ActResource a) \<Rightarrow>
         validated_resource (ActResource a) = Some k \<and> ev = action_event (cl_actor client) a \<and>
         granted_rights s k (cl_actor client) AND required_rights a = required_rights a \<and>
         pred_option (\<lambda>f. fn_group f = ga_group_id (st_authority s) \<and> fn_holder f = cl_actor client \<and>
           fn_epoch f = rg_epoch (register_of s k)) (action_fence a) \<and>
         pred_option (\<lambda>v. v = rg_value_revision (register_of s k)) (action_value_revision a)
     | CClient client (ActGrant g) \<Rightarrow>
         validated_resource (ActGrant g) = Some k \<and> ev = FenceOff \<and>
         is_administrator s (cl_actor client) \<and> rg_lease (register_of s k) = Some (gt_subject g)
     | CExpire ex \<Rightarrow>
         ex_resource ex = k \<and> ev = FenceOff \<and> rg_epoch (register_of s k) = ex_epoch ex \<and>
         rr_held (row_or_default s k)
     | _ \<Rightarrow> False)"

lemma register_of_put:
  "st_resources s' = bm_insert key row (st_resources s) \<Longrightarrow>
    register_of s' k = (if k = key then row_register row else register_of s k)"
  by (simp add: register_of_def)

lemma resource_issued:
  assumes "resource_decide s (cl_actor client) a = RApply eff"
  shows "issued_by s (CClient client (ActResource a)) (re_key eff) (action_event (cl_actor client) a)"
    "register_step (action_event (cl_actor client) a) (register_of s (re_key eff)) (row_register (re_row eff))"
proof -
  note d = resource_decide_apply [OF assms]
  show "register_step (action_event (cl_actor client) a) (register_of s (re_key eff)) (row_register (re_row eff))"
    by (rule resource_apply_step [OF d(5)])
  show "issued_by s (CClient client (ActResource a)) (re_key eff) (action_event (cl_actor client) a)"
    using d resource_apply_fenced [OF d(5)] resource_apply_revision [OF d(5)]
    by (cases "action_fence a"; cases "action_value_revision a") (simp_all add: issued_by_def)
qed

lemma grant_issued:
  assumes "grant_decide s (cl_actor client) g = GApply eff"
  shows "row_register (ge_row eff) = register_of s (ge_key eff) \<or>
    issued_by s (CClient client (ActGrant g)) (ge_key eff) FenceOff \<and>
    register_step FenceOff (register_of s (ge_key eff)) (row_register (ge_row eff))"
proof (rule grant_decide_checks [OF assms])
  fix key
  assume c: "raw_validate (gt_resource g) = Inr key" "check_rights (gt_rights g) = None"
    "is_administrator s (cl_actor client)" "gt_expected_acl_revision g = rr_acl_revision (row_or_default s key)"
  have body: "grant_body s key g = GApply eff" using grant_decide_body [OF c] assms by simp
  then show ?thesis
    using grant_apply_step [OF body] grant_body_apply(1) [OF body] c by (auto simp: issued_by_def)
qed

lemma expire_issued:
  assumes "expire_decide s ex = EApply row"
  shows "issued_by s (CExpire ex) (ex_resource ex) FenceOff"
  using expire_apply [OF assms] by (simp add: issued_by_def register_of_row)

section \<open>Refinement\<close>

lemma business_write_refines:
  assumes "business_write E l cmd w w'"
  shows "register_of (fst w') k = register_of (fst w) k \<or>
    (\<exists>ev. issued_by (fst w) cmd k ev \<and> register_step ev (register_of (fst w) k) (register_of (fst w') k))"
  using assms
proof (cases rule: business_writeE)
  case (Resource client a eff)
  have "register_of (fst w') k =
      (if k = re_key eff then row_register (re_row eff) else register_of (fst w) k)"
    using Resource(2) by (intro register_of_put) simp
  then show ?thesis
    using resource_issued [OF Resource(3)] Resource(1) by auto
next
  case (Grant client g eff)
  have "register_of (fst w') k =
      (if k = ge_key eff then row_register (ge_row eff) else register_of (fst w) k)"
    using Grant(2) by (intro register_of_put) simp
  then show ?thesis
    using grant_issued [OF Grant(3)] Grant(1) by auto
next
  case (Expire ex row)
  have "register_of (fst w') k = (if k = ex_resource ex then row_register row else register_of (fst w) k)"
    using Expire(2) by (intro register_of_put) (simp add: put_resource_def)
  then show ?thesis
    using expire_issued [OF Expire(3)] expire_apply_step [OF Expire(3)] Expire(1) by auto
qed (auto intro!: fun_cong [OF register_of_cong])

lemma command_step_refines:
  assumes "command_step E l cmd reply w w'"
  shows "register_of (fst w') k = register_of (fst w) k \<or>
    (\<exists>ev. issued_by (fst w) cmd k ev \<and> register_step ev (register_of (fst w) k) (register_of (fst w') k))"
proof -
  obtain w1 w2 row where w1: "business_write E l cmd w w1" and w2: "session_write cmd reply w1 w2"
    and w': "w' = write_audit_row l row w2"
    using assms by (rule command_stepE)
  have "business (fst w') = business (fst w1)"
    using session_write_business [OF w2] w' by simp
  then have "register_of (fst w') = register_of (fst w1)"
    by (intro register_of_cong business_eqD)
  with business_write_refines [OF w1, of k] show ?thesis by simp
qed

lemma recording_refines:
  assumes "apply_command_recording E l cmd w = (r, w')"
  shows "register_of (fst w') k = register_of (fst w) k \<or>
    (\<exists>ev. issued_by (fst w) cmd k ev \<and> register_step ev (register_of (fst w) k) (register_of (fst w') k))"
  using assms
proof (cases rule: recording_cases)
  case (Applied reply w1)
  have "register_of (fst w') = register_of (fst w1)"
    using Applied(4) by (intro register_of_cong) (simp add: upd_state_def)
  with command_step_refines [OF Applied(3), of k] show ?thesis by simp
qed simp

lemma recording_register_le:
  assumes "apply_command_recording E l cmd w = (r, w')"
  shows "register_le (register_of (fst w) k) (register_of (fst w') k)"
  using recording_refines [OF assms, of k] register_step_le by fastforce

section \<open>Runs\<close>

definition fence_le :: "machine \<Rightarrow> machine \<Rightarrow> bool" where
  "fence_le m m' =
    (\<forall>k. register_le (register_of (ds_model (mc_durable m)) k) (register_of (ds_model (mc_durable m')) k))"

lemma apply_entry_fence_le:
  assumes "apply_entry E gid e m = Inr (reply, m')"
  shows "fence_le m m'"
  using assms
proof (cases rule: apply_entry_cases)
  case (Command wire model r)
  then show ?thesis using recording_register_le by (auto simp: fence_le_def dest: recording_register_le)
qed (simp_all add: fence_le_def register_of_def)

interpretation fm: monotone_machine "apply_entry E gid" "apply_entries E gid" fence_le for E gid
proof unfold_locales
  show "fence_le m m" for m by (simp add: fence_le_def)
  show "fence_le a c" if "fence_le a b" "fence_le b c" for a b c
    using that by (meson fence_le_def register_le_trans)
  show "fence_le m m'" if "apply_entry E gid e m = Inr (r, m')" for e m r m'
    using that by (rule apply_entry_fence_le)
qed

end
