(* ===== verification/Coord_Invariant.thy ===== *)
theory Coord_Invariant
  imports Coord_Rows Coord_Audit
begin

text \<open>
  The invariant of the replicated state, one predicate per group of tables, and the lemmas
  that the writers of each group preserve it.  \<open>Coord_Preserve\<close> puts them together.
\<close>

section \<open>The audit table\<close>

text \<open>Rows in log order, none ahead of the last applied entry, the tip the newest row, the
  floor the oldest one if anything was ever pruned, every row one the loader accepts.\<close>

definition audit_row_good :: "audit_row \<Rightarrow> bool" where
  "audit_row_good row = (audit_row_ok row \<and> storable_audit row)"

definition applied_at :: "state \<Rightarrow> audit_key \<Rightarrow> bool" where
  "applied_at s k =
    (case st_last_applied s of
       None \<Rightarrow> False | Some lst \<Rightarrow> fst k \<le> lg_term lst \<and> snd k \<le> lg_index lst)"

definition audit_inv :: "state \<Rightarrow> bool" where
  "audit_inv s =
    (bm_ok (st_audit s) \<and> length (st_audit s) \<le> MAX_AUDIT_ROWS \<and>
     sorted_wrt (\<lambda>a b. snd (fst a) < snd (fst b)) (st_audit s) \<and>
     (\<forall>(k, row)\<in>set (st_audit s). audit_row_good row \<and> applied_at s k) \<and>
     st_audit_tip s = (if st_audit s = [] then None else Some (row_log_id (last (st_audit s)))) \<and>
     (st_audit_floor s = None \<or> st_audit s \<noteq> [] \<and> st_audit_floor s = head_log_id (st_audit s)) \<and>
     pred_option (\<lambda>t. pred_option (\<lambda>lst. lg_index t < lg_index lst \<or> t = lst) (st_last_applied s)) (st_audit_tip s))"

lemma audit_keys_ascend_iff: "audit_keys_ascend ks \<longleftrightarrow> sorted_wrt (\<lambda>a b. snd a < snd b) ks"
proof (induction ks rule: audit_keys_ascend.induct)
  case (1 a b rest)
  then show ?case by (auto dest: less_trans)
qed simp_all

lemma max_by_index_last:
  "sorted_wrt (\<lambda>a b. snd (fst a) < snd (fst b)) m \<Longrightarrow> m \<noteq> [] \<Longrightarrow> max_by_index m = Some (last m)"
proof (induction m)
  case (Cons r m)
  show ?case
  proof (cases "m = []")
    case False
    with Cons have "max_by_index m = Some (last m)" by simp
    moreover have "snd (fst r) < snd (fst (last m))"
      using Cons.prems(1) last_in_set [OF False] by simp
    ultimately show ?thesis using False by simp
  qed simp
qed simp

text \<open>An entry that the delivery guard accepts and whose term is not below the last
  applied one, as Raft guarantees of committed entries.\<close>

definition delivered :: "state \<Rightarrow> log_id \<Rightarrow> bool" where
  "delivered s l =
    (guard_delivery s l = None \<and> pred_option (\<lambda>lst. lg_term lst \<le> lg_term l) (st_last_applied s) \<and> wide_log l)"

lemma delivered_index:
  assumes "delivered s l" "st_last_applied s = Some lst"
  shows "lg_index lst < lg_index l" "lg_term lst \<le> lg_term l"
  using assms by (auto simp: delivered_def guard_delivery_def split: if_splits option.splits)

lemma delivered_fresh:
  assumes "delivered s l" "applied_at s k"
  shows "snd k < lg_index l" "fst k \<le> lg_term l" "k < log_key l"
proof -
  obtain lst where lst: "st_last_applied s = Some lst" "fst k \<le> lg_term lst" "snd k \<le> lg_index lst"
    using assms(2) by (auto simp: applied_at_def split: option.splits)
  note lt = delivered_index [OF assms(1) lst(1)]
  show 1: "snd k < lg_index l" "fst k \<le> lg_term l" using lt lst(2,3) by simp_all
  show "k < log_key l"
    using 1 by (cases k) (auto simp: log_key_def less_prod_def')
qed

lemma audit_inv_fresh:
  assumes "audit_inv s" "delivered s l"
  shows "\<forall>(j, r)\<in>set (st_audit s). j < log_key l" "bm_get (st_audit s) (log_key l) = None"
proof -
  show less: "\<forall>(j, r)\<in>set (st_audit s). j < log_key l"
    using assms by (auto simp: audit_inv_def dest: delivered_fresh(3))
  then show "bm_get (st_audit s) (log_key l) = None"
    by (auto simp: bm_get_None_iff)
qed

lemma head_append: "m \<noteq> [] \<Longrightarrow> head_log_id (m @ n) = head_log_id m"
  by (cases m) (auto simp: head_log_id_def)

lemma write_audit_row_floor:
  assumes "audit_inv (fst w)" "delivered (fst w) l"
  shows "st_audit_floor (fst (write_audit_row l row w)) = None \<or>
    st_audit_floor (fst (write_audit_row l row w)) = head_log_id (st_audit (fst (write_audit_row l row w)))"
proof -
  have ok: "bm_ok (st_audit (fst w))" using assms(1) by (simp add: audit_inv_def)
  have ins: "bm_insert (log_key l) row (st_audit (fst w)) = st_audit (fst w) @ [(log_key l, row)]"
    by (rule bm_insert_append [OF audit_inv_fresh(1) [OF assms]])
  have "bm_ok (st_audit (fst w) @ [(log_key l, row)])"
    using bm.ok_put [OF ok, of "log_key l" row] ins by simp
  then show ?thesis
    unfolding write_audit_row_def Let_def using assms(1)
    by (intro prune_audit_floor) (auto simp: upd_state_def put_audit_def ins audit_inv_def head_append)
qed

text \<open>Every applied command: the row is appended, the oldest rows beyond the limit are
  dropped, and the invariant holds once \<open>last_applied\<close> names the entry.\<close>

lemma audit_inv_write:
  assumes inv: "audit_inv (fst w)" and del: "delivered (fst w) l"
    and row: "audit_row_good row" "au_leader_node_id row = lg_leader l"
  shows "audit_inv ((fst (write_audit_row l row w))\<lparr> st_last_applied := Some l \<rparr>)"
proof -
  let ?m = "st_audit (fst w)"
  let ?n = "?m @ [(log_key l, row)]"
  define d where "d = Suc (length ?m) - MAX_AUDIT_ROWS"
  define m where "m = drop d ?n"
  have ok: "bm_ok ?m" using inv by (simp add: audit_inv_def)
  note fresh = audit_inv_fresh(1) [OF inv del]
  have rows: "st_audit (fst (write_audit_row l row w)) = m"
    unfolding m_def d_def by (rule write_audit_row_rows [OF ok fresh])
  have "d \<le> length ?m" by (simp add: d_def coord_simps)
  then have ne: "m \<noteq> []" "last m = (log_key l, row)" by (simp_all add: m_def)
  have len: "length m \<le> MAX_AUDIT_ROWS" by (simp add: m_def d_def)
  have ok': "bm_ok m"
    unfolding m_def using bm.ok_put [OF ok, of "log_key l" row]
    by (intro bm_ok_drop) (simp add: bm_insert_append [OF fresh])
  have "sorted_wrt (\<lambda>a b. snd (fst a) < snd (fst b)) ?n"
    using inv del by (auto simp: audit_inv_def sorted_wrt_append log_key_def dest: delivered_fresh(1))
  then have ord: "sorted_wrt (\<lambda>a b. snd (fst a) < snd (fst b)) m"
    unfolding m_def by (rule sorted_wrt_drop)
  have "audit_row_good r \<and> fst k \<le> lg_term l \<and> snd k \<le> lg_index l" if "(k, r) \<in> set ?m" for k r
    using that inv delivered_fresh(1,2) [OF del, of k] by (auto simp: audit_inv_def)
  then have good: "\<forall>(k, r)\<in>set m. audit_row_good r \<and> fst k \<le> lg_term l \<and> snd k \<le> lg_index l"
    using row(1) by (auto simp: m_def log_key_def dest!: in_set_dropD)
  have tip: "row_log_id (log_key l, row) = l"
    using row(2) by (cases l) (simp add: row_log_id_def log_key_def)
  from write_audit_row_floor [OF inv del, of row] show ?thesis
    using ok' len ord good ne tip by (auto simp: audit_inv_def rows applied_at_def)
qed

text \<open>In the invariant the delivery guard only asks for a new index.\<close>

lemma audit_inv_guard:
  assumes "audit_inv s" "pred_option (\<lambda>lst. lg_index lst < lg_index l) (st_last_applied s)"
  shows "guard_delivery s l = None"
proof (cases "st_last_applied s")
  case None
  then have "st_audit s = []" using assms(1) by (cases "st_audit s") (auto simp: audit_inv_def applied_at_def)
  then show ?thesis using None assms(1) by (simp add: guard_delivery_def audit_inv_def)
next
  case (Some lst)
  have "pred_option (\<lambda>t. pred_option (\<lambda>lst. lg_index t < lg_index lst \<or> t = lst) (st_last_applied s)) (st_audit_tip s)"
    using assms(1) unfolding audit_inv_def by blast
  with Some assms(2) show ?thesis by (cases "st_audit_tip s") (auto simp: guard_delivery_def)
qed

end
