(* ===== verification/Coord_Business.thy ===== *)
theory Coord_Business
  imports Coord_Invariant Coord_Lease Coord_Step
begin

text \<open>
  The business tables' part of the invariant that client commands on resources, grants and
  administrators touch: rows the loader accepts, the table caps, the link from a grant to its
  resource, and a growth counter that is exact and within its budget.
\<close>

unbundle bit_operations_syntax

section \<open>The invariant\<close>

definition resource_good :: "resource_key \<Rightarrow> resource_row \<Rightarrow> bool" where
  "resource_good k row = (valid_resource_key k \<and> resource_row_ok row \<and> storable_resource row)"

definition resources_inv :: "state \<Rightarrow> bool" where
  "resources_inv s =
    (bm_ok (st_resources s) \<and> length (st_resources s) \<le> MAX_RESOURCES_PER_GROUP \<and>
     (\<forall>(k, row)\<in>set (st_resources s). resource_good k row))"

definition grant_good :: "state \<Rightarrow> grant_key \<Rightarrow> rights \<Rightarrow> bool" where
  "grant_good s k r =
    (wide_node (snd k) \<and> r \<noteq> 0 \<and> rights_are_known r \<and> bm_contains (st_resources s) (fst k))"

definition acl_inv :: "state \<Rightarrow> bool" where
  "acl_inv s =
    (bm_ok (st_acl s) \<and> length (st_acl s) \<le> MAX_ACL_ROWS_PER_GROUP \<and>
     (\<forall>k. grants_on s k \<le> MAX_GRANTS_PER_RESOURCE) \<and>
     (\<forall>(k, r)\<in>set (st_acl s). grant_good s k r))"

definition admins_inv :: "state \<Rightarrow> bool" where
  "admins_inv s =
    (fcard (st_admins s) \<le> MAX_ADMINS_PER_GROUP \<and> (\<forall>n. n |\<in>| st_admins s \<longrightarrow> wide_node n) \<and>
     check_admin_revision s)"

definition growth_inv :: "externs \<Rightarrow> state \<Rightarrow> bool" where
  "growth_inv E s = (growth_tracks E s \<and> growth_total E s \<le> GROWTH_BUDGET)"

text \<open>Before its genesis is installed a group has nothing but its membership.\<close>

definition installed_inv :: "state \<Rightarrow> bool" where
  "installed_inv s =
    (st_admin_revision s = 0 \<longrightarrow>
      st_resources s = [] \<and> st_acl s = [] \<and> st_intents s = [] \<and> st_routes s = [])"

lemma resources_inv_get:
  "resources_inv s \<Longrightarrow> bm_get (st_resources s) k = Some row \<Longrightarrow> resource_good k row"
  by (auto simp: resources_inv_def dest: iffD2 [OF bm_rows_get])

lemma default_row_ok: "resource_row_ok default_resource_row" "storable_resource default_resource_row"
  by (simp_all add: resource_row_ok_def storable_resource_def default_resource_row_def ttl_is_legal_def)

lemma row_or_default_good:
  assumes "resources_inv s"
  shows "resource_row_ok (row_or_default s k)" "storable_resource (row_or_default s k)"
  using resources_inv_get [OF assms, of k] default_row_ok
  by (auto simp: row_or_default_def resource_good_def split: option.splits)

lemma growth_fits_exact:
  assumes "growth_inv E s" "saturating_add_u64 (st_growth_bytes s) n \<le> GROWTH_BUDGET"
  shows "growth_total E s + n \<le> GROWTH_BUDGET"
  using assms growth_tracks_exact [of E s] saturating_add_exact budgets_below_u64(1)
  by (auto simp: growth_inv_def saturating_add_u64_def split: if_splits)

section \<open>Resource actions\<close>

lemma resource_body_row:
  assumes "resource_body s actor key a = RApply eff"
  shows "bm_get (st_resources s) key = None \<Longrightarrow>
      length (st_resources s) < MAX_RESOURCES_PER_GROUP \<and> resource_growth_fits s key None 0 \<and>
      rr_value (re_row eff) = []"
    "bm_get (st_resources s) key = Some row \<Longrightarrow>
      length (rr_value (re_row eff)) \<le> length (rr_value row) \<or>
      resource_growth_fits s key (Some (length (rr_value row))) (length (rr_value (re_row eff)))"
  using assms
  by (cases a; auto simp: resource_body_defs default_resource_row_def split: option.splits if_splits)+

lemma resource_body_good:
  assumes "resource_body s actor key a = RApply eff" "check_shape a = None" "wide_node actor"
    "resource_row_ok (row_or_default s key)" "storable_resource (row_or_default s key)"
  shows "resource_row_ok (re_row eff) \<and> storable_resource (re_row eff)"
  using assms(2-) resource_body_apply(2,3) [OF assms(1)]
  by (cases a)
    (auto simp: resource_body_apply(1) [OF assms(1)] resource_row_ok_def storable_resource_def
      counters_have_room_def check_fence_None ttl_is_legal_def check_shape_def check_ttl_def check_value_def
      split: if_splits)

lemma resource_fits_total:
  assumes "growth_inv E s" "resource_growth_fits s key old (length (rr_value row))"
    "row_charge resource_charge (st_resources s) key =
      (case old of None \<Rightarrow> 0 | Some n \<Rightarrow> charge_resource (rk_namespace key) (rk_key key) n)"
    "row_charge resource_charge (st_resources s) key \<le> growth_total E s"
  shows "growth_total E s + resource_charge key row - row_charge resource_charge (st_resources s) key
    \<le> GROWTH_BUDGET"
proof (cases "resource_charge key row \<le> row_charge resource_charge (st_resources s) key")
  case True
  with assms(1) show ?thesis unfolding growth_inv_def by linarith
next
  case False
  with assms(2,3) have "saturating_add_u64 (st_growth_bytes s)
      (resource_charge key row - row_charge resource_charge (st_resources s) key) \<le> GROWTH_BUDGET"
    by (simp add: resource_growth_fits_def key_parts_def resource_charge_def Let_def)
  from growth_fits_exact [OF assms(1) this] False assms(4) show ?thesis by linarith
qed

lemma resource_row_charge_le:
  "bm_ok (st_resources s) \<Longrightarrow> row_charge resource_charge (st_resources s) key \<le> growth_total E s"
  using row_charge_le [of "st_resources s" resource_charge key] by (simp add: growth_total_def)

text \<open>A resource write that the growth check of the action admitted.\<close>

definition write_fits :: "state \<Rightarrow> resource_key \<Rightarrow> resource_row \<Rightarrow> bool" where
  "write_fits s key row =
    (case bm_get (st_resources s) key of
       None \<Rightarrow> resource_growth_fits s key None (length (rr_value row))
     | Some old \<Rightarrow> length (rr_value row) \<le> length (rr_value old) \<or>
         resource_growth_fits s key (Some (length (rr_value old))) (length (rr_value row)))"

lemma write_resource_growth_inv:
  assumes inv: "growth_inv E (fst w)" and ok: "bm_ok (st_resources (fst w))"
    and fits: "write_fits (fst w) key row"
  shows "growth_inv E (fst (write_resource key row w))"
proof -
  note g = write_resource_growth [OF ok, of E key row]
  note le = resource_row_charge_le [OF ok, of key E]
  have "growth_total E (fst w) + resource_charge key row - row_charge resource_charge (st_resources (fst w)) key
      \<le> GROWTH_BUDGET"
  proof (cases "bm_get (st_resources (fst w)) key")
    case None
    then show ?thesis
      using resource_fits_total [OF inv _ _ le, of None row] fits
      by (simp add: write_fits_def row_charge_def)
  next
    case (Some old)
    show ?thesis
    proof (cases "length (rr_value row) \<le> length (rr_value old)")
      case True
      then have "resource_charge key row \<le> row_charge resource_charge (st_resources (fst w)) key"
        by (simp add: Some row_charge_def resource_charge_def charge_resource_def)
      with inv show ?thesis unfolding growth_inv_def by linarith
    next
      case False
      then show ?thesis
        using resource_fits_total [OF inv _ _ le, of "Some (length (rr_value old))" row] fits Some
        by (simp add: write_fits_def row_charge_def resource_charge_def)
    qed
  qed
  with g inv show ?thesis by (simp add: growth_inv_def)
qed

lemma resources_inv_put:
  assumes "resources_inv s" "resource_good key row"
    "bm_get (st_resources s) key = None \<Longrightarrow> length (st_resources s) < MAX_RESOURCES_PER_GROUP"
    "st_resources s' = bm_insert key row (st_resources s)"
  shows "resources_inv s'"
  using assms bm.all_rows_put [of "st_resources s" resource_good key row]
  by (auto simp: resources_inv_def intro!: bm.size_put_cap)

lemma acl_inv_resources:
  assumes "acl_inv s" "st_acl s' = st_acl s"
    "\<And>k. bm_contains (st_resources s) k \<Longrightarrow> bm_contains (st_resources s') k"
  shows "acl_inv s'"
  using assms by (fastforce simp: acl_inv_def grants_on_def grant_good_def)

lemma admins_inv_cong:
  "admins_inv s \<Longrightarrow> st_admins s' = st_admins s \<Longrightarrow> st_admin_revision s' = st_admin_revision s \<Longrightarrow>
    outer s' = outer s \<Longrightarrow> admins_inv s'"
  using outer_eqD(7) [of s' s] by (simp add: admins_inv_def check_admin_revision_def)

text \<open>The tables of this theory together.\<close>

definition tables_inv :: "externs \<Rightarrow> state \<Rightarrow> bool" where
  "tables_inv E s = (resources_inv s \<and> acl_inv s \<and> admins_inv s \<and> growth_inv E s \<and> installed_inv s)"

lemma required_rights_nonzero: "required_rights a \<noteq> 0"
  by (cases a) (simp_all add: coord_simps)

lemma resource_key_of_raw: "raw_validate raw = Inr key \<Longrightarrow> valid_resource_key key"
  by (simp add: raw_validate_def validate_resource_key_valid)

lemma tables_inv_resource:
  assumes inv: "tables_inv E (fst w)" and d: "resource_decide (fst w) actor a = RApply eff"
    and actor: "wide_node actor"
  shows "tables_inv E (fst (write_resource (re_key eff) (re_row eff) w))"
proof -
  let ?w = "write_resource (re_key eff) (re_row eff) w"
  note c = resource_decide_apply [OF d]
  note r = resource_body_row [OF c(5)]
  have res: "resources_inv (fst w)" and gr: "growth_inv E (fst w)" using inv by (simp_all add: tables_inv_def)
  have good: "resource_good (re_key eff) (re_row eff)"
    using resource_body_good [OF c(5) c(2) actor row_or_default_good [OF res]] resource_key_of_raw [OF c(1)]
    by (simp add: resource_good_def)
  have "resources_inv (fst ?w)" using r by (intro resources_inv_put [OF res good]) simp_all
  moreover have "growth_inv E (fst ?w)"
    using res r by (intro write_resource_growth_inv [OF gr])
      (auto simp: resources_inv_def write_fits_def split: option.splits)
  moreover have "acl_inv (fst ?w)" "admins_inv (fst ?w)"
    using inv by (auto simp: tables_inv_def intro: acl_inv_resources admins_inv_cong)
  moreover have "st_acl (fst w) \<noteq> []"
    using c(3) required_rights_nonzero [of a] by (auto simp: granted_rights_def)
  then have "installed_inv (fst ?w)" using inv by (auto simp: tables_inv_def installed_inv_def)
  ultimately show ?thesis by (simp add: tables_inv_def)
qed

section \<open>Grants\<close>

lemma acl_inv_put:
  assumes inv: "acl_inv s" and row: "grant_good s' k r"
    and new: "bm_get (st_acl s) k = None \<Longrightarrow>
      length (st_acl s) < MAX_ACL_ROWS_PER_GROUP \<and> grants_on s (fst k) < MAX_GRANTS_PER_RESOURCE"
    and acl: "st_acl s' = bm_insert k r (st_acl s)"
    and res: "\<And>j. bm_contains (st_resources s) j \<Longrightarrow> bm_contains (st_resources s') j"
  shows "acl_inv s'"
proof -
  have ok: "bm_ok (st_acl s)" and old: "\<forall>(k, r)\<in>set (st_acl s). grant_good s' k r"
    using inv res by (fastforce simp: acl_inv_def grant_good_def)+
  have "grants_on s' j \<le> MAX_GRANTS_PER_RESOURCE" for j
  proof -
    have "grants_on s j \<le> MAX_GRANTS_PER_RESOURCE" using inv by (simp add: acl_inv_def)
    then show ?thesis
      using count_rows_insert [OF ok, of "\<lambda>k v. fst k = j" k r] new
      by (auto simp: grants_on_def acl split: option.splits if_splits)
  qed
  moreover have "length (bm_insert k r (st_acl s)) \<le> MAX_ACL_ROWS_PER_GROUP"
    using inv new by (intro bm.size_put_cap) (auto simp: acl_inv_def)
  ultimately show ?thesis
    using ok bm.all_rows_put [OF ok old row] by (simp add: acl_inv_def acl)
qed

lemma acl_inv_del:
  assumes inv: "acl_inv s" and acl: "st_acl s' = bm_remove k (st_acl s)"
    and res: "\<And>j. bm_contains (st_resources s) j \<Longrightarrow> bm_contains (st_resources s') j"
  shows "acl_inv s'"
proof -
  have ok: "bm_ok (st_acl s)" and old: "\<forall>(k, r)\<in>set (st_acl s). grant_good s' k r"
    using inv res by (fastforce simp: acl_inv_def grant_good_def)+
  have "grants_on s' j \<le> MAX_GRANTS_PER_RESOURCE" for j
    using inv count_rows_remove_le [of "\<lambda>(k, r). fst k = j" k "st_acl s"]
    by (auto simp: acl_inv_def grants_on_def acl intro: order_trans)
  moreover have "length (bm_remove k (st_acl s)) \<le> length (st_acl s)"
    by (simp add: bm_remove_def)
  ultimately show ?thesis
    using inv ok bm.all_rows_del [OF ok old] by (simp add: acl_inv_def acl)
qed

lemma acl_resource_exists:
  assumes "acl_inv s" "bm_get (st_acl s) (key, n) \<noteq> None"
  shows "bm_get (st_resources s) key \<noteq> None"
proof -
  obtain r where "bm_get (st_acl s) (key, n) = Some r" using assms(2) by auto
  then have "((key, n), r) \<in> set (st_acl s)" using assms(1) by (simp add: acl_inv_def bm_rows_get)
  with assms(1) show ?thesis by (auto simp: acl_inv_def grant_good_def bm_contains_def)
qed

lemma grant_row_good:
  assumes "resource_row_ok row" "storable_resource row" "rr_acl_revision row < MAX_COUNTER"
    "fences \<Longrightarrow> rr_epoch row < MAX_COUNTER \<and> rr_lease_revision row < MAX_COUNTER"
  shows "resource_row_ok (grant_row fences row) \<and> storable_resource (grant_row fences row)"
  using assms
  by (auto simp: grant_row_def Let_def resource_row_ok_def storable_resource_def ttl_is_legal_def split: if_splits)

lemma grant_row_value [simp]: "rr_value (grant_row fences row) = rr_value row"
  by (simp add: grant_row_def Let_def)

lemma charge_pos: "charge_resource ns k n \<noteq> 0" "charge_acl ns k \<noteq> 0"
  by (simp_all add: charge_resource_def charge_acl_def)

lemma grant_growth_inv:
  assumes inv: "growth_inv E (fst w)" and ok: "bm_ok (st_resources (fst w))" "bm_ok (st_acl (fst w))"
    and link: "bm_get (st_acl (fst w)) (key, gt_subject g) \<noteq> None \<Longrightarrow> bm_get (st_resources (fst w)) key \<noteq> None"
    and body: "grant_body (fst w) key g = GApply eff"
  shows "growth_inv E (fst (write_grant eff (write_resource key (ge_row eff) w)))"
proof -
  let ?w1 = "write_resource key (ge_row eff) w"
  let ?k = "(key, gt_subject g)"
  let ?new = "bm_get (st_resources (fst w)) key = None"
  note b = grant_body_apply [OF body]
  note t1 = write_resource_growth [OF ok(1), of E key "ge_row eff"]
  have ok2: "bm_ok (st_acl (fst ?w1))" using ok(2) by simp
  note t2 = write_grant_total [OF ok2, of E eff]
  have old: "row_charge resource_charge (st_resources (fst w)) key =
      (if ?new then 0 else resource_charge key (ge_row eff))"
    by (auto simp: row_charge_def b(6) resource_charge_def row_or_default_def)
  have acl: "row_charge acl_charge (st_acl (fst w)) ?k = (if bm_get (st_acl (fst w)) ?k = None then 0 else acl_charge ?k 0)"
    by (rule acl_row_charge)
  have "growth_total E (fst (write_grant eff ?w1)) \<le> growth_total E (fst w) +
      ((if ?new \<and> gt_rights g \<noteq> 0 then resource_charge key (ge_row eff) else 0) +
       (if ge_creates_acl_row eff then acl_charge ?k 0 else 0))"
    using t1(1) t2 old acl b(1-4,9) link by (simp split: if_splits)
  also have "\<dots> \<le> GROWTH_BUDGET"
  proof (cases "gt_rights g = 0 \<or> \<not> ?new \<and> \<not> ge_creates_acl_row eff")
    case True
    then show ?thesis using inv b(4) by (auto simp: growth_inv_def)
  next
    case False
    then have fit: "grant_growth_fits (fst w) key ?new (ge_creates_acl_row eff)" using b(12) by simp
    have "?new \<Longrightarrow> resource_charge key (ge_row eff) = charge_resource (rk_namespace key) (rk_key key) 0"
      by (simp add: b(6) resource_charge_def row_or_default_def default_resource_row_def)
    then show ?thesis
      using fit False inv
      by (intro growth_fits_exact)
        (auto simp: grant_growth_fits_def key_parts_def acl_charge_def charge_pos Let_def growth_inv_def
          split: if_splits)
  qed
  finally have "growth_total E (fst (write_grant eff ?w1)) \<le> GROWTH_BUDGET" .
  moreover have "growth_tracks E (fst (write_grant eff ?w1))"
    using inv t1(2) b(1-4) by (intro write_grant_tracks [OF ok2]) (auto simp: growth_inv_def split: if_splits)
  ultimately show ?thesis by (simp add: growth_inv_def)
qed

lemma tables_inv_grant:
  assumes inv: "tables_inv E (fst w)" and d: "grant_decide (fst w) actor g = GApply eff"
    and subject: "wide_node (gt_subject g)"
  shows "tables_inv E (fst (write_grant eff (write_resource (ge_key eff) (ge_row eff) w)))"
proof -
  have res: "resources_inv (fst w)" and acl: "acl_inv (fst w)" and adm: "admins_inv (fst w)"
    and gr: "growth_inv E (fst w)" using inv by (simp_all add: tables_inv_def)
  obtain key where c: "raw_validate (gt_resource g) = Inr key" "check_rights (gt_rights g) = None"
    "is_administrator (fst w) actor" "gt_expected_acl_revision g = rr_acl_revision (row_or_default (fst w) key)"
    using grant_decide_checks [OF d] .
  have body: "grant_body (fst w) key g = GApply eff" using grant_decide_body [OF c] d by simp
  note b = grant_body_apply [OF body]
  let ?w1 = "write_resource key (ge_row eff) w"
  let ?w2 = "write_grant eff ?w1"
  have link: "bm_get (st_acl (fst w)) (key, gt_subject g) \<noteq> None \<Longrightarrow> bm_get (st_resources (fst w)) key \<noteq> None"
    by (rule acl_resource_exists [OF acl])
  have good: "resource_good key (ge_row eff)"
    using grant_row_good [OF row_or_default_good [OF res] b(7,8)] resource_key_of_raw [OF c(1)]
    by (simp add: resource_good_def b(6))
  have new: "length (st_resources (fst w)) < MAX_RESOURCES_PER_GROUP"
    if "bm_get (st_resources (fst w)) key = None"
    using b(9,10) link that by blast
  have "resources_inv (fst ?w2)"
    by (rule resources_inv_put [OF res good new]) simp_all
  moreover have "growth_inv E (fst ?w2)"
    using res acl by (intro grant_growth_inv [OF gr _ _ link body]) (simp_all add: resources_inv_def acl_inv_def)
  moreover have "acl_inv (fst ?w2)"
  proof (cases "gt_rights g = 0")
    case True
    then show ?thesis using b(1-3) by (intro acl_inv_del [OF acl, of _ "(key, gt_subject g)"]) (simp_all add: write_grant_acl)
  next
    case False
    then have "grant_good (fst ?w2) (key, gt_subject g) (gt_rights g)"
      using subject c(2) by (simp add: grant_good_def check_rights_def split: if_splits)
    then show ?thesis
      using b(1-4,11) False by (intro acl_inv_put [OF acl, of _ "(key, gt_subject g)" "gt_rights g"])
        (simp_all add: write_grant_acl)
  qed
  moreover have "admins_inv (fst ?w2)" by (rule admins_inv_cong [OF adm]) simp_all
  moreover have "installed_inv (fst ?w2)"
    using c(3) by (simp add: installed_inv_def is_administrator_def)
  ultimately show ?thesis using b(1) by (simp add: tables_inv_def)
qed

section \<open>Administrators, expiry and genesis\<close>

lemma admin_apply:
  assumes "admin_decide s actor ad = AApply eff"
  shows "is_administrator s actor" "\<not> is_root s (aa_target ad)" "ae_target eff = aa_target ad"
    "ae_enabled eff = aa_enabled ad" "ae_admin_revision eff = Suc (st_admin_revision s)"
    "st_admin_revision s < MAX_COUNTER" "(aa_target ad |\<in>| st_admins s) = (\<not> aa_enabled ad)"
    "aa_enabled ad \<Longrightarrow> growth_fits s charge_admin \<and> fcard (st_admins s) < MAX_ADMINS_PER_GROUP"
    "\<not> aa_enabled ad \<Longrightarrow> 1 < fcard (st_admins s)"
  using assms by (auto simp: admin_decide_def not_le split: if_splits)

lemma tables_inv_admin:
  assumes inv: "tables_inv E (fst w)" and d: "admin_decide (fst w) actor ad = AApply eff"
    and target: "wide_node (aa_target ad)"
  shows "tables_inv E (fst (snd (apply_admin_effect eff w)))"
proof -
  let ?w = "snd (apply_admin_effect eff w)"
  note a = admin_apply [OF d]
  have gr: "growth_inv E (fst w)" and adm: "admins_inv (fst w)" using inv by (simp_all add: tables_inv_def)
  have "growth_total E (fst w) + (if ae_enabled eff then charge_admin else 0) \<le> GROWTH_BUDGET"
    using gr a(4,8) growth_fits_exact [OF gr, of charge_admin] by (simp add: growth_inv_def growth_fits_def)
  then have "growth_inv E (fst ?w)"
    using gr apply_admin_effect_growth [where E = E and eff = eff and w = w] by (simp add: growth_inv_def)
  moreover have "admins_inv (fst ?w)"
  proof -
    have auth: "st_authority (fst ?w) = st_authority (fst w)"
      by (rule outer_eqD(7)) simp
    show ?thesis
    proof (cases "aa_enabled ad")
      case True
      then show ?thesis
        using a adm target auth
        by (auto simp: admins_inv_def check_admin_revision_def is_root_def fcard_finsert_new)
    next
      case False
      then have card: "Suc (fcard (st_admins (fst w) |-| {|aa_target ad|})) = fcard (st_admins (fst w))"
        using a(7) by (intro fcard_fminus_member) simp
      then have le: "fcard (st_admins (fst w) |-| {|aa_target ad|}) \<le> MAX_ADMINS_PER_GROUP"
        using adm unfolding admins_inv_def by linarith
      have "fcard (st_admins (fst w) |-| {|aa_target ad|}) \<noteq> 0" using a(9) False card by linarith
      then have ne: "st_admins (fst w) |-| {|aa_target ad|} \<noteq> {||}" by (metis fcard_fempty)
      have admins: "st_admins (fst ?w) = st_admins (fst w) |-| {|aa_target ad|}" using a(3,4) False by simp
      have "\<forall>n. n |\<in>| st_admins (fst ?w) \<longrightarrow> n |\<in>| st_admins (fst w)" unfolding admins by simp
      then show ?thesis
        using a(5,6) adm auth le ne unfolding admins_inv_def check_admin_revision_def admins by auto
    qed
  qed
  moreover have "resources_inv (fst ?w)" "acl_inv (fst ?w)"
    using inv by (auto simp: tables_inv_def resources_inv_def intro: acl_inv_resources)
  moreover have "installed_inv (fst ?w)" using a(5) by (simp add: installed_inv_def)
  ultimately show ?thesis by (simp add: tables_inv_def)
qed

lemma tables_inv_expire:
  assumes inv: "tables_inv E (fst w)" and d: "expire_decide (fst w) ex = EApply row"
  shows "tables_inv E (fst (put_resource (ex_resource ex) row w))"
proof -
  let ?w = "put_resource (ex_resource ex) row w"
  note x = expire_apply [OF d]
  have res: "resources_inv (fst w)" and gr: "growth_inv E (fst w)" using inv by (simp_all add: tables_inv_def)
  have old: "resource_good (ex_resource ex) (row_or_default (fst w) (ex_resource ex))"
    by (rule resources_inv_get [OF res x(1)])
  have good: "resource_good (ex_resource ex) row"
    using old x(5-7) by (auto simp: resource_good_def resource_row_ok_def storable_resource_def ttl_is_legal_def)
  have "resources_inv (fst ?w)"
    using x(1) by (intro resources_inv_put [OF res good]) (simp_all add: put_resource_def)
  moreover have "growth_total E (fst ?w) = growth_total E (fst w)"
    using growth_total_put_resource [of w E "ex_resource ex" row] res x(1,7)
    by (simp add: resources_inv_def row_charge_def resource_charge_def)
  then have "growth_inv E (fst ?w)"
    using gr by (simp add: growth_inv_def growth_tracks_def)
  moreover have "acl_inv (fst ?w)" "admins_inv (fst ?w)" "installed_inv (fst ?w)"
    using inv x(1)
    by (auto simp: tables_inv_def put_resource_def admins_inv_def check_admin_revision_def installed_inv_def
        intro!: acl_inv_resources [of "fst w"])
  ultimately show ?thesis by (simp add: tables_inv_def)
qed

lemma genesis_installs_sound:
  assumes "genesis_installs E s doc g"
  shows "vg_initial_admins g \<noteq> []" "length (vg_initial_admins g) \<le> MAX_ADMINS_PER_GROUP"
    "\<forall>n\<in>set (vg_initial_admins g). wide_node n" "ga_public_key (st_authority s) \<notin> set (vg_initial_admins g)"
proof -
  have "verify_genesis E (ga_public_key (st_authority s)) (ga_domain (st_authority s)) doc = Inr g"
    using assms by (simp add: genesis_installs_def)
  then obtain document genesis where
    g: "seal_genesis E (ga_public_key (st_authority s)) (ga_domain (st_authority s)) genesis document = Inr g"
    by (rule verify_genesis_sealed)
  show "vg_initial_admins g \<noteq> []" "length (vg_initial_admins g) \<le> MAX_ADMINS_PER_GROUP"
    "ga_public_key (st_authority s) \<notin> set (vg_initial_admins g)"
    "\<forall>n\<in>set (vg_initial_admins g). wide_node n"
    using seal_genesis_sound [OF g] by (simp_all add: wide_node_def coord_simps)
qed

lemma fcard_list_le: "fcard (fset_of_list xs) \<le> length xs"
  by (induction xs) (auto simp: fcard_finsert_if)

lemma fset_of_list_Nil_iff: "fset_of_list xs = {||} \<longleftrightarrow> xs = []"
  by (cases xs) simp_all

lemma tables_inv_genesis:
  assumes inv: "tables_inv E (fst w)" and g: "genesis_installs E (fst w) doc g"
  shows "tables_inv E (fst (install_genesis E g w))"
proof -
  let ?w = "install_genesis E g w"
  note v = genesis_installs_sound [OF g]
  have rev: "st_admin_revision (fst w) = 0" using g by (simp add: genesis_installs_def)
  then have empty: "st_resources (fst w) = []" "st_acl (fst w) = []" "st_intents (fst w) = []"
    "st_routes (fst w) = []" "st_admins (fst w) = {||}"
    using inv by (auto simp: tables_inv_def installed_inv_def admins_inv_def check_admin_revision_def)
  have auth: "st_authority (fst ?w) = st_authority (fst w)" by (rule outer_eqD(7)) simp
  have card: "fcard (st_admins (fst ?w)) \<le> MAX_ADMINS_PER_GROUP"
    using fcard_list_le [of "vg_initial_admins g"] v(2) by (simp add: empty)
  have "growth_total E (fst ?w) \<le> GROWTH_BUDGET"
    using card by (simp add: growth_total_def empty coord_simps charge_admin_def)
  moreover have "growth_tracks E (fst ?w)"
    by (simp add: growth_tracks_recompute install_genesis_def Let_def set_growth_def upd_state_def
        recompute_growth_def)
  ultimately have "growth_inv E (fst ?w)" by (simp add: growth_inv_def)
  moreover have "admins_inv (fst ?w)"
    using v card auth
    by (auto simp: admins_inv_def check_admin_revision_def empty fset_of_list_elem fset_of_list_Nil_iff coord_simps)
  ultimately show ?thesis
    using inv by (simp add: tables_inv_def resources_inv_def acl_inv_def grants_on_def installed_inv_def empty)
qed

end
