(* ===== verification/Coord_Intents.thy ===== *)
theory Coord_Intents
  imports Coord_Business
begin

text \<open>
  The membership part of the invariant: intents and routes.  At most one intent is active,
  at most sixty-four terminal ones and sixty-four routes are retained, every row is one the
  loader accepts and the storage codec can write, and every stamped log id names an applied
  entry.  The three decisions that write an intent preserve it.
\<close>

section \<open>The tables a membership write leaves\<close>

lemma write_intent_intents_get:
  "bm_get (st_intents (fst (write_intent E l eff w))) k =
    (if k = ie_operation_id eff then Some (stamp_intent l (ie_intent eff))
     else if k \<in> set (ie_evict eff) then None else bm_get (st_intents (fst w)) k)"
  by (simp add: write_intent_eq evict_intents_get)

lemma write_routes_get:
  "distinct (map fst rs) \<Longrightarrow> bm_get (st_routes (fst (write_routes l rs w))) k =
    (case map_of rs k of Some r \<Rightarrow> Some (stamp_route l r) | None \<Rightarrow> bm_get (st_routes (fst w)) k)"
proof (induction rs arbitrary: w)
  case (Cons p rs)
  have "map_of rs (fst p) = None" using Cons.prems by (simp add: map_of_eq_None_iff)
  then show ?case
    using Cons.IH [of "add_route l (fst p) (snd p) w"] Cons.prems
    by (cases p; cases "map_of rs k") auto
qed simp

lemma write_intent_routes_get:
  "distinct (map fst (ie_routes eff)) \<Longrightarrow> bm_get (st_routes (fst (write_intent E l eff w))) k =
    (case map_of (ie_routes eff) k of
       Some r \<Rightarrow> Some (stamp_route l r)
     | None \<Rightarrow> if k \<in> set (ie_evict_routes eff) then None else bm_get (st_routes (fst w)) k)"
  by (auto simp: write_intent_eq write_routes_get evict_routes_get split: option.splits)

lemma write_intent_ok:
  assumes "bm_ok (st_intents (fst w))" "bm_ok (st_routes (fst w))"
  shows "bm_ok (st_intents (fst (write_intent E l eff w)))" "bm_ok (st_routes (fst (write_intent E l eff w)))"
  using assms by (simp_all add: write_intent_eq)

section \<open>Route retention\<close>

text \<open>The retained nodes a plan may evict: not members, not named by the plan.\<close>

definition route_candidates :: "state \<Rightarrow> (node_id \<times> route) list \<Rightarrow> node_id set" where
  "route_candidates s rs =
    {n \<in> fst ` set (st_routes s). \<not> cm_contains (st_membership s) n \<and> n \<notin> fst ` set rs}"

definition new_routes :: "state \<Rightarrow> (node_id \<times> route) list \<Rightarrow> nat" where
  "new_routes s rs = length (filter (\<lambda>(n, r). \<not> bm_contains (st_routes s) n) rs)"

lemma distinct_sorted_snd:
  assumes "distinct (map snd xs)"
  shows "distinct (map snd (take n (sort xs)))" "set (map snd (take n (sort xs))) \<subseteq> set (map snd xs)"
    "length xs \<le> n \<Longrightarrow> set (map snd (take n (sort xs))) = set (map snd xs)"
proof -
  have "mset (map snd (sort xs)) = mset (map snd xs)" by simp
  then have d: "distinct (map snd (sort xs))" using assms by (metis mset_eq_imp_distinct_iff)
  then show "distinct (map snd (take n (sort xs)))" by (metis distinct_take take_map)
  show "set (map snd (take n (sort xs))) \<subseteq> set (map snd xs)"
    using set_take_subset [of n "sort xs"] by auto
  show "set (map snd (take n (sort xs))) = set (map snd xs)" if "length xs \<le> n"
    using that by simp
qed

lemma key_list_ex: "list_ex (\<lambda>(m, r). m = n) rs \<longleftrightarrow> n \<in> fst ` set rs"
  by (induction rs) auto

lemma filter_keys: "set (map fst (filter (\<lambda>(n, r). P n) m)) = {n \<in> fst ` set m. P n}"
  by (induction m) auto

lemma route_evictions_cases:
  assumes ok: "bm_ok (st_routes s)"
  shows "distinct (route_evictions s rs)" "set (route_evictions s rs) \<subseteq> route_candidates s rs"
    "new_routes s rs \<noteq> 0 \<Longrightarrow> set (route_evictions s rs) = route_candidates s rs \<or>
      length (route_evictions s rs) = length (st_routes s) + new_routes s rs - MAX_RETAINED_ROUTES"
proof -
  define xs where "xs = map (\<lambda>(n, r).
      ((lg_term (ro_introduced_log_id r), lg_index (ro_introduced_log_id r)), n))
      (filter (\<lambda>(n, r). \<not> cm_contains (st_membership s) n \<and> \<not> list_ex (\<lambda>(m, r'). m = n) rs) (st_routes s))"
  define n where "n = length (st_routes s) + new_routes s rs - MAX_RETAINED_ROUTES"
  have snds: "map snd xs = map fst (filter (\<lambda>(n, r). \<not> cm_contains (st_membership s) n \<and>
      \<not> list_ex (\<lambda>(m, r'). m = n) rs) (st_routes s))"
    by (simp add: xs_def o_def case_prod_beta)
  have "distinct (map fst (st_routes s))" using ok by (auto simp: bm_ok_def strict_sorted_iff)
  then have dist: "distinct (map snd xs)" unfolding snds by (rule distinct_map_filter)
  have cands: "set (map snd xs) = route_candidates s rs"
    unfolding snds key_list_ex route_candidates_def by (rule filter_keys)
  have eq: "route_evictions s rs = (if new_routes s rs = 0 then [] else map snd (take n (sort xs)))"
    by (simp add: route_evictions_def new_routes_def n_def xs_def Let_def saturating_sub_u64_def)
  note ds = distinct_sorted_snd [OF dist, of n]
  show "distinct (route_evictions s rs)" using ds(1) by (simp add: eq)
  show "set (route_evictions s rs) \<subseteq> route_candidates s rs" using ds(2) cands unfolding eq by auto
  show "set (route_evictions s rs) = route_candidates s rs \<or>
      length (route_evictions s rs) = length (st_routes s) + new_routes s rs - MAX_RETAINED_ROUTES"
    if "new_routes s rs \<noteq> 0"
    using that ds(3) cands unfolding eq n_def [symmetric] by (cases "length xs \<le> n") auto
qed

lemma new_routes_card:
  assumes "distinct (map fst rs)"
  shows "new_routes s rs = card (fst ` set rs - fst ` set (st_routes s))"
proof -
  have "new_routes s rs = card (set (map fst (filter (\<lambda>(n, r). \<not> bm_contains (st_routes s) n) rs)))"
    unfolding new_routes_def distinct_card [OF distinct_map_filter [OF assms]] by simp
  also have "set (map fst (filter (\<lambda>(n, r). \<not> bm_contains (st_routes s) n) rs))
      = fst ` set rs - fst ` set (st_routes s)"
    unfolding bm_contains_keys by (simp only: filter_keys) blast
  finally show ?thesis .
qed

text \<open>Room for the members and for one plan's seeds, so the cap survives a plan that finds
  nothing to evict.\<close>

definition MEMBER_ROUTES :: nat where
  "MEMBER_ROUTES = MAX_RETAINED_ROUTES - (MAX_VOTERS + MAX_RETAINED_LEARNERS)"

lemma route_cap:
  assumes ok: "bm_ok (st_routes s)" and len: "length (st_routes s) \<le> MAX_RETAINED_ROUTES"
    and members: "fcard (cm_members (st_membership s)) \<le> MEMBER_ROUTES"
    and rs: "distinct (map fst rs)" "length rs \<le> MAX_VOTERS + MAX_RETAINED_LEARNERS"
  shows "card ((fst ` set (st_routes s) - set (route_evictions s rs)) \<union> fst ` set rs) \<le> MAX_RETAINED_ROUTES"
proof -
  let ?K = "fst ` set (st_routes s)" and ?I = "fst ` set rs" and ?V = "set (route_evictions s rs)"
  note ev = route_evictions_cases [OF ok, of rs]
  have K: "card ?K = length (st_routes s)" using bm_length_keys [OF ok] by simp
  have all: "card (?K \<union> ?I) = length (st_routes s) + new_routes s rs"
    using card_Un_disjoint [of ?K "?I - ?K"] K by (simp add: new_routes_card [OF rs(1)])
  have I: "card ?I \<le> MAX_VOTERS + MAX_RETAINED_LEARNERS"
    using card_image_le [of "set rs" fst] card_length [of rs] rs(2) by simp
  show ?thesis
  proof (cases "new_routes s rs = 0")
    case True
    have "card ((?K - ?V) \<union> ?I) \<le> card (?K \<union> ?I)" by (intro card_mono) auto
    with all True len show ?thesis by simp
  next
    case False
    from ev(3) [OF False] show ?thesis
    proof
      assume V: "?V = route_candidates s rs"
      have "(?K - ?V) \<union> ?I \<subseteq> fset (cm_members (st_membership s)) \<union> ?I"
        unfolding V by (auto simp: route_candidates_def cm_contains_def cm_members_def)
      then have "card ((?K - ?V) \<union> ?I) \<le> card (fset (cm_members (st_membership s)) \<union> ?I)"
        by (intro card_mono) auto
      also have "\<dots> \<le> card (fset (cm_members (st_membership s))) + card ?I" by (rule card_Un_le)
      finally show ?thesis using members I by (simp add: fcard_def MEMBER_ROUTES_def coord_simps)
    next
      assume n: "length (route_evictions s rs) = length (st_routes s) + new_routes s rs - MAX_RETAINED_ROUTES"
      have "(?K - ?V) \<union> ?I = (?K \<union> ?I) - ?V" using ev(2) by (auto simp: route_candidates_def)
      moreover have "card ((?K \<union> ?I) - ?V) = card (?K \<union> ?I) - card ?V"
        using ev(2) by (intro card_Diff_subset) (auto simp: route_candidates_def)
      ultimately show ?thesis using all n distinct_card [OF ev(1)] by simp
    qed
  qed
qed

section \<open>Intents\<close>

definition active_ops :: "state \<Rightarrow> operation_id set" where
  "active_ops s = {op. \<exists>i. bm_get (st_intents s) op = Some i \<and> \<not> is_terminal_phase (in_status_code i)}"

definition terminal_ops :: "state \<Rightarrow> operation_id set" where
  "terminal_ops s = {op. \<exists>i. bm_get (st_intents s) op = Some i \<and> is_terminal_phase (in_status_code i)}"

definition intent_good :: "externs \<Rightarrow> group_authority \<Rightarrow> i32 \<Rightarrow> operation_id \<Rightarrow> intent \<Rightarrow> bool" where
  "intent_good E auth profile op i =
    (wide_op op \<and> plan_row_ok E auth profile (in_plan i) \<and> storable_intent i)"

definition intents_inv :: "externs \<Rightarrow> state \<Rightarrow> bool" where
  "intents_inv E s =
    (bm_ok (st_intents s) \<and> card (active_ops s) \<le> 1 \<and> card (terminal_ops s) \<le> MAX_RETAINED_INTENTS \<and>
     (\<forall>op i. bm_get (st_intents s) op = Some i \<longrightarrow>
       intent_good E (st_authority s) (st_deployment_profile_code s) op i))"

lemma finite_ops [simp]: "finite (active_ops s)" "finite (terminal_ops s)"
  by (rule finite_subset [of _ "fst ` set (st_intents s)"];
      auto simp: active_ops_def terminal_ops_def dest: bm_get_keys)+

lemma active_intents_card: "bm_ok (st_intents s) \<Longrightarrow> active_intents s = card (active_ops s)"
  unfolding active_intents_def active_ops_def by (rule count_rows_card)

lemma terminal_ops_card:
  "bm_ok (st_intents s) \<Longrightarrow>
    length (filter (\<lambda>(op, i). is_terminal_phase (in_status_code i)) (st_intents s)) = card (terminal_ops s)"
  unfolding terminal_ops_def by (rule count_rows_card)

lemma intents_length:
  assumes "bm_ok (st_intents s)"
  shows "length (st_intents s) = card (active_ops s) + card (terminal_ops s)"
proof -
  have "length (st_intents s) = length (filter (\<lambda>(op, i). is_terminal_phase (in_status_code i)) (st_intents s))
      + length (filter (\<lambda>(op, i). \<not> is_terminal_phase (in_status_code i)) (st_intents s))"
    using sum_length_filter_compl [of "\<lambda>(op, i). is_terminal_phase (in_status_code i)" "st_intents s"]
    by (simp add: case_prod_unfold)
  then show ?thesis
    using terminal_ops_card [OF assms] active_intents_card [OF assms] by (simp add: active_intents_def)
qed

lemma only_active:
  assumes "intents_inv E s" "op \<in> active_ops s"
  shows "active_ops s = {op}"
  using assms card_le_Suc0_iff_eq [of "active_ops s"] by (auto simp: intents_inv_def)

lemma evictions_cases:
  assumes ok: "bm_ok (st_intents s)" and len: "card (terminal_ops s) \<le> MAX_RETAINED_INTENTS"
  shows "set (evictions s 1) \<subseteq> terminal_ops s" "card (terminal_ops s - set (evictions s 1)) < MAX_RETAINED_INTENTS"
proof -
  define xs where "xs = map (\<lambda>(op, i). (completed_key i, op))
    (filter (\<lambda>(op, i). is_terminal_phase (in_status_code i)) (st_intents s))"
  define n where "n = card (terminal_ops s) + 1 - MAX_RETAINED_INTENTS"
  have snds: "map snd xs = map fst (filter (\<lambda>(op, i). is_terminal_phase (in_status_code i)) (st_intents s))"
    by (simp add: xs_def o_def case_prod_beta)
  have "distinct (map fst (st_intents s))" using ok by (auto simp: bm_ok_def strict_sorted_iff)
  then have dist: "distinct (map snd xs)" unfolding snds by (rule distinct_map_filter)
  have ops: "set (map snd xs) = terminal_ops s"
    unfolding snds terminal_ops_def using bm_rows_get [OF ok] by (force simp: image_iff)
  have xs: "length xs = card (terminal_ops s)"
    using distinct_card [OF dist] ops by simp
  have eq: "evictions s 1 = map snd (take n (sort xs))"
    using terminal_ops_card [OF ok]
    by (simp add: evictions_def xs_def n_def Let_def saturating_sub_u64_def)
  note ds = distinct_sorted_snd [OF dist, of n]
  show sub: "set (evictions s 1) \<subseteq> terminal_ops s" using ds(2) ops unfolding eq by simp
  have "card (set (evictions s 1)) = min (length xs) n"
    using distinct_card [OF ds(1)] unfolding eq by simp
  then show "card (terminal_ops s - set (evictions s 1)) < MAX_RETAINED_INTENTS"
    using card_Diff_subset [OF _ sub] len xs by (simp add: n_def coord_simps)
qed

lemma intents_inv_write:
  assumes inv: "intents_inv E (fst w)"
    and good: "intent_good E (st_authority (fst w)) (st_deployment_profile_code (fst w)) (ie_operation_id eff)
      (stamp_intent l (ie_intent eff))"
    and only: "active_ops (fst w) \<subseteq> {ie_operation_id eff}" and new: "ie_operation_id eff \<notin> terminal_ops (fst w)"
    and room: "is_terminal_phase (in_status_code (ie_intent eff)) \<Longrightarrow>
      card (terminal_ops (fst w) - set (ie_evict eff)) < MAX_RETAINED_INTENTS"
  shows "intents_inv E (fst (write_intent E l eff w))"
proof -
  let ?w = "write_intent E l eff w"
  have "outer (fst ?w) = outer (fst w)" by simp
  note frame = outer_eqD [OF this]
  have "active_ops (fst ?w) \<subseteq> {ie_operation_id eff}"
    using only by (auto simp: active_ops_def write_intent_intents_get split: if_splits)
  then have "card (active_ops (fst ?w)) \<le> card {ie_operation_id eff}" by (intro card_mono) auto
  moreover have "card (terminal_ops (fst ?w)) \<le> MAX_RETAINED_INTENTS"
  proof (cases "is_terminal_phase (in_status_code (ie_intent eff))")
    case True
    have "terminal_ops (fst ?w) \<subseteq> insert (ie_operation_id eff) (terminal_ops (fst w) - set (ie_evict eff))"
      by (auto simp: terminal_ops_def write_intent_intents_get split: if_splits)
    then have "card (terminal_ops (fst ?w)) \<le> card (insert (ie_operation_id eff) (terminal_ops (fst w) - set (ie_evict eff)))"
      by (intro card_mono) auto
    also have "\<dots> \<le> Suc (card (terminal_ops (fst w) - set (ie_evict eff)))" by (rule card_insert_le_m1) auto
    finally show ?thesis using room [OF True] by simp
  next
    case False
    then have "terminal_ops (fst ?w) \<subseteq> terminal_ops (fst w)"
      by (auto simp: terminal_ops_def write_intent_intents_get split: if_splits)
    then have "card (terminal_ops (fst ?w)) \<le> card (terminal_ops (fst w))" by (intro card_mono) auto
    with inv show ?thesis by (simp add: intents_inv_def)
  qed
  moreover have "bm_ok (st_intents (fst ?w))" using inv by (simp add: intents_inv_def write_intent_eq)
  ultimately show ?thesis
    using inv good frame by (auto simp: intents_inv_def write_intent_intents_get)
qed

section \<open>Routes and stamps\<close>

definition route_good :: "externs \<Rightarrow> node_id \<Rightarrow> route \<Rightarrow> bool" where
  "route_good E n r = (wide_node n \<and> check_seed_ticket E (ro_ticket r) n = None \<and> storable_route r)"

definition routes_inv :: "externs \<Rightarrow> state \<Rightarrow> bool" where
  "routes_inv E s =
    (bm_ok (st_routes s) \<and> length (st_routes s) \<le> MAX_RETAINED_ROUTES \<and>
     (\<forall>n r. bm_get (st_routes s) n = Some r \<longrightarrow> route_good E n r))"

text \<open>Every log id a row carries satisfies \<open>B\<close>, and none completes before it was accepted.\<close>

definition intent_stamped :: "(log_id \<Rightarrow> bool) \<Rightarrow> intent \<Rightarrow> bool" where
  "intent_stamped B i =
    (B (in_accepted_log_id i) \<and>
     pred_option (\<lambda>c. B c \<and> lg_index (in_accepted_log_id i) \<le> lg_index c) (in_completed_log_id i) \<and>
     pred_option B (in_observed_membership_log_id i))"

definition stamps_inv :: "(log_id \<Rightarrow> bool) \<Rightarrow> state \<Rightarrow> bool" where
  "stamps_inv B s =
    ((\<forall>op i. bm_get (st_intents s) op = Some i \<longrightarrow> intent_stamped B i) \<and>
     (\<forall>n r. bm_get (st_routes s) n = Some r \<longrightarrow> B (ro_introduced_log_id r)))"

lemma stamps_check:
  assumes "bm_ok (st_intents s)" "bm_ok (st_routes s)"
  shows "check_stamped_log_ids s \<longleftrightarrow> stamps_inv (id_within s) s"
proof -
  have "intent_stamps_ok s i = intent_stamped (id_within s) i" for i
    by (auto simp: intent_stamps_ok_def intent_stamped_def split: option.splits)
  then show ?thesis
    using all_rows_get [OF assms(1), of "\<lambda>_. intent_stamped (id_within s)"]
      all_rows_get [OF assms(2), of "\<lambda>_ r. id_within s (ro_introduced_log_id r)"]
    by (simp add: check_stamped_log_ids_def stamps_inv_def list_all_iff)
qed

lemma stamps_inv_mono: "stamps_inv B s \<Longrightarrow> (\<And>l. B l \<Longrightarrow> B' l) \<Longrightarrow> stamps_inv B' s"
  by (force simp: stamps_inv_def intent_stamped_def option.pred_set)

text \<open>The bound an applied entry gives.\<close>

definition upto_entry :: "log_id \<Rightarrow> log_id \<Rightarrow> bool" where
  "upto_entry l x = (lg_index x \<le> lg_index l)"

lemma id_within_delivered: "delivered s l \<Longrightarrow> id_within s x \<Longrightarrow> upto_entry l x"
  using delivered_index(1) [of s l] by (force simp: id_within_def upto_entry_def split: option.splits)

lemma stamps_inv_write:
  assumes st: "stamps_inv (upto_entry l) (fst w)"
    and new: "intent_stamped (upto_entry l) (stamp_intent l (ie_intent eff))"
    and rs: "distinct (map fst (ie_routes eff))"
    and routes: "\<forall>(n, r)\<in>set (ie_routes eff). ro_introduced_log_id r = unstamped_log_id"
  shows "stamps_inv (upto_entry l) (fst (write_intent E l eff w))"
proof -
  have "upto_entry l (ro_introduced_log_id (stamp_route l r))" if "map_of (ie_routes eff) n = Some r" for n r
    using routes map_of_SomeD [OF that] by (auto simp: stamp_route_def unstamped_log_id_def upto_entry_def)
  then show ?thesis
    using st new
    by (auto simp: stamps_inv_def write_intent_intents_get write_intent_routes_get [OF rs] split: option.splits)
qed

lemma routes_inv_write:
  assumes inv: "routes_inv E (fst w)"
    and rs: "distinct (map fst (ie_routes eff))"
    and good: "\<forall>(n, r)\<in>set (ie_routes eff). route_good E n (stamp_route l r)"
    and cap: "card ((fst ` set (st_routes (fst w)) - set (ie_evict_routes eff)) \<union> fst ` set (ie_routes eff))
      \<le> MAX_RETAINED_ROUTES"
  shows "routes_inv E (fst (write_intent E l eff w))"
proof -
  let ?m = "st_routes (fst (write_intent E l eff w))"
  have ok: "bm_ok ?m" using inv by (simp add: routes_inv_def write_intent_eq)
  have "k \<in> fst ` set ?m \<longleftrightarrow>
      k \<in> (fst ` set (st_routes (fst w)) - set (ie_evict_routes eff)) \<union> fst ` set (ie_routes eff)" for k
  proof -
    have keys: "k \<in> fst ` set ?m \<longleftrightarrow> bm_get ?m k \<noteq> None"
      "k \<in> fst ` set (st_routes (fst w)) \<longleftrightarrow> bm_get (st_routes (fst w)) k \<noteq> None"
      "k \<in> fst ` set (ie_routes eff) \<longleftrightarrow> map_of (ie_routes eff) k \<noteq> None"
      by (simp_all only: bm_get_None_iff map_of_eq_None_iff not_not)
    show ?thesis
      unfolding Un_iff Diff_iff keys write_intent_routes_get [OF rs] by (simp split: option.splits)
  qed
  then have "fst ` set ?m = (fst ` set (st_routes (fst w)) - set (ie_evict_routes eff)) \<union> fst ` set (ie_routes eff)"
    by blast
  then have "length ?m \<le> MAX_RETAINED_ROUTES" using cap bm_length_keys [OF ok] by simp
  moreover have "route_good E n r" if "bm_get ?m n = Some r" for n r
    using that inv good
    by (auto simp: write_intent_routes_get [OF rs] routes_inv_def split: option.splits if_splits dest: map_of_SomeD)
  ultimately show ?thesis using ok by (simp add: routes_inv_def)
qed

section \<open>The decisions that write an intent\<close>

lemma decide_change_apply:
  assumes "decide_change E s actor h a = MApply eff"
  shows "eff = change_effect s actor h a" "is_administrator s actor"
    "bm_get (st_intents s) (ma_operation_id a) = None"
    "plan_shape E (ma_plan a) (st_membership s) (st_authority s) (st_deployment_profile_code s) = None"
    "\<not> list_ex (\<lambda>(op, i). \<not> is_terminal_phase (in_status_code i)) (st_intents s)"
    "growth_fits s (growth_delta E s eff)"
    "ma_expected_membership_log_id a = st_membership_log_id s"
  using assms by (auto simp: decide_change_def Let_def split: if_splits option.splits)

text \<open>Cancelling and advancing rewrite the phase of an active intent.\<close>

definition intent_rewrite :: "state \<Rightarrow> intent_effect \<Rightarrow> intent \<Rightarrow> bool" where
  "intent_rewrite s eff old =
    (bm_get (st_intents s) (ie_operation_id eff) = Some old \<and> \<not> is_terminal_phase (in_status_code old) \<and>
     in_status_code (ie_intent eff) \<in> set PHASES \<and>
     ie_intent eff = old\<lparr> in_status_code := in_status_code (ie_intent eff),
       in_result_code := in_result_code (ie_intent eff),
       in_observed_membership_log_id := in_observed_membership_log_id (ie_intent eff) \<rparr> \<and>
     ie_evict eff = (if is_terminal_phase (in_status_code (ie_intent eff)) then evictions s 1 else []) \<and>
     ie_routes eff = [] \<and> ie_evict_routes eff = [])"

lemma decide_cancel_apply:
  assumes "decide_cancel s actor c = MApply eff"
  obtains old where "intent_rewrite s eff old" "is_administrator s actor"
    "in_observed_membership_log_id (ie_intent eff) = in_observed_membership_log_id old"
  using assms
  by (auto simp: decide_cancel_def intent_rewrite_def PHASES_def is_terminal_phase_def coord_simps
      split: if_splits option.splits)

lemma decide_progress_apply:
  assumes "decide_progress s p = Some eff"
  obtains old where "intent_rewrite s eff old"
    "in_observed_membership_log_id (ie_intent eff) = pg_observed_membership_log_id p"
    "is_legal_transition (in_status_code old) (in_status_code (ie_intent eff))"
    "in_status_code (ie_intent eff) = PHASE_COMPLETED \<Longrightarrow> completion_is_observable s old p"
proof -
  obtain old where old: "bm_get (st_intents s) (pg_operation_id p) = Some old"
    "is_legal_transition (in_status_code old) (pg_new_phase p)"
    "pg_new_phase p = PHASE_COMPLETED \<Longrightarrow> completion_is_observable s old p"
    using assms by (auto simp: decide_progress_def Let_def split: option.splits if_splits)
  have "\<not> is_terminal_phase (in_status_code old)" "pg_new_phase p \<in> set PHASES"
    using old(2) by (auto simp: is_legal_transition_def PHASES_def split: if_splits)
  with old assms show thesis
    by (intro that [of old])
      (auto simp: decide_progress_def Let_def intent_rewrite_def split: if_splits)
qed

section \<open>Preservation\<close>

definition membership_inv :: "externs \<Rightarrow> (log_id \<Rightarrow> bool) \<Rightarrow> state \<Rightarrow> bool" where
  "membership_inv E B s = (intents_inv E s \<and> routes_inv E s \<and> stamps_inv B s)"

lemma tables_inv_intent:
  assumes inv: "tables_inv E (fst w)" and ok: "bm_ok (st_intents (fst w))" "bm_ok (st_routes (fst w))"
    and total: "growth_total E (fst (write_intent E l eff w)) \<le> GROWTH_BUDGET"
    and installed: "st_admin_revision (fst w) \<noteq> 0"
  shows "tables_inv E (fst (write_intent E l eff w))"
proof -
  have "growth_inv E (fst (write_intent E l eff w))"
    using write_intent_tracks [OF ok] inv total by (simp add: growth_inv_def tables_inv_def)
  moreover have "st_authority (fst (write_intent E l eff w)) = st_authority (fst w)"
    by (rule outer_eqD(7)) simp
  ultimately show ?thesis
    using inv installed
    by (auto simp: tables_inv_def resources_inv_def installed_inv_def
        intro: acl_inv_resources [of "fst w"] admins_inv_cong [of "fst w"])
qed

lemma installed_intent:
  "installed_inv s \<Longrightarrow> bm_get (st_intents s) op = Some i \<Longrightarrow> st_admin_revision s \<noteq> 0"
  by (auto simp: installed_inv_def)

lemma rewrite_stamped:
  assumes "intent_rewrite s eff old" "storable_intent old" "intent_stamped (upto_entry l) old" "wide_log l"
    "pred_option (\<lambda>x. wide_log x \<and> upto_entry l x) (in_observed_membership_log_id (ie_intent eff))"
  shows "storable_intent (stamp_intent l (ie_intent eff))"
    "intent_stamped (upto_entry l) (stamp_intent l (ie_intent eff))"
    "in_plan (ie_intent eff) = in_plan old"
    "intent_charge E op (ie_intent eff) = intent_charge E op old"
proof -
  define st where "st = in_status_code (ie_intent eff)"
  define rc where "rc = in_result_code (ie_intent eff)"
  define ob where "ob = in_observed_membership_log_id (ie_intent eff)"
  have i: "ie_intent eff = old\<lparr> in_status_code := st, in_result_code := rc, in_observed_membership_log_id := ob \<rparr>"
    and st: "st \<in> set PHASES" and active: "\<not> is_terminal_phase (in_status_code old)"
    using assms(1) by (simp_all add: intent_rewrite_def st_def rc_def ob_def)
  have ob: "pred_option wide_log ob" "pred_option (upto_entry l) ob"
    using assms(5) by (auto simp: ob_def option.pred_set)
  have none: "in_completed_log_id old = None" using assms(2) active by (simp add: storable_intent_def)
  show "storable_intent (stamp_intent l (ie_intent eff))"
    using assms(2,4) st ob none unfolding i by (simp add: storable_intent_def stamp_intent_def Let_def)
  show "intent_stamped (upto_entry l) (stamp_intent l (ie_intent eff))"
    using assms(3) ob none unfolding i
    by (simp add: intent_stamped_def stamp_intent_def Let_def) (simp add: upto_entry_def)
  show "in_plan (ie_intent eff) = in_plan old" "intent_charge E op (ie_intent eff) = intent_charge E op old"
    unfolding i by (simp_all add: intent_charge_def charge_len_def)
qed

lemma membership_rewrite:
  assumes inv: "membership_inv E (upto_entry l) (fst w)" and tables: "tables_inv E (fst w)"
    and rewrite: "intent_rewrite (fst w) eff old" and l: "wide_log l"
    and observed: "pred_option (\<lambda>x. wide_log x \<and> upto_entry l x) (in_observed_membership_log_id (ie_intent eff))"
  shows "membership_inv E (upto_entry l) (fst (write_intent E l eff w))"
    "tables_inv E (fst (write_intent E l eff w))"
proof -
  let ?op = "ie_operation_id eff"
  have int: "intents_inv E (fst w)" and rt: "routes_inv E (fst w)" and st: "stamps_inv (upto_entry l) (fst w)"
    using inv by (simp_all add: membership_inv_def)
  have old: "bm_get (st_intents (fst w)) ?op = Some old" "\<not> is_terminal_phase (in_status_code old)"
    and none: "ie_routes eff = []" "ie_evict_routes eff = []"
    and evict: "ie_evict eff = (if is_terminal_phase (in_status_code (ie_intent eff)) then evictions (fst w) 1 else [])"
    using rewrite by (simp_all add: intent_rewrite_def)
  have ok: "bm_ok (st_intents (fst w))" "bm_ok (st_routes (fst w))"
    using int rt by (simp_all add: intents_inv_def routes_inv_def)
  have good: "intent_good E (st_authority (fst w)) (st_deployment_profile_code (fst w)) ?op old"
    and stamped: "intent_stamped (upto_entry l) old"
    using int st old(1) by (auto simp: intents_inv_def stamps_inv_def)
  note r = rewrite_stamped [OF rewrite _ stamped l observed]
  have good': "intent_good E (st_authority (fst w)) (st_deployment_profile_code (fst w)) ?op (stamp_intent l (ie_intent eff))"
    using good r(1,3) by (simp add: intent_good_def)
  note ev = evictions_cases [OF ok(1)]
  have active: "?op \<in> active_ops (fst w)" "?op \<notin> terminal_ops (fst w)"
    using old by (auto simp: active_ops_def terminal_ops_def)
  have cap: "card (terminal_ops (fst w)) \<le> MAX_RETAINED_INTENTS" using int by (simp add: intents_inv_def)
  have "intents_inv E (fst (write_intent E l eff w))"
    using only_active [OF int active(1)] active(2) ev(2) [OF cap] evict
    by (intro intents_inv_write [OF int good']) simp_all
  moreover have "routes_inv E (fst (write_intent E l eff w))"
    using rt bm_length_keys [OF ok(2)] by (intro routes_inv_write) (simp_all add: none routes_inv_def)
  moreover have "stamps_inv (upto_entry l) (fst (write_intent E l eff w))"
    using good r(2) by (intro stamps_inv_write [OF st]) (simp_all add: none intent_good_def)
  ultimately show "membership_inv E (upto_entry l) (fst (write_intent E l eff w))"
    by (simp add: membership_inv_def)
  have "?op \<notin> set (ie_evict eff)" using ev(1) [OF cap] active(2) evict by auto
  then have "growth_total E (fst (write_intent E l eff w)) \<le> growth_total E (fst w)"
    using good r(4) by (intro write_intent_rewrite_total [OF ok(1) _ old(1) _ none]) (simp_all add: intent_good_def)
  with tables show "tables_inv E (fst (write_intent E l eff w))"
    using installed_intent [OF _ old(1)]
    by (intro tables_inv_intent [OF tables ok]) (auto simp: tables_inv_def growth_inv_def)
qed

text \<open>A plan whose ids have their widths, as narrowing guarantees.\<close>

definition wide_change :: "change_membership_action \<Rightarrow> bool" where
  "wide_change a =
    (wide_op (ma_operation_id a) \<and> pred_option wide_log (ma_expected_membership_log_id a) \<and>
     list_all wide_node (mp_desired_voters (ma_plan a)) \<and> list_all wide_node (mp_retained_learners (ma_plan a)) \<and>
     list_all (wide_node \<circ> sd_node_id) (mp_member_seeds (ma_plan a)))"

lemma seed_ticket_utf8: "check_seed_ticket E ticket n = None \<Longrightarrow> from_utf8 ticket \<noteq> None \<and> ticket \<noteq> []"
  by (auto simp: check_seed_ticket_def split: if_splits option.splits)

lemma accepted_plan_ok:
  assumes "plan_shape E plan m auth profile = None"
  shows "plan_row_ok E auth profile plan"
proof -
  have "seed_row_ok E auth seed" if "seed \<in> set (mp_member_seeds plan)" for seed
  proof -
    have "check_plan_seed E plan (cm_members m) auth seed = None"
      using plan_shape_None(10) [OF assms] that by simp
    from check_plan_seed_None [OF this] show ?thesis
      by (cases "sd_node_id seed |\<in>| cm_members m") (auto simp: seed_row_ok_def)
  qed
  then show ?thesis
    using plan_shape_None [OF assms] by (auto simp: plan_row_ok_def list_all_iff)
qed

lemma accepted_routes:
  assumes shape: "plan_shape E (ma_plan a) m auth profile = None" and wide: "wide_change a" and l: "wide_log l"
  shows "distinct (map fst (routes_from a))" "length (routes_from a) \<le> MAX_VOTERS + MAX_RETAINED_LEARNERS"
    "\<forall>(n, r)\<in>set (routes_from a). ro_introduced_log_id r = unstamped_log_id \<and> route_good E n (stamp_route l r)"
proof -
  have "map fst (routes_from a) = map sd_node_id (filter (\<lambda>seed. sd_ticket seed \<noteq> []) (mp_member_seeds (ma_plan a)))"
    by (simp add: routes_from_def)
  then show "distinct (map fst (routes_from a))"
    using distinct_map_filter [OF sorted_unique_distinct [OF plan_shape_None(3) [OF shape]]] by simp
  show "length (routes_from a) \<le> MAX_VOTERS + MAX_RETAINED_LEARNERS"
    using le_trans [OF length_filter_le plan_seed_count [OF shape]] by (simp add: routes_from_def)
  have "check_seed_ticket E (sd_ticket seed) (sd_node_id seed) = None \<and> wide_node (sd_node_id seed)"
    if "seed \<in> set (mp_member_seeds (ma_plan a))" for seed
    using that plan_shape_None(10) [OF shape] wide
    by (auto simp: wide_change_def list_all_iff dest: check_plan_seed_None(3))
  then show "\<forall>(n, r)\<in>set (routes_from a). ro_introduced_log_id r = unstamped_log_id \<and> route_good E n (stamp_route l r)"
    using wide l
    by (auto simp: routes_from_def route_good_def storable_route_def stamp_route_def unstamped_log_id_def wide_change_def)
qed

lemma accepted_intent:
  assumes shape: "plan_shape E (ma_plan a) m auth profile = None" and wide: "wide_change a"
    and client: "wide_node actor" "length h = 32" and l: "wide_log l"
  shows "intent_good E auth profile (ma_operation_id a) (stamp_intent l (ie_intent (change_effect s actor h a)))"
    "intent_stamped (upto_entry l) (stamp_intent l (ie_intent (change_effect s actor h a)))"
proof -
  have i: "stamp_intent l (ie_intent (change_effect s actor h a)) =
      \<lparr> in_actor = actor, in_request_hash = h, in_expected_membership = ma_expected_membership_log_id a,
        in_plan = ma_plan a, in_status_code = PHASE_PENDING, in_result_code = 0, in_accepted_log_id = l,
        in_completed_log_id = None, in_observed_membership_log_id = None \<rparr>"
    by (simp add: change_effect_def stamp_intent_def unstamped_log_id_def Let_def is_terminal_phase_def coord_simps)
  have "storable_seed seed" if "seed \<in> set (mp_member_seeds (ma_plan a))" for seed
    using that plan_shape_None(10) [OF shape] wide
      seed_ticket_utf8 [OF check_plan_seed_None(3), of E "ma_plan a" "cm_members m" auth seed]
    by (auto simp: wide_change_def list_all_iff storable_seed_def)
  then have "storable_plan (ma_plan a)" using wide by (simp add: storable_plan_def wide_change_def list_all_iff)
  then show "intent_good E auth profile (ma_operation_id a) (stamp_intent l (ie_intent (change_effect s actor h a)))"
    using wide client l accepted_plan_ok [OF shape] unfolding i
    by (simp add: intent_good_def storable_intent_def wide_change_def PHASES_def is_terminal_phase_def coord_simps)
  show "intent_stamped (upto_entry l) (stamp_intent l (ie_intent (change_effect s actor h a)))"
    unfolding i by (simp add: intent_stamped_def upto_entry_def)
qed

lemma change_growth:
  assumes gr: "growth_inv E (fst w)" and ok: "bm_ok (st_intents (fst w))" "bm_ok (st_routes (fst w))"
    and fits: "growth_fits (fst w) (growth_delta E (fst w) eff)" and no_evict: "ie_evict eff = []"
    and dist: "distinct (ie_evict_routes eff)" "distinct (map fst (ie_routes eff))"
    and disj: "\<forall>n\<in>set (ie_evict_routes eff). n \<notin> fst ` set (ie_routes eff)"
  shows "growth_total E (fst (write_intent E l eff w)) \<le> GROWTH_BUDGET"
proof -
  have "growth_total E (fst w) + growth_delta E (fst w) eff \<le> GROWTH_BUDGET"
    using growth_fits_exact [OF gr] fits by (simp add: growth_fits_def)
  moreover have "growth_total E (fst w) \<le> GROWTH_BUDGET" using gr by (simp add: growth_inv_def)
  ultimately show ?thesis
    using write_intent_accept_total [OF ok no_evict dist disj, of E l] no_evict
    unfolding growth_delta_def Let_def saturating_sub_u64_def by (simp add: o_def)
qed

lemma membership_change:
  assumes inv: "membership_inv E (upto_entry l) (fst w)" and tables: "tables_inv E (fst w)"
    and d: "decide_change E (fst w) actor h a = MApply eff" and wide: "wide_change a" and l: "wide_log l"
    and client: "wide_node actor" "length h = 32"
    and members: "fcard (cm_members (st_membership (fst w))) \<le> MEMBER_ROUTES"
  shows "membership_inv E (upto_entry l) (fst (write_intent E l eff w))"
    "tables_inv E (fst (write_intent E l eff w))"
proof -
  note c = decide_change_apply [OF d]
  have int: "intents_inv E (fst w)" and rt: "routes_inv E (fst w)" and st: "stamps_inv (upto_entry l) (fst w)"
    using inv by (simp_all add: membership_inv_def)
  have ok: "bm_ok (st_intents (fst w))" "bm_ok (st_routes (fst w))"
    and len: "length (st_routes (fst w)) \<le> MAX_RETAINED_ROUTES"
    using int rt by (simp_all add: intents_inv_def routes_inv_def)
  have eff: "ie_operation_id eff = ma_operation_id a" "ie_evict eff = []" "ie_routes eff = routes_from a"
    "ie_evict_routes eff = route_evictions (fst w) (routes_from a)" "in_status_code (ie_intent eff) = PHASE_PENDING"
    by (simp_all add: c(1) change_effect_def Let_def)
  note i = accepted_intent [OF c(4) wide client l, of "fst w", folded c(1)]
  note r = accepted_routes [OF c(4) wide l]
  note ev = route_evictions_cases [OF ok(2), of "routes_from a"]
  have active: "active_ops (fst w) = {}" "ma_operation_id a \<notin> terminal_ops (fst w)"
    using c(3,5) bm_rows_get [OF ok(1)] by (force simp: active_ops_def terminal_ops_def list_ex_iff)+
  have "intents_inv E (fst (write_intent E l eff w))"
    using i(1) active eff by (intro intents_inv_write [OF int]) (simp_all add: is_terminal_phase_def coord_simps)
  moreover have "routes_inv E (fst (write_intent E l eff w))"
    using r route_cap [OF ok(2) len members r(1,2)] eff by (intro routes_inv_write [OF rt]) auto
  moreover have "stamps_inv (upto_entry l) (fst (write_intent E l eff w))"
    using r i(2) eff by (intro stamps_inv_write [OF st]) auto
  ultimately show "membership_inv E (upto_entry l) (fst (write_intent E l eff w))"
    by (simp add: membership_inv_def)
  have "growth_total E (fst (write_intent E l eff w)) \<le> GROWTH_BUDGET"
    using ev(1,2) r(1) eff c(6) tables
    by (intro change_growth [OF _ ok]) (auto simp: route_candidates_def tables_inv_def)
  then show "tables_inv E (fst (write_intent E l eff w))"
    using c(2) by (intro tables_inv_intent [OF tables ok]) (auto simp: is_administrator_def)
qed

end
