(* ===== verification/Coord_Sessions.thy ===== *)
theory Coord_Sessions
  imports Coord_Invariant Coord_Step
begin

text \<open>
  The session table's part of the invariant: the retention and activity caps, rows the loader
  accepts, and saved replies whose outcome is one the operation behind the request hash may
  have (\<open>code_of\<close> names that operation).  The session writes preserve it, and the reserve
  budget covers every state that satisfies it.
\<close>

section \<open>The invariant\<close>

definition reply_good :: "i32 \<Rightarrow> saved_reply \<Rightarrow> bool" where
  "reply_good code r =
    (saved_reply_ok r \<and> storable_reply r \<and>
     (\<exists>allowed. audit_results_for code = Some allowed \<and> outcome_code (sr_outcome r) \<in> set allowed))"

definition session_good :: "(hash32 \<Rightarrow> i32) \<Rightarrow> session_key \<Rightarrow> session \<Rightarrow> bool" where
  "session_good code_of k se =
    (wide_node (fst k) \<and> length (snd k) = CLIENT_ID_LEN \<and> session_ok se \<and> storable_session se \<and>
     pred_option (reply_good (code_of (se_request_hash se))) (se_last_result se))"

definition within_capacity :: "capacity \<Rightarrow> bool" where
  "within_capacity c =
    (ca_retained_group c \<le> MAX_RETAINED_SESSIONS_PER_GROUP \<and>
     ca_retained_actor c \<le> MAX_RETAINED_SESSIONS_PER_ACTOR \<and>
     ca_active_group c \<le> MAX_ACTIVE_CLIENTS_PER_GROUP \<and>
     ca_active_actor c \<le> MAX_ACTIVE_CLIENTS_PER_ACTOR)"

definition session_inv :: "(hash32 \<Rightarrow> i32) \<Rightarrow> state \<Rightarrow> bool" where
  "session_inv code_of s =
    (bm_ok (st_sessions s) \<and> (\<forall>actor. within_capacity (capacity_for s actor)) \<and>
     (\<forall>(k, se)\<in>set (st_sessions s). session_good code_of k se))"

lemma session_inv_cong: "st_sessions s = st_sessions t \<Longrightarrow> session_inv code_of s = session_inv code_of t"
  by (simp add: session_inv_def capacity_for_def)

lemma session_inv_get:
  "session_inv code_of s \<Longrightarrow> bm_get (st_sessions s) k = Some se \<Longrightarrow> session_good code_of k se"
  by (auto simp: session_inv_def dest: iffD2 [OF bm_rows_get])

section \<open>Session writes\<close>

lemma capacity_put:
  assumes ok: "bm_ok (st_sessions s)" and caps: "\<forall>actor. within_capacity (capacity_for s actor)"
    and new: "bm_get (st_sessions s) k = None \<Longrightarrow> \<not> retained_exhausted (capacity_for s (fst k))"
    and act: "\<not> se_retired se \<Longrightarrow> (case bm_get (st_sessions s) k of
        None \<Rightarrow> \<not> active_exhausted (capacity_for s (fst k)) | Some old \<Rightarrow> \<not> se_retired old)"
    and s': "st_sessions s' = bm_insert k se (st_sessions s)"
  shows "within_capacity (capacity_for s' actor)"
proof -
  note count = count_rows_insert [OF ok]
  let ?n = "\<lambda>P. length (filter (\<lambda>(k, v). P k v) (st_sessions s))"
  have caps': "length (st_sessions s) \<le> MAX_RETAINED_SESSIONS_PER_GROUP"
    "?n (\<lambda>k v. fst k = actor) \<le> MAX_RETAINED_SESSIONS_PER_ACTOR"
    "?n (\<lambda>k v. \<not> se_retired v) \<le> MAX_ACTIVE_CLIENTS_PER_GROUP"
    "?n (\<lambda>k v. fst k = actor \<and> \<not> se_retired v) \<le> MAX_ACTIVE_CLIENTS_PER_ACTOR"
    using caps by (simp_all add: within_capacity_def capacity_for_def)
  show ?thesis
  proof (cases "bm_get (st_sessions s) k")
    case None
    then show ?thesis
      using caps' new act bm.size_put [OF ok, of k se] count [of "\<lambda>k v. fst k = actor" k se]
        count [of "\<lambda>k v. \<not> se_retired v" k se] count [of "\<lambda>k v. fst k = actor \<and> \<not> se_retired v" k se]
      by (cases "fst k = actor"; cases "se_retired se")
        (simp_all add: within_capacity_def capacity_for_def s' retained_exhausted_def active_exhausted_def)
  next
    case (Some old)
    then show ?thesis
      using caps' act bm.size_put [OF ok, of k se] count [of "\<lambda>k v. fst k = actor" k se]
        count [of "\<lambda>k v. \<not> se_retired v" k se] count [of "\<lambda>k v. fst k = actor \<and> \<not> se_retired v" k se]
      by (cases "fst k = actor"; cases "se_retired se"; cases "se_retired old")
        (simp_all add: within_capacity_def capacity_for_def s')
  qed
qed

lemma session_inv_put:
  assumes inv: "session_inv code_of s" and se: "session_good code_of k se"
    and new: "bm_get (st_sessions s) k = None \<Longrightarrow> \<not> retained_exhausted (capacity_for s (fst k))"
    and act: "\<not> se_retired se \<Longrightarrow> (case bm_get (st_sessions s) k of
        None \<Rightarrow> \<not> active_exhausted (capacity_for s (fst k)) | Some old \<Rightarrow> \<not> se_retired old)"
    and s': "st_sessions s' = bm_insert k se (st_sessions s)"
  shows "session_inv code_of s'"
  unfolding session_inv_def
proof (intro conjI allI)
  have ok: "bm_ok (st_sessions s)" and caps: "\<forall>actor. within_capacity (capacity_for s actor)"
    and rows: "\<forall>(k, se)\<in>set (st_sessions s). session_good code_of k se"
    using inv by (simp_all add: session_inv_def)
  show "bm_ok (st_sessions s')" using ok s' by simp
  show "within_capacity (capacity_for s' actor)" for actor
    by (rule capacity_put [OF ok caps new act s'])
  show "\<forall>(k, se)\<in>set (st_sessions s'). session_good code_of k se"
    unfolding s' by (rule bm.all_rows_put [OF ok rows se])
qed

lemma session_inv_client:
  assumes inv: "session_inv code_of (fst w)"
    and cl: "classify_client (fst w) client = Unresolved row creates"
    and wide: "wide_node (cl_actor client)" "length (cl_client_id client) = CLIENT_ID_LEN"
      "length (cl_request_hash client) = 32"
    and reply: "reply_good (code_of (cl_request_hash client)) reply"
  shows "session_inv code_of (fst (write_session client (Some reply) w))"
proof -
  let ?k = "(cl_actor client, cl_client_id client)"
  have "cl_sequence client \<le> MAX_COUNTER"
    using cl by (auto simp: classify_client_def classify_unresolved_iff coord_simps split: option.splits)
  then have "session_good code_of ?k (next_session (fst w) client (Some reply))"
    using wide reply
    by (simp add: session_good_def next_session_def session_ok_def storable_session_def reply_good_def)
  then show ?thesis
    unfolding write_session_eq using cl
    by (intro session_inv_put [OF inv])
      (auto simp: classify_client_def classify_unresolved_iff next_session_def split: option.splits)
qed

lemma session_inv_retire:
  assumes inv: "session_inv code_of (fst w)" and d: "retire_decide (fst w) rc = TApply eff"
    and row: "effect_row (fst w) rc eff = Some row"
    and wide: "wide_node (rc_target_actor rc)" "length (rc_target_client_id rc) = CLIENT_ID_LEN"
  shows "session_inv code_of (fst (store_session (rc_target_actor rc, rc_target_client_id rc) row w))"
proof -
  let ?k = "(rc_target_actor rc, rc_target_client_id rc)"
  have "session_good code_of ?k row \<and> se_retired row"
  proof (cases eff)
    case Convert
    then obtain old where "bm_get (st_sessions (fst w)) ?k = Some old" "row = old\<lparr> se_retired := True \<rparr>"
      using row by (auto simp: effect_row_def split: option.splits)
    then show ?thesis
      using session_inv_get [OF inv] by (auto simp: session_good_def session_ok_def storable_session_def)
  qed (use row wide in \<open>auto simp: effect_row_def session_good_def session_ok_def storable_session_def\<close>)
  then show ?thesis
    using d row
    by (intro session_inv_put [OF inv])
      (auto simp: retire_decide_def effect_row_def retained_exhausted_for_new_row_def retained_exhausted_def
        split: if_splits option.splits)
qed

section \<open>The reserve budget\<close>

text \<open>The loader's bound holds because every charged key is a valid resource key.\<close>

lemma session_charge_le:
  assumes "session_good code_of k se"
  shows "session_row_charge k se \<le> MAX_RESERVE_ROW_CHARGE"
proof (cases "Option.bind (se_last_result se) sr_key_parts")
  case (Some parts)
  then obtain r ss where r: "se_last_result se = Some r" "sr_snapshot r = Some ss" "parts = key_parts (ss_resource ss)"
    by (auto simp: sr_key_parts_def sr_resource_def bind_eq_Some_conv)
  then have "valid_resource_key (ss_resource ss)"
    using assms by (auto simp: session_good_def storable_session_def storable_reply_def storable_snapshot_def)
  then show ?thesis
    using valid_resource_key_bounds Some r
    by (auto simp: session_row_charge_def key_parts_def intro!: charge_session_bound)
qed (simp add: session_row_charge_def charge_session_bound)

lemma audit_charge_le:
  assumes "audit_row_good row"
  shows "audit_row_charge k row \<le> MAX_RESERVE_ROW_CHARGE"
  using assms valid_resource_key_bounds
  by (cases "au_resource row")
    (auto simp: audit_row_charge_def audit_row_good_def storable_audit_def key_parts_def
      intro!: charge_session_bound)

lemma reserve_total_bound:
  assumes "session_inv code_of s" "audit_inv s"
  shows "reserve_total s \<le> RESERVE_BUDGET"
proof -
  have "table_sum session_row_charge (st_sessions s) \<le> MAX_RETAINED_SESSIONS_PER_GROUP * MAX_RESERVE_ROW_CHARGE"
    using assms(1)
    by (intro table_sum_bound)
      (auto simp: session_inv_def within_capacity_def capacity_for_def intro: session_charge_le)
  moreover have "table_sum audit_row_charge (st_audit s) \<le> MAX_AUDIT_ROWS * MAX_RESERVE_ROW_CHARGE"
    using assms(2) by (intro table_sum_bound) (auto simp: audit_inv_def intro: audit_charge_le)
  ultimately show ?thesis
    using reserve_fits unfolding reserve_total_def add_mult_distrib by linarith
qed

lemma reserve_exact:
  assumes "session_inv code_of s" "audit_inv s" "reserve_tracks s"
  shows "st_reserve_bytes s = reserve_total s" "st_reserve_bytes s \<le> RESERVE_BUDGET"
  using reserve_total_bound [OF assms(1,2)] budgets_below_u64 assms(3)
  by (simp_all add: reserve_tracks_def u64_max_def u64_size_def)

end
