(* ===== verification/Coord_Replies.thy ===== *)
theory Coord_Replies
  imports Coord_Intents Coord_Sessions
begin

text \<open>
  What a client command is answered.  Every refusal of the deciding modules is one that may be
  saved in a session, and every reply the apply step builds, successes included, is one the
  session table may hold and the loader accepts, with an outcome its operation may have.
\<close>

unbundle bit_operations_syntax

section \<open>Refusals\<close>

lemma check_fence_reason: "check_fence actor row f = Some r \<Longrightarrow> may_be_saved_rejection r"
  by (auto simp: check_fence_def split: if_splits)

lemma resource_body_refuse: "resource_body s actor key a = RRefuse r \<Longrightarrow> may_be_saved_rejection r"
  by (cases a; auto simp: resource_body_defs dest: check_fence_reason split: option.splits if_splits)

lemma resource_decide_body:
  "resource_decide s actor a = RRefuse r \<Longrightarrow> r = PermissionChanged \<or> r = EpochMismatch \<or>
    (\<exists>key. resource_body s actor key a = RRefuse r)"
  by (auto simp: resource_decide_def resource_body_def Let_def split: sum.splits option.splits if_splits)

lemma resource_refuse_reason: "resource_decide s actor a = RRefuse r \<Longrightarrow> may_be_saved_rejection r"
  by (auto dest!: resource_decide_body resource_body_refuse)

lemma grant_refuse_reason: "grant_decide s actor g = GRefuse r \<Longrightarrow> may_be_saved_rejection r"
  by (auto simp: grant_decide_def Let_def split: sum.splits option.splits if_splits)

lemma admin_refuse_reason: "admin_decide s actor ad = ARefuse r \<Longrightarrow> may_be_saved_rejection r"
  by (auto simp: admin_decide_def split: if_splits)

lemma change_refuse_reason: "decide_change E s actor h m = MRefuse r \<Longrightarrow> may_be_saved_rejection r"
  by (auto simp: decide_change_def Let_def split: if_splits option.splits)

lemma cancel_refuse_reason: "decide_cancel s actor c = MRefuse r \<Longrightarrow> may_be_saved_rejection r"
  by (auto simp: decide_cancel_def split: if_splits option.splits)

lemmas refuse_reasons = resource_refuse_reason grant_refuse_reason admin_refuse_reason
  change_refuse_reason cancel_refuse_reason

lemma saved_not_reserved: "may_be_saved_rejection r \<Longrightarrow> \<not> is_reserved r"
  by (cases r) simp_all

section \<open>Outcomes\<close>

text \<open>The codes a client request is audited under.\<close>

definition client_code :: "i32 \<Rightarrow> bool" where
  "client_code c = (1 \<le> c \<and> c \<le> 11)"

lemma client_code_cases:
  assumes "client_code c"
  obtains "c = 1" | "c = 2" | "c = 3" | "c = 4" | "c = 5" | "c = 6" | "c = 7" | "c = 8" | "c = 9"
    | "c = 10" | "c = 11"
proof -
  have "c = 1 \<or> c = 2 \<or> c = 3 \<or> c = 4 \<or> c = 5 \<or> c = 6 \<or> c = 7 \<or> c = 8 \<or> c = 9 \<or> c = 10 \<or> c = 11"
    using assms unfolding client_code_def by presburger
  then show thesis using that by blast
qed

lemma operation_client_code: "client_code (operation_code a)"
proof (cases a)
  case (ActResource r)
  then show ?thesis by (cases r) (simp_all add: client_code_def)
qed (simp_all add: client_code_def)

definition outcome_allowed :: "i32 \<Rightarrow> outcome \<Rightarrow> bool" where
  "outcome_allowed code o' =
    (\<exists>allowed. audit_results_for code = Some allowed \<and> outcome_code o' \<in> set allowed)"

lemma rejected_allowed: "client_code c \<Longrightarrow> outcome_allowed c Rejected"
  by (erule client_code_cases) (simp_all add: outcome_allowed_def audit_results_client)

lemma resource_body_outcome:
  "resource_body s actor key a = RApply eff \<Longrightarrow> outcome_allowed (resource_operation_code a) (re_outcome eff)"
  by (cases a)
    (auto simp: resource_body_defs outcome_allowed_def audit_results_client split: option.splits if_splits)

lemma reply_goodI:
  assumes "saved_reply_ok r" "storable_reply r" "outcome_allowed code (sr_outcome r)"
  shows "reply_good code r"
  using assms by (simp add: reply_good_def outcome_allowed_def)

section \<open>Replies\<close>

lemma snapshot_good:
  assumes "resource_row_ok row" "storable_resource row" "valid_resource_key key"
  shows "snapshot_ok (saved_snapshot_of key row)" "storable_snapshot (saved_snapshot_of key row)"
  using assms
  by (simp_all add: snapshot_ok_def storable_snapshot_def saved_snapshot_of_def resource_row_ok_def
      storable_resource_def)

lemma rejection_good:
  assumes inv: "tables_inv E s" and key: "pred_option valid_resource_key res"
    and reason: "\<not> is_reserved reason" and code: "client_code code"
  shows "reply_good code (rejection s res reason)"
proof -
  have rev: "st_admin_revision s \<le> MAX_COUNTER"
    using inv by (simp add: tables_inv_def admins_inv_def check_admin_revision_def)
  show ?thesis
  proof (cases res)
    case None
    then show ?thesis
      using rev reason rejected_allowed [OF code]
      by (intro reply_goodI) (simp_all add: rejection_def saved_reply_ok_def storable_reply_def)
  next
    case (Some key)
    have row: "resource_row_ok (row_or_default s key)" "storable_resource (row_or_default s key)"
      using inv row_or_default_good [of s key] by (simp_all add: tables_inv_def)
    then have acl: "rr_acl_revision (row_or_default s key) \<le> MAX_COUNTER" by (simp add: resource_row_ok_def)
    have eq: "rejection s res reason = \<lparr> sr_outcome = Rejected, sr_reason = reason,
        sr_snapshot = Some (saved_snapshot_of key (row_or_default s key)),
        sr_acl_revision = rr_acl_revision (row_or_default s key), sr_admin_revision = st_admin_revision s,
        sr_operation_id = None, sr_membership_log_id = None \<rparr>"
      using Some
      by (simp add: rejection_def Let_def row_or_default_def saved_snapshot_of_def split: option.splits)
    show ?thesis
      unfolding eq using snapshot_good [OF row] key Some rev acl reason rejected_allowed [OF code]
      by (intro reply_goodI) (simp_all add: saved_reply_ok_def storable_reply_def)
  qed
qed

lemma success_good:
  assumes "resource_row_ok row" "storable_resource row" "valid_resource_key key" "outcome_allowed code o'"
  shows "reply_good code (cr_reply (consumed_success o' key row))"
  using snapshot_good [OF assms(1-3)] assms(1,4)
  by (intro reply_goodI)
    (simp_all add: consumed_success_def consumed_result_def saved_reply_ok_def storable_reply_def resource_row_ok_def)

lemma membership_reply_good:
  assumes "wide_op op" "pred_option wide_log l" "outcome_allowed code o'"
  shows "reply_good code (cr_reply (membership_reply o' op l))"
  using assms
  by (intro reply_goodI)
    (simp_all add: membership_reply_def consumed_result_def saved_reply_ok_def storable_reply_def)

lemma admin_reply_good: "n \<le> MAX_COUNTER \<Longrightarrow> reply_good 8 (admin_reply n)"
  by (intro reply_goodI)
    (simp_all add: admin_reply_def saved_reply_ok_def storable_reply_def outcome_allowed_def audit_results_client)

lemma validated_resource_valid: "pred_option valid_resource_key (validated_resource a)"
proof -
  have "pred_option valid_resource_key (sum_ok (raw_validate raw))" for raw
    by (cases "raw_validate raw") (simp_all add: resource_key_of_raw sum_ok_def)
  then show ?thesis by (cases a) simp_all
qed

text \<open>The reason a decision is refused with: a shape violation is refused with none.\<close>

fun refusal_of :: "action_decision \<Rightarrow> reason option" where
  "refusal_of (DResource (RRefuse r)) = Some r"
| "refusal_of (DGrant (GRefuse r)) = Some r"
| "refusal_of (DAdmin (ARefuse r)) = Some r"
| "refusal_of (DMembership (MRefuse r)) = Some r"
| "refusal_of (DResource (RShapeless _)) = Some Reason_None"
| "refusal_of (DGrant (GShapeless _)) = Some Reason_None"
| "refusal_of (DMembership (MShapeless _)) = Some Reason_None"
| "refusal_of _ = None"

lemma refused_decided:
  assumes "refusal_of (action_decide E a (fst w) (cl_actor client) (cl_request_hash client)) = Some r"
  shows "apply_decided E l client a w = (consumed_result (rejection (fst w) (validated_resource a) r), w)"
  using assms unfolding apply_decided_def
  by (cases "action_decide E a (fst w) (cl_actor client) (cl_request_hash client)" rule: refusal_of.cases) simp_all

lemma refused_reason:
  assumes "refusal_of (action_decide E a s actor h) = Some r"
  shows "r = Reason_None \<or> may_be_saved_rejection r"
  using assms
  by (cases "action_decide E a s actor h" rule: refusal_of.cases)
    (auto simp: action_decide_def split: action.splits dest: refuse_reasons)

lemma refused_reply_good:
  assumes "tables_inv E (fst w)"
    and "refusal_of (action_decide E a (fst w) (cl_actor client) (cl_request_hash client)) = Some r"
  shows "reply_good (operation_code a) (cr_reply (fst (apply_decided E l client a w)))"
proof -
  have "\<not> is_reserved r" using refused_reason [OF assms(2)] saved_not_reserved by auto
  then show ?thesis
    using rejection_good [OF assms(1) validated_resource_valid _ operation_client_code]
    by (simp add: refused_decided [OF assms(2)] consumed_result_def)
qed

text \<open>What narrowing guarantees of a client command.\<close>

definition wide_client :: "client_ref \<Rightarrow> bool" where
  "wide_client c =
    (wide_node (cl_actor c) \<and> length (cl_client_id c) = CLIENT_ID_LEN \<and> length (cl_request_hash c) = 32)"

definition wide_action :: "action \<Rightarrow> bool" where
  "wide_action a =
    (case a of
       ActResource _ \<Rightarrow> True
     | ActGrant g \<Rightarrow> wide_node (gt_subject g)
     | ActAdmin ad \<Rightarrow> wide_node (aa_target ad)
     | ActChangeMembership m \<Rightarrow> wide_change m
     | ActCancelMembership c \<Rightarrow> wide_op (mc_operation_id c))"

lemma resource_reply_good:
  assumes inv: "tables_inv E (fst w)" and actor: "wide_node (cl_actor client)"
  shows "reply_good (operation_code (ActResource a)) (cr_reply (fst (apply_decided E l client (ActResource a) w)))"
proof (cases "resource_decide (fst w) (cl_actor client) a")
  case (RApply eff)
  note d = resource_decide_apply [OF RApply]
  have "resource_row_ok (re_row eff) \<and> storable_resource (re_row eff)"
    using resource_body_good [OF d(5,2) actor] row_or_default_good inv by (simp add: tables_inv_def)
  moreover have "valid_resource_key (re_key eff)" by (rule resource_key_of_raw [OF d(1)])
  ultimately show ?thesis
    using RApply resource_body_outcome [OF d(5)]
    by (simp add: apply_decided_def action_decide_def apply_resource_effect_def Let_def success_good)
qed (simp_all add: refused_reply_good [OF inv] action_decide_def del: operation_code.simps)

lemma grant_reply_good:
  assumes inv: "tables_inv E (fst w)"
  shows "reply_good (operation_code (ActGrant g)) (cr_reply (fst (apply_decided E l client (ActGrant g) w)))"
proof -
  have allowed: "outcome_allowed 7 GrantUpdated" by (simp add: outcome_allowed_def audit_results_client)
  have res: "resources_inv (fst w)" using inv by (simp add: tables_inv_def)
  show ?thesis
  proof (cases "grant_decide (fst w) (cl_actor client) g")
    case (GApply eff)
    obtain key where c: "raw_validate (gt_resource g) = Inr key" "check_rights (gt_rights g) = None"
      "is_administrator (fst w) (cl_actor client)"
      "gt_expected_acl_revision g = rr_acl_revision (row_or_default (fst w) key)"
      using grant_decide_checks [OF GApply] .
    have "grant_body (fst w) key g = GApply eff" using grant_decide_body [OF c] GApply by simp
    note b = grant_body_apply [OF this]
    have "resource_row_ok (ge_row eff) \<and> storable_resource (ge_row eff)"
      using grant_row_good [OF row_or_default_good [OF res] b(7,8)] by (simp add: b(6))
    then show ?thesis
      using GApply resource_key_of_raw [OF c(1)] allowed
      by (simp add: apply_decided_def action_decide_def apply_grant_effect_eq success_good b(1))
  next
    case (GNoOp n)
    obtain key where key: "raw_validate (gt_resource g) = Inr key"
      using GNoOp by (cases "raw_validate (gt_resource g)") (auto simp: grant_decide_def)
    have n: "n = rr_acl_revision (row_or_default (fst w) key)"
      using GNoOp key
      by (cases "bm_get (st_resources (fst w)) key")
        (auto simp: grant_decide_def Let_def row_or_default_def default_resource_row_def
          split: option.splits if_splits)
    have row: "resource_row_ok row" "storable_resource row" if "bm_get (st_resources (fst w)) key = Some row" for row
      using resources_inv_get [OF res that] by (simp_all add: resource_good_def)
    have "n \<le> MAX_COUNTER" using n row_or_default_good(1) [OF res] by (simp add: resource_row_ok_def)
    then show ?thesis
      using GNoOp key allowed snapshot_good [OF row resource_key_of_raw [OF key]]
      by (intro reply_goodI; cases "bm_get (st_resources (fst w)) key")
        (simp_all add: apply_decided_def action_decide_def consumed_result_def no_op_grant_reply_def sum_ok_def
          saved_reply_ok_def storable_reply_def)
  qed (simp_all add: refused_reply_good [OF inv] action_decide_def del: operation_code.simps)
qed

lemma admin_decided_good:
  assumes inv: "tables_inv E (fst w)"
  shows "reply_good (operation_code (ActAdmin ad)) (cr_reply (fst (apply_decided E l client (ActAdmin ad) w)))"
proof (cases "admin_decide (fst w) (cl_actor client) ad")
  case (AApply eff)
  with admin_apply(5,6) [OF AApply] show ?thesis
    by (simp add: apply_decided_def action_decide_def apply_admin_effect_def consumed_result_def Let_def
        admin_reply_good)
next
  case (ANoOp n)
  then have "n = st_admin_revision (fst w)" by (auto simp: admin_decide_def split: if_splits)
  with ANoOp inv show ?thesis
    by (simp add: apply_decided_def action_decide_def consumed_result_def admin_reply_good tables_inv_def
        admins_inv_def check_admin_revision_def)
qed (simp_all add: refused_reply_good [OF inv] action_decide_def del: operation_code.simps)

lemma change_reply_good:
  assumes inv: "tables_inv E (fst w)" and op: "wide_op (ma_operation_id m)"
    and l: "pred_option wide_log (st_membership_log_id (fst w))"
  shows "reply_good (operation_code (ActChangeMembership m))
    (cr_reply (fst (apply_decided E l' client (ActChangeMembership m) w)))"
proof (cases "decide_change E (fst w) (cl_actor client) (cl_request_hash client) m")
  case (MApply eff)
  have "ie_operation_id eff = ma_operation_id m" "ie_outcome eff = MembershipAccepted"
    by (simp_all add: decide_change_apply(1) [OF MApply] change_effect_def Let_def)
  moreover have "st_membership_log_id (fst (write_intent E l' eff w)) = st_membership_log_id (fst w)"
    by (rule outer_eqD(10)) simp
  ultimately show ?thesis
    using MApply op l
    by (simp add: apply_decided_def action_decide_def Let_def membership_reply_good outcome_allowed_def
        audit_results_client)
next
  case (MExisting n)
  with op l show ?thesis
    by (simp add: apply_decided_def action_decide_def membership_reply_good outcome_allowed_def audit_results_client)
qed (simp_all add: refused_reply_good [OF inv] action_decide_def del: operation_code.simps)

lemma cancel_reply_good:
  assumes inv: "tables_inv E (fst w)" and op: "wide_op (mc_operation_id c)"
    and l: "pred_option wide_log (st_membership_log_id (fst w))"
  shows "reply_good (operation_code (ActCancelMembership c))
    (cr_reply (fst (apply_decided E l' client (ActCancelMembership c) w)))"
proof (cases "decide_cancel (fst w) (cl_actor client) c")
  case (MApply eff)
  then have "ie_operation_id eff = mc_operation_id c" "ie_outcome eff = MembershipCancelled"
    by (auto simp: decide_cancel_def split: if_splits option.splits)
  moreover have "st_membership_log_id (fst (write_intent E l' eff w)) = st_membership_log_id (fst w)"
    by (rule outer_eqD(10)) simp
  ultimately show ?thesis
    using MApply op l
    by (simp add: apply_decided_def action_decide_def Let_def membership_reply_good outcome_allowed_def
        audit_results_client)
next
  case (MExisting n)
  then show ?thesis by (auto simp: decide_cancel_def split: if_splits option.splits)
qed (simp_all add: refused_reply_good [OF inv] action_decide_def del: operation_code.simps)

lemma decided_reply_good:
  assumes "tables_inv E (fst w)" "wide_client client" "wide_action a"
    "pred_option wide_log (st_membership_log_id (fst w))"
  shows "reply_good (operation_code a) (cr_reply (fst (apply_decided E l client a w)))"
  using assms resource_reply_good grant_reply_good admin_decided_good change_reply_good cancel_reply_good
  by (cases a) (simp_all add: wide_client_def wide_action_def wide_change_def del: operation_code.simps)

end
