(* ===== verification/Coord_Client.thy ===== *)
theory Coord_Client
  imports Coord_Replies Coord_Machine
begin

text \<open>
  What a client can rely on.  A consumed answer is kept until the client's next sequence and
  every resubmission is answered with it (exactly once); a session never goes back and a
  retired one never changes; preflight answers exactly what apply would; a refusal or a
  replay changes nothing but the audit log.
\<close>

section \<open>Answers\<close>

lemma apply_client_fst: "fst (apply_client E l client a w) = client_answer E l client a w"
  by (simp add: apply_client_def client_answer_def Let_def split: classification.splits prod.splits)

lemma apply_client_business:
  "business (fst (snd (apply_client E l client a w))) =
    (case classify_client (fst w) client of
       Unresolved _ _ \<Rightarrow> business (fst (snd (apply_decided E l client a w)))
     | _ \<Rightarrow> business (fst w))"
  by (simp add: apply_client_def Let_def write_audit_def write_session_eq split: classification.splits prod.splits)

lemma apply_client_sessions:
  "\<not> (\<exists>row creates. classify_client (fst w) client = Unresolved row creates) \<Longrightarrow>
    st_sessions (fst (snd (apply_client E l client a w))) = st_sessions (fst w)"
  by (simp add: apply_client_def Let_def write_audit_def split: classification.splits prod.splits)

lemma apply_command_client:
  "apply_command E s l (CClient client a) =
    (case guard_delivery s l of
       Some f \<Rightarrow> (Inl f, s)
     | None \<Rightarrow> (Inr (ReplyClient (client_answer E l client a (s, empty_changes))),
         (fst (snd (apply_client E l client a (s, empty_changes))))\<lparr> st_last_applied := Some l \<rparr>))"
  using apply_client_fst [of E l client a "(s, empty_changes)"]
  by (auto simp: apply_command_def apply_command_recording_def dispatch_command_def upd_state_def
      split: option.splits prod.splits)

section \<open>Refusals change nothing\<close>

lemma resource_body_succeeds: "resource_body s actor key a = RApply eff \<Longrightarrow> re_outcome eff \<noteq> Rejected"
  by (cases a) (auto simp: resource_body_defs split: option.splits if_splits)

lemma resource_outcome: "resource_decide s actor a = RApply eff \<Longrightarrow> re_outcome eff \<noteq> Rejected"
  by (rule resource_body_succeeds [OF resource_decide_apply(5)])

lemma membership_apply_outcome:
  "decide_change E s actor h m = MApply eff \<Longrightarrow> ie_outcome eff \<noteq> Rejected"
  "decide_cancel s actor c = MApply eff \<Longrightarrow> ie_outcome eff \<noteq> Rejected"
  by (auto dest: decide_change_apply(1) simp: change_effect_def decide_cancel_def Let_def
      split: if_splits option.splits)

lemma decided_outcome:
  assumes "sr_outcome (cr_reply (fst (apply_decided E l client a w))) = Rejected"
  shows "\<exists>r. refusal_of (action_decide E a (fst w) (cl_actor client) (cl_request_hash client)) = Some r"
proof (cases a)
  case (ActResource r)
  with assms resource_outcome [of "fst w" "cl_actor client" r] show ?thesis
    by (cases "resource_decide (fst w) (cl_actor client) r")
      (auto simp: apply_decided_def action_decide_def apply_resource_effect_def consumed_success_def consumed_result_def Let_def)
next
  case (ActGrant g)
  with assms show ?thesis
    by (cases "grant_decide (fst w) (cl_actor client) g")
      (auto simp: apply_decided_def action_decide_def apply_grant_effect_eq consumed_success_def consumed_result_def
        no_op_grant_reply_def)
next
  case (ActAdmin ad)
  with assms show ?thesis
    by (cases "admin_decide (fst w) (cl_actor client) ad")
      (auto simp: apply_decided_def action_decide_def apply_admin_effect_def consumed_result_def admin_reply_def Let_def)
next
  case (ActChangeMembership m)
  with assms membership_apply_outcome(1) [of E "fst w" "cl_actor client" "cl_request_hash client" m] show ?thesis
    by (cases "decide_change E (fst w) (cl_actor client) (cl_request_hash client) m")
      (auto simp: apply_decided_def action_decide_def membership_reply_def consumed_result_def Let_def)
next
  case (ActCancelMembership c)
  with assms membership_apply_outcome(2) [of "fst w" "cl_actor client" c] show ?thesis
    by (cases "decide_cancel (fst w) (cl_actor client) c")
      (auto simp: apply_decided_def action_decide_def membership_reply_def consumed_result_def Let_def)
qed

lemma decided_not_replayed: "\<not> cr_replayed (fst (apply_decided E l client a w))"
  by (simp add: apply_decided_def consumed_result_def apply_resource_effect_def apply_grant_effect_eq
      apply_admin_effect_def consumed_success_def membership_reply_def Let_def
      split: action_decision.splits resource_decision.splits grant_decision.splits admin_decision.splits
        membership_decision.splits)

lemma decided_consumed: "cr_disposition (fst (apply_decided E l client a w)) = Consumed"
  by (simp add: apply_decided_def consumed_result_def apply_resource_effect_def apply_grant_effect_eq
      apply_admin_effect_def consumed_success_def membership_reply_def Let_def
      split: action_decision.splits resource_decision.splits grant_decision.splits admin_decision.splits
        membership_decision.splits)

lemma not_consumed_unchanged:
  assumes "cr_disposition (client_answer E l client a w) = NotConsumed"
  shows "sr_outcome (cr_reply (client_answer E l client a w)) = Rejected"
    "st_sessions (fst (snd (apply_client E l client a w))) = st_sessions (fst w)"
    "\<not> cr_replayed (client_answer E l client a w)"
  using assms decided_consumed [of E l client a w] apply_client_sessions [of w client E l a]
  by (auto simp: client_answer_def replayed_result_def refused_result_def rejection_def Let_def
      split: classification.splits)

lemma refused_unchanged:
  assumes "sr_outcome (cr_reply (client_answer E l client a w)) = Rejected \<or> cr_replayed (client_answer E l client a w)"
  shows "business (fst (snd (apply_client E l client a w))) = business (fst w)"
proof (cases "classify_client (fst w) client")
  case (Unresolved row creates)
  with assms decided_not_replayed [of E l client a w]
  have "sr_outcome (cr_reply (fst (apply_decided E l client a w))) = Rejected" by (simp add: client_answer_def)
  then obtain r where "refusal_of (action_decide E a (fst w) (cl_actor client) (cl_request_hash client)) = Some r"
    using decided_outcome by blast
  then show ?thesis using Unresolved by (simp add: apply_client_business refused_decided)
qed (simp_all add: apply_client_business)

section \<open>Preflight\<close>

lemma project_deny:
  "project d = Deny reason \<Longrightarrow> refusal_of d = Some reason"
  "project d = Status NotAuthorized \<Longrightarrow> refusal_of d = Some PermissionChanged"
  "project d = Status (ShapeDenial limit) \<Longrightarrow> refusal_of d = Some Reason_None"
  "project d \<noteq> Resolved r"
  by (cases d rule: project.cases; auto simp: project_refusal_def split: if_splits)+

lemma preflight_answer:
  "case preflight E s client a of
     Resolved r \<Rightarrow> client_answer E l client a (s, c) = r
   | Deny reason \<Rightarrow> client_answer E l client a (s, c) = consumed_result (rejection s (validated_resource a) reason)
   | Status NotAuthorized \<Rightarrow>
       client_answer E l client a (s, c) = consumed_result (rejection s (validated_resource a) PermissionChanged)
   | Status (ShapeDenial _) \<Rightarrow>
       client_answer E l client a (s, c) = consumed_result (rejection s (validated_resource a) Reason_None)
   | Admit \<Rightarrow> True"
  using refused_decided [of E a "(s, c)" client] project_deny
  by (auto simp: preflight_def client_answer_def split: classification.splits admission.splits status_denial.splits)

lemma preflight_refused:
  "preflight E s client a \<noteq> Admit \<Longrightarrow>
    sr_outcome (cr_reply (client_answer E l client a (s, c))) = Rejected \<or> cr_replayed (client_answer E l client a (s, c))"
  using preflight_answer [where E = E and s = s and client = client and a = a and l = l and c = c]
  by (auto simp: preflight_def client_answer_def consumed_result_def rejection_def replayed_result_def refused_result_def
      project_deny(4) Let_def split: classification.splits admission.splits status_denial.splits)

section \<open>Sessions only move forward\<close>

definition session_le :: "session \<Rightarrow> session \<Rightarrow> bool" where
  "session_le a b =
    (a = b \<or> \<not> se_retired a \<and> (b = a\<lparr> se_retired := True \<rparr> \<or> se_last_sequence a < se_last_sequence b))"

lemma session_le_refl [simp]: "session_le a a"
  by (simp add: session_le_def)

lemma session_le_trans: "session_le a b \<Longrightarrow> session_le b c \<Longrightarrow> session_le a c"
  by (auto simp: session_le_def)

definition sessions_le :: "state \<Rightarrow> state \<Rightarrow> bool" where
  "sessions_le s t =
    (\<forall>k se. bm_get (st_sessions s) k = Some se \<longrightarrow>
      (\<exists>se'. bm_get (st_sessions t) k = Some se' \<and> session_le se se'))"

lemma sessions_le_same: "st_sessions t = st_sessions s \<Longrightarrow> sessions_le s t"
  by (simp add: sessions_le_def)

lemma sessions_le_put:
  assumes "st_sessions t = bm_insert k se (st_sessions s)"
    "\<And>old. bm_get (st_sessions s) k = Some old \<Longrightarrow> session_le old se"
  shows "sessions_le s t"
  using assms by (simp add: sessions_le_def)

lemma sessions_le_trans: "sessions_le a b \<Longrightarrow> sessions_le b c \<Longrightarrow> sessions_le a c"
  unfolding sessions_le_def using session_le_trans by meson

lemma write_session_le:
  assumes "classify_client (fst w) client = Unresolved row creates"
  shows "sessions_le (fst w) (fst (write_session client r w))"
  unfolding write_session_eq using assms
  by (intro sessions_le_put)
    (auto simp: classify_client_def classify_unresolved_iff next_session_def session_le_def)

lemma session_write_le: "session_write cmd reply w w' \<Longrightarrow> sessions_le (fst w) (fst w')"
proof (induction rule: session_write.induct)
  case (sw_retire w rc eff row r)
  have "session_le old row" if "bm_get (st_sessions (fst w)) (rc_target_actor rc, rc_target_client_id rc) = Some old" for old
    using sw_retire that
    by (auto simp: retire_decide_def effect_row_def session_le_def split: if_splits)
  then show ?case by (intro sessions_le_put) simp_all
qed (simp_all add: write_session_le sessions_le_same)

lemma command_step_sessions:
  assumes "command_step E l cmd reply w w'"
  shows "sessions_le (fst w) (fst w')"
proof -
  obtain w1 w2 row where w1: "business_write E l cmd w w1" and w2: "session_write cmd reply w1 w2"
    and w': "w' = write_audit_row l row w2"
    using assms by (rule command_stepE)
  have "sessions_le (fst w) (fst w1)" using outer_eqD(1) [OF business_write_outer [OF w1]] by (rule sessions_le_same)
  moreover have "sessions_le (fst w2) (fst w')" using w' by (intro sessions_le_same) simp
  ultimately show ?thesis using session_write_le [OF w2] sessions_le_trans by blast
qed

lemma apply_entry_sessions:
  assumes "apply_entry E gid e m = Inr (reply, m')"
  shows "sessions_le (ds_model (mc_durable m)) (ds_model (mc_durable m'))"
  using assms
proof (cases rule: apply_entry_cases)
  case (Command wire cmd r)
  from Command(3) show ?thesis
  proof (cases rule: recording_cases)
    case (Applied reply w1)
    have "st_sessions (ds_model (mc_durable m')) = st_sessions (fst w1)"
      using Applied(4) by (simp add: upd_state_def prod_eq_iff)
    with command_step_sessions [OF Applied(3)] show ?thesis by (simp add: sessions_le_def)
  qed simp
qed (simp_all add: sessions_le_same)

interpretation sm: monotone_machine "apply_entry E gid" "apply_entries E gid"
    "\<lambda>m m'. sessions_le (ds_model (mc_durable m)) (ds_model (mc_durable m'))" for E gid
  by unfold_locales (blast intro: sessions_le_same sessions_le_trans apply_entry_sessions)+

section \<open>Exactly once\<close>

text \<open>The session keeps the consumed answer.\<close>

definition answers :: "state \<Rightarrow> client_ref \<Rightarrow> saved_reply \<Rightarrow> bool" where
  "answers s client saved =
    (cl_sequence client \<noteq> 0 \<and>
     (\<exists>se. bm_get (st_sessions s) (cl_actor client, cl_client_id client) = Some se \<and>
       se_last_sequence se = cl_sequence client \<and> se_request_hash se = cl_request_hash client \<and>
       se_last_result se = Some saved))"

lemma answers_replay: "answers s client saved \<longleftrightarrow> classify_client s client = Replay Row_Replay saved"
  by (auto simp: answers_def classify_client_def classify_replay_iff)

lemma consumed_answers:
  assumes "cr_disposition (client_answer E l client a w) = Consumed"
  shows "answers (fst (snd (apply_client E l client a w))) client (cr_reply (client_answer E l client a w))"
proof (cases "classify_client (fst w) client")
  case (Unresolved row creates)
  have seq: "cl_sequence client \<noteq> 0"
    using Unresolved by (auto simp: classify_client_def classify_unresolved_iff split: option.splits)
  obtain r w1 where "apply_decided E l client a w = (r, w1)" by (cases "apply_decided E l client a w")
  with Unresolved seq show ?thesis
    by (simp add: apply_client_def answers_def client_answer_def write_audit_def write_session_eq next_session_def)
next
  case (Replay row saved)
  then have "answers (fst w) client saved" by (simp add: answers_def classify_client_def classify_replay_iff)
  moreover have "st_sessions (fst (snd (apply_client E l client a w))) = st_sessions (fst w)"
    using Replay by (intro apply_client_sessions) simp
  ultimately show ?thesis using Replay by (simp add: answers_def client_answer_def replayed_result_def)
next
  case (ClRefuse row reason)
  with assms show ?thesis by (simp add: client_answer_def refused_result_def)
qed

text \<open>It stays there until the client sends a newer sequence.\<close>

lemma answers_kept:
  assumes "answers s client saved" "sessions_le s t"
    and "\<exists>se. bm_get (st_sessions t) (cl_actor client, cl_client_id client) = Some se \<and>
      se_last_sequence se = cl_sequence client"
  shows "answers t client saved"
  using assms by (fastforce simp: answers_def sessions_le_def session_le_def)

lemma answers_apply:
  assumes "answers s client saved"
  shows "client_answer E l client a (s, c) = replayed_result saved"
    "business (fst (snd (apply_client E l client a (s, c)))) = business s"
    "st_sessions (fst (snd (apply_client E l client a (s, c)))) = st_sessions s"
  using assms apply_client_sessions [of "(s, c)" client E l a]
  by (simp_all add: answers_replay client_answer_def apply_client_business)

end
