(* ===== verification/Coord_Changes.thy ===== *)
theory Coord_Changes
  imports Coord_Step Coord_Machine
begin

text \<open>
  The change set.  Whatever the entries of a batch do, every row they changed is listed in the
  change set the batch hands to storage, so writing the listed rows writes the batch.
\<close>

lemma covers_set [simp]:
  "covers s (set_growth n w) = covers s w" "covers s (set_reserve n w) = covers s w"
  "covers s (upd_state (\<lambda>s. s\<lparr> st_admin_revision := a \<rparr>) w) = covers s w"
  "covers s (upd_state (\<lambda>s. s\<lparr> st_audit_tip := tip \<rparr>) w) = covers s w"
  "covers s (upd_state (\<lambda>s. s\<lparr> st_last_applied := tip \<rparr>) w) = covers s w"
  "covers s (upd_state (\<lambda>s. s\<lparr> st_audit_floor := fl s \<rparr>) w) = covers s w"
  by (simp_all add: covers_def set_growth_def set_reserve_def upd_state_def)

lemma covers_charge_resource_row [simp]: "covers s (charge_resource_row key n w) = covers s w"
  by (simp add: charge_resource_row_def Let_def split: prod.splits)

lemma covers_write_resource: "covers s w \<Longrightarrow> covers s (write_resource key row w)"
  by (simp add: write_resource_def covers_writers)

lemma covers_write_grant: "covers s w \<Longrightarrow> covers s (write_grant eff w)"
  by (auto simp: write_grant_def Let_def covers_writers split: option.splits prod.splits if_splits)

lemma covers_admin_effect: "covers s w \<Longrightarrow> covers s (snd (apply_admin_effect eff w))"
  using covers_writers(4,5) [of s w "ae_target eff"]
  by (auto simp: apply_admin_effect_def Let_def split: prod.splits)

lemma covers_evict_intents: "covers s w \<Longrightarrow> covers s (evict_intents E ops w)"
  by (induction ops arbitrary: w) (simp_all add: drop_intent_def covers_writers split: option.splits)

lemma covers_evict_routes: "covers s w \<Longrightarrow> covers s (evict_routes ns w)"
  by (induction ns arbitrary: w) (simp_all add: drop_route_def covers_writers split: option.splits)

lemma covers_write_routes: "covers s w \<Longrightarrow> covers s (write_routes l rs w)"
  by (induction rs arbitrary: w) (simp_all add: add_route_def covers_writers)

lemma covers_write_intent: "covers s w \<Longrightarrow> covers s (write_intent E l eff w)"
  unfolding write_intent_eq store_intent_def
  by (intro covers_write_routes covers_evict_routes covers_writers) (simp add: covers_evict_intents)

lemma covers_put_admins: "covers s w \<Longrightarrow> covers s (put_admins ns w)"
  by (induction ns arbitrary: w) (simp_all add: covers_writers)

lemma covers_business_write: "business_write E l cmd w w' \<Longrightarrow> covers s w \<Longrightarrow> covers s w'"
  by (induction rule: business_write.induct)
    (simp_all add: covers_write_resource covers_write_grant covers_admin_effect covers_write_intent covers_writers
      install_genesis_def Let_def covers_put_admins)

lemma covers_session_write: "session_write cmd reply w w' \<Longrightarrow> covers s w \<Longrightarrow> covers s w'"
  by (induction rule: session_write.induct) (simp_all add: write_session_eq store_session_def covers_writers)

lemma covers_prune_step: "covers s w \<Longrightarrow> covers s (prune_step key row w)"
  by (simp add: prune_step_def Let_def covers_writers)

lemma covers_prune_audit: "covers s w \<Longrightarrow> covers s (prune_audit w)"
  by (induction w rule: prune_audit_induct) (simp_all add: covers_prune_step)

lemma covers_write_audit_row: "covers s w \<Longrightarrow> covers s (write_audit_row l row w)"
  by (simp add: write_audit_row_def Let_def covers_prune_audit covers_writers)

lemma covers_command_step:
  assumes "command_step E l cmd reply w w'" "covers s w"
  shows "covers s w'"
  using assms
  by (auto elim!: command_stepE intro: covers_write_audit_row covers_session_write covers_business_write)

lemma covers_recording:
  assumes "apply_command_recording E l cmd w = (r, w')" "covers s w"
  shows "covers s w'"
  using assms(1)
  by (cases rule: recording_cases) (use assms(2) in \<open>simp_all add: covers_command_step\<close>)

section \<open>Batches\<close>

definition machine_covers :: "state \<Rightarrow> machine \<Rightarrow> bool" where
  "machine_covers s m = covers s (ds_model (mc_durable m), mc_changes m)"

lemma covers_apply_entry:
  assumes "apply_entry E gid e m = Inr (reply, m')" "machine_covers s m"
  shows "machine_covers s m'"
  using assms(1)
proof (cases rule: apply_entry_cases)
  case (Command wire cmd r)
  then show ?thesis using covers_recording assms(2) by (auto simp: machine_covers_def)
qed (use assms(2) in \<open>simp_all add: machine_covers_def covers_def\<close>)

lemma covers_apply_entries:
  "apply_entries E gid es m = Inr (replies, m') \<Longrightarrow> machine_covers s m \<Longrightarrow> machine_covers s m'"
  by (induction es arbitrary: m replies) (auto simp: lm.run_Cons_Inr simp del: apply_entries.simps(2) dest: covers_apply_entry)

lemma covers_machine_apply:
  "machine_apply E es d = Inr (replies, d', c) \<Longrightarrow> covers (ds_model d) (ds_model d', c)"
  using covers_apply_entries [of E "ga_group_id (st_authority (ds_model d))" es
      "\<lparr> mc_durable = d, mc_changes = empty_changes \<rparr>" replies "\<lparr> mc_durable = d', mc_changes = c \<rparr>" "ds_model d"]
  by (simp add: machine_apply_Inr machine_covers_def covers_refl)

end
