(* ===== verification/Coord_Preserve.thy ===== *)
theory Coord_Preserve
  imports Coord_Replies
begin

text \<open>
  One applied command preserves the whole invariant.  \<open>command_good\<close> is what narrowing
  guarantees of a command (\<open>Coord_Narrow\<close>) together with what the entry's proposer must:
  a request hash names one operation, and a progress report observes a membership that is
  not ahead of the entry that carries it.
\<close>

section \<open>Commands\<close>

definition command_good :: "(hash32 \<Rightarrow> i32) \<Rightarrow> log_id \<Rightarrow> command \<Rightarrow> bool" where
  "command_good code_of l cmd =
    (case cmd of
       CUnknown \<Rightarrow> True
     | CClient c a \<Rightarrow> wide_client c \<and> wide_action a \<and> code_of (cl_request_hash c) = operation_code a
     | CRejectedClient c code res \<Rightarrow>
         wide_client c \<and> client_code code \<and> pred_option valid_resource_key res \<and>
         code_of (cl_request_hash c) = code
     | CShapeless sc \<Rightarrow>
         (case sc_reply_shape sc of
            ShapeSystem \<Rightarrow> (sc_operation_code sc, sc_system_result_code sc) \<in>
              {(OPERATION_EXPIRE, SYS_EXPIRE_MALFORMED), (OPERATION_MEMBERSHIP_PROGRESS, SYS_MEMBERSHIP_MALFORMED)}
          | _ \<Rightarrow> client_code (sc_operation_code sc)) \<and>
         pred_option wide_node (sc_actor sc) \<and> pred_option valid_resource_key (sc_resource sc)
     | CExpire ex \<Rightarrow> valid_resource_key (ex_resource ex)
     | CMembershipProgress p \<Rightarrow>
         pred_option (\<lambda>x. wide_log x \<and> upto_entry l x) (pg_observed_membership_log_id p)
     | CRetireClient rc \<Rightarrow>
         wide_node (rc_actor rc) \<and> wide_node (rc_target_actor rc) \<and> length (rc_target_client_id rc) = CLIENT_ID_LEN
     | CGenesis _ \<Rightarrow> True)"

section \<open>The business write\<close>

lemma membership_inv_cong:
  assumes "st_intents s = st_intents t" "st_routes s = st_routes t" "st_authority s = st_authority t"
    "st_deployment_profile_code s = st_deployment_profile_code t"
  shows "membership_inv E B s = membership_inv E B t"
  using assms
  by (simp add: membership_inv_def intents_inv_def routes_inv_def stamps_inv_def active_ops_def terminal_ops_def)

lemma membership_inv_outer:
  assumes "membership_inv E B s" "outer t = outer s" "st_intents t = st_intents s" "st_routes t = st_routes s"
  shows "membership_inv E B t"
  using assms membership_inv_cong [of t s E B] outer_eqD [OF assms(2)] by simp

lemma tables_inv_cong: "business s = business t \<Longrightarrow> tables_inv E s = tables_inv E t"
  using business_eqD [of s t]
  by (simp add: tables_inv_def resources_inv_def acl_inv_def grants_on_def grant_good_def admins_inv_def
      check_admin_revision_def growth_inv_def growth_tracks_def growth_total_def installed_inv_def)

lemma admin_effect_membership [simp]:
  "st_intents (fst (snd (apply_admin_effect eff w))) = st_intents (fst w)"
  "st_routes (fst (snd (apply_admin_effect eff w))) = st_routes (fst w)"
  by (simp_all add: apply_admin_effect_def put_admin_def remove_admin_def set_growth_def upd_state_def Let_def
      split: prod.splits)

lemma business_write_inv:
  assumes bw: "business_write E l cmd w w1" and good: "command_good code_of l cmd" and l: "wide_log l"
    and tables: "tables_inv E (fst w)" and inv: "membership_inv E (upto_entry l) (fst w)"
    and members: "fcard (cm_members (st_membership (fst w))) \<le> MEMBER_ROUTES"
  shows "tables_inv E (fst w1) \<and> membership_inv E (upto_entry l) (fst w1)"
  using bw
proof (cases rule: business_writeE)
  case (Resource client a eff)
  then have "wide_node (cl_actor client)" using good by (simp add: command_good_def wide_client_def)
  with Resource show ?thesis
    using tables_inv_resource [OF tables Resource(3)]
    by (auto intro!: membership_inv_outer [OF inv])
next
  case (Grant client g eff)
  then have "wide_node (gt_subject g)" using good by (simp add: command_good_def wide_action_def)
  with Grant show ?thesis
    using tables_inv_grant [OF tables Grant(3)]
    by (auto intro!: membership_inv_outer [OF inv])
next
  case (Admin client ad eff)
  then have "wide_node (aa_target ad)" using good by (simp add: command_good_def wide_action_def)
  with Admin show ?thesis
    using tables_inv_admin [OF tables Admin(3)]
    by (auto intro!: membership_inv_outer [OF inv])
next
  case (Change client m eff)
  then have "wide_change m" "wide_node (cl_actor client)" "length (cl_request_hash client) = 32"
    using good by (simp_all add: command_good_def wide_action_def wide_client_def)
  from membership_change [OF inv tables Change(3) this(1) l this(2,3) members] Change(2) show ?thesis by simp
next
  case (Cancel client c eff)
  obtain old where old: "intent_rewrite (fst w) eff old"
    "in_observed_membership_log_id (ie_intent eff) = in_observed_membership_log_id old"
    using decide_cancel_apply [OF Cancel(3)] .
  have get: "bm_get (st_intents (fst w)) (ie_operation_id eff) = Some old"
    using old(1) by (simp add: intent_rewrite_def)
  then have "storable_intent old" "intent_stamped (upto_entry l) old"
    using inv by (auto simp: membership_inv_def intents_inv_def intent_good_def stamps_inv_def)
  then have "pred_option (\<lambda>x. wide_log x \<and> upto_entry l x) (in_observed_membership_log_id (ie_intent eff))"
    by (auto simp: old(2) storable_intent_def intent_stamped_def option.pred_set)
  from membership_rewrite [OF inv tables old(1) l this] Cancel(2) show ?thesis by simp
next
  case (Expire ex row)
  then show ?thesis
    using tables_inv_expire [OF tables Expire(3)]
    by (auto simp: put_resource_def outer_def intro!: membership_inv_outer [OF inv])
next
  case (Progress p eff)
  obtain old where old: "intent_rewrite (fst w) eff old"
    "in_observed_membership_log_id (ie_intent eff) = pg_observed_membership_log_id p"
    using decide_progress_apply [OF Progress(3)] .
  have "pred_option (\<lambda>x. wide_log x \<and> upto_entry l x) (in_observed_membership_log_id (ie_intent eff))"
    using good Progress(1) old(2) by (simp add: command_good_def)
  from membership_rewrite [OF inv tables old(1) l this] Progress(2) show ?thesis by simp
next
  case (Genesis doc g)
  then show ?thesis
    using tables_inv_genesis [OF tables Genesis(3)]
    by (auto intro!: membership_inv_outer [OF inv])
qed (use tables inv in simp)

section \<open>The answer\<close>

lemma classified_reply_good:
  assumes tables: "tables_inv E s" and sess: "session_inv code_of s" and key: "pred_option valid_resource_key res"
    and code: "client_code (code_of (cl_request_hash client))"
  shows "classify_client s client = Replay r saved \<Longrightarrow> reply_good (code_of (cl_request_hash client)) saved"
    "classify_client s client = ClRefuse r reason \<Longrightarrow>
      reply_good (code_of (cl_request_hash client)) (rejection s res reason)"
proof -
  show "reply_good (code_of (cl_request_hash client)) saved" if "classify_client s client = Replay r saved"
    using that session_inv_get [OF sess]
    by (fastforce simp: classify_client_def classify_replay_iff session_good_def)
  show "reply_good (code_of (cl_request_hash client)) (rejection s res reason)"
    if "classify_client s client = ClRefuse r reason"
  proof -
    have "\<not> is_reserved reason"
      using classify_refuse_reason [OF that [unfolded classify_client_def]] by (cases reason) simp_all
    then show ?thesis by (rule rejection_good [OF tables key _ code])
  qed
qed

lemma client_answer_good:
  assumes tables: "tables_inv E (fst w)" and sess: "session_inv code_of (fst w)"
    and good: "command_good code_of l (CClient client a)"
    and ml: "pred_option wide_log (st_membership_log_id (fst w))"
  shows "reply_good (operation_code a) (cr_reply (client_answer E l client a w))"
proof -
  have wide: "wide_client client" "wide_action a" and code: "code_of (cl_request_hash client) = operation_code a"
    using good by (simp_all add: command_good_def)
  note c = classified_reply_good [OF tables sess validated_resource_valid [of a], of client, unfolded code,
      OF operation_client_code]
  show ?thesis
    using c decided_reply_good [OF tables wide ml]
    by (cases "classify_client (fst w) client")
      (simp_all add: client_answer_def replayed_result_def refused_result_def)
qed

lemma rejected_answer_good:
  assumes tables: "tables_inv E s" and sess: "session_inv code_of s"
    and good: "command_good code_of l (CRejectedClient client code res)"
  shows "reply_good code (cr_reply (rejected_answer client res s))"
proof -
  have g: "client_code code" "pred_option valid_resource_key res" "code_of (cl_request_hash client) = code"
    using good by (simp_all add: command_good_def)
  note c = classified_reply_good [OF tables sess g(2), of client, unfolded g(3), OF g(1)]
  show ?thesis
    using c rejection_good [OF tables g(2) _ g(1), of Reason_None]
    by (cases "classify_client s client")
      (simp_all add: rejected_answer_def replayed_result_def refused_result_def consumed_result_def)
qed

section \<open>The session write and the audit row\<close>

text \<open>The reply a command carries into the session table and the audit log.\<close>

definition reply_sound :: "command \<Rightarrow> command_reply \<Rightarrow> bool" where
  "reply_sound cmd reply =
    (case (cmd, reply) of
       (CClient _ a, ReplyClient r) \<Rightarrow> reply_good (operation_code a) (cr_reply r)
     | (CRejectedClient _ code _, ReplyClient r) \<Rightarrow> reply_good code (cr_reply r)
     | _ \<Rightarrow> True)"

lemma answered_sound:
  assumes "answered E l cmd w reply" "tables_inv E (fst w)" "session_inv code_of (fst w)"
    "command_good code_of l cmd" "pred_option wide_log (st_membership_log_id (fst w))"
  shows "reply_sound cmd reply"
  using assms client_answer_good [OF assms(2,3)] rejected_answer_good [OF assms(2,3)]
  by (cases cmd) (simp_all add: answered_def reply_sound_def)

lemma session_write_inv:
  assumes sw: "session_write cmd reply w w2" and good: "command_good code_of l cmd"
    and sound: "reply_sound cmd reply"
    and sess: "session_inv code_of (fst w)" and res: "reserve_tracks (fst w)"
  shows "session_inv code_of (fst w2) \<and> reserve_tracks (fst w2)"
proof -
  have ok: "bm_ok (st_sessions (fst w))" using sess by (simp add: session_inv_def)
  show ?thesis
    using sw
  proof (cases rule: session_writeE)
    case (Client client row creates a r)
    then show ?thesis
      using good sound session_inv_client [OF sess Client(4)] store_session_tracks [OF ok res]
      by (simp add: write_session_eq command_good_def wide_client_def reply_sound_def)
  next
    case (Rejected client row creates code k r)
    then show ?thesis
      using good sound session_inv_client [OF sess Rejected(4)] store_session_tracks [OF ok res]
      by (simp add: write_session_eq command_good_def wide_client_def reply_sound_def)
  next
    case (Retire rc eff row r)
    then show ?thesis
      using good session_inv_retire [OF sess Retire(4,5)] store_session_tracks [OF ok res]
      by (simp add: command_good_def)
  qed (use sess res in simp)
qed

lemma client_row_good:
  assumes "reply_good code (cr_reply r)" "client_code code" "wide_client client" "wide_log l"
    "e \<le> MAX_COUNTER" "v \<le> MAX_COUNTER"
  shows "audit_row_good (client_audit_row l client code r e v)"
proof -
  have "pred_option valid_resource_key (sr_resource (cr_reply r))"
    using assms(1)
    by (cases "sr_snapshot (cr_reply r)")
      (auto simp: reply_good_def storable_reply_def storable_snapshot_def sr_resource_def)
  moreover have "\<not> is_system_operation code"
    using assms(2) by (auto simp: client_code_def is_system_operation_def coord_simps)
  ultimately show ?thesis
    using assms
    by (auto simp: audit_row_good_def audit_row_ok_def storable_audit_def client_audit_row_def reply_good_def
        wide_client_def wide_log_def)
qed

lemma snapshot_counters:
  assumes "reply_good code r"
  shows "(case sr_snapshot r of None \<Rightarrow> 0 | Some ss \<Rightarrow> ss_epoch ss) \<le> MAX_COUNTER"
    "(case sr_snapshot r of None \<Rightarrow> 0 | Some ss \<Rightarrow> ss_value_revision ss) \<le> MAX_COUNTER"
  using assms
  by (auto simp: reply_good_def saved_reply_ok_def snapshot_ok_def split: option.splits)

lemma system_row_good:
  assumes "(code, result) \<in> {(OPERATION_EXPIRE, SYS_EXPIRED), (OPERATION_EXPIRE, SYS_EXPIRY_STALE),
      (OPERATION_EXPIRE, SYS_EXPIRE_MALFORMED), (OPERATION_MEMBERSHIP_PROGRESS, SYS_MEMBERSHIP_ADVANCED),
      (OPERATION_MEMBERSHIP_PROGRESS, SYS_MEMBERSHIP_PHASE_MISMATCH),
      (OPERATION_MEMBERSHIP_PROGRESS, SYS_MEMBERSHIP_MALFORMED), (OPERATION_GENESIS, SYS_GENESIS_INSTALLED),
      (OPERATION_GENESIS, SYS_GENESIS_ALREADY_INSTALLED)}"
    and "wide_log l" "pred_option valid_resource_key res" "e \<le> MAX_COUNTER"
  shows "audit_row_good (system_audit_row l code res result e)"
  using assms
  by (auto simp: audit_row_good_def audit_row_ok_def storable_audit_def system_audit_row_def is_system_operation_def
      audit_results_system wide_log_def coord_simps)

lemma shapeless_row_good:
  assumes "command_good code_of l (CShapeless sc)" "wide_log l"
  shows "audit_row_good (shapeless_audit_row l sc)"
proof (cases "sc_reply_shape sc = ShapeSystem")
  case True
  then have "shapeless_audit_row l sc =
      system_audit_row l (sc_operation_code sc) (sc_resource sc) (sc_system_result_code sc) 0"
    by (simp add: shapeless_audit_row_def system_audit_row_def)
  with assms True show ?thesis by (auto simp: command_good_def intro!: system_row_good)
next
  case False
  with assms(1) have code: "client_code (sc_operation_code sc)"
    by (auto simp: command_good_def split: reply_shape.splits)
  from rejected_allowed [OF code] have "\<not> is_system_operation (sc_operation_code sc)"
    using code by (auto simp: client_code_def is_system_operation_def coord_simps)
  with False assms rejected_allowed [OF code] show ?thesis
    by (auto simp: command_good_def shapeless_audit_row_def audit_row_good_def audit_row_ok_def storable_audit_def
        outcome_allowed_def wide_log_def split: reply_shape.splits)
qed

lemma audit_row_of_good:
  assumes row: "audit_row_of l cmd reply s row" and good: "command_good code_of l cmd" and l: "wide_log l"
    and sound: "reply_sound cmd reply" and tables: "tables_inv E s"
  shows "audit_row_good row \<and> au_leader_node_id row = lg_leader l"
  using row
proof (cases rule: audit_row_ofE)
  case (Client client a r)
  then have "reply_good (operation_code a) (cr_reply r)" "wide_client client"
    using sound good by (simp_all add: reply_sound_def command_good_def)
  from client_row_good [OF this(1) operation_client_code this(2) l snapshot_counters [OF this(1)]] Client(3)
  show ?thesis by (simp add: client_audit_row_def)
next
  case (Rejected client code res r)
  then have "reply_good code (cr_reply r)" "client_code code" "wide_client client"
    using sound good by (simp_all add: reply_sound_def command_good_def)
  from client_row_good [OF this l] Rejected(3) show ?thesis by (simp add: client_audit_row_def)
next
  case (Shapeless sc)
  then show ?thesis using shapeless_row_good [OF _ l] good by (simp add: shapeless_audit_row_def)
next
  case (Expire r ex)
  have "(case bm_get (st_resources s) (ex_resource ex) of None \<Rightarrow> 0 | Some row \<Rightarrow> rr_epoch row) \<le> MAX_COUNTER"
    using tables resources_inv_get [of s "ex_resource ex"]
    by (auto simp: tables_inv_def resource_good_def resource_row_ok_def split: option.splits)
  then show ?thesis
    using Expire good l by (auto simp: command_good_def system_audit_row_def [of l] intro!: system_row_good [unfolded system_audit_row_def])
next
  case (Progress r p)
  then show ?thesis
    using l by (auto simp: system_audit_row_def [of l] intro!: system_row_good [unfolded system_audit_row_def])
next
  case (Retire r rc)
  then show ?thesis
    using good l
    by (auto simp: command_good_def retire_audit_row_def audit_row_good_def audit_row_ok_def storable_audit_def
        is_system_operation_def audit_results_client wide_log_def coord_simps)
next
  case (Genesis r doc)
  then show ?thesis
    using l by (auto simp: system_audit_row_def [of l] intro!: system_row_good [unfolded system_audit_row_def])
qed

end
