(* ===== verification/Coord_Narrow.thy ===== *)
theory Coord_Narrow
  imports Coord_Preserve
begin

text \<open>
  What narrowing a wire command guarantees.  A committed command is always turned into one of
  the shapes the apply step handles: every id has its width, every resource key is valid, the
  operation code is the one the wire action names, and a shape violation becomes a rejection
  that carries a code its audit row may have.
\<close>

unbundle bit_operations_syntax

section \<open>Actions\<close>

lemma narrow_node_id_Inr [simp]: "narrow_node_id bs = Inr n \<longleftrightarrow> n = bs \<and> wide_node bs"
  by (auto simp: narrow_node_id_def wide_node_def)

lemma narrow_client_id_Inr [simp]: "narrow_client_id bs = Inr n \<longleftrightarrow> n = bs \<and> length bs = CLIENT_ID_LEN"
  by (auto simp: narrow_client_id_def)

lemma narrow_hash_Inr [simp]: "narrow_hash bs = Inr n \<longleftrightarrow> n = bs \<and> length bs = 32"
  by (auto simp: narrow_hash_def)

lemma narrow_log_id_Inr:
  "narrow_log_id l = Inr x \<Longrightarrow> wide_log x \<and> lg_index x = lgv_index l"
  by (auto simp: narrow_log_id_def log_id_from_wire_def wire_node_id_def wide_log_def wide_node_def
      split: sum.splits if_splits)

lemma opt_narrow_log_id:
  "opt_result narrow_log_id l = Inr x \<Longrightarrow>
    pred_option wide_log x \<and> map_option lg_index x = map_option lgv_index l"
  by (cases l) (auto simp: sum_bind_Inr dest: narrow_log_id_Inr)

lemma narrow_seed_Inr: "narrow_seed s = Inr x \<Longrightarrow> wide_node (sd_node_id x)"
  by (auto simp: narrow_seed_def sum_bind_Inr)

lemma narrow_nodes_wide:
  "collect_result (narrow_node_id \<circ> nv_node_id) ns = Inr xs \<Longrightarrow> list_all wide_node xs"
  unfolding list_all_iff by (erule collect_result_all) simp

lemma narrow_seeds_wide:
  "collect_result narrow_seed ss = Inr xs \<Longrightarrow> list_all (wide_node \<circ> sd_node_id) xs"
  unfolding list_all_iff by (erule collect_result_all) (simp add: narrow_seed_Inr)

lemma narrow_change_wide: "narrow_change_membership a = Inr m \<Longrightarrow> wide_change m"
  by (auto simp: narrow_change_membership_def sum_bind_Inr wide_change_def wide_op_def coord_simps
      dest: opt_narrow_log_id narrow_nodes_wide narrow_seeds_wide)

lemma action_from_wire_code: "action_from_wire a = Inr b \<Longrightarrow> operation_code b = wire_operation_code a"
  by (cases a) (auto simp: sum_bind_Inr)

lemma action_from_wire_wide: "action_from_wire a = Inr b \<Longrightarrow> wide_action b"
  by (cases a) (auto simp: sum_bind_Inr wide_action_def wide_op_def coord_simps dest: narrow_change_wide)

lemma narrow_client_wide:
  "narrow_client c = Inr client \<Longrightarrow> wide_client client \<and> cl_request_hash client = ccv_request_hash c"
  by (auto simp: narrow_client_def sum_bind_Inr wide_client_def)

lemma narrow_hashed_Inr: "narrow_hashed_action E c = Inr a \<Longrightarrow> action_from_wire (ccv_action c) = Inr a"
  by (cases "request_hash E (ccv_action c)") (auto simp: narrow_hashed_action_def sum_bind_Inr split: if_splits)

section \<open>Commands\<close>

text \<open>What the proposer of an entry must ensure, on the wire form of its command: a request hash names one
  operation code, and a progress report observes no membership id above its own entry.  Apply enforces
  neither, and a load refuses what can be stored without them.\<close>

definition legal_command :: "(hash32 \<Rightarrow> i32) \<Rightarrow> log_id \<Rightarrow> command_v1 \<Rightarrow> bool" where
  "legal_command code_of l cmd =
    (case cmd of
       ClientV1 c \<Rightarrow> code_of (ccv_request_hash c) = wire_operation_code (ccv_action c)
     | MembershipProgressV1 p \<Rightarrow>
         pred_option (\<lambda>x. lgv_index x \<le> lg_index l) (mpv_observed_membership_log_id p)
     | _ \<Rightarrow> True)"

lemma wire_resource_valid: "pred_option valid_resource_key (wire_resource a)"
  by (cases "wire_action_key a")
    (auto simp: wire_resource_def sum_ok_def resource_key_of_raw split: sum.splits)

lemma narrow_ok_node: "pred_option wide_node (sum_ok (narrow_node_id n))"
  by (simp add: sum_ok_def narrow_node_id_def wide_node_def)

lemma wire_client_code: "a \<noteq> UnknownActionV1 \<Longrightarrow> client_code (wire_operation_code a)"
  by (cases a) (simp_all add: client_code_def)

lemma command_from_wire_good:
  assumes "command_from_wire E wire = Inr cmd" "legal_command code_of l wire"
  shows "command_good code_of l cmd"
proof (cases wire)
  case (ClientV1 c)
  obtain client a where "narrow_client c = Inr client" "narrow_hashed_action E c = Inr a" "cmd = CClient client a"
    using assms(1) ClientV1 by (auto simp: sum_bind_Inr)
  with narrow_hashed_Inr [OF this(2)] show ?thesis
    using assms(2) ClientV1 narrow_client_wide action_from_wire_wide action_from_wire_code
    by (auto simp: command_good_def legal_command_def)
next
  case (ExpireV1 e)
  then show ?thesis
    using assms(1)
    by (auto simp: command_good_def intro: resource_key_of_raw split: sum.splits)
next
  case (MembershipProgressV1 m)
  obtain op observed where "opt_result narrow_log_id (mpv_observed_membership_log_id m) = Inr observed"
    "cmd = CMembershipProgress \<lparr> pg_operation_id = op, pg_expected_phase = mpv_expected_phase m,
        pg_new_phase = mpv_new_phase m, pg_observed_membership_log_id = observed,
        pg_result_code = mpv_result_code m \<rparr>"
    using assms(1) MembershipProgressV1 by (auto simp: sum_bind_Inr)
  with opt_narrow_log_id [OF this(1)] show ?thesis
    using assms(2) MembershipProgressV1
    by (cases observed; cases "mpv_observed_membership_log_id m")
      (auto simp: command_good_def legal_command_def upto_entry_def)
qed (use assms in \<open>auto simp: sum_bind_Inr command_good_def\<close>)

lemma shape_rejection_good:
  assumes "\<not> unknown_variant wire" "legal_command code_of l wire"
  shows "command_good code_of l (shape_rejection wire)"
proof (cases wire)
  case (ClientV1 c)
  then have code: "client_code (wire_operation_code (ccv_action c))"
    using assms(1) by (intro wire_client_code) (simp add: unknown_variant_def)
  show ?thesis
  proof (cases "narrow_client c")
    case (Inr client)
    then show ?thesis
      using ClientV1 assms(2) code narrow_client_wide [OF Inr] wire_resource_valid
      by (simp add: command_good_def legal_command_def)
  qed (use ClientV1 code wire_resource_valid narrow_ok_node in \<open>simp add: command_good_def\<close>)
qed (simp_all add: command_good_def client_code_def narrow_ok_node coord_simps)

lemma command_for_apply_good:
  assumes "command_for_apply E wire = Inr cmd" "legal_command code_of l wire"
  shows "command_good code_of l cmd"
  using assms command_from_wire_good shape_rejection_good [OF _ assms(2)]
  by (fastforce simp: command_for_apply_def split: if_splits sum.splits narrow_error.splits)

text \<open>Only an unknown variant is refused outright.\<close>

lemma narrow_fields_known:
  "narrow_node_id n \<noteq> Inl UnknownVariant" "narrow_client_id c \<noteq> Inl UnknownVariant"
  "narrow_log_id l \<noteq> Inl UnknownVariant" "narrow_seed s \<noteq> Inl UnknownVariant"
  "narrow_fence f \<noteq> Inl UnknownVariant" "narrow_hash h \<noteq> Inl UnknownVariant"
  by (simp_all add: narrow_node_id_def narrow_client_id_def narrow_log_id_def narrow_seed_def narrow_fence_def
      narrow_hash_def sum_bind_Inl split: sum.splits)

lemma action_from_wire_known: "a \<noteq> UnknownActionV1 \<Longrightarrow> action_from_wire a \<noteq> Inl UnknownVariant"
  by (cases a)
    (auto simp: sum_bind_Inl narrow_fields_known narrow_change_membership_def
      dest!: collect_result_Inl opt_result_Inl)

lemma command_from_wire_known: "\<not> unknown_variant cmd \<Longrightarrow> command_from_wire E cmd \<noteq> Inl UnknownVariant"
  by (cases cmd)
    (auto simp: sum_bind_Inl narrow_fields_known narrow_client_def narrow_hashed_action_def unknown_variant_def
      dest!: opt_result_Inl action_from_wire_known split: sum.splits if_splits)

lemma command_for_apply_total: "command_for_apply E cmd = Inl e \<longleftrightarrow> e = UnknownVariant \<and> unknown_variant cmd"
  using command_from_wire_known [of cmd E]
  by (auto simp: command_for_apply_def split: sum.splits narrow_error.splits)

lemma shape_rejection_kind:
  "shape_rejection wire = CUnknown \<longleftrightarrow> wire = UnknownCommandV1"
  "shape_rejection wire = CGenesis doc \<longleftrightarrow> (\<exists>g. wire = GenesisV1 g \<and> doc = gnv_signed_genesis g)"
  by (cases wire; auto split: sum.splits)+

lemma command_from_wire_kind:
  "command_from_wire E wire = Inr CUnknown \<longleftrightarrow> wire = UnknownCommandV1"
  "command_from_wire E wire = Inr (CGenesis doc) \<longleftrightarrow> (\<exists>g. wire = GenesisV1 g \<and> doc = gnv_signed_genesis g)"
  by (cases wire; auto simp: sum_bind_Inr split: sum.splits)+

lemma command_for_apply_kind:
  assumes "command_for_apply E wire = Inr cmd"
  shows "cmd = CUnknown \<longleftrightarrow> wire = UnknownCommandV1" "(\<exists>doc. cmd = CGenesis doc) \<longleftrightarrow> (\<exists>g. wire = GenesisV1 g)"
  using assms shape_rejection_kind [of wire] command_from_wire_kind [of E wire]
  by (auto simp: command_for_apply_def split: if_splits sum.splits narrow_error.splits)

text \<open>What a wire command is applied as.  A rejection carries no business effect.\<close>

lemma oversized_iff:
  "oversized E cmd \<longleftrightarrow> (case ser_command E cmd of None \<Rightarrow> True | Some bs \<Rightarrow> MAX_ENCODED_COMMAND < length bs)"
  by (auto simp: oversized_def check_encoded_command_def coord_simps u64_max_def split: option.splits)

lemma command_for_apply_exact:
  "case command_for_apply E cmd of
     Inl e \<Rightarrow> e = UnknownVariant \<and> unknown_variant cmd
   | Inr model \<Rightarrow> \<not> unknown_variant cmd \<and>
       (case cmd of
          GenesisV1 g \<Rightarrow> model = CGenesis (gnv_signed_genesis g)
        | _ \<Rightarrow>
          if oversized E cmd \<or> (\<exists>e. command_from_wire E cmd = Inl e)
          then case model of CRejectedClient _ _ _ \<Rightarrow> True | CShapeless _ \<Rightarrow> True | _ \<Rightarrow> False
          else command_from_wire E cmd = Inr model)"
proof -
  have rej: "case shape_rejection cmd of CRejectedClient _ _ _ \<Rightarrow> True | CShapeless _ \<Rightarrow> True | _ \<Rightarrow> False"
    if "\<not> unknown_variant cmd" "\<forall>g. cmd \<noteq> GenesisV1 g"
    using that by (cases cmd) (auto simp: unknown_variant_def split: sum.splits)
  show ?thesis
  proof (cases "\<exists>g. cmd = GenesisV1 g")
    case True
    then show ?thesis by (auto simp: command_for_apply_def unknown_variant_def)
  next
    case False
    then show ?thesis
      using rej command_from_wire_known [of cmd E]
      by (cases cmd) (auto simp: command_for_apply_def split: sum.splits narrow_error.splits)
  qed
qed


lemma command_for_apply_faults:
  "(case command_for_apply E wire of Inl _ \<Rightarrow> True | Inr cmd \<Rightarrow>
      cmd = CUnknown \<or> (\<exists>doc. cmd = CGenesis doc \<and> P doc)) \<longleftrightarrow>
    unknown_variant wire \<or> (case wire of GenesisV1 g \<Rightarrow> P (gnv_signed_genesis g) | _ \<Rightarrow> False)"
proof (cases "command_for_apply E wire")
  case (Inl e)
  with command_for_apply_total [of E wire e] show ?thesis by simp
next
  case (Inr cmd)
  have "\<not> unknown_variant wire" using Inr command_for_apply_total [of E wire] by auto
  moreover have "(\<exists>doc. cmd = CGenesis doc \<and> P doc) \<longleftrightarrow> (case wire of GenesisV1 g \<Rightarrow> P (gnv_signed_genesis g) | _ \<Rightarrow> False)"
    using command_for_apply_exact [where E = E and cmd = wire, unfolded Inr] command_for_apply_kind(2) [OF Inr]
    by (cases wire) auto
  ultimately show ?thesis using Inr command_for_apply_kind(1) [OF Inr] by (auto simp: unknown_variant_def)
qed

lemma rejection_business:
  assumes "case cmd of CRejectedClient _ _ _ \<Rightarrow> True | CShapeless _ \<Rightarrow> True | _ \<Rightarrow> False"
  shows "business (snd (apply_command E s l cmd)) = business s"
proof (cases rule: apply_command_cases [of E s l cmd])
  case (Applied reply w1)
  from Applied(3) obtain w0 w2 row where "business_write E l cmd (s, empty_changes) w0"
    "session_write cmd reply w0 w2" "w1 = write_audit_row l row w2"
    by (rule command_stepE)
  moreover from this(1) have "w0 = (s, empty_changes)"
    using assms by (cases rule: business_writeE) auto
  ultimately show ?thesis using Applied(4) session_write_business by fastforce
qed simp

section \<open>What a reply discloses\<close>

lemma replayed_answer:
  "classify_client (fst w) client = Replay row saved \<Longrightarrow> cr_replayed (fst (apply_client E l client a w))"
  by (simp add: apply_client_def replayed_result_def)

lemma disclosed_value:
  assumes "apply_wire_command E s l gid cmd = (Inr (ClientReplyV1 r), s')"
    and "crv_snapshot r = Some snap" "rsv_value snap = Some v"
  shows "\<exists>client a key row. command_for_apply E cmd = Inr (CClient client a) \<and>
    (\<forall>row saved. classify_client s client \<noteq> Replay row saved) \<and> \<not> rsv_value_redacted snap \<and>
    rsv_resource snap = resource_key_to_wire key \<and>
    granted_rights s' key (cl_actor client) AND RIGHT_READ \<noteq> 0 \<and> bm_get (st_resources s') key = Some row \<and> v = rr_value row"
proof -
  obtain model result w where m: "command_for_apply E cmd = Inr model" "r = client_reply_for s' gid model result"
    and run: "apply_command_recording E l model (s, empty_changes) = (Inr (ReplyClient result), w)"
    using assms(1)
    by (auto simp: apply_wire_command_def apply_wire_command_recording_def reply_to_wire_def
        split: sum.splits prod.splits command_reply.splits)
  have fresh: "\<not> cr_replayed result" and v: "reply_value s' model result = Some v"
    using assms(2,3) m(2)
    by (auto simp: client_reply_for_def client_reply_def project_snapshot_def split: if_splits)
  obtain client a where cl: "model = CClient client a"
    using v by (auto simp: reply_value_def bind_eq_Some_conv split: if_splits command.splits)
  have "result = fst (apply_client E l client a (s, empty_changes))"
    using run cl by (auto simp: apply_command_recording_def dispatch_command_def split: option.splits prod.splits)
  with fresh replayed_answer [of "(s, empty_changes)" client] have first: "classify_client s client \<noteq> Replay row saved" for row saved
    by auto
  obtain sn where sn: "sr_snapshot (cr_reply result) = Some sn" "snap = project_snapshot gid FirstAttempt (Some v) sn"
    using assms(2) m(2) fresh v by (auto simp: client_reply_for_def client_reply_def)
  have "sr_resource (cr_reply result) = Some (ss_resource sn)" by (simp add: sr_resource_def sn(1))
  with v cl fresh obtain row where "granted_rights s' (ss_resource sn) (cl_actor client) AND RIGHT_READ \<noteq> 0"
    "bm_get (st_resources s') (ss_resource sn) = Some row" "v = rr_value row"
    by (auto simp: reply_value_def split: if_splits)
  moreover have "\<not> rsv_value_redacted snap" "rsv_resource snap = resource_key_to_wire (ss_resource sn)"
    by (simp_all add: sn(2) project_snapshot_def resource_key_to_wire_def)
  ultimately show ?thesis using m(1) cl first by blast
qed

end
