(* ===== verification/Coord_Valid.thy ===== *)
theory Coord_Valid
  imports Coord_Narrow Coord_Machine
begin

text \<open>
  The invariant of the replicated state machine, its preservation by every entry, and what it
  is for: a durable state that satisfies it passes every rule a load checks.
\<close>

section \<open>The state\<close>

definition state_inv :: "externs \<Rightarrow> (hash32 \<Rightarrow> i32) \<Rightarrow> state \<Rightarrow> bool" where
  "state_inv E code_of s =
    (tables_inv E s \<and> membership_inv E (id_within s) s \<and> session_inv code_of s \<and> reserve_tracks s \<and>
     audit_inv s \<and> pred_option wide_log (st_membership_log_id s) \<and>
     fcard (cm_members (st_membership s)) \<le> MEMBER_ROUTES)"

lemma id_within_applied [simp]: "id_within (s\<lparr> st_last_applied := Some l \<rparr>) = upto_entry l"
  by (simp add: id_within_def upto_entry_def fun_eq_iff)

lemma membership_inv_delivered:
  "membership_inv E (id_within s) s \<Longrightarrow> delivered s l \<Longrightarrow> membership_inv E (upto_entry l) s"
  using stamps_inv_mono [of "id_within s" s "upto_entry l"] id_within_delivered [of s l]
  by (auto simp: membership_inv_def)

lemma delivered_cong:
  "st_last_applied s = st_last_applied t \<Longrightarrow> st_audit_tip s = st_audit_tip t \<Longrightarrow> delivered s l = delivered t l"
  by (simp add: delivered_def guard_delivery_def cong: option.case_cong if_cong)

lemma audit_inv_cong:
  assumes "st_audit s = st_audit t" "st_audit_tip s = st_audit_tip t" "st_audit_floor s = st_audit_floor t"
    "st_last_applied s = st_last_applied t"
  shows "audit_inv s = audit_inv t"
  using assms by (simp add: audit_inv_def applied_at_def)

lemma reserve_tracks_cong:
  "st_sessions s = st_sessions t \<Longrightarrow> st_audit s = st_audit t \<Longrightarrow> st_reserve_bytes s = st_reserve_bytes t \<Longrightarrow>
    reserve_tracks s = reserve_tracks t"
  by (simp add: reserve_tracks_def reserve_total_def)

lemma command_step_inv:
  assumes inv: "state_inv E code_of (fst w)" and del: "delivered (fst w) l" and good: "command_good code_of l cmd"
    and step: "command_step E l cmd reply w w'"
  shows "state_inv E code_of ((fst w')\<lparr> st_last_applied := Some l \<rparr>)"
proof -
  have i: "tables_inv E (fst w)" "membership_inv E (id_within (fst w)) (fst w)" "session_inv code_of (fst w)"
    "reserve_tracks (fst w)" "audit_inv (fst w)" "pred_option wide_log (st_membership_log_id (fst w))"
    "fcard (cm_members (st_membership (fst w))) \<le> MEMBER_ROUTES"
    using inv by (simp_all add: state_inv_def)
  have l: "wide_log l" using del by (simp add: delivered_def)
  obtain w1 w2 row where bw: "business_write E l cmd w w1" and sw: "session_write cmd reply w1 w2"
    and row: "audit_row_of l cmd reply (fst w1) row" and ans: "answered E l cmd w reply"
    and w': "w' = write_audit_row l row w2"
    using step by (rule command_stepE)
  have sound: "reply_sound cmd reply" by (rule answered_sound [OF ans i(1,3) good i(6)])
  note outer1 = outer_eqD [OF business_write_outer [OF bw]]
  have b: "tables_inv E (fst w1)" "membership_inv E (upto_entry l) (fst w1)"
    using business_write_inv [OF bw good l i(1) membership_inv_delivered [OF i(2) del] i(7)] by simp_all
  have s1: "session_inv code_of (fst w1)" "reserve_tracks (fst w1)"
    using i(3,4) session_inv_cong [of "fst w1" "fst w"] reserve_tracks_cong [of "fst w1" "fst w"] outer1 by simp_all
  have s2: "session_inv code_of (fst w2)" "reserve_tracks (fst w2)"
    using session_write_inv [OF sw good sound s1] by simp_all
  note aud2 = session_write_audit [OF sw]
  have a2: "audit_inv (fst w2)" "delivered (fst w2) l"
    using i(5) del audit_inv_cong [of "fst w2" "fst w"] delivered_cong [of "fst w2" "fst w"] aud2 outer1 by simp_all
  have rg: "audit_row_good row" "au_leader_node_id row = lg_leader l"
    using audit_row_of_good [OF row good l sound b(1)] by simp_all
  have fresh: "bm_ok (st_audit (fst w2))" "bm_get (st_audit (fst w2)) (log_key l) = None"
    using audit_inv_fresh(2) [OF a2] a2(1) by (simp_all add: audit_inv_def)
  let ?s = "(fst w')\<lparr> st_last_applied := Some l \<rparr>"
  have bus: "business ?s = business (fst w1)" using session_write_business [OF sw] w' by simp
  note b' = business_eqD [OF bus]
  have "tables_inv E ?s" using b(1) tables_inv_cong [OF bus] by simp
  moreover have "membership_inv E (id_within ?s) ?s"
    using b(2) membership_inv_cong [OF b'(4,5,8,9)] by simp
  moreover have "session_inv code_of ?s" using s2(1) session_inv_cong [of ?s "fst w2"] w' by simp
  moreover have "reserve_tracks ?s"
    using write_audit_row_reserve [OF fresh s2(2), of row] reserve_tracks_cong [of ?s "fst w'"] w' by simp
  moreover have "audit_inv ?s" using audit_inv_write [OF a2 rg] w' by simp
  moreover have "pred_option wide_log (st_membership_log_id ?s)" "fcard (cm_members (st_membership ?s)) \<le> MEMBER_ROUTES"
    using i(6,7) b'(10,11) outer1 by simp_all
  ultimately show ?thesis by (simp add: state_inv_def)
qed

text \<open>Any entry moves \<open>last_applied\<close>; the stored ids stay behind it.\<close>

lemma state_inv_advance:
  assumes inv: "state_inv E code_of s" and del: "delivered s l"
    and s': "business s' = business (s\<lparr> st_membership := M, st_membership_log_id := ml \<rparr>)"
      "st_sessions s' = st_sessions s" "st_audit s' = st_audit s" "st_audit_tip s' = st_audit_tip s"
      "st_audit_floor s' = st_audit_floor s" "st_reserve_bytes s' = st_reserve_bytes s" "st_last_applied s' = Some l"
    and ml: "pred_option wide_log ml" "fcard (cm_members M) \<le> MEMBER_ROUTES"
  shows "state_inv E code_of s'"
proof -
  have i: "tables_inv E s" "membership_inv E (id_within s) s" "session_inv code_of s"
    "reserve_tracks s" "audit_inv s"
    using inv by (simp_all add: state_inv_def)
  note b = business_eqD [OF s'(1), simplified]
  have "tables_inv E s'"
    using i(1) tables_inv_cong [OF s'(1)]
    by (simp add: tables_inv_def resources_inv_def acl_inv_def grants_on_def grant_good_def admins_inv_def
        check_admin_revision_def growth_inv_def growth_tracks_def growth_total_def installed_inv_def)
  moreover have "id_within s' = upto_entry l" using s'(7) by (simp add: id_within_def upto_entry_def fun_eq_iff)
  then have "membership_inv E (id_within s') s'"
    using membership_inv_delivered [OF i(2) del] membership_inv_cong [OF b(4,5,8,9)] by simp
  moreover have "session_inv code_of s'" "reserve_tracks s'"
    using i(3,4) session_inv_cong [OF s'(2)] reserve_tracks_cong [OF s'(2,3,6)] by simp_all
  moreover have "audit_inv s'"
    using i(5) del delivered_fresh [OF del] delivered_index [OF del]
    by (fastforce simp: audit_inv_def s' applied_at_def delivered_def guard_delivery_def option.pred_set
        split: option.splits if_splits)
  ultimately show ?thesis using ml b(10,11) by (simp add: state_inv_def)
qed

section \<open>The durable state\<close>

text \<open>What a proposed membership must satisfy: at most one joint pair of configurations, each
  of a size the deployment profile permits; and what OpenRaft keeps of every membership: there
  is a configuration, and the node map names the members of all of them.\<close>

definition legal_membership :: "i32 \<Rightarrow> raft_membership \<Rightarrow> bool" where
  "legal_membership profile M =
    (length (om_configs M) \<le> 2 \<and> list_all (\<lambda>c. \<not> profile_permits_voters profile (fcard c)) (om_configs M) \<and>
     om_configs M \<noteq> [] \<and> voter_ids M |\<subseteq>| om_nodes M \<and> fBall (om_nodes M) wide_node)"

definition meta_inv :: "externs \<Rightarrow> durable_state \<Rightarrow> bool" where
  "meta_inv E d =
    (let s = ds_model d; M = sm_membership (ds_membership d) in
     verifying_key_ok E (ga_public_key (st_authority s)) \<and> check_authority_domain (ga_domain (st_authority s)) \<and>
     st_deployment_profile_code s \<in> set PROFILES \<and>
     length (om_configs M) \<le> 2 \<and>
     list_all (\<lambda>c. \<not> profile_permits_voters (st_deployment_profile_code s) (fcard c)) (om_configs M) \<and>
     fcard (cm_learners (st_membership s)) \<le> MAX_LEARNER_ENVELOPE \<and>
     (om_configs M \<noteq> [] \<or> om_nodes M \<noteq> {||}) = (sm_log_id (ds_membership d) \<noteq> None) \<and>
     pred_option (membership_id_ok s) (sm_log_id (ds_membership d)) \<and>
     st_membership s = project_membership M \<and> st_membership_log_id s = sm_log_id (ds_membership d) \<and>
     check_root_not_a_member d)"

definition machine_inv :: "externs \<Rightarrow> (hash32 \<Rightarrow> i32) \<Rightarrow> machine \<Rightarrow> bool" where
  "machine_inv E code_of m =
    (meta_inv E (mc_durable m) \<and> state_inv E code_of (ds_model (mc_durable m)))"

text \<open>Raft delivers entries whose terms do not decrease; the proposers supply the rest.\<close>

definition in_order :: "state \<Rightarrow> log_id \<Rightarrow> bool" where
  "in_order s l = (pred_option (\<lambda>lst. lg_term lst \<le> lg_term l) (st_last_applied s) \<and> wide_log l)"

definition legal_entry :: "(hash32 \<Rightarrow> i32) \<Rightarrow> raft_entry \<Rightarrow> machine \<Rightarrow> bool" where
  "legal_entry code_of e m =
    (in_order (ds_model (mc_durable m)) (en_log_id e) \<and>
     (case en_payload e of
        Blank \<Rightarrow> True
      | MembershipPayload M \<Rightarrow> legal_membership (st_deployment_profile_code (ds_model (mc_durable m))) M
      | Normal cmd \<Rightarrow> legal_command code_of (en_log_id e) cmd))"

lemma fcard_funion_le: "fcard (A |\<union>| B) \<le> fcard A + fcard B"
  using fcard_funion_finter [of A B] by simp

lemma fcard_voter_ids:
  assumes "list_all (\<lambda>c. fcard c \<le> n) cs"
  shows "fcard (foldr (|\<union>|) cs {||}) \<le> length cs * n"
  using assms
proof (induction cs)
  case (Cons c cs)
  have "fcard (c |\<union>| foldr (|\<union>|) cs {||}) \<le> fcard c + fcard (foldr (|\<union>|) cs {||})"
    by (rule fcard_funion_le)
  with Cons show ?case by simp
qed simp

lemma legal_membership_bound:
  assumes "length (om_configs M) \<le> 2"
    "list_all (\<lambda>c. \<not> profile_permits_voters profile (fcard c)) (om_configs M)"
    "fcard (cm_learners (project_membership M)) \<le> MAX_LEARNER_ENVELOPE"
  shows "fcard (cm_members (project_membership M)) \<le> MEMBER_ROUTES"
proof -
  have "list_all (\<lambda>c. fcard c \<le> MAX_VOTERS) (om_configs M)"
    using assms(2) profile_voters_bound by (auto simp: list_all_iff)
  then have "fcard (voter_ids M) \<le> length (om_configs M) * MAX_VOTERS"
    unfolding voter_ids_def by (rule fcard_voter_ids)
  also have "\<dots> \<le> 2 * MAX_VOTERS" using assms(1) by simp
  finally have "fcard (voter_ids M) \<le> 2 * MAX_VOTERS" .
  moreover have "fcard (cm_members (project_membership M))
      \<le> fcard (voter_ids M) + fcard (cm_learners (project_membership M))"
    unfolding cm_members_def using fcard_funion_le [of "voter_ids M"] by (simp add: project_membership_def)
  ultimately show ?thesis using assms(3) by (simp add: MEMBER_ROUTES_def coord_simps)
qed

lemma membership_id_advance:
  assumes "pred_option (membership_id_ok s) ml" "guard_delivery s l = None" "st_last_applied s' = Some l"
  shows "pred_option (membership_id_ok s') ml"
  using assms
  by (cases ml; cases "st_last_applied s")
    (auto simp: membership_id_ok_def guard_delivery_def split: if_splits)

text \<open>Outside a membership entry the metadata only sees \<open>last_applied\<close> move.\<close>

lemma meta_inv_advance:
  assumes "meta_inv E d" "guard_delivery (ds_model d) l = None"
    and "ds_membership d' = ds_membership d" "st_last_applied (ds_model d') = Some l"
    and "st_authority (ds_model d') = st_authority (ds_model d)"
      "st_deployment_profile_code (ds_model d') = st_deployment_profile_code (ds_model d)"
      "st_membership (ds_model d') = st_membership (ds_model d)"
      "st_membership_log_id (ds_model d') = st_membership_log_id (ds_model d)"
  shows "meta_inv E d'"
  using assms membership_id_advance [of "ds_model d" _ l "ds_model d'"]
  by (auto simp: meta_inv_def Let_def check_root_not_a_member_def)

lemma command_step_frame:
  assumes "command_step E l cmd reply w w'"
  shows "st_authority (fst w') = st_authority (fst w)"
    "st_deployment_profile_code (fst w') = st_deployment_profile_code (fst w)"
    "st_membership (fst w') = st_membership (fst w)" "st_membership_log_id (fst w') = st_membership_log_id (fst w)"
proof -
  obtain w1 w2 row where bw: "business_write E l cmd w w1" and sw: "session_write cmd reply w1 w2"
    and w': "w' = write_audit_row l row w2"
    using assms by (rule command_stepE)
  have "business (fst w') = business (fst w1)" using session_write_business [OF sw] w' by simp
  from business_eqD [OF this] outer_eqD [OF business_write_outer [OF bw]]
  show "st_authority (fst w') = st_authority (fst w)"
    "st_deployment_profile_code (fst w') = st_deployment_profile_code (fst w)"
    "st_membership (fst w') = st_membership (fst w)" "st_membership_log_id (fst w') = st_membership_log_id (fst w)"
    by simp_all
qed

lemma apply_entry_inv:
  assumes legal: "legal_entry code_of e m" and inv: "machine_inv E code_of m"
    and step: "apply_entry E gid e m = Inr (reply, m')"
  shows "machine_inv E code_of m'"
proof -
  let ?s = "ds_model (mc_durable m)" and ?l = "en_log_id e"
  have meta: "meta_inv E (mc_durable m)" and st: "state_inv E code_of ?s"
    using inv by (simp_all add: machine_inv_def)
  have order: "in_order ?s ?l" using legal by (simp add: legal_entry_def)
  have del: "delivered ?s ?l" if "guard_delivery ?s ?l = None"
    using that order by (simp add: delivered_def in_order_def)
  show ?thesis
    using step
  proof (cases rule: apply_entry_cases)
    case Empty
    have "state_inv E code_of (ds_model (mc_durable m'))"
      using Empty(3) st
      by (intro state_inv_advance [OF st del [OF Empty(2)], where M = "st_membership ?s" and ml = "st_membership_log_id ?s"])
        (simp_all add: state_inv_def)
    moreover have "meta_inv E (mc_durable m')"
      using Empty by (intro meta_inv_advance [OF meta Empty(2)]) simp_all
    ultimately show ?thesis by (simp add: machine_inv_def)
  next
    case (Member M)
    have M: "legal_membership (st_deployment_profile_code ?s) M"
      using legal Member(1) by (simp add: legal_entry_def)
    have "state_inv E code_of (ds_model (mc_durable m'))"
      using Member(5) M legal_membership_bound [OF _ _ Member(4)] order
      by (intro state_inv_advance [OF st del [OF Member(2)], where M = "project_membership M" and ml = "Some ?l"])
        (auto simp: business_def legal_membership_def in_order_def)
    moreover have "meta_inv E (mc_durable m')"
      using Member meta M
      by (simp add: meta_inv_def Let_def legal_membership_def check_root_not_a_member_def membership_id_ok_def)
    ultimately show ?thesis by (simp add: machine_inv_def)
  next
    case (Command wire cmd r)
    have good: "command_good code_of ?l cmd"
      using command_for_apply_good [OF Command(2)] legal Command(1) by (simp add: legal_entry_def)
    obtain w1 where w1: "guard_delivery ?s ?l = None" "command_step E ?l cmd r (?s, mc_changes m) w1"
      "ds_model (mc_durable m') = (fst w1)\<lparr> st_last_applied := Some ?l \<rparr>"
      using Command(3) by (cases rule: recording_cases) (auto simp: upd_state_def prod_eq_iff)
    have "state_inv E code_of (ds_model (mc_durable m'))"
      unfolding w1(3) using st del [OF w1(1)] by (intro command_step_inv [OF _ _ good w1(2)]) simp_all
    moreover have "meta_inv E (mc_durable m')"
      using command_step_frame [OF w1(2)] Command(4) w1(3) by (intro meta_inv_advance [OF meta w1(1)]) simp_all
    ultimately show ?thesis by (simp add: machine_inv_def)
  qed
qed

interpretation im: invariant_machine "apply_entry E gid" "apply_entries E gid" "legal_entry code_of" "machine_inv E code_of"
  for E gid code_of
  by unfold_locales (rule apply_entry_inv)

text \<open>A log whose entries are legal in the states they meet.\<close>

fun legal_entries :: "externs \<Rightarrow> bytes \<Rightarrow> (hash32 \<Rightarrow> i32) \<Rightarrow> raft_entry list \<Rightarrow> machine \<Rightarrow> bool" where
  "legal_entries E gid code_of [] m = True"
| "legal_entries E gid code_of (e # es) m =
    (legal_entry code_of e m \<and>
     (case apply_entry E gid e m of Inl _ \<Rightarrow> True | Inr (_, m') \<Rightarrow> legal_entries E gid code_of es m'))"

lemma legal_entries_run: "legal_entries E gid code_of es m = lm.legal_run E gid (legal_entry code_of) es m"
  by (induction es arbitrary: m) (auto split: sum.splits prod.splits)

lemma apply_entries_inv:
  assumes "legal_entries E gid code_of es m" "machine_inv E code_of m"
    and "apply_entries E gid es m = Inr (replies, m')"
  shows "machine_inv E code_of m'"
  using assms unfolding legal_entries_run by (rule im.run_inv)

section \<open>Progress and the audit log\<close>

text \<open>The genesis documents a state takes: verified under its authority, for its group, the document it is bound
  to and for its profile; the first of them also has to name the voters of a settled membership.\<close>

definition genesis_accepted :: "externs \<Rightarrow> state \<Rightarrow> bytes \<Rightarrow> bool" where
  "genesis_accepted E s doc =
    (case verify_genesis E (ga_public_key (st_authority s)) (ga_domain (st_authority s)) doc of
       Inl _ \<Rightarrow> False
     | Inr g \<Rightarrow>
         vg_group_id g = ga_group_id (st_authority s) \<and> vg_genesis_hash g = ga_genesis_hash (st_authority s) \<and>
         vg_deployment_profile_code g = st_deployment_profile_code s \<and>
         (st_admin_revision s > 0 \<or>
          \<not> cm_joint (st_membership s) \<and> cm_learners (st_membership s) = {||} \<and>
          fset_of_list (map vv_node_id (vg_initial_voters g)) = cm_voters (st_membership s)))"

lemma apply_genesis_refused: "(\<exists>f. fst (apply_genesis E l doc w) = Inl f) \<longleftrightarrow> \<not> genesis_accepted E (fst w) doc"
  by (auto simp: apply_genesis_def genesis_accepted_def Let_def split: sum.splits)

lemma audit_inv_guard_iff:
  assumes "audit_inv s"
  shows "guard_delivery s l = None \<longleftrightarrow> pred_option (\<lambda>lst. lg_index lst < lg_index l) (st_last_applied s)"
proof
  show "pred_option (\<lambda>lst. lg_index lst < lg_index l) (st_last_applied s)" if "guard_delivery s l = None"
    using that by (auto simp: guard_delivery_def not_le split: option.splits if_splits)
qed (rule audit_inv_guard [OF assms])

lemma dispatch_refused:
  "(\<exists>f. fst (dispatch_command E l cmd w) = Inl f) \<longleftrightarrow>
    cmd = CUnknown \<or> (\<exists>doc. cmd = CGenesis doc \<and> \<not> genesis_accepted E (fst w) doc)"
proof (cases cmd)
  case (CGenesis doc)
  with apply_genesis_refused [of E l doc w] show ?thesis
    by (cases "apply_genesis E l doc w"; cases "fst (apply_genesis E l doc w)") (auto simp: dispatch_command_def)
qed (auto simp: dispatch_command_def split: prod.splits)

lemma apply_command_refused:
  "(\<exists>f. fst (apply_command_recording E l cmd w) = Inl f) \<longleftrightarrow>
    guard_delivery (fst w) l \<noteq> None \<or> (\<exists>f. fst (dispatch_command E l cmd w) = Inl f)"
  by (auto simp: apply_command_recording_def Let_def split: option.splits prod.splits sum.splits)

text \<open>The faults of an entry are exactly these.\<close>

lemma project_membership_learners: "cm_learners (project_membership M) = om_nodes M |-| voter_ids M"
proof -
  have "n |\<in>| foldr (|\<union>|) cs {||} \<longleftrightarrow> list_ex ((|\<in>|) n) cs" for n and cs :: "node_id fset list"
    by (induction cs) auto
  then show ?thesis by (auto simp: project_membership_def voter_ids_def)
qed

lemma apply_entry_faults:
  assumes inv: "machine_inv E code_of m"
  shows "(\<exists>err. apply_entry E gid e m = Inl err) \<longleftrightarrow>
    \<not> pred_option (\<lambda>lst. lg_index lst < lg_index (en_log_id e)) (st_last_applied (ds_model (mc_durable m))) \<or>
    (case en_payload e of
       Blank \<Rightarrow> False
     | MembershipPayload M \<Rightarrow>
         ga_public_key (st_authority (ds_model (mc_durable m))) |\<in>| voter_ids M |\<union>| om_nodes M \<or>
         MAX_LEARNER_ENVELOPE < fcard (om_nodes M |-| voter_ids M)
     | Normal wire \<Rightarrow>
         unknown_variant wire \<or>
         (case wire of GenesisV1 g \<Rightarrow> \<not> genesis_accepted E (ds_model (mc_durable m)) (gnv_signed_genesis g) | _ \<Rightarrow> False))"
proof -
  let ?s = "ds_model (mc_durable m)"
  have guard: "pred_option (\<lambda>lst. lg_index lst < lg_index (en_log_id e)) (st_last_applied ?s) \<longleftrightarrow>
      guard_delivery ?s (en_log_id e) = None"
    using inv by (intro audit_inv_guard_iff [symmetric]) (simp add: machine_inv_def state_inv_def)
  show ?thesis
  proof (cases "en_payload e")
    case (Normal wire)
    have "(\<exists>err. apply_entry E gid e m = Inl err) \<longleftrightarrow>
        (case command_for_apply E wire of Inl _ \<Rightarrow> True | Inr cmd \<Rightarrow>
          \<exists>f. fst (apply_command_recording E (en_log_id e) cmd (?s, mc_changes m)) = Inl f)"
      by (auto simp: Normal apply_entry_def apply_normal_def apply_wire_command_recording_def Let_def
          split: sum.splits prod.splits)
    then show ?thesis
      using command_for_apply_faults [where P = "\<lambda>doc. \<not> genesis_accepted E ?s doc" and wire = wire and E = E]
      by (cases "guard_delivery ?s (en_log_id e)"; cases "command_for_apply E wire")
        (auto simp: Normal guard apply_command_refused dispatch_refused)
  qed (auto simp: guard apply_entry_def apply_blank_def apply_membership_def project_membership_learners
      membership_names_root_def Let_def split: option.splits)
qed

lemma command_step_audit:
  assumes inv: "state_inv E code_of (fst w)" and del: "delivered (fst w) l" and good: "command_good code_of l cmd"
    and step: "command_step E l cmd reply w w'"
  obtains row where "audit_row_good row" "au_leader_node_id row = lg_leader l" "st_audit_tip (fst w') = Some l"
    "st_audit (fst w') =
      drop (Suc (length (st_audit (fst w))) - MAX_AUDIT_ROWS) (st_audit (fst w) @ [(log_key l, row)])"
proof -
  have i: "tables_inv E (fst w)" "membership_inv E (id_within (fst w)) (fst w)" "session_inv code_of (fst w)"
    "audit_inv (fst w)" "pred_option wide_log (st_membership_log_id (fst w))"
    "fcard (cm_members (st_membership (fst w))) \<le> MEMBER_ROUTES"
    using inv by (simp_all add: state_inv_def)
  have l: "wide_log l" using del by (simp add: delivered_def)
  obtain w1 w2 row where bw: "business_write E l cmd w w1" and sw: "session_write cmd reply w1 w2"
    and row: "audit_row_of l cmd reply (fst w1) row" and ans: "answered E l cmd w reply"
    and w': "w' = write_audit_row l row w2"
    using step by (rule command_stepE)
  have "tables_inv E (fst w1)"
    using business_write_inv [OF bw good l i(1) membership_inv_delivered [OF i(2) del] i(6)] by simp
  from audit_row_of_good [OF row good l answered_sound [OF ans i(1,3) good i(5)] this]
  have rg: "audit_row_good row" "au_leader_node_id row = lg_leader l" by simp_all
  have aud: "st_audit (fst w2) = st_audit (fst w)"
    using session_write_audit [OF sw] outer_eqD [OF business_write_outer [OF bw]] by simp
  have "st_audit (fst w') =
      drop (Suc (length (st_audit (fst w))) - MAX_AUDIT_ROWS) (st_audit (fst w) @ [(log_key l, row)])"
    unfolding w' using write_audit_row_rows [of w2 l row] aud audit_inv_fresh(1) [OF i(4) del] i(4)
    by (simp add: audit_inv_def)
  with rg w' show thesis by (intro that) simp_all
qed

lemma audit_append:
  assumes inv: "machine_inv E code_of m" and legal: "legal_entry code_of e m" and payload: "en_payload e = Normal wire"
    and step: "apply_entry E gid e m = Inr (reply, m')"
  shows "\<exists>row. audit_row_good row \<and> au_leader_node_id row = lg_leader (en_log_id e) \<and>
    st_audit_tip (ds_model (mc_durable m')) = Some (en_log_id e) \<and>
    st_audit (ds_model (mc_durable m')) =
      drop (Suc (length (st_audit (ds_model (mc_durable m)))) - MAX_AUDIT_ROWS)
        (st_audit (ds_model (mc_durable m)) @ [(log_key (en_log_id e), row)])"
  using step
proof (cases rule: apply_entry_cases)
  case (Command wire' cmd r)
  let ?s = "ds_model (mc_durable m)" and ?l = "en_log_id e"
  have st: "state_inv E code_of ?s" and order: "in_order ?s ?l" and good: "command_good code_of ?l cmd"
    using inv legal command_for_apply_good [OF Command(2)] Command(1) by (simp_all add: machine_inv_def legal_entry_def)
  obtain w' where w': "guard_delivery ?s ?l = None" "command_step E ?l cmd r (?s, mc_changes m) w'"
    "ds_model (mc_durable m') = (fst w')\<lparr> st_last_applied := Some ?l \<rparr>"
    using Command(3) by (cases rule: recording_cases) (auto simp: upd_state_def prod_eq_iff)
  have "delivered ?s ?l" using w'(1) order by (simp add: delivered_def in_order_def)
  with st show ?thesis
    using w'(3) by (elim command_step_audit [OF _ _ good w'(2), simplified]) auto
qed (use payload in simp_all)

section \<open>A load accepts it\<close>

lemma session_checks:
  assumes "session_inv code_of s"
  shows "length (st_sessions s) \<le> MAX_RETAINED_SESSIONS_PER_GROUP" "check_sessions_per_actor s"
    "check_active_clients s" "check_session_rows s"
proof -
  have "within_capacity (capacity_for s actor)" for actor using assms by (simp add: session_inv_def)
  then have caps: "length (st_sessions s) \<le> MAX_RETAINED_SESSIONS_PER_GROUP"
    "length (filter (\<lambda>(k, _). fst k = actor) (st_sessions s)) \<le> MAX_RETAINED_SESSIONS_PER_ACTOR"
    "length (filter (\<lambda>(k, v). \<not> se_retired v) (st_sessions s)) \<le> MAX_ACTIVE_CLIENTS_PER_GROUP"
    "length (filter (\<lambda>(k, v). fst k = actor \<and> \<not> se_retired v) (st_sessions s)) \<le> MAX_ACTIVE_CLIENTS_PER_ACTOR"
    for actor
    by (simp_all add: within_capacity_def capacity_for_def)
  then show "length (st_sessions s) \<le> MAX_RETAINED_SESSIONS_PER_GROUP" "check_sessions_per_actor s"
    "check_active_clients s"
    by (auto simp: check_sessions_per_actor_def check_active_clients_def list_all_iff)
  show "check_session_rows s"
    using assms by (auto simp: check_session_rows_def session_inv_def session_good_def list_all_iff)
qed

lemma audit_tip_rebuilt: "audit_inv s \<Longrightarrow> rebuild_audit_tip (st_audit s) = st_audit_tip s"
  using max_by_index_last [of "st_audit s"] by (auto simp: audit_inv_def rebuild_audit_tip_def)

lemma audit_checks:
  assumes "audit_inv s"
  shows "check_audit_tip s" "check_audit_floor s" "check_audit_key_order s" "check_audit_rows s"
    "pred_option (id_within s) (st_audit_floor s)"
proof -
  note tip = audit_tip_rebuilt [OF assms]
  have "st_last_applied s \<noteq> None" if "st_audit s \<noteq> []"
    using assms that by (cases "st_audit s") (auto simp: audit_inv_def applied_at_def split: option.splits)
  then show "check_audit_tip s"
    using assms
    by (auto simp: check_audit_tip_def tip audit_inv_def Let_def split: option.splits if_splits)
  show "check_audit_floor s"
    using assms
    by (cases "st_audit s") (auto simp: check_audit_floor_def audit_inv_def head_log_id_def row_log_id_def)
  show "check_audit_key_order s"
    using assms by (simp add: check_audit_key_order_def audit_keys_ascend_iff audit_inv_def sorted_wrt_map)
  show "check_audit_rows s"
    using assms by (auto simp: check_audit_rows_def audit_inv_def audit_row_good_def list_all_iff)
  show "pred_option (id_within s) (st_audit_floor s)"
    using assms
    by (cases "st_audit s")
      (auto simp: audit_inv_def head_log_id_def row_log_id_def id_within_def applied_at_def split: option.splits)
qed

lemma membership_checks:
  assumes "membership_inv E (id_within s) s"
  shows "length (st_intents s) \<le> MAX_INTENT_ROWS" "length (st_routes s) \<le> MAX_RETAINED_ROUTES"
    "check_intent_rows E s" "check_route_rows E s" "check_stamped_log_ids s"
proof -
  have i: "intents_inv E s" "routes_inv E s" "stamps_inv (id_within s) s"
    using assms by (simp_all add: membership_inv_def)
  have ok: "bm_ok (st_intents s)" "bm_ok (st_routes s)" using i by (simp_all add: intents_inv_def routes_inv_def)
  show "length (st_intents s) \<le> MAX_INTENT_ROWS" "length (st_routes s) \<le> MAX_RETAINED_ROUTES"
    using i(1,2) intents_length [OF ok(1)] by (simp_all add: intents_inv_def routes_inv_def coord_simps)
  show "check_intent_rows E s"
    using i(1) intents_length [OF ok(1)] active_intents_card [OF ok(1)] all_rows_get [OF ok(1),
        of "\<lambda>op i. plan_row_ok E (st_authority s) (st_deployment_profile_code s) (in_plan i)"]
    by (simp add: check_intent_rows_def intents_inv_def intent_good_def list_all_iff)
  show "check_route_rows E s"
    using i(2) all_rows_get [OF ok(2), of "\<lambda>n r. check_seed_ticket E (ro_ticket r) n = None"]
    by (simp add: check_route_rows_def routes_inv_def route_good_def list_all_iff)
  show "check_stamped_log_ids s" using stamps_check [OF ok] i(3) by simp
qed

lemma tables_checks:
  assumes "tables_inv E s"
  shows "length (st_resources s) \<le> MAX_RESOURCES_PER_GROUP" "length (st_acl s) \<le> MAX_ACL_ROWS_PER_GROUP"
    "fcard (st_admins s) \<le> MAX_ADMINS_PER_GROUP" "check_grants_per_resource s" "check_resource_rows s"
    "check_grant_rows s" "check_admin_revision s" "st_growth_bytes s = recompute_growth E s"
    "st_growth_bytes s = growth_total E s" "st_growth_bytes s \<le> GROWTH_BUDGET"
proof -
  have t: "resources_inv s" "acl_inv s" "admins_inv s" "growth_inv E s" using assms by (simp_all add: tables_inv_def)
  show "length (st_resources s) \<le> MAX_RESOURCES_PER_GROUP" "length (st_acl s) \<le> MAX_ACL_ROWS_PER_GROUP"
    "fcard (st_admins s) \<le> MAX_ADMINS_PER_GROUP" "check_admin_revision s"
    using t by (simp_all add: resources_inv_def acl_inv_def admins_inv_def)
  show "check_grants_per_resource s"
    using t(2) by (auto simp: check_grants_per_resource_def acl_inv_def grants_on_def list_all_iff)
  show "check_resource_rows s"
    using t(1) by (auto simp: check_resource_rows_def resources_inv_def resource_good_def list_all_iff)
  show "check_grant_rows s"
    using t(2) by (auto simp: check_grant_rows_def acl_inv_def grant_good_def list_all_iff)
  show "st_growth_bytes s = recompute_growth E s" using t(4) by (simp add: growth_inv_def growth_tracks_recompute)
  show "st_growth_bytes s = growth_total E s" "st_growth_bytes s \<le> GROWTH_BUDGET"
    using t(4) growth_tracks_exact [of E s] by (simp_all add: growth_inv_def)
qed

lemma state_inv_counters:
  assumes "state_inv E code_of s"
  shows "check_aggregate_counters E s" "st_growth_bytes s \<le> GROWTH_BUDGET" "st_reserve_bytes s \<le> RESERVE_BUDGET"
proof -
  have i: "tables_inv E s" "session_inv code_of s" "audit_inv s" "reserve_tracks s"
    using assms by (simp_all add: state_inv_def)
  show "st_growth_bytes s \<le> GROWTH_BUDGET" by (rule tables_checks(10) [OF i(1)])
  show "st_reserve_bytes s \<le> RESERVE_BUDGET" by (rule reserve_exact(2) [OF i(2-4)])
  show "check_aggregate_counters E s"
    using tables_checks(8) [OF i(1)] i(4) by (simp add: check_aggregate_counters_def reserve_tracks_recompute)
qed

lemma state_inv_rows:
  assumes "state_inv E code_of (ds_model d)" "check_root_not_a_member d"
  shows "validate_rows E d = None"
proof -
  let ?s = "ds_model d"
  have i: "tables_inv E ?s" "membership_inv E (id_within ?s) ?s" "session_inv code_of ?s" "audit_inv ?s"
    using assms(1) by (simp_all add: state_inv_def)
  have "length (st_audit ?s) \<le> MAX_AUDIT_ROWS" using i(4) by (simp add: audit_inv_def)
  then have "check_table_caps ?s"
    using tables_checks(1-3) [OF i(1)] membership_checks(1,2) [OF i(2)] session_checks(1) [OF i(3)]
    by (simp add: check_table_caps_def)
  then show ?thesis
    using assms(2) tables_checks(4-7) [OF i(1)] membership_checks(3-5) [OF i(2)] session_checks(2-4) [OF i(3)]
      audit_checks(1-4) [OF i(4)] state_inv_counters(1) [OF assms(1)]
    by (simp add: validate_rows_None INVARIANTS_def)
qed

theorem machine_inv_valid:
  assumes "machine_inv E code_of m"
  shows "validate E (mc_durable m) = None"
proof -
  let ?d = "mc_durable m"
  have i: "meta_inv E ?d" "state_inv E code_of (ds_model ?d)" using assms by (simp_all add: machine_inv_def)
  have "check_root_not_a_member ?d" using i(1) by (simp add: meta_inv_def Let_def)
  with state_inv_rows [OF i(2)] have rows: "validate_rows E ?d = None" by simp
  have floor: "pred_option (id_within (ds_model ?d)) (st_audit_floor (ds_model ?d))"
    using audit_checks(5) i(2) by (simp add: state_inv_def)
  have "validate_meta E ?d = None"
    using i(1) floor state_inv_counters(2,3) [OF i(2)]
    by (auto simp: validate_meta_def meta_inv_def Let_def list_all_iff list_ex_iff not_le)
  with rows show ?thesis by (simp add: validate_def)
qed

section \<open>Rows survive the wire\<close>

lemma rows_back:
  assumes "state_inv E code_of s"
  shows "\<forall>(k, row)\<in>set (st_resources s).
      wire_resource_key (resource_key_to_wire k) = Inr k \<and> resource_row_from_wire (resource_row_to_wire row) = Inr row"
    "\<forall>(k, se)\<in>set (st_sessions s). session_from_wire gid (session_to_wire gid se) = Inr se"
    "\<forall>(op, i)\<in>set (st_intents s). sum_bind (intent_to_wire op i) (intent_from_wire op) = Inr i"
    "\<forall>(n, r)\<in>set (st_routes s). route_from_wire (route_to_wire r) = Inr r"
    "\<forall>(k, row)\<in>set (st_audit s). audit_row_from_wire (audit_row_to_wire row) = Inr row"
proof -
  have i: "resources_inv s" "session_inv code_of s" "intents_inv E s" "routes_inv E s" "audit_inv s"
    using assms by (simp_all add: state_inv_def tables_inv_def membership_inv_def)
  show "\<forall>(k, row)\<in>set (st_resources s).
      wire_resource_key (resource_key_to_wire k) = Inr k \<and> resource_row_from_wire (resource_row_to_wire row) = Inr row"
    using i(1) by (auto simp: resources_inv_def resource_good_def resource_row_back)
  show "\<forall>(k, se)\<in>set (st_sessions s). session_from_wire gid (session_to_wire gid se) = Inr se"
    using i(2) by (auto simp: session_inv_def session_good_def session_back)
  show "\<forall>(op, i)\<in>set (st_intents s). sum_bind (intent_to_wire op i) (intent_from_wire op) = Inr i"
    using i(3) by (auto simp: intents_inv_def intent_good_def bm_rows_get intro!: intent_back)
  show "\<forall>(n, r)\<in>set (st_routes s). route_from_wire (route_to_wire r) = Inr r"
    using i(4) by (auto simp: routes_inv_def route_good_def bm_rows_get route_back)
  show "\<forall>(k, row)\<in>set (st_audit s). audit_row_from_wire (audit_row_to_wire row) = Inr row"
    using i(5) by (auto simp: audit_inv_def audit_row_good_def audit_row_back)
qed

end
