(* ===== verification/Coord_Govern.thy ===== *)
theory Coord_Govern
  imports Coord_Valid
begin

text \<open>
  Who may change the group.  The administrators change only by an administrator's command or
  by the verified genesis; a membership intent is created by an administrator and moves only
  along the phases of \<open>phase_step\<close>; it completes only when the committed membership is the
  planned one; the route of a member is never dropped.
\<close>

section \<open>Administrators\<close>

definition admins_changed_by :: "externs \<Rightarrow> state \<Rightarrow> command \<Rightarrow> node_id fset \<Rightarrow> bool" where
  "admins_changed_by E s cmd admins =
    (case cmd of
       CClient client (ActAdmin ad) \<Rightarrow>
         is_administrator s (cl_actor client) \<and> \<not> is_root s (aa_target ad) \<and>
         admins = (if aa_enabled ad then finsert (aa_target ad) (st_admins s) else st_admins s |-| {|aa_target ad|}) \<and>
         (aa_enabled ad \<or> 1 < fcard (st_admins s))
     | CGenesis doc \<Rightarrow>
         (\<exists>g. genesis_installs E s doc g \<and> admins = st_admins s |\<union>| fset_of_list (vg_initial_admins g))
     | _ \<Rightarrow> False)"

lemma business_write_admins:
  assumes "business_write E l cmd w w'"
  shows "st_admins (fst w') = st_admins (fst w) \<or> admins_changed_by E (fst w) cmd (st_admins (fst w'))"
  using assms
proof (cases rule: business_writeE)
  case (Admin client ad eff)
  note a = admin_apply [OF Admin(3)]
  have "st_admins (fst w') =
      (if aa_enabled ad then finsert (aa_target ad) (st_admins (fst w)) else st_admins (fst w) |-| {|aa_target ad|})"
    using Admin(2) a(3,4) by simp
  then show ?thesis using Admin(1) a by (auto simp: admins_changed_by_def)
next
  case (Genesis doc g)
  then show ?thesis by (auto simp: admins_changed_by_def)
qed (simp_all add: put_resource_def)

lemma command_step_admins:
  assumes "command_step E l cmd reply w w'"
  shows "st_admins (fst w') = st_admins (fst w) \<or> admins_changed_by E (fst w) cmd (st_admins (fst w'))"
proof -
  obtain w1 w2 row where w1: "business_write E l cmd w w1" and w2: "session_write cmd reply w1 w2"
    and w': "w' = write_audit_row l row w2"
    using assms by (rule command_stepE)
  have "business (fst w') = business (fst w1)" using session_write_business [OF w2] w' by simp
  from business_eqD(3) [OF this] business_write_admins [OF w1] show ?thesis by simp
qed

text \<open>A group that has administrators keeps one, and never makes its root key one.\<close>

definition governed :: "machine \<Rightarrow> bool" where
  "governed m =
    (st_admins (ds_model (mc_durable m)) \<noteq> {||} \<and>
     ga_public_key (st_authority (ds_model (mc_durable m))) |\<notin>| st_admins (ds_model (mc_durable m)))"

lemma admins_changed_governed:
  assumes "admins_changed_by E s cmd admins" "st_admins s \<noteq> {||}" "ga_public_key (st_authority s) |\<notin>| st_admins s"
  shows "admins \<noteq> {||} \<and> ga_public_key (st_authority s) |\<notin>| admins"
proof (cases cmd)
  case (CClient client a)
  with assms(1) obtain ad where ad: "a = ActAdmin ad" by (cases a) (auto simp: admins_changed_by_def)
  have "st_admins s |-| {|aa_target ad|} \<noteq> {||}" if "1 < fcard (st_admins s)"
  proof
    assume "st_admins s |-| {|aa_target ad|} = {||}"
    then have "st_admins s |\<subseteq>| {|aa_target ad|}" by auto
    from fcard_mono [OF this] that show False by (simp add: fcard_finsert_if fcard_fempty)
  qed
  with assms CClient ad show ?thesis by (auto simp: admins_changed_by_def is_root_def split: if_splits)
next
  case (CGenesis doc)
  with assms show ?thesis
    by (auto simp: admins_changed_by_def fset_of_list_elem dest: genesis_installs_sound(4))
qed (use assms(1) in \<open>simp_all add: admins_changed_by_def\<close>)

lemma apply_entry_governed:
  assumes "apply_entry E gid e m = Inr (reply, m')" "governed m"
  shows "governed m'"
  using assms(1)
proof (cases rule: apply_entry_cases)
  case (Command wire cmd r)
  obtain w' where w': "command_step E (en_log_id e) cmd r (ds_model (mc_durable m), mc_changes m) w'"
    "ds_model (mc_durable m') = (fst w')\<lparr> st_last_applied := Some (en_log_id e) \<rparr>"
    using Command(3) by (cases rule: recording_cases) (auto simp: upd_state_def prod_eq_iff)
  show ?thesis
    using command_step_admins [OF w'(1)] command_step_frame(1) [OF w'(1)] assms(2) w'(2) admins_changed_governed
    by (fastforce simp: governed_def)
qed (use assms(2) in \<open>simp_all add: governed_def\<close>)

lemma legal_run_True: "lm.legal_run E gid (\<lambda>e m. True) es m"
  by (induction es arbitrary: m) (auto split: sum.splits)

lemma admins_kept: "apply_entries E gid es m = Inr (replies, m') \<Longrightarrow> governed m \<Longrightarrow> governed m'"
  using lm.run_invariant [of "\<lambda>e m. True" governed E gid] apply_entry_governed legal_run_True by blast

section \<open>Membership phases\<close>

definition phase_step :: "i32 \<Rightarrow> i32 \<Rightarrow> bool" where
  "phase_step a b =
    (is_legal_transition a b \<or> a = PHASE_PENDING \<and> b = PHASE_CANCELLED \<or>
     a = PHASE_ADDING_LEARNERS \<and> b = PHASE_CANCEL_REQUESTED)"

lemma terminal_phase_final: "is_terminal_phase a \<Longrightarrow> \<not> phase_step a b"
  by (auto simp: phase_step_def is_legal_transition_def is_terminal_phase_def coord_simps)

text \<open>What may happen to the intent of an operation when a command is applied in state \<open>s\<close>.\<close>

definition intent_moves :: "state \<Rightarrow> command \<Rightarrow> operation_id \<Rightarrow> intent option \<Rightarrow> intent option \<Rightarrow> bool" where
  "intent_moves s cmd op before after =
    (case (before, after) of
       (None, None) \<Rightarrow> True
     | (None, Some i) \<Rightarrow>
         active_ops s = {} \<and> in_status_code i = PHASE_PENDING \<and>
         (case cmd of
            CClient client (ActChangeMembership m) \<Rightarrow>
              is_administrator s (cl_actor client) \<and> ma_operation_id m = op \<and> in_plan i = ma_plan m \<and>
              ma_expected_membership_log_id m = st_membership_log_id s
          | _ \<Rightarrow> False)
     | (Some i, None) \<Rightarrow> is_terminal_phase (in_status_code i)
     | (Some i, Some j) \<Rightarrow>
         j = i \<or>
         in_plan j = in_plan i \<and> phase_step (in_status_code i) (in_status_code j) \<and>
         (in_status_code j = PHASE_COMPLETED \<longrightarrow>
           \<not> cm_joint (st_membership s) \<and>
           cm_voters (st_membership s) = fset_of_list (mp_desired_voters (in_plan i)) \<and>
           cm_learners (st_membership s) = fset_of_list (mp_retained_learners (in_plan i))))"

lemma intent_moves_refl [simp]: "intent_moves s cmd op i i"
  by (simp add: intent_moves_def split: option.splits)

lemma cancel_phases:
  assumes "decide_cancel s actor c = MApply eff" "intent_rewrite s eff old"
  shows "phase_step (in_status_code old) (in_status_code (ie_intent eff))"
    "in_status_code (ie_intent eff) \<noteq> PHASE_COMPLETED"
  using assms
  by (auto simp: decide_cancel_def intent_rewrite_def phase_step_def coord_simps split: if_splits option.splits)

lemma rewrite_moves:
  assumes ok: "bm_ok (st_intents (fst w))" "card (terminal_ops (fst w)) \<le> MAX_RETAINED_INTENTS"
    and rw: "intent_rewrite (fst w) eff old" and phase: "phase_step (in_status_code old) (in_status_code (ie_intent eff))"
    and complete: "in_status_code (ie_intent eff) = PHASE_COMPLETED \<Longrightarrow>
      \<not> cm_joint (st_membership (fst w)) \<and>
      cm_voters (st_membership (fst w)) = fset_of_list (mp_desired_voters (in_plan old)) \<and>
      cm_learners (st_membership (fst w)) = fset_of_list (mp_retained_learners (in_plan old))"
  shows "intent_moves (fst w) cmd op (bm_get (st_intents (fst w)) op)
    (bm_get (st_intents (fst (write_intent E l eff w))) op)"
proof (cases "op = ie_operation_id eff")
  case True
  have "ie_intent eff = old\<lparr> in_status_code := in_status_code (ie_intent eff),
      in_result_code := in_result_code (ie_intent eff),
      in_observed_membership_log_id := in_observed_membership_log_id (ie_intent eff) \<rparr>"
    using rw by (simp add: intent_rewrite_def)
  from arg_cong [OF this, of in_plan] have "in_plan (ie_intent eff) = in_plan old" by simp
  with True rw phase complete show ?thesis
    by (auto simp: intent_moves_def write_intent_intents_get intent_rewrite_def)
next
  case False
  have "op \<in> terminal_ops (fst w)" if "op \<in> set (ie_evict eff)"
    using that rw evictions_cases(1) [OF ok] by (auto simp: intent_rewrite_def split: if_splits)
  with False show ?thesis
    by (cases "bm_get (st_intents (fst w)) op") (auto simp: intent_moves_def write_intent_intents_get terminal_ops_def)
qed

lemma business_write_intents:
  assumes ok: "bm_ok (st_intents (fst w))" "card (terminal_ops (fst w)) \<le> MAX_RETAINED_INTENTS"
    and bw: "business_write E l cmd w w'"
  shows "intent_moves (fst w) cmd op (bm_get (st_intents (fst w)) op) (bm_get (st_intents (fst w')) op)"
  using bw
proof (cases rule: business_writeE)
  case (Change client m eff)
  note c = decide_change_apply [OF Change(3)]
  have "active_ops (fst w) = {}"
    using c(5) bm_rows_get [OF ok(1)] by (force simp: active_ops_def list_ex_iff)
  then show ?thesis
    using c Change(1,2)
    by (auto simp: intent_moves_def write_intent_intents_get change_effect_def Let_def split: option.splits)
next
  case (Cancel client c eff)
  obtain old where old: "intent_rewrite (fst w) eff old" using decide_cancel_apply [OF Cancel(3)] .
  show ?thesis
    unfolding Cancel(2) using cancel_phases [OF Cancel(3) old] by (intro rewrite_moves [OF ok old]) simp_all
next
  case (Progress p eff)
  obtain old where old: "intent_rewrite (fst w) eff old"
    "is_legal_transition (in_status_code old) (in_status_code (ie_intent eff))"
    "in_status_code (ie_intent eff) = PHASE_COMPLETED \<Longrightarrow> completion_is_observable (fst w) old p"
    by (rule decide_progress_apply [OF Progress(3)]) blast
  show ?thesis
    unfolding Progress(2) using old(2,3)
    by (intro rewrite_moves [OF ok old(1)]) (auto simp: phase_step_def completion_is_observable_def split: if_splits)
qed (simp_all add: put_resource_def apply_admin_effect_def put_admin_def remove_admin_def set_growth_def upd_state_def
    Let_def split: prod.splits)

section \<open>Routes\<close>

lemma write_intent_member_route:
  assumes ok: "bm_ok (st_routes (fst w))" and d: "decide_change E (fst w) actor h m = MApply eff"
    and n: "cm_contains (st_membership (fst w)) n" "bm_get (st_routes (fst w)) n \<noteq> None"
  shows "bm_get (st_routes (fst (write_intent E l eff w))) n \<noteq> None"
proof -
  note c = decide_change_apply [OF d]
  have eff: "ie_routes eff = routes_from m" "ie_evict_routes eff = route_evictions (fst w) (routes_from m)"
    by (simp_all add: c(1) change_effect_def Let_def)
  have "distinct (map fst (routes_from m))"
    using distinct_map_filter [OF sorted_unique_distinct [OF plan_shape_None(3) [OF c(4)]]]
    by (simp add: routes_from_def o_def)
  then have "distinct (map fst (ie_routes eff))" using eff by simp
  moreover have "n \<notin> set (ie_evict_routes eff)"
    using route_evictions_cases(2) [OF ok] n(1) eff by (auto simp: route_candidates_def)
  ultimately show ?thesis using n(2) by (simp add: write_intent_routes_get split: option.splits)
qed

lemma business_write_member_route:
  assumes ok: "bm_ok (st_routes (fst w))" and bw: "business_write E l cmd w w'"
    and n: "cm_contains (st_membership (fst w)) n" "bm_get (st_routes (fst w)) n \<noteq> None"
  shows "bm_get (st_routes (fst w')) n \<noteq> None"
  using bw
proof (cases rule: business_writeE)
  case (Change client m eff)
  then show ?thesis using write_intent_member_route [OF ok Change(3) n] by simp
next
  case (Cancel client c eff)
  then have "ie_routes eff = []" "ie_evict_routes eff = []"
    by (auto simp: decide_cancel_def split: if_splits option.splits)
  then show ?thesis using Cancel(2) n(2) by (simp add: write_intent_routes_get)
next
  case (Progress p eff)
  then have "ie_routes eff = []" "ie_evict_routes eff = []"
    by (auto simp: decide_progress_def Let_def split: if_splits option.splits)
  then show ?thesis using Progress(2) n(2) by (simp add: write_intent_routes_get)
qed (use n(2) in \<open>simp_all add: put_resource_def apply_admin_effect_def put_admin_def remove_admin_def set_growth_def
    upd_state_def Let_def split: prod.splits\<close>)

section \<open>Steps\<close>

lemma command_step_intents:
  assumes ok: "bm_ok (st_intents (fst w))" "card (terminal_ops (fst w)) \<le> MAX_RETAINED_INTENTS"
    and step: "command_step E l cmd reply w w'"
  shows "intent_moves (fst w) cmd op (bm_get (st_intents (fst w)) op) (bm_get (st_intents (fst w')) op)"
proof -
  obtain w1 w2 row where w1: "business_write E l cmd w w1" and w2: "session_write cmd reply w1 w2"
    and w': "w' = write_audit_row l row w2"
    using step by (rule command_stepE)
  have "business (fst w') = business (fst w1)" using session_write_business [OF w2] w' by simp
  from business_eqD(4) [OF this] business_write_intents [OF ok w1, of op] show ?thesis by simp
qed

lemma command_step_member_route:
  assumes ok: "bm_ok (st_routes (fst w))" and step: "command_step E l cmd reply w w'"
    and n: "cm_contains (st_membership (fst w)) n" "bm_get (st_routes (fst w)) n \<noteq> None"
  shows "bm_get (st_routes (fst w')) n \<noteq> None"
proof -
  obtain w1 w2 row where w1: "business_write E l cmd w w1" and w2: "session_write cmd reply w1 w2"
    and w': "w' = write_audit_row l row w2"
    using step by (rule command_stepE)
  have "business (fst w') = business (fst w1)" using session_write_business [OF w2] w' by simp
  from business_eqD(5) [OF this] business_write_member_route [OF ok w1 n] show ?thesis by simp
qed

end
