(* ===== verification/Coord_Example.thy ===== *)
theory Coord_Example
  imports Coord_Valid
begin

text \<open>
  A small group for the witnesses: concrete functions for the other packages, a founding
  genesis, and the entries of a short log.
\<close>

definition nid :: "byte \<Rightarrow> node_id" where
  "nid b = replicate 32 b"

definition ex_domain :: string where "ex_domain = ''group.example''"

definition ex_ticket :: "node_id \<Rightarrow> string" where
  "ex_ticket n = STRING_PREFIX @ string_of_bytes (n @ [0x10, 0x00])"

definition ex_genesis :: genesis_v1 where
  "ex_genesis = \<lparr> gdv_format_version = 1, gdv_group_id = nid 9, gdv_authority_domain = ex_domain,
    gdv_genesis_nonce = nid 7, gdv_deployment_profile_code = 2,
    gdv_initial_voters = [\<lparr> vsv_node_id = nid 1, vsv_ticket = ex_ticket (nid 1) \<rparr>],
    gdv_initial_admins = [\<lparr> nv_node_id = nid 1 \<rparr>], gdv_recovery_export_hash = None \<rparr>"

definition ex_externs :: externs where
  "ex_externs = \<lparr> ser_change_membership = (\<lambda>_. Some []), ser_action = (\<lambda>_. Some []), ser_command = (\<lambda>_. Some []),
    de_signed_document = (\<lambda>bs. Some \<lparr> sdv_format_version = 1, sdv_document_bytes = bs,
      sdv_authority_public_key = nid 0, sdv_signature = replicate 64 0 \<rparr>),
    ser_signed_document = (\<lambda>d. Some (sdv_document_bytes d)),
    de_join_permit = (\<lambda>_. None), ser_join_permit = (\<lambda>_. None),
    de_genesis = (\<lambda>_. Some ex_genesis), ser_genesis = (\<lambda>_. Some []),
    verifying_key_ok = (\<lambda>_. True), signature_ok = (\<lambda>_. True), ed25519_verify = (\<lambda>_ _ _. True),
    blake3 = (\<lambda>_. nid 5),
    bs58_encode = string_of_bytes, bs58_decode = (\<lambda>s. Some (bytes_of_string s)) \<rparr>"

definition ex_state :: state where
  "ex_state = \<lparr> st_resources = [], st_acl = [], st_admins = {||}, st_sessions = [], st_intents = [],
    st_routes = [], st_audit_tip = None, st_audit = [], st_growth_bytes = 0, st_reserve_bytes = 0,
    st_admin_revision = 0,
    st_authority = \<lparr> ga_public_key = nid 0, ga_domain = ex_domain, ga_group_id = nid 9, ga_genesis_hash = nid 5 \<rparr>,
    st_deployment_profile_code = 2, st_membership = \<lparr> cm_voters = {||}, cm_learners = {||}, cm_joint = False \<rparr>,
    st_membership_log_id = None, st_audit_floor = None, st_last_applied = None \<rparr>"

definition ex_durable :: durable_state where
  "ex_durable = \<lparr> ds_model = ex_state,
    ds_membership = \<lparr> sm_log_id = None, sm_membership = \<lparr> om_configs = [], om_nodes = {||} \<rparr> \<rparr>,
    ds_recovery_export_hash = None, ds_recovered_from = None \<rparr>"

definition ex_entry :: "nat \<Rightarrow> entry_payload \<Rightarrow> raft_entry" where
  "ex_entry i p = \<lparr> en_log_id = \<lparr> lg_term = 1, lg_leader = nid 1, lg_index = i \<rparr>, en_payload = p \<rparr>"

definition ex_client :: "nat \<Rightarrow> action_v1 \<Rightarrow> command_v1" where
  "ex_client n a = ClientV1 \<lparr> ccv_actor_node_id = nid 1, ccv_client_id = replicate 16 3, ccv_sequence = n,
    ccv_request_hash = nid 5, ccv_action = a \<rparr>"

definition ex_key :: resource_key_v1 where
  "ex_key = \<lparr> rkv_namespace = ''jobs'', rkv_key = [1] \<rparr>"

definition ex_rk :: resource_key where
  "ex_rk = ResourceKey ''jobs'' [1]"

definition ex_join :: raft_entry where
  "ex_join = ex_entry 1 (MembershipPayload \<lparr> om_configs = [{|nid 1|}], om_nodes = {|nid 1|} \<rparr>)"

definition ex_found :: raft_entry where
  "ex_found = ex_entry 2 (Normal (GenesisV1 \<lparr> gnv_signed_genesis = [] \<rparr>))"

definition ex_grant :: raft_entry where
  "ex_grant = ex_entry 3 (Normal (ex_client 1 (SetGrantV1 \<lparr> sgv_resource = ex_key, sgv_target_node_id = nid 1,
    sgv_rights = 0x3f, sgv_expected_acl_revision = 0 \<rparr>)))"

definition ex_acquire :: raft_entry where
  "ex_acquire = ex_entry 4 (Normal (ex_client 2 (AcquireV1 \<lparr> aqv_resource = ex_key, aqv_ttl_ms = 5000 \<rparr>)))"

section \<open>Evaluation\<close>

text \<open>Node ids stay folded; the functions of the other packages are rewritten.\<close>

lemma nid_eq [simp]: "nid a = nid b \<longleftrightarrow> a = b"
  by (auto simp: nid_def)

lemma nid_length [simp]: "length (nid a) = 32"
  by (simp add: nid_def)

lemma nid_Nil [simp]: "nid a \<noteq> []"
  by (simp add: nid_def)

lemma ex_externs_simps [simp]:
  "ser_change_membership ex_externs c = Some []" "ser_action ex_externs a = Some []"
  "ser_command ex_externs x = Some []"
  "de_signed_document ex_externs bs = Some \<lparr> sdv_format_version = 1, sdv_document_bytes = bs,
    sdv_authority_public_key = nid 0, sdv_signature = replicate 64 0 \<rparr>"
  "de_genesis ex_externs bs = Some ex_genesis" "ser_genesis ex_externs g = Some []"
  "verifying_key_ok ex_externs k" "signature_ok ex_externs sg" "ed25519_verify ex_externs k m sg"
  "blake3 ex_externs bs = nid 5" "bs58_decode ex_externs s = Some (bytes_of_string s)"
  by (simp_all add: ex_externs_def)

lemma ex_ticket_ok: "check_seed_ticket ex_externs (bytes_of_string (ex_ticket (nid 1))) (nid 1) = None"
  by code_simp

definition ex_verified :: verified_genesis where
  "ex_verified = \<lparr> vg_document_bytes = [], vg_genesis_hash = nid 5, vg_group_id = nid 9,
    vg_authority_public_key = nid 0, vg_authority_domain = ex_domain, vg_deployment_profile_code = 2,
    vg_initial_voters = [\<lparr> vv_node_id = nid 1, vv_ticket = ex_ticket (nid 1) \<rparr>],
    vg_initial_admins = [nid 1], vg_recovery_export_hash = None \<rparr>"

lemma ex_domain_ok: "check_authority_domain ex_domain"
  by (simp add: ex_domain_def check_authority_domain_def is_ascii_def coord_simps)

lemma ex_verify: "verify_genesis ex_externs (nid 0) ex_domain [] = Inr ex_verified"
proof -
  have "length (ex_ticket (nid 1)) \<le> MAX_TICKET"
    by (simp add: ex_ticket_def string_of_bytes_def STRING_PREFIX_def coord_simps)
  with ex_domain_ok show ?thesis
    by (simp add: verify_genesis_def seal_genesis_def ex_genesis_def ex_ticket_ok check_authority_domain_def
        ex_verified_def genesis_hash_def Let_def PROFILES_def profile_permits_voters_def coord_simps)
qed

lemma ex_raw: "raw_validate (raw_key ex_key) = Inr ex_rk"
  by (simp add: raw_validate_def raw_key_def ex_key_def ex_rk_def validate_resource_key_def resource_key_new_def
      namespace_first_ok_def namespace_rest_ok_def is_ascii_lowercase_def coord_simps)

section \<open>The states of the log\<close>

definition ex_lid :: "nat \<Rightarrow> log_id" where
  "ex_lid i = \<lparr> lg_term = 1, lg_leader = nid 1, lg_index = i \<rparr>"

definition ex_stored :: stored_membership where
  "ex_stored = \<lparr> sm_log_id = Some (ex_lid 1), sm_membership = \<lparr> om_configs = [{|nid 1|}], om_nodes = {|nid 1|} \<rparr> \<rparr>"

definition ex_machine :: "state \<Rightarrow> change_set \<Rightarrow> machine" where
  "ex_machine s c = \<lparr> mc_durable = \<lparr> ds_model = s, ds_membership = ex_stored,
    ds_recovery_export_hash = None, ds_recovered_from = None \<rparr>, mc_changes = c \<rparr>"

definition ex_fresh :: machine where
  "ex_fresh = \<lparr> mc_durable = ex_durable, mc_changes = empty_changes \<rparr>"

definition ex_s1 :: state where
  "ex_s1 = ex_state\<lparr> st_membership := \<lparr> cm_voters = {|nid 1|}, cm_learners = {||}, cm_joint = False \<rparr>,
    st_membership_log_id := Some (ex_lid 1), st_last_applied := Some (ex_lid 1) \<rparr>"

definition ex_s2 :: state where
  "ex_s2 = ex_s1\<lparr> st_admins := {|nid 1|}, st_admin_revision := 1, st_growth_bytes := charge_admin,
    st_audit := [((1, 2), genesis_audit_row (ex_lid 2) SYS_GENESIS_INSTALLED)], st_audit_tip := Some (ex_lid 2),
    st_reserve_bytes := charge_audit None, st_last_applied := Some (ex_lid 2) \<rparr>"

lemma ex_joined: "apply_entry ex_externs (nid 9) ex_join ex_fresh = Inr (NonCommandReplyV1, ex_machine ex_s1 empty_changes)"
proof -
  have "ffilter (\<lambda>n. n \<noteq> nid 1) {|nid 1|} = {||}" by auto
  then show ?thesis
    by (simp add: ex_join_def ex_fresh_def ex_machine_def apply_entry_def ex_entry_def apply_membership_def
        ex_durable_def ex_state_def ex_s1_def ex_stored_def ex_lid_def guard_delivery_def Let_def
        project_membership_def voter_ids_def membership_names_root_def fcard_fempty coord_simps)
qed

lemma ex_founded:
  "\<exists>r c'. apply_entry ex_externs (nid 9) ex_found (ex_machine ex_s1 c) = Inr (r, ex_machine ex_s2 c')"
  by (simp add: ex_found_def ex_machine_def apply_entry_def ex_entry_def apply_normal_def ex_state_def ex_s1_def
      guard_delivery_def Let_def apply_wire_command_recording_def command_for_apply_def unknown_variant_def
      oversized_def check_encoded_command_def apply_command_recording_def dispatch_command_def apply_genesis_def
      ex_lid_def ex_verify ex_s2_def ex_verified_def write_audit_row_def put_admin_def upd_state_def set_growth_def
      set_reserve_def put_audit_def prune_audit.simps log_key_def genesis_audit_row_def recompute_growth_def
      add_u64_def u64_size_def charge_admin_def charge_audit_def charges_def fcard_fempty coord_simps)

text \<open>The grant: node 1 gives itself every right on the resource.\<close>

definition ex_ref :: "nat \<Rightarrow> client_ref" where
  "ex_ref n = \<lparr> cl_actor = nid 1, cl_client_id = replicate 16 3, cl_sequence = n, cl_request_hash = nid 5 \<rparr>"

definition ex_grant_action :: grant_action where
  "ex_grant_action =
    \<lparr> gt_resource = raw_key ex_key, gt_subject = nid 1, gt_rights = 0x3f, gt_expected_acl_revision = 0 \<rparr>"

definition ex_session :: "nat \<Rightarrow> outcome \<Rightarrow> resource_row \<Rightarrow> session" where
  "ex_session n o' row = \<lparr> se_last_sequence = n, se_request_hash = nid 5,
    se_last_result = Some (cr_reply (consumed_success o' ex_rk row)), se_retired = False \<rparr>"

definition ex_audited :: "i32 \<Rightarrow> outcome \<Rightarrow> nat \<Rightarrow> audit_row" where
  "ex_audited code o' e = \<lparr> au_leader_node_id = nid 1, au_actor = Some (nid 1), au_operation_code = code,
    au_resource = Some ex_rk, au_result = AuditClient o', au_epoch = e, au_value_revision = 0 \<rparr>"

definition ex_row3 :: resource_row where
  "ex_row3 = default_resource_row\<lparr> rr_acl_revision := 1 \<rparr>"

definition ex_s3 :: state where
  "ex_s3 = ex_s2\<lparr> st_resources := [(ex_rk, ex_row3)], st_acl := [((ex_rk, nid 1), 0x3f)],
    st_growth_bytes := 128 + 261 + 261,
    st_sessions := [((nid 1, replicate 16 3), ex_session 1 GrantUpdated ex_row3)],
    st_audit := st_audit ex_s2 @ [((1, 3), ex_audited 7 GrantUpdated 0)], st_audit_tip := Some (ex_lid 3),
    st_reserve_bytes := 256 + 2 * 261, st_last_applied := Some (ex_lid 3) \<rparr>"

text \<open>The lease: the same client acquires the resource.\<close>

definition ex_acquire_action :: resource_action where
  "ex_acquire_action = Acquire (raw_key ex_key) 5000"

definition ex_row4 :: resource_row where
  "ex_row4 = ex_row3\<lparr> rr_epoch := 1, rr_lease_revision := 1, rr_held := True, rr_holder := Some (nid 1),
    rr_ttl_ms := 5000 \<rparr>"

definition ex_s4 :: state where
  "ex_s4 = ex_s3\<lparr> st_resources := [(ex_rk, ex_row4)],
    st_sessions := [((nid 1, replicate 16 3), ex_session 2 Granted ex_row4)],
    st_audit := st_audit ex_s3 @ [((1, 4), ex_audited 1 Granted 1)], st_audit_tip := Some (ex_lid 4),
    st_reserve_bytes := 256 + 3 * 261, st_last_applied := Some (ex_lid 4) \<rparr>"

lemmas ex_states = ex_s4_def ex_s3_def ex_s2_def ex_s1_def ex_state_def ex_session_def ex_audited_def
  ex_row4_def ex_row3_def default_resource_row_def consumed_success_def consumed_result_def

lemmas ex_writers = put_resource_def put_grant_def put_session_def put_audit_def set_growth_def set_reserve_def
  upd_state_def charge_resource_row_def write_session_def write_audit_def write_audit_row_def prune_audit.simps
  old_session_charge_def session_charge_def sr_resource_def saved_snapshot_of_def log_key_def Let_def
  add_u64_def sub_u64_def u64_size_def

lemma ex_entry_lid: "ex_entry i p = \<lparr> en_log_id = ex_lid i, en_payload = p \<rparr>"
  by (simp add: ex_entry_def ex_lid_def)

lemma ex_ref_sel [simp]:
  "cl_actor (ex_ref n) = nid 1" "cl_client_id (ex_ref n) = replicate 16 3" "cl_sequence (ex_ref n) = n"
  "cl_request_hash (ex_ref n) = nid 5"
  by (simp_all add: ex_ref_def)

lemma ex_rk_charges:
  "charge_resource (rk_namespace ex_rk) (rk_key ex_rk) 0 = 261" "charge_acl (rk_namespace ex_rk) (rk_key ex_rk) = 261"
  "charge_audit (Some (rk_namespace ex_rk, rk_key ex_rk)) = 261"
  "charge_session (Some (rk_namespace ex_rk, rk_key ex_rk)) = 261" "charge_audit None = 256" "charge_admin = 128"
  by (simp_all add: ex_rk_def charge_resource_def charge_acl_def charge_audit_def charge_session_def
      charge_admin_def key_charge_def coord_simps)

lemma ex_guard:
  "guard_delivery ex_s2 (ex_lid 3) = None" "guard_delivery ex_s3 (ex_lid 4) = None"
  by (simp_all add: guard_delivery_def ex_s3_def ex_s2_def ex_lid_def)

lemma ex_commands:
  "command_for_apply ex_externs (ex_client (Suc 0) (SetGrantV1 \<lparr> sgv_resource = ex_key, sgv_target_node_id = nid 1,
    sgv_rights = 0x3f, sgv_expected_acl_revision = 0 \<rparr>)) = Inr (CClient (ex_ref (Suc 0)) (ActGrant ex_grant_action))"
  "command_for_apply ex_externs (ex_client 2 (AcquireV1 \<lparr> aqv_resource = ex_key, aqv_ttl_ms = 5000 \<rparr>))
    = Inr (CClient (ex_ref 2) (ActResource ex_acquire_action))"
  by (simp_all add: command_for_apply_def unknown_variant_def oversized_def check_encoded_command_def ex_client_def
      ex_ref_def ex_grant_action_def ex_acquire_action_def narrow_client_def narrow_hashed_action_def
      narrow_node_id_def narrow_client_id_def narrow_hash_def request_hash_def canonical_bytes_def ok_or_def
      coord_simps)

lemma ex_classify:
  "classify_client ex_s2 (ex_ref (Suc 0)) = Unresolved Row_NoSessionFirst True"
  "classify_client ex_s3 (ex_ref 2) = Unresolved Row_ExactNext False"
  by (simp_all add: classify_client_def classify_defs ex_states capacity_for_def retained_exhausted_def
      active_exhausted_def checked_add_u64_def u64_max_def coord_simps)

lemma ex_decide_grant:
  "grant_decide ex_s2 (nid 1) ex_grant_action = GApply \<lparr> ge_key = ex_rk, ge_subject = nid 1, ge_row = ex_row3,
    ge_creates_resource = True, ge_rights = Some 0x3f, ge_creates_acl_row = True, ge_fenced = False \<rparr>"
  by (simp add: grant_decide_def ex_grant_action_def ex_raw check_rights_def is_administrator_def Let_def
      grant_fences_def grants_on_def grant_growth_fits_def key_parts_def ex_rk_charges saturating_add_u64_def
      add_u64_def u64_size_def rights_are_known_def ex_states coord_simps)

lemma ex_decide_acquire:
  "resource_decide ex_s3 (nid 1) ex_acquire_action =
    RApply \<lparr> re_key = ex_rk, re_row = ex_row4, re_outcome = Granted, re_creates_resource = False \<rparr>"
  by (simp add: resource_decide_def ex_acquire_action_def ex_raw check_shape_def check_ttl_def decide_acquire_def
      granted_rights_def Let_def counters_have_room_def r_apply_def add_u64_def u64_size_def ex_states coord_simps)

lemma ex_granted:
  "\<exists>r c'. apply_entry ex_externs (nid 9) ex_grant (ex_machine ex_s2 c) = Inr (r, ex_machine ex_s3 c')"
proof -
  have "\<exists>r c'. apply_client ex_externs (ex_lid 3) (ex_ref (Suc 0)) (ActGrant ex_grant_action) (ex_s2, c)
      = (r, (ex_s3\<lparr> st_last_applied := Some (ex_lid 2) \<rparr>, c'))"
    by (simp add: apply_client_def ex_classify apply_decided_def action_decide_def ex_decide_grant)
      (simp add: apply_grant_effect_def ex_writers ex_rk_charges key_parts_def ex_states ex_lid_def coord_simps)
  then show ?thesis
    by (auto simp: ex_grant_def ex_machine_def apply_entry_def ex_entry_lid apply_normal_def
        apply_wire_command_recording_def ex_commands apply_command_recording_def dispatch_command_def ex_guard
        upd_state_def ex_s3_def)
qed

lemma ex_acquire_client:
  "\<exists>r c'. cr_disposition r = Consumed \<and>
    apply_client ex_externs (ex_lid 4) (ex_ref 2) (ActResource ex_acquire_action) (ex_s3, c)
      = (r, (ex_s4\<lparr> st_last_applied := Some (ex_lid 3) \<rparr>, c'))"
  by (simp add: apply_client_def ex_classify apply_decided_def action_decide_def ex_decide_acquire)
    (simp add: apply_resource_effect_def ex_writers ex_rk_charges key_parts_def ex_states ex_lid_def
      ex_acquire_action_def coord_simps)

lemma ex_acquired:
  "\<exists>r c'. apply_entry ex_externs (nid 9) ex_acquire (ex_machine ex_s3 c) = Inr (r, ex_machine ex_s4 c')"
  using ex_acquire_client [of c]
  by (auto simp: ex_acquire_def ex_machine_def apply_entry_def ex_entry_lid apply_normal_def
      apply_wire_command_recording_def ex_commands apply_command_recording_def dispatch_command_def ex_guard
      upd_state_def ex_s4_def)

lemma ex_acquire_command:
  "\<exists>r. cr_disposition r = Consumed \<and>
    apply_command ex_externs ex_s3 (ex_lid 4) (CClient (ex_ref 2) (ActResource ex_acquire_action))
      = (Inr (ReplyClient r), ex_s4)"
  using ex_acquire_client [of empty_changes]
  by (auto simp: apply_command_def apply_command_recording_def dispatch_command_def ex_guard upd_state_def ex_s4_def)

text \<open>The log runs.\<close>

lemma ex_run:
  "\<exists>rs c. apply_entries ex_externs (nid 9) [ex_join, ex_found, ex_grant] ex_fresh = Inr (rs, ex_machine ex_s3 c)"
  "\<exists>rs c'. apply_entries ex_externs (nid 9) [ex_acquire] (ex_machine ex_s3 c) = Inr (rs, ex_machine ex_s4 c')"
proof -
  obtain r2 c2 where r2: "apply_entry ex_externs (nid 9) ex_found (ex_machine ex_s1 empty_changes) = Inr (r2, ex_machine ex_s2 c2)"
    using ex_founded by blast
  obtain r3 c3 where r3: "apply_entry ex_externs (nid 9) ex_grant (ex_machine ex_s2 c2) = Inr (r3, ex_machine ex_s3 c3)"
    using ex_granted by blast
  show "\<exists>rs c. apply_entries ex_externs (nid 9) [ex_join, ex_found, ex_grant] ex_fresh = Inr (rs, ex_machine ex_s3 c)"
    by (auto simp: ex_joined r2 r3)
  show "\<exists>rs c'. apply_entries ex_externs (nid 9) [ex_acquire] (ex_machine ex_s3 c) = Inr (rs, ex_machine ex_s4 c')"
    using ex_acquired [of c] by auto
qed

text \<open>The fresh group satisfies the invariant, and the first three entries are legal.\<close>

lemma ex_fresh_inv: "machine_inv ex_externs (\<lambda>_. 7) ex_fresh"
proof -
  have "ffilter (\<lambda>n. True) {||} = ({||} :: node_id fset)" by auto
  then show ?thesis
    by (simp add: machine_inv_def meta_inv_def state_inv_def ex_fresh_def ex_durable_def ex_state_def Let_def
        ex_domain_ok PROFILES_def project_membership_def voter_ids_def check_root_not_a_member_def
        membership_names_root_def tables_inv_def resources_inv_def acl_inv_def grants_on_def admins_inv_def
        check_admin_revision_def growth_inv_def growth_tracks_def growth_total_def installed_inv_def
        membership_inv_def intents_inv_def active_ops_def terminal_ops_def routes_inv_def stamps_inv_def
        session_inv_def capacity_for_def within_capacity_def reserve_tracks_def reserve_total_def audit_inv_def
        cm_members_def MEMBER_ROUTES_def fcard_fempty coord_simps)
qed

lemma ex_legal: "legal_entries ex_externs (nid 9) (\<lambda>_. 7) [ex_join, ex_found, ex_grant] ex_fresh"
proof -
  obtain r2 c2 where r2: "apply_entry ex_externs (nid 9) ex_found (ex_machine ex_s1 empty_changes) = Inr (r2, ex_machine ex_s2 c2)"
    using ex_founded by blast
  obtain r3 c3 where r3: "apply_entry ex_externs (nid 9) ex_grant (ex_machine ex_s2 c2) = Inr (r3, ex_machine ex_s3 c3)"
    using ex_granted by blast
  have "legal_entry (\<lambda>_. 7) ex_join ex_fresh" "legal_entry (\<lambda>_. 7) ex_found (ex_machine ex_s1 empty_changes)"
    "legal_entry (\<lambda>_. 7) ex_grant (ex_machine ex_s2 c2)"
    by (simp_all add: legal_entry_def in_order_def wide_log_def wide_node_def legal_membership_def legal_command_def
        ex_join_def ex_found_def ex_grant_def ex_entry_lid ex_fresh_def ex_durable_def ex_machine_def ex_s2_def
        ex_s1_def ex_state_def ex_lid_def ex_client_def profile_permits_voters_def fcard_finsert_if voter_ids_def
        coord_simps)
  then show ?thesis by (simp add: ex_joined r2 r3)
qed

text \<open>The state before the grant, and the machine the acquisition starts from.\<close>

lemma ex_before_grant:
  "\<exists>c. machine_inv ex_externs (\<lambda>_. 7) (ex_machine ex_s2 c) \<and> legal_entry (\<lambda>_. 7) ex_grant (ex_machine ex_s2 c) \<and>
    (\<exists>r c'. apply_entry ex_externs (nid 9) ex_grant (ex_machine ex_s2 c) = Inr (r, ex_machine ex_s3 c'))"
proof -
  obtain r2 c2 where r2: "apply_entry ex_externs (nid 9) ex_found (ex_machine ex_s1 empty_changes) = Inr (r2, ex_machine ex_s2 c2)"
    using ex_founded by blast
  from ex_legal have legal: "legal_entry (\<lambda>_. 7) ex_join ex_fresh"
    "legal_entry (\<lambda>_. 7) ex_found (ex_machine ex_s1 empty_changes)" "legal_entry (\<lambda>_. 7) ex_grant (ex_machine ex_s2 c2)"
    by (simp_all add: ex_joined r2)
  have "machine_inv ex_externs (\<lambda>_. 7) (ex_machine ex_s1 empty_changes)"
    by (rule apply_entry_inv [OF legal(1) ex_fresh_inv ex_joined])
  from apply_entry_inv [OF legal(2) this r2] legal(3) ex_granted [of c2] show ?thesis by blast
qed

lemma ex_after_grant: "\<exists>c. machine_inv ex_externs (\<lambda>_. 7) (ex_machine ex_s3 c)"
  using ex_before_grant apply_entry_inv by blast

lemma ex_batch: "\<exists>rs c. machine_apply ex_externs [ex_acquire] (mc_durable (ex_machine ex_s3 empty_changes))
    = Inr (rs, mc_durable (ex_machine ex_s4 c), c)"
proof -
  have "ga_group_id (st_authority ex_s3) = nid 9" by (simp add: ex_states)
  then show ?thesis using ex_run(2) [of empty_changes] by (simp add: machine_apply_Inr ex_machine_def)
qed

end
