(* ===== verification/Storage_Codec.thy ===== *)
theory Storage_Codec
  imports Prelude
begin

text \<open>
  What the two databases of a voter share: the named failures (\<open>coordination/storage/error.rs\<close>)
  with the classification that decides which of them stop the store, and the encoding of stored
  values with their ceilings (\<open>coordination/storage/codec.rs\<close>).  The paths, sources and detail
  texts of an error are for an operator and are left out.  The Fory serializer is a parameter, one
  \<open>codec\<close> per stored root; what is relied on is that it decodes what it encoded (\<open>faithful\<close>).
\<close>

section \<open>Failures\<close>

datatype db = DbRaft | DbState

datatype storage_error =
    LockContended
  | LockIo
  | Io string
  | SymlinkedPath
  | BroadPermissions nat
  | FreshDatabaseUnclean db
  | TransactionInProgress db
  | Integrity db
  | UnknownTable db string
  | MissingTable db string
  | TableTypeMismatch db string
  | UnknownMetaKey db string
  | MissingMetaKey db string
  | SchemaVersion db nat nat
  | CodecVersion db nat nat
  | IdentityMismatch db string
  | PartialInitialization
  | LogGap u64 u64 string
  | SnapshotTooLarge u64 u64
  | SnapshotRejected
  | SnapshotBehind
  | ActorStopped db
  | Fatal
  | StoredCorruption db string
  | ActorSpawn db
  | EncodeFailed db string
  | Redb db
  | RecoveryImportRefused

definition puts_durability_in_question :: "storage_error \<Rightarrow> bool" where
  "puts_durability_in_question e =
    (case e of
       LogGap _ _ _ \<Rightarrow> False
     | EncodeFailed _ _ \<Rightarrow> False
     | SnapshotRejected \<Rightarrow> False
     | _ \<Rightarrow> True)"

section \<open>Stored values\<close>

record 'a codec =
  co_ser :: "'a \<Rightarrow> bytes option"
  co_de :: "bytes \<Rightarrow> 'a option"

definition faithful :: "'a codec \<Rightarrow> bool" where
  "faithful c = (\<forall>x bs. co_ser c x = Some bs \<longrightarrow> co_de c bs = Some x)"

definition check_stored_len :: "db \<Rightarrow> string \<Rightarrow> bytes \<Rightarrow> nat \<Rightarrow> storage_error option" where
  "check_stored_len db what bs max_bytes =
    (if length bs > max_bytes then Some (StoredCorruption db what) else None)"

definition copy_stored_bounded :: "db \<Rightarrow> string \<Rightarrow> bytes \<Rightarrow> nat \<Rightarrow> storage_error + bytes" where
  "copy_stored_bounded db what bs max_bytes =
    (case check_stored_len db what bs max_bytes of Some e \<Rightarrow> Inl e | None \<Rightarrow> Inr bs)"

definition decode_persisted :: "db \<Rightarrow> 'a codec \<Rightarrow> string \<Rightarrow> bytes \<Rightarrow> storage_error + 'a" where
  "decode_persisted db c what bs =
    (case co_de c bs of None \<Rightarrow> Inl (StoredCorruption db what) | Some x \<Rightarrow> Inr x)"

definition decode_persisted_bounded :: "db \<Rightarrow> 'a codec \<Rightarrow> string \<Rightarrow> bytes \<Rightarrow> nat \<Rightarrow> storage_error + 'a" where
  "decode_persisted_bounded db c what bs max_bytes =
    (case check_stored_len db what bs max_bytes of
       Some e \<Rightarrow> Inl e
     | None \<Rightarrow> decode_persisted db c what bs)"

definition encode_owned :: "db \<Rightarrow> 'a codec \<Rightarrow> string \<Rightarrow> 'a \<Rightarrow> storage_error + bytes" where
  "encode_owned db c what x = (case co_ser c x of None \<Rightarrow> Inl (EncodeFailed db what) | Some bs \<Rightarrow> Inr bs)"

definition encode_bounded :: "db \<Rightarrow> 'a codec \<Rightarrow> string \<Rightarrow> 'a \<Rightarrow> nat \<Rightarrow> storage_error + bytes" where
  "encode_bounded db c what x max_bytes =
    sum_bind (encode_owned db c what x) (\<lambda>bs.
      if length bs > max_bytes then Inl (EncodeFailed db what) else Inr bs)"

text \<open>A conversion whose failure is corruption of what the store holds.\<close>

definition corrupt_in :: "db \<Rightarrow> string \<Rightarrow> 'e + 'a \<Rightarrow> storage_error + 'a" where
  "corrupt_in db what r = (case r of Inl _ \<Rightarrow> Inl (StoredCorruption db what) | Inr x \<Rightarrow> Inr x)"

definition encode_committed :: "db \<Rightarrow> 'a codec \<Rightarrow> string \<Rightarrow> 'a \<Rightarrow> nat \<Rightarrow> storage_error + bytes" where
  "encode_committed db c what x max_bytes = corrupt_in db what (encode_bounded db c what x max_bytes)"

section \<open>Commits\<close>

text \<open>What redb does with a transaction at its commit (\<open>coordination/storage/schema.rs\<close>).  It takes
  effect as a whole or not at all; an error does not say which.\<close>

datatype redb_commit = Landed | Lost | LandedUnacknowledged

definition durable_commit :: "db \<Rightarrow> redb_commit \<Rightarrow> 's \<Rightarrow> 's \<Rightarrow> (storage_error + unit) \<times> 's" where
  "durable_commit db landed new old =
    (case landed of
       Landed \<Rightarrow> (Inr (), new)
     | Lost \<Rightarrow> (Inl (Redb db), old)
     | LandedUnacknowledged \<Rightarrow> (Inl (Redb db), new))"

lemma durable_commit_simps [simp]:
  "durable_commit db Landed new old = (Inr (), new)" "durable_commit db Lost new old = (Inl (Redb db), old)"
  "durable_commit db LandedUnacknowledged new old = (Inl (Redb db), new)"
  by (simp_all add: durable_commit_def)

section \<open>Lemmas\<close>

lemma corrupt_in_Inr [simp]:
  "corrupt_in db what r = Inr x \<longleftrightarrow> r = Inr x" "corrupt_in db what (Inr x) = Inr x"
  "corrupt_in db what (Inl e) = Inl (StoredCorruption db what)"
  by (cases r; simp add: corrupt_in_def)+

lemma encode_bounded_decode:
  assumes "faithful c" "encode_bounded db c what x n = Inr bs"
  shows "decode_persisted_bounded db' c what' bs n = Inr x"
  using assms
  by (auto simp: encode_bounded_def encode_owned_def sum_bind_Inr faithful_def
      decode_persisted_bounded_def check_stored_len_def decode_persisted_def split: option.splits if_splits)

lemma encode_decode:
  assumes "faithful c" "encode_committed db c what x n = Inr bs"
  shows "decode_persisted_bounded db' c what' bs n = Inr x"
  using assms encode_bounded_decode by (auto simp: encode_committed_def)

text \<open>Encoding before a transaction is the only failure of the codec a caller may retry.\<close>

lemma codec_errors:
  "encode_bounded db c what x n = Inl e \<Longrightarrow> \<not> puts_durability_in_question e"
  "encode_committed db c what x n = Inl e \<Longrightarrow> puts_durability_in_question e"
  "decode_persisted_bounded db c what bs n = Inl e \<Longrightarrow> puts_durability_in_question e"
  by (auto simp: encode_committed_def encode_bounded_def encode_owned_def corrupt_in_def
      decode_persisted_bounded_def check_stored_len_def decode_persisted_def puts_durability_in_question_def
      sum_bind_Inl split: option.splits if_splits sum.splits)

end
