(* ===== verification/Coord_Meta.thy ===== *)
theory Coord_Meta
  imports Coord_Rows Storage_Codec
begin

text \<open>
  The metadata row of a store: its stored form (\<open>coordination/raft.rs\<close>), the conversion of
  OpenRaft's membership to and from it (\<open>coordination/convert.rs\<close>), and the rules a stored row
  must satisfy before it is narrowed (\<open>coordination/storage/rows.rs\<close>).  A membership is checked by
  a canonical round trip.  Metadata that satisfies \<open>binding_good\<close> survives its own round trip.
\<close>

section \<open>The stored form\<close>

record raft_node_id_v1 =
  rnv_node_id :: bytes

record node_id_set_v1 =
  nsv_ids :: "raft_node_id_v1 list"

record node_entry_v1 =
  nev_node_id :: bytes
  nev_format_version :: nat

record membership_v1 =
  mbv_configs :: "node_id_set_v1 list"
  mbv_nodes :: "node_entry_v1 list"

record stored_membership_v1 =
  smv_log_id :: "log_id_v1 option"
  smv_membership :: membership_v1

record coordination_meta_v1 =
  cmm_schema_version :: nat
  cmm_group_id :: bytes
  cmm_genesis_hash :: bytes
  cmm_authority_public_key :: bytes
  cmm_authority_domain :: string
  cmm_deployment_profile_code :: i32
  cmm_last_applied :: "log_id_v1 option"
  cmm_membership :: stored_membership_v1
  cmm_admin_revision :: u64
  cmm_recovery_export_hash :: "bytes option"
  cmm_recovered_from :: "recovered_from_v1 option"
  cmm_aggregate_growth_bytes :: u64
  cmm_aggregate_reserve_bytes :: u64
  cmm_audit_floor :: "log_id_v1 option"

abbreviation Corrupt :: "string \<Rightarrow> storage_error" where
  "Corrupt \<equiv> StoredCorruption DbState"

definition LOGICAL_SCHEMA_VERSION :: nat where
  [coord_simps]: "LOGICAL_SCHEMA_VERSION = 1"

definition NODE_FORMAT_VERSION :: nat where
  [coord_simps]: "NODE_FORMAT_VERSION = 1"

section \<open>Membership\<close>

datatype mirror_error = NodeIdLength string nat | EmptyMembership | UnknownNodeFormat nat | UnknownPayloadVariant

definition mirror_node_id :: "string \<Rightarrow> bytes \<Rightarrow> mirror_error + node_id" where
  "mirror_node_id field bs = (if length bs = NODE_ID_LEN then Inr bs else Inl (NodeIdLength field (length bs)))"

definition mirror_log_id :: "log_id_v1 \<Rightarrow> mirror_error + log_id" where
  "mirror_log_id l =
    sum_bind (mirror_node_id ''log_id.leader_node_id'' (lgv_leader_node_id l)) (\<lambda>leader.
      Inr \<lparr> lg_term = lgv_term l, lg_leader = leader, lg_index = lgv_index l \<rparr>)"

definition membership_to_wire :: "raft_membership \<Rightarrow> membership_v1" where
  "membership_to_wire m =
    \<lparr> mbv_configs = map (\<lambda>c. \<lparr> nsv_ids = map (\<lambda>n. \<lparr> rnv_node_id = n \<rparr>) (sorted_list_of_fset c) \<rparr>) (om_configs m),
      mbv_nodes = map (\<lambda>n. \<lparr> nev_node_id = n, nev_format_version = NODE_FORMAT_VERSION \<rparr>)
        (sorted_list_of_fset (om_nodes m)) \<rparr>"

definition mirror_config :: "node_id_set_v1 \<Rightarrow> mirror_error + node_id fset" where
  "mirror_config c =
    sum_bind (collect_result (\<lambda>n. mirror_node_id ''membership.config'' (rnv_node_id n)) (nsv_ids c)) (\<lambda>ids.
      Inr (fset_of_list ids))"

definition mirror_node_entry :: "node_entry_v1 \<Rightarrow> mirror_error + node_id" where
  "mirror_node_entry e =
    (if nev_format_version e \<noteq> NODE_FORMAT_VERSION then Inl (UnknownNodeFormat (nev_format_version e))
     else mirror_node_id ''membership.node'' (nev_node_id e))"

definition membership_from_wire :: "membership_v1 \<Rightarrow> mirror_error + raft_membership" where
  "membership_from_wire w =
    (if mbv_configs w = [] then Inl EmptyMembership
     else
       sum_bind (collect_result mirror_config (mbv_configs w)) (\<lambda>configs.
       sum_bind (collect_result mirror_node_entry (mbv_nodes w)) (\<lambda>nodes.
         Inr \<lparr> om_configs = configs, om_nodes = fset_of_list nodes |\<union>| foldr (|\<union>|) configs {||} \<rparr>)))"

definition stored_membership_to_wire :: "stored_membership \<Rightarrow> stored_membership_v1" where
  "stored_membership_to_wire m =
    \<lparr> smv_log_id = map_option log_id_to_wire (sm_log_id m),
      smv_membership = membership_to_wire (sm_membership m) \<rparr>"

definition mirror_stored_membership :: "stored_membership_v1 \<Rightarrow> mirror_error + stored_membership" where
  "mirror_stored_membership w =
    sum_bind (opt_result mirror_log_id (smv_log_id w)) (\<lambda>l.
    sum_bind (membership_from_wire (smv_membership w)) (\<lambda>m.
      Inr \<lparr> sm_log_id = l, sm_membership = m \<rparr>))"

text \<open>A membership that OpenRaft holds, and the one a fresh store starts with.\<close>

definition no_membership :: stored_membership where
  "no_membership = \<lparr> sm_log_id = None, sm_membership = \<lparr> om_configs = [], om_nodes = {||} \<rparr> \<rparr>"

definition membership_wf :: "stored_membership \<Rightarrow> bool" where
  "membership_wf m =
    (m = no_membership \<or>
     om_configs (sm_membership m) \<noteq> [] \<and> voter_ids (sm_membership m) |\<subseteq>| om_nodes (sm_membership m) \<and>
     fBall (om_nodes (sm_membership m)) wide_node \<and> pred_option wide_log (sm_log_id m))"

lemma sorted_list_of_fempty [simp]: "sorted_list_of_fset {||} = []"
proof -
  have "set (sorted_list_of_fset {||}) = {}" by simp
  then show ?thesis by (simp only: set_empty)
qed

lemma mirror_node_id_wide [simp]: "wide_node n \<Longrightarrow> mirror_node_id field n = Inr n"
  by (simp add: wide_node_def mirror_node_id_def)

lemma mirror_config_back:
  assumes "fBall c wide_node"
  shows "mirror_config \<lparr> nsv_ids = map (\<lambda>n. \<lparr> rnv_node_id = n \<rparr>) (sorted_list_of_fset c) \<rparr> = Inr c"
proof -
  have "collect_result (\<lambda>n. mirror_node_id ''membership.config'' (rnv_node_id n))
      (map (\<lambda>n. \<lparr> rnv_node_id = n \<rparr>) (sorted_list_of_fset c)) = Inr (sorted_list_of_fset c)"
    using assms by (intro collect_result_map) simp
  then show ?thesis by (simp add: mirror_config_def)
qed

lemma configs_subset: "c \<in> set cs \<Longrightarrow> c |\<subseteq>| foldr (|\<union>|) cs {||}"
  by (induction cs) auto

lemma membership_back:
  assumes "om_configs m \<noteq> []" "voter_ids m |\<subseteq>| om_nodes m" "fBall (om_nodes m) wide_node"
  shows "membership_from_wire (membership_to_wire m) = Inr m"
proof -
  have "fBall c wide_node" if "c \<in> set (om_configs m)" for c
    using that assms(2,3) configs_subset [OF that] by (fastforce simp: voter_ids_def)
  then have configs: "collect_result mirror_config (mbv_configs (membership_to_wire m)) = Inr (om_configs m)"
    unfolding membership_to_wire_def by (simp add: collect_result_map mirror_config_back)
  have nodes: "collect_result mirror_node_entry (mbv_nodes (membership_to_wire m)) = Inr (sorted_list_of_fset (om_nodes m))"
    unfolding membership_to_wire_def using assms(3) by (auto intro!: collect_result_map simp: mirror_node_entry_def)
  have "om_nodes m |\<union>| foldr (|\<union>|) (om_configs m) {||} = om_nodes m"
    using assms(2) by (auto simp: voter_ids_def)
  moreover have "mbv_configs (membership_to_wire m) \<noteq> []" using assms(1) by (simp add: membership_to_wire_def)
  ultimately show ?thesis by (simp add: membership_from_wire_def configs nodes)
qed

section \<open>The rules of a stored row\<close>

primrec first_error :: "'e option list \<Rightarrow> 'e option" where
  "first_error [] = None"
| "first_error (x # xs) = (case x of None \<Rightarrow> first_error xs | Some e \<Rightarrow> Some e)"

definition check_width :: "string \<Rightarrow> bytes \<Rightarrow> nat \<Rightarrow> storage_error option" where
  "check_width what bs n = (if length bs \<noteq> n then Some (Corrupt what) else None)"

definition check_log_width :: "string \<Rightarrow> log_id_v1 option \<Rightarrow> storage_error option" where
  "check_log_width what l =
    (case l of None \<Rightarrow> None | Some l \<Rightarrow> check_width what (lgv_leader_node_id l) 32)"

definition check_domain :: "string \<Rightarrow> string \<Rightarrow> storage_error option" where
  "check_domain what domain = (if check_authority_domain domain then None else Some (Corrupt what))"

definition check_recovered_from :: "bytes option \<Rightarrow> recovered_from_v1 \<Rightarrow> storage_error option" where
  "check_recovered_from export source =
    first_error
      [check_width ''RecoveredFromV1.source_group_id'' (rfv_source_group_id source) 32,
       check_width ''RecoveredFromV1.source_genesis_hash'' (rfv_source_genesis_hash source) 32,
       check_width ''RecoveredFromV1.source_authority_public_key'' (rfv_source_authority_public_key source) 32,
       check_width ''RecoveredFromV1.export_hash'' (rfv_export_hash source) 32,
       check_domain ''RecoveredFromV1.source_authority_domain'' (rfv_source_authority_domain source),
       check_log_width ''RecoveredFromV1.source_last_applied'' (rfv_source_last_applied source),
       (case export of
          None \<Rightarrow> Some (Corrupt ''CoordinationMetaV1.recovery_export_hash'')
        | Some h \<Rightarrow>
            if h \<noteq> rfv_export_hash source then Some (Corrupt ''CoordinationMetaV1.recovery_export_hash'') else None)]"

definition membership_is_canonical :: "membership_v1 \<Rightarrow> bool" where
  "membership_is_canonical w =
    (case membership_from_wire w of
       Inl _ \<Rightarrow> False
     | Inr converted \<Rightarrow> membership_to_wire converted = w)"

definition validate_meta_wire :: "coordination_meta_v1 \<Rightarrow> storage_error option" where
  "validate_meta_wire meta =
    (if cmm_schema_version meta \<noteq> LOGICAL_SCHEMA_VERSION
       then Some (SchemaVersion DbState (cmm_schema_version meta) LOGICAL_SCHEMA_VERSION)
     else first_error
       [check_width ''CoordinationMetaV1.group_id'' (cmm_group_id meta) 32,
        check_width ''CoordinationMetaV1.genesis_hash'' (cmm_genesis_hash meta) 32,
        check_width ''CoordinationMetaV1.authority_public_key'' (cmm_authority_public_key meta) 32,
        check_domain ''CoordinationMetaV1.authority_domain'' (cmm_authority_domain meta),
        (case cmm_recovery_export_hash meta of
           None \<Rightarrow> None | Some h \<Rightarrow> check_width ''CoordinationMetaV1.recovery_export_hash'' h 32),
        (case cmm_recovered_from meta of
           None \<Rightarrow> None | Some source \<Rightarrow> check_recovered_from (cmm_recovery_export_hash meta) source),
        check_log_width ''CoordinationMetaV1.last_applied'' (cmm_last_applied meta),
        check_log_width ''CoordinationMetaV1.audit_floor'' (cmm_audit_floor meta),
        check_log_width ''StoredMembershipV1.log_id'' (smv_log_id (cmm_membership meta)),
        (let w = smv_membership (cmm_membership meta) in
         if mbv_configs w = [] \<and> mbv_nodes w = [] then None
         else if membership_is_canonical w then None else Some (Corrupt ''StoredMembershipV1.membership''))])"

section \<open>Narrowing and widening\<close>

definition meta_to_wire :: "durable_state \<Rightarrow> coordination_meta_v1" where
  "meta_to_wire d =
    (let s = ds_model d; a = st_authority s in
     \<lparr> cmm_schema_version = LOGICAL_SCHEMA_VERSION,
       cmm_group_id = ga_group_id a, cmm_genesis_hash = ga_genesis_hash a,
       cmm_authority_public_key = ga_public_key a, cmm_authority_domain = ga_domain a,
       cmm_deployment_profile_code = st_deployment_profile_code s,
       cmm_last_applied = map_option log_id_to_wire (st_last_applied s),
       cmm_membership = stored_membership_to_wire (ds_membership d),
       cmm_admin_revision = st_admin_revision s,
       cmm_recovery_export_hash = ds_recovery_export_hash d, cmm_recovered_from = ds_recovered_from d,
       cmm_aggregate_growth_bytes = st_growth_bytes s, cmm_aggregate_reserve_bytes = st_reserve_bytes s,
       cmm_audit_floor = map_option log_id_to_wire (st_audit_floor s) \<rparr>)"

abbreviation corrupt_if :: "string \<Rightarrow> 'e + 'a \<Rightarrow> storage_error + 'a" where
  "corrupt_if \<equiv> corrupt_in DbState"

definition stored_membership_from_wire :: "string \<Rightarrow> stored_membership_v1 \<Rightarrow> storage_error + stored_membership" where
  "stored_membership_from_wire what w =
    (if smv_log_id w = None \<and> mbv_configs (smv_membership w) = [] \<and> mbv_nodes (smv_membership w) = []
       then Inr no_membership
     else corrupt_if what (mirror_stored_membership w))"

definition array32 :: "string \<Rightarrow> bytes \<Rightarrow> storage_error + bytes" where
  "array32 what bs = (if length bs = 32 then Inr bs else Inl (Corrupt what))"

definition meta_log_id :: "string \<Rightarrow> log_id_v1 option \<Rightarrow> storage_error + log_id option" where
  "meta_log_id what l = corrupt_if what (opt_result log_id_from_wire l)"

text \<open>The state the metadata describes, with no rows yet.\<close>

definition meta_from_wire :: "coordination_meta_v1 \<Rightarrow> storage_error + durable_state" where
  "meta_from_wire meta =
    (case validate_meta_wire meta of
       Some e \<Rightarrow> Inl e
     | None \<Rightarrow>
       sum_bind (stored_membership_from_wire ''CoordinationMetaV1.membership'' (cmm_membership meta)) (\<lambda>membership.
       sum_bind (array32 ''CoordinationMetaV1.authority_public_key'' (cmm_authority_public_key meta)) (\<lambda>key.
       sum_bind (array32 ''CoordinationMetaV1.group_id'' (cmm_group_id meta)) (\<lambda>gid.
       sum_bind (array32 ''CoordinationMetaV1.genesis_hash'' (cmm_genesis_hash meta)) (\<lambda>genesis.
       sum_bind (meta_log_id ''CoordinationMetaV1.last_applied'' (cmm_last_applied meta)) (\<lambda>applied.
       sum_bind (meta_log_id ''CoordinationMetaV1.audit_floor'' (cmm_audit_floor meta)) (\<lambda>fl.
         Inr \<lparr> ds_model =
             \<lparr> st_resources = [], st_acl = [], st_admins = {||}, st_sessions = [], st_intents = [], st_routes = [],
               st_audit_tip = None, st_audit = [],
               st_growth_bytes = cmm_aggregate_growth_bytes meta, st_reserve_bytes = cmm_aggregate_reserve_bytes meta,
               st_admin_revision = cmm_admin_revision meta,
               st_authority = \<lparr> ga_public_key = key, ga_domain = cmm_authority_domain meta, ga_group_id = gid,
                 ga_genesis_hash = genesis \<rparr>,
               st_deployment_profile_code = cmm_deployment_profile_code meta,
               st_membership = project_membership (sm_membership membership),
               st_membership_log_id = sm_log_id membership,
               st_audit_floor = fl, st_last_applied = applied \<rparr>,
           ds_membership = membership,
           ds_recovery_export_hash = cmm_recovery_export_hash meta,
           ds_recovered_from = cmm_recovered_from meta \<rparr>)))))))"

text \<open>The check an import runs before it writes: what a load would refuse.\<close>

definition validate_before_commit :: "externs \<Rightarrow> durable_state \<Rightarrow> storage_error option" where
  "validate_before_commit E d =
    (case validate_meta_wire (meta_to_wire d) of
       Some e \<Rightarrow> Some e
     | None \<Rightarrow> map_option Corrupt (validate E d))"

section \<open>The round trip\<close>

text \<open>What the metadata of a state must satisfy to be narrowed again.\<close>

definition binding_good :: "durable_state \<Rightarrow> bool" where
  "binding_good d =
    (let s = ds_model d; a = st_authority s in
     length (ga_group_id a) = 32 \<and> length (ga_genesis_hash a) = 32 \<and> length (ga_public_key a) = 32 \<and>
     check_authority_domain (ga_domain a) \<and>
     pred_option (\<lambda>h. length h = 32) (ds_recovery_export_hash d) \<and>
     pred_option (\<lambda>r. check_recovered_from (ds_recovery_export_hash d) r = None) (ds_recovered_from d) \<and>
     pred_option wide_log (st_last_applied s) \<and> pred_option wide_log (st_audit_floor s) \<and>
     membership_wf (ds_membership d) \<and>
     st_membership s = project_membership (sm_membership (ds_membership d)) \<and>
     st_membership_log_id s = sm_log_id (ds_membership d))"

text \<open>A state without its rows.\<close>

definition bare :: "durable_state \<Rightarrow> durable_state" where
  "bare d = d\<lparr> ds_model := (ds_model d)\<lparr> st_resources := [], st_acl := [], st_admins := {||}, st_sessions := [],
    st_intents := [], st_routes := [], st_audit_tip := None, st_audit := [] \<rparr> \<rparr>"

lemma check_log_width_wide: "pred_option wide_log l \<Longrightarrow> check_log_width what (map_option log_id_to_wire l) = None"
  by (cases l) (simp_all add: check_log_width_def check_width_def wide_log_def wide_node_def log_id_to_wire_def coord_simps)

lemma meta_log_id_back: "pred_option wide_log l \<Longrightarrow> meta_log_id what (map_option log_id_to_wire l) = Inr l"
  using opt_log_id_back [of l] by (simp add: meta_log_id_def opt_log_id_def)

lemma mirror_log_id_back: "wide_log l \<Longrightarrow> mirror_log_id (log_id_to_wire l) = Inr l"
  by (simp add: mirror_log_id_def log_id_to_wire_def wide_log_def)

lemma stored_membership_back:
  assumes "membership_wf m"
  shows "stored_membership_from_wire what (stored_membership_to_wire m) = Inr m"
proof (cases "m = no_membership")
  case True
  then show ?thesis
    by (simp add: stored_membership_from_wire_def stored_membership_to_wire_def no_membership_def membership_to_wire_def)
next
  case False
  with assms have wf: "om_configs (sm_membership m) \<noteq> []" "voter_ids (sm_membership m) |\<subseteq>| om_nodes (sm_membership m)"
    "fBall (om_nodes (sm_membership m)) wide_node" "pred_option wide_log (sm_log_id m)"
    by (simp_all add: membership_wf_def)
  have "opt_result mirror_log_id (map_option log_id_to_wire (sm_log_id m)) = Inr (sm_log_id m)"
    using wf(4) by (intro opt_result_map) (auto simp: option.pred_set mirror_log_id_back)
  then have "mirror_stored_membership (stored_membership_to_wire m) = Inr m"
    using membership_back [OF wf(1-3)] by (simp add: mirror_stored_membership_def stored_membership_to_wire_def)
  then show ?thesis
    using wf(1) by (simp add: stored_membership_from_wire_def stored_membership_to_wire_def membership_to_wire_def)
qed

lemma membership_canonical:
  assumes "membership_wf m"
  shows "mbv_configs (smv_membership (stored_membership_to_wire m)) = [] \<and>
      mbv_nodes (smv_membership (stored_membership_to_wire m)) = [] \<or>
    membership_is_canonical (smv_membership (stored_membership_to_wire m))"
  using assms membership_back [of "sm_membership m"]
  by (auto simp: membership_wf_def no_membership_def stored_membership_to_wire_def membership_is_canonical_def
      membership_to_wire_def)

lemma meta_wire_valid:
  assumes "binding_good d"
  shows "validate_meta_wire (meta_to_wire d) = None"
proof -
  have m: "membership_wf (ds_membership d)" using assms by (simp add: binding_good_def Let_def)
  have "pred_option wide_log (sm_log_id (ds_membership d))"
    using m by (auto simp: membership_wf_def no_membership_def)
  then have "check_log_width what (smv_log_id (stored_membership_to_wire (ds_membership d))) = None" for what
    by (simp add: stored_membership_to_wire_def check_log_width_wide)
  with membership_canonical [OF m] assms show ?thesis
    by (cases "ds_recovery_export_hash d"; cases "ds_recovered_from d")
      (auto simp: validate_meta_wire_def meta_to_wire_def binding_good_def Let_def check_width_def check_domain_def
        check_log_width_wide)
qed

theorem meta_back:
  assumes "binding_good d"
  shows "meta_from_wire (meta_to_wire d) = Inr (bare d)"
proof -
  have "stored_membership_from_wire what (cmm_membership (meta_to_wire d)) = Inr (ds_membership d)" for what
    using assms stored_membership_back by (simp add: meta_to_wire_def binding_good_def Let_def)
  moreover have "array32 what (cmm_authority_public_key (meta_to_wire d)) = Inr (ga_public_key (st_authority (ds_model d)))"
    "array32 what (cmm_group_id (meta_to_wire d)) = Inr (ga_group_id (st_authority (ds_model d)))"
    "array32 what (cmm_genesis_hash (meta_to_wire d)) = Inr (ga_genesis_hash (st_authority (ds_model d)))"
    "meta_log_id what (cmm_last_applied (meta_to_wire d)) = Inr (st_last_applied (ds_model d))"
    "meta_log_id what (cmm_audit_floor (meta_to_wire d)) = Inr (st_audit_floor (ds_model d))" for what
    using assms by (simp_all add: meta_to_wire_def binding_good_def Let_def array32_def meta_log_id_back)
  ultimately show ?thesis
    using meta_wire_valid [OF assms] assms
    by (simp add: meta_from_wire_def)
      (simp add: meta_to_wire_def bare_def binding_good_def Let_def)
qed

end
