(* ===== verification/Row_Store.thy ===== *)
theory Row_Store
  imports Btree_Map
begin

text \<open>
  Tables of encoded rows.  A table of the key-value store holds the rows of one replicated
  table under their stored keys, each value encoded.  \<open>write_rows\<close> writes the rows a change set
  lists, \<open>load_rows\<close> reads a table back into an ordered map.  The locale \<open>row_store\<close> is what the
  two need of a row codec, and its lemmas say that a table written from a map loads as that map.
\<close>

section \<open>Writing and reading\<close>

text \<open>The bytes to store for a key: nothing when the map has no such row.\<close>

definition row_value :: "('k \<Rightarrow> 'v \<Rightarrow> 'e + 'b) \<Rightarrow> ('k, 'v) btree_map \<Rightarrow> 'k \<Rightarrow> 'e + 'b option" where
  "row_value enc m k =
    (case bm_get m k of
       None \<Rightarrow> Inr None
     | Some v \<Rightarrow> sum_bind (enc k v) (\<lambda>b. Inr (Some b)))"

definition store_value :: "'k::linorder \<Rightarrow> 'b option \<Rightarrow> ('k, 'b) btree_map \<Rightarrow> ('k, 'b) btree_map" where
  "store_value k v t = (case v of None \<Rightarrow> bm_remove k t | Some b \<Rightarrow> bm_insert k b t)"

fun write_rows ::
  "('k \<Rightarrow> 'rk::linorder) \<Rightarrow> ('k \<Rightarrow> 'e + 'b option) \<Rightarrow> 'k list \<Rightarrow> ('rk, 'b) btree_map \<Rightarrow>
   'e + ('rk, 'b) btree_map" where
  "write_rows rk f [] t = Inr t"
| "write_rows rk f (k # ks) t = sum_bind (f k) (\<lambda>v. write_rows rk f ks (store_value (rk k) v t))"

fun load_rows ::
  "('rk \<Rightarrow> 'b \<Rightarrow> 'e + ('k::linorder \<times> 'v)) \<Rightarrow> ('rk, 'b) btree_map \<Rightarrow> ('k, 'v) btree_map \<Rightarrow>
   'e + ('k, 'v) btree_map" where
  "load_rows dec [] m = Inr m"
| "load_rows dec ((key, b) # t) m = sum_bind (dec key b) (\<lambda>(k, v). load_rows dec t (bm_insert k v m))"

lemma store_value_get [simp]: "bm_get (store_value k v t) j = (if j = k then v else bm_get t j)"
  by (simp add: store_value_def split: option.splits)

lemma store_value_ok [simp]: "bm_ok t \<Longrightarrow> bm_ok (store_value k v t)"
  by (simp add: store_value_def bm.ok_put bm.ok_del split: option.splits)

lemma write_rows_ok: "write_rows rk f ks t = Inr t' \<Longrightarrow> bm_ok t \<Longrightarrow> bm_ok t'"
  by (induction ks arbitrary: t) (auto simp: sum_bind_Inr)

lemma write_rows_Inl: "write_rows rk f ks t = Inl e \<Longrightarrow> \<exists>k. f k = Inl e"
  by (induction ks arbitrary: t) (auto simp: sum_bind_Inl)

lemma row_value_Inl: "row_value enc m k = Inl e \<Longrightarrow> \<exists>v. enc k v = Inl e"
  by (auto simp: row_value_def sum_bind_Inl split: option.splits)

text \<open>Two ordered tables with the same lookups are the same table.\<close>

lemma bm_ext:
  assumes "bm_ok m" "bm_ok n" "\<And>k. bm_get m k = bm_get n k"
  shows "m = n"
proof -
  have rows: "set m = set n" using assms bm_rows_get by (metis surj_pair subsetI subset_antisym)
  have "sorted_wrt (<) (map fst m)" "sorted_wrt (<) (map fst n)" using assms(1,2) by (simp_all add: bm_ok_def)
  then have keys: "map fst m = map fst n"
    using rows by (intro strict_sorted_equal) (simp_all add: strict_sorted_iff)
  show ?thesis
  proof (rule nth_equalityI)
    show "length m = length n" using keys by (metis length_map)
    fix i assume i: "i < length m"
    then have in': "i < length n" using keys by (metis length_map)
    have "fst (m ! i) = fst (n ! i)" using keys i in' by (metis nth_map)
    moreover have "bm_get m (fst (m ! i)) = Some (snd (m ! i))" "bm_get n (fst (n ! i)) = Some (snd (n ! i))"
      using bm_rows_get [OF assms(1), of "fst (m ! i)" "snd (m ! i)"] bm_rows_get [OF assms(2), of "fst (n ! i)" "snd (n ! i)"]
        i in' by simp_all
    ultimately show "m ! i = n ! i" using assms(3) by (metis option.inject prod_eqI)
  qed
qed

text \<open>Inserting rows with distinct keys.\<close>

definition insert_rows :: "('k::linorder \<times> 'v) list \<Rightarrow> ('k, 'v) btree_map \<Rightarrow> ('k, 'v) btree_map" where
  "insert_rows rows m = foldl (\<lambda>m (k, v). bm_insert k v m) m rows"

lemma insert_rows_simps [simp]:
  "insert_rows [] m = m" "insert_rows ((k, v) # rows) m = insert_rows rows (bm_insert k v m)"
  by (simp_all add: insert_rows_def)

lemma insert_rows_ok: "bm_ok m \<Longrightarrow> bm_ok (insert_rows rows m)"
  by (induction rows arbitrary: m) (auto simp: bm.ok_put)

lemma insert_rows_get:
  "distinct (map fst rows) \<Longrightarrow>
    bm_get (insert_rows rows m) k = (case bm_get rows k of None \<Rightarrow> bm_get m k | Some v \<Rightarrow> Some v)"
proof (induction rows arbitrary: m)
  case (Cons r rows)
  have "bm_get rows (fst r) = None" using Cons.prems by (simp add: bm_get_None_iff)
  with Cons show ?case by (cases r) (auto split: option.splits)
qed simp

lemma distinct_get: "(k, v) \<in> set rows \<Longrightarrow> distinct (map fst rows) \<Longrightarrow> bm_get rows k = Some v"
  by (induction rows) force+

section \<open>The interface of a row codec\<close>

text \<open>A decoder answers with the key it was given, and a good row that was encoded decodes to itself.\<close>

locale row_store =
  fixes rk :: "'k::linorder \<Rightarrow> 'rk::linorder"
    and enc :: "'k \<Rightarrow> 'v \<Rightarrow> 'e + 'b"
    and dec :: "'rk \<Rightarrow> 'b \<Rightarrow> 'e + ('k \<times> 'v)"
    and good :: "'k \<Rightarrow> 'v \<Rightarrow> bool"
  assumes dec_key: "dec key b = Inr (k, v) \<Longrightarrow> rk k = key"
    and rk_inj: "rk j = rk k \<Longrightarrow> j = k"
    and enc_dec: "good k v \<Longrightarrow> enc k v = Inr b \<Longrightarrow> dec (rk k) b = Inr (k, v)"
begin

text \<open>The table holds the map: every stored row decodes to the row of the map, and there are no others.\<close>

definition held :: "('rk, 'b) btree_map \<Rightarrow> ('k, 'v) btree_map \<Rightarrow> bool" where
  "held t m =
    (bm_ok t \<and> bm_ok m \<and>
     (\<forall>key b. bm_get t key = Some b \<longrightarrow> (\<exists>k v. dec key b = Inr (k, v) \<and> bm_get m k = Some v)) \<and>
     (\<forall>k. bm_get m k \<noteq> None \<longrightarrow> bm_get t (rk k) \<noteq> None))"

lemma held_unique: "held t m \<Longrightarrow> held t n \<Longrightarrow> m = n"
proof (rule bm_ext)
  fix k
  assume m: "held t m" and n: "held t n"
  have same: "bm_get x k = Some v \<Longrightarrow> held t x \<Longrightarrow> held t y \<Longrightarrow> bm_get y k = Some v" for x y v
    unfolding held_def by (metis dec_key rk_inj option.distinct(1) option.exhaust old.prod.inject sum.inject(2) option.inject)
  show "bm_get m k = bm_get n k" using same m n by (metis option.exhaust)
qed (simp_all add: held_def)

lemma load_rows_Inr:
  "load_rows dec t m = Inr n \<longleftrightarrow>
    (\<exists>rows. list_all2 (\<lambda>(key, b) row. dec key b = Inr row) t rows \<and> n = insert_rows rows m)"
proof (induction t arbitrary: m)
  case (Cons r t)
  obtain key b where r: "r = (key, b)" by fastforce
  show ?case
  proof
    assume "load_rows dec (r # t) m = Inr n"
    then obtain k v rows where "dec key b = Inr (k, v)" "list_all2 (\<lambda>(key, b) row. dec key b = Inr row) t rows"
      "n = insert_rows rows (bm_insert k v m)"
      by (auto simp: r sum_bind_Inr Cons.IH)
    then show "\<exists>rows. list_all2 (\<lambda>(key, b) row. dec key b = Inr row) (r # t) rows \<and> n = insert_rows rows m"
      by (intro exI [of _ "(k, v) # rows"]) (simp add: r)
  next
    assume "\<exists>rows. list_all2 (\<lambda>(key, b) row. dec key b = Inr row) (r # t) rows \<and> n = insert_rows rows m"
    then obtain k v rows where "dec key b = Inr (k, v)" "list_all2 (\<lambda>(key, b) row. dec key b = Inr row) t rows"
      "n = insert_rows rows (bm_insert k v m)"
      by (auto simp: r list_all2_Cons1)
    then have "load_rows dec t (bm_insert k v m) = Inr n" using Cons.IH by blast
    then show "load_rows dec (r # t) m = Inr n" using \<open>dec key b = Inr (k, v)\<close> by (simp add: r)
  qed
qed auto

lemma rows_keys: "list_all2 (\<lambda>(key, b) row. dec key b = Inr row) t rows \<Longrightarrow> map (rk \<circ> fst) rows = map fst t"
  by (induction rule: list_all2_induct) (auto dest: dec_key)

lemma rows_in:
  "list_all2 (\<lambda>(key, b) row. dec key b = Inr row) t rows \<Longrightarrow> (key, b) \<in> set t \<Longrightarrow>
    \<exists>row. row \<in> set rows \<and> dec key b = Inr row"
  by (induction rule: list_all2_induct) auto

lemma rows_distinct:
  assumes "list_all2 (\<lambda>(key, b) row. dec key b = Inr row) t rows" "bm_ok t"
  shows "distinct (map fst rows)"
proof -
  have "distinct (map rk (map fst rows))"
    using rows_keys [OF assms(1)] assms(2) by (simp add: bm_ok_def strict_sorted_iff)
  then show ?thesis by (metis distinct_map)
qed

lemma load_holds: "load_rows dec t [] = Inr m \<Longrightarrow> bm_ok t \<Longrightarrow> held t m"
proof -
  assume "load_rows dec t [] = Inr m" and ok: "bm_ok t"
  then obtain rows where rows: "list_all2 (\<lambda>(key, b) row. dec key b = Inr row) t rows" and m: "m = insert_rows rows []"
    using load_rows_Inr by blast
  have get: "bm_get m k = bm_get rows k" for k
    using insert_rows_get [OF rows_distinct [OF rows ok], of "[]"] by (simp add: m split: option.splits)
  have "bm_ok m" by (simp add: m insert_rows_ok)
  moreover have "\<exists>k v. dec key b = Inr (k, v) \<and> bm_get m k = Some v" if "bm_get t key = Some b" for key b
  proof -
    have "(key, b) \<in> set t" using that bm_rows_get [OF ok] by simp
    then obtain k v where "(k, v) \<in> set rows" "dec key b = Inr (k, v)"
      using rows_in [OF rows] by fastforce
    moreover from this(1) have "bm_get rows k = Some v" using rows_distinct [OF rows ok] by (rule distinct_get)
    ultimately show ?thesis using get by auto
  qed
  moreover have "bm_get t (rk k) \<noteq> None" if "bm_get m k \<noteq> None" for k
  proof -
    have "k \<in> fst ` set rows" using that get bm_get_None_iff by metis
    then have "rk k \<in> set (map (rk \<circ> fst) rows)" by auto
    then show ?thesis unfolding rows_keys [OF rows] using bm_get_None_iff [of t "rk k"] by auto
  qed
  ultimately show "held t m" using ok by (simp add: held_def)
qed

lemma held_loads: "held t m \<Longrightarrow> load_rows dec t [] = Inr m"
proof -
  assume held: "held t m"
  then have ok: "bm_ok t" by (simp add: held_def)
  have "\<exists>row. dec key b = Inr row" if "(key, b) \<in> set t" for key b
    using that held bm_rows_get [OF ok] by (fastforce simp: held_def)
  then have "\<exists>rows. list_all2 (\<lambda>(key, b) row. dec key b = Inr row) t rows"
    by (induction t) (fastforce simp: list_all2_Cons1)+
  then obtain n where n: "load_rows dec t [] = Inr n" using load_rows_Inr by blast
  from held_unique [OF load_holds [OF this ok] held] n show ?thesis by simp
qed

text \<open>Writing the rows of a new map that are not known to be the old ones.\<close>

lemma write_rows_get:
  assumes "write_rows rk f ks t = Inr t'"
  shows "(k \<in> set ks \<longrightarrow> f k = Inr (bm_get t' (rk k))) \<and> (k \<notin> set ks \<longrightarrow> bm_get t' (rk k) = bm_get t (rk k))"
  using assms
proof (induction ks arbitrary: t)
  case (Cons j ks)
  then obtain v where v: "f j = Inr v" and w: "write_rows rk f ks (store_value (rk j) v t) = Inr t'"
    by (auto simp: sum_bind_Inr)
  have "rk k = rk j \<longleftrightarrow> k = j" using rk_inj by blast
  with Cons.IH [OF w] v show ?case by auto
qed simp

lemma write_rows_other:
  assumes "write_rows rk f ks t = Inr t'" "\<And>k. key \<noteq> rk k"
  shows "bm_get t' key = bm_get t key"
  using assms by (induction ks arbitrary: t) (auto simp: sum_bind_Inr)

lemma write_held:
  assumes held: "held t m" and written: "write_rows rk (row_value enc n) ks t = Inr t'" and ok: "bm_ok n"
    and frame: "\<And>k. k \<notin> set ks \<Longrightarrow> bm_get n k = bm_get m k"
    and good: "\<And>k v. bm_get n k = Some v \<Longrightarrow> good k v"
  shows "held t' n"
proof -
  have listed: "row_value enc n k = Inr (bm_get t' (rk k))" if "k \<in> set ks" for k
    using write_rows_get [OF written, of k] that by simp
  have other: "bm_get t' (rk k) = bm_get t (rk k)" if "k \<notin> set ks" for k
    using write_rows_get [OF written, of k] that by simp
  have "\<exists>k v. dec key b = Inr (k, v) \<and> bm_get n k = Some v" if b: "bm_get t' key = Some b" for key b
  proof (cases "\<exists>k\<in>set ks. key = rk k")
    case True
    then obtain k where k: "k \<in> set ks" "key = rk k" by blast
    with listed [OF k(1)] b obtain v where "bm_get n k = Some v" "enc k v = Inr b"
      by (auto simp: row_value_def sum_bind_Inr split: option.splits)
    then show ?thesis using k good enc_dec by blast
  next
    case False
    have "bm_get t key = Some b"
      using b False other write_rows_other [OF written, of key] by metis
    then obtain k v where kv: "dec key b = Inr (k, v)" "bm_get m k = Some v" using held unfolding held_def by blast
    then have "key = rk k" using dec_key by blast
    then show ?thesis using kv frame False by metis
  qed
  moreover have "bm_get t' (rk k) \<noteq> None" if k: "bm_get n k \<noteq> None" for k
  proof (cases "k \<in> set ks")
    case True
    from listed [OF True] k show ?thesis
      by (cases "bm_get t' (rk k)") (auto simp: row_value_def sum_bind_Inr split: option.splits)
  next
    case False
    with k frame other held show ?thesis by (metis held_def)
  qed
  moreover have "bm_ok t'" using write_rows_ok [OF written] held by (simp add: held_def)
  ultimately show ?thesis using ok by (simp add: held_def)
qed

end

end
