(* ===== verification/Coord_Store.thy ===== *)
theory Coord_Store
  imports Coord_Meta Row_Store Coord_Valid Coord_Changes
begin

text \<open>
  The durable store of a replica (\<open>coordination/storage/rows.rs\<close>, \<open>codec.rs\<close>): the tables of
  \<open>state.redb\<close>, the transaction that writes a batch (\<open>commit\<close>) and the load of a whole state
  (\<open>load\<close>).  redb is a set of ordered tables and a transaction that takes effect as a whole or not
  at all.  A store \<open>holds\<close> a state when its metadata narrows to the state without rows and every
  table, decoded, is the table of the state; loading finds the state a store holds, and the
  transaction of a batch makes the store hold the state after the batch.
\<close>

section \<open>Codecs of the rows\<close>

record row_codecs =
  cd_meta :: "coordination_meta_v1 codec"
  cd_resource :: "resource_row_v1 codec"
  cd_session :: "client_session_v1 codec"
  cd_intent :: "membership_intent_v1 codec"
  cd_route :: "node_route_v1 codec"
  cd_audit :: "audit_row_v1 codec"

definition codecs_faithful :: "row_codecs \<Rightarrow> bool" where
  "codecs_faithful F =
    (faithful (cd_meta F) \<and> faithful (cd_resource F) \<and> faithful (cd_session F) \<and> faithful (cd_intent F) \<and>
     faithful (cd_route F) \<and> faithful (cd_audit F))"

section \<open>Ceilings\<close>

definition ROW_FRAMING_ALLOWANCE :: nat where
  [coord_simps]: "ROW_FRAMING_ALLOWANCE = 1024"

definition MAX_RESOURCE_ROW_BYTES :: nat where
  "MAX_RESOURCE_ROW_BYTES = MAX_VALUE + 32 + ROW_FRAMING_ALLOWANCE"

definition MAX_SESSION_ROW_BYTES :: nat where
  "MAX_SESSION_ROW_BYTES = 32 + 32 + MAX_ROW_KEY + 32 + 16 + 32 + ROW_FRAMING_ALLOWANCE"

definition MAX_INTENT_ROW_BYTES :: nat where
  "MAX_INTENT_ROW_BYTES = MAX_ENCODED_COMMAND + 32 + 32 + 4 * 32 + ROW_FRAMING_ALLOWANCE"

definition MAX_ROUTE_ROW_BYTES :: nat where
  "MAX_ROUTE_ROW_BYTES = MAX_TICKET + 16 + 32 + ROW_FRAMING_ALLOWANCE"

definition MAX_AUDIT_ROW_BYTES :: nat where
  "MAX_AUDIT_ROW_BYTES = 32 + 32 + MAX_ROW_KEY + ROW_FRAMING_ALLOWANCE"

definition MAX_COORDINATION_META_BYTES :: nat where
  "MAX_COORDINATION_META_BYTES = 16 * 1024"

section \<open>The store\<close>

text \<open>The tables of \<open>state.redb\<close>, by their keys; \<open>sto_meta\<close> is the value under \<open>KEY_META\<close>.\<close>

record store =
  sto_meta :: "bytes option"
  sto_resources :: "(string \<times> bytes, bytes) btree_map"
  sto_acl :: "((string \<times> bytes) \<times> node_id, rights) btree_map"
  sto_admins :: "(node_id, unit) btree_map"
  sto_sessions :: "(session_key, bytes) btree_map"
  sto_intents :: "(operation_id, bytes) btree_map"
  sto_routes :: "(node_id, bytes) btree_map"
  sto_audit :: "(audit_key, bytes) btree_map"

definition KEY_META :: string where
  "KEY_META = ''meta''"

definition resource_redb_key :: "resource_key \<Rightarrow> string \<times> bytes" where
  "resource_redb_key k = (rk_namespace k, rk_key k)"

definition grant_redb_key :: "grant_key \<Rightarrow> (string \<times> bytes) \<times> node_id" where
  "grant_redb_key k = (resource_redb_key (fst k), snd k)"

section \<open>Rows\<close>

definition encode_resource :: "row_codecs \<Rightarrow> resource_key \<Rightarrow> resource_row \<Rightarrow> storage_error + bytes" where
  "encode_resource F k row =
    encode_committed DbState (cd_resource F) ''ResourceRowV1'' (resource_row_to_wire row) MAX_RESOURCE_ROW_BYTES"

definition decode_resource ::
  "row_codecs \<Rightarrow> string \<times> bytes \<Rightarrow> bytes \<Rightarrow> storage_error + (resource_key \<times> resource_row)" where
  "decode_resource F key bs =
    sum_bind (corrupt_if ''resources.key'' (resource_key_new (fst key) (snd key))) (\<lambda>k.
    sum_bind (decode_persisted_bounded DbState (cd_resource F) ''ResourceRowV1'' bs MAX_RESOURCE_ROW_BYTES) (\<lambda>wire.
    sum_bind (corrupt_if ''ResourceRowV1'' (resource_row_from_wire wire)) (\<lambda>row.
      Inr (k, row))))"

definition encode_grant :: "grant_key \<Rightarrow> rights \<Rightarrow> storage_error + rights" where
  "encode_grant k r = Inr r"

definition decode_grant ::
  "(string \<times> bytes) \<times> node_id \<Rightarrow> rights \<Rightarrow> storage_error + (grant_key \<times> rights)" where
  "decode_grant key r =
    sum_bind (corrupt_if ''resource_acl.key'' (resource_key_new (fst (fst key)) (snd (fst key)))) (\<lambda>k.
      if \<not> rights_are_known r then Inl (Corrupt ''resource_acl.rights'') else Inr ((k, snd key), r))"

definition encode_session :: "row_codecs \<Rightarrow> bytes \<Rightarrow> session_key \<Rightarrow> session \<Rightarrow> storage_error + bytes" where
  "encode_session F gid k row =
    encode_committed DbState (cd_session F) ''ClientSessionV1'' (session_to_wire gid row) MAX_SESSION_ROW_BYTES"

definition decode_session ::
  "row_codecs \<Rightarrow> bytes \<Rightarrow> session_key \<Rightarrow> bytes \<Rightarrow> storage_error + (session_key \<times> session)" where
  "decode_session F gid key bs =
    sum_bind (decode_persisted_bounded DbState (cd_session F) ''ClientSessionV1'' bs MAX_SESSION_ROW_BYTES) (\<lambda>wire.
    sum_bind (corrupt_if ''ClientSessionV1'' (session_from_wire gid wire)) (\<lambda>row.
      Inr (key, row)))"

definition encode_intent :: "row_codecs \<Rightarrow> operation_id \<Rightarrow> intent \<Rightarrow> storage_error + bytes" where
  "encode_intent F op row =
    sum_bind (corrupt_if ''MembershipIntentV1'' (intent_to_wire op row)) (\<lambda>wire.
      encode_committed DbState (cd_intent F) ''MembershipIntentV1'' wire MAX_INTENT_ROW_BYTES)"

definition decode_intent ::
  "row_codecs \<Rightarrow> operation_id \<Rightarrow> bytes \<Rightarrow> storage_error + (operation_id \<times> intent)" where
  "decode_intent F op bs =
    sum_bind (decode_persisted_bounded DbState (cd_intent F) ''MembershipIntentV1'' bs MAX_INTENT_ROW_BYTES) (\<lambda>wire.
    sum_bind (corrupt_if ''MembershipIntentV1'' (intent_from_wire op wire)) (\<lambda>row.
      Inr (op, row)))"

definition encode_route :: "row_codecs \<Rightarrow> node_id \<Rightarrow> route \<Rightarrow> storage_error + bytes" where
  "encode_route F n row =
    encode_committed DbState (cd_route F) ''NodeRouteV1'' (route_to_wire row) MAX_ROUTE_ROW_BYTES"

definition decode_route :: "row_codecs \<Rightarrow> node_id \<Rightarrow> bytes \<Rightarrow> storage_error + (node_id \<times> route)" where
  "decode_route F n bs =
    sum_bind (decode_persisted_bounded DbState (cd_route F) ''NodeRouteV1'' bs MAX_ROUTE_ROW_BYTES) (\<lambda>wire.
    sum_bind (corrupt_if ''NodeRouteV1'' (route_from_wire wire)) (\<lambda>row.
      Inr (n, row)))"

definition encode_audit :: "row_codecs \<Rightarrow> audit_key \<Rightarrow> audit_row \<Rightarrow> storage_error + bytes" where
  "encode_audit F k row =
    encode_committed DbState (cd_audit F) ''AuditRowV1'' (audit_row_to_wire row) MAX_AUDIT_ROW_BYTES"

definition decode_audit :: "row_codecs \<Rightarrow> audit_key \<Rightarrow> bytes \<Rightarrow> storage_error + (audit_key \<times> audit_row)" where
  "decode_audit F key bs =
    sum_bind (decode_persisted_bounded DbState (cd_audit F) ''AuditRowV1'' bs MAX_AUDIT_ROW_BYTES) (\<lambda>wire.
    sum_bind (corrupt_if ''AuditRowV1'' (audit_row_from_wire wire)) (\<lambda>row.
      Inr (key, row)))"

section \<open>Loading\<close>

definition read_meta :: "row_codecs \<Rightarrow> store \<Rightarrow> storage_error + coordination_meta_v1" where
  "read_meta F st =
    (case sto_meta st of
       None \<Rightarrow> Inl (MissingMetaKey DbState KEY_META)
     | Some bs \<Rightarrow>
       sum_bind (copy_stored_bounded DbState KEY_META bs MAX_COORDINATION_META_BYTES) (\<lambda>bs.
         decode_persisted_bounded DbState (cd_meta F) ''CoordinationMetaV1'' bs MAX_COORDINATION_META_BYTES))"

definition load :: "externs \<Rightarrow> row_codecs \<Rightarrow> store \<Rightarrow> storage_error + durable_state" where
  "load E F st =
    sum_bind (read_meta F st) (\<lambda>meta.
    sum_bind (meta_from_wire meta) (\<lambda>d.
      let gid = ga_group_id (st_authority (ds_model d)) in
      sum_bind (load_rows (decode_resource F) (sto_resources st) []) (\<lambda>resources.
      sum_bind (load_rows decode_grant (sto_acl st) []) (\<lambda>acl.
      sum_bind (load_rows (decode_session F gid) (sto_sessions st) []) (\<lambda>sessions.
      sum_bind (load_rows (decode_intent F) (sto_intents st) []) (\<lambda>intents.
      sum_bind (load_rows (decode_route F) (sto_routes st) []) (\<lambda>routes.
      sum_bind (load_rows (decode_audit F) (sto_audit st) []) (\<lambda>audit.
        let d = d\<lparr> ds_model := (ds_model d)\<lparr> st_resources := resources, st_acl := acl,
              st_admins := fset_of_list (map fst (sto_admins st)), st_sessions := sessions, st_intents := intents,
              st_routes := routes, st_audit := audit, st_audit_tip := rebuild_audit_tip audit \<rparr> \<rparr>
        in
        case validate E d of Some what \<Rightarrow> Inl (Corrupt what) | None \<Rightarrow> Inr d))))))))"

definition pinned_applied :: "row_codecs \<Rightarrow> store \<Rightarrow> storage_error + log_id option" where
  "pinned_applied F st =
    sum_bind (read_meta F st) (\<lambda>meta.
    sum_bind (meta_from_wire meta) (\<lambda>d.
      Inr (st_last_applied (ds_model d))))"

section \<open>Committing\<close>

text \<open>What the transaction of a batch writes: each listed row as the state has it, then the metadata.\<close>

definition stage :: "row_codecs \<Rightarrow> durable_state \<Rightarrow> change_set \<Rightarrow> store \<Rightarrow> storage_error + store" where
  "stage F d c st =
    (let s = ds_model d; gid = ga_group_id (st_authority s) in
     sum_bind (write_rows resource_redb_key (row_value (encode_resource F) (st_resources s))
       (sorted_list_of_fset (cs_resources c)) (sto_resources st)) (\<lambda>resources.
     sum_bind (write_rows grant_redb_key (row_value encode_grant (st_acl s))
       (sorted_list_of_fset (cs_grants c)) (sto_acl st)) (\<lambda>acl.
     sum_bind (write_rows id (\<lambda>n. Inr (if n |\<in>| st_admins s then Some () else None))
       (sorted_list_of_fset (cs_admins c)) (sto_admins st)) (\<lambda>admins.
     sum_bind (write_rows id (row_value (encode_session F gid) (st_sessions s))
       (sorted_list_of_fset (cs_sessions c)) (sto_sessions st)) (\<lambda>sessions.
     sum_bind (write_rows id (row_value (encode_intent F) (st_intents s))
       (sorted_list_of_fset (cs_intents c)) (sto_intents st)) (\<lambda>intents.
     sum_bind (write_rows id (row_value (encode_route F) (st_routes s))
       (sorted_list_of_fset (cs_routes c)) (sto_routes st)) (\<lambda>routes.
     sum_bind (write_rows id (row_value (encode_audit F) (st_audit s))
       (sorted_list_of_fset (cs_audit c)) (sto_audit st)) (\<lambda>audit.
     sum_bind (encode_committed DbState (cd_meta F) ''CoordinationMetaV1'' (meta_to_wire d) MAX_COORDINATION_META_BYTES) (\<lambda>meta.
       Inr \<lparr> sto_meta = Some meta, sto_resources = resources, sto_acl = acl, sto_admins = admins,
         sto_sessions = sessions, sto_intents = intents, sto_routes = routes, sto_audit = audit \<rparr>)))))))))"

definition commit ::
  "row_codecs \<Rightarrow> redb_commit \<Rightarrow> durable_state \<Rightarrow> change_set \<Rightarrow> store \<Rightarrow> (storage_error + durable_state) \<times> store" where
  "commit F landed d c st =
    (case stage F d c st of
       Inl e \<Rightarrow> (Inl e, st)
     | Inr st' \<Rightarrow>
       (case durable_commit DbState landed st' st of
          (Inl e, st) \<Rightarrow> (Inl e, st)
        | (Inr _, st) \<Rightarrow> (Inr d, st)))"

section \<open>Row codecs\<close>

definition resource_kept :: "row_codecs \<Rightarrow> resource_key \<Rightarrow> resource_row \<Rightarrow> bool" where
  "resource_kept F k row = (faithful (cd_resource F) \<and> valid_resource_key k \<and> storable_resource row)"

definition grant_kept :: "grant_key \<Rightarrow> rights \<Rightarrow> bool" where
  "grant_kept k r = (valid_resource_key (fst k) \<and> rights_are_known r)"

definition session_kept :: "row_codecs \<Rightarrow> session_key \<Rightarrow> session \<Rightarrow> bool" where
  "session_kept F k row = (faithful (cd_session F) \<and> storable_session row)"

definition intent_kept :: "row_codecs \<Rightarrow> operation_id \<Rightarrow> intent \<Rightarrow> bool" where
  "intent_kept F op row = (faithful (cd_intent F) \<and> wide_op op \<and> storable_intent row)"

definition route_kept :: "row_codecs \<Rightarrow> node_id \<Rightarrow> route \<Rightarrow> bool" where
  "route_kept F n row = (faithful (cd_route F) \<and> storable_route row)"

definition audit_kept :: "row_codecs \<Rightarrow> audit_key \<Rightarrow> audit_row \<Rightarrow> bool" where
  "audit_kept F k row = (faithful (cd_audit F) \<and> storable_audit row)"

lemma resource_redb_key_inj: "resource_redb_key j = resource_redb_key k \<Longrightarrow> j = k"
  by (cases j; cases k) (simp add: resource_redb_key_def)

interpretation rs: row_store resource_redb_key "encode_resource F" "decode_resource F" "resource_kept F" for F
proof unfold_locales
  show "resource_redb_key k = key" if "decode_resource F key b = Inr (k, v)" for key b k v
    using that resource_key_new_parts [of "fst key" "snd key" k]
    by (auto simp: decode_resource_def sum_bind_Inr resource_redb_key_def)
  show "decode_resource F (resource_redb_key k) b = Inr (k, v)"
    if "resource_kept F k v" "encode_resource F k v = Inr b" for k v b
    using that encode_decode [of "cd_resource F"] resource_row_back [of v]
    by (simp add: resource_kept_def encode_resource_def decode_resource_def resource_redb_key_def valid_resource_key_def
       )
qed (rule resource_redb_key_inj)

interpretation gs: row_store grant_redb_key encode_grant decode_grant grant_kept
proof unfold_locales
  show "grant_redb_key k = key" if "decode_grant key b = Inr (k, v)" for key b k v
    using that resource_key_new_parts [of "fst (fst key)" "snd (fst key)" "fst k"]
    by (auto simp: decode_grant_def sum_bind_Inr grant_redb_key_def resource_redb_key_def split: if_splits)
  show "decode_grant (grant_redb_key k) b = Inr (k, v)" if "grant_kept k v" "encode_grant k v = Inr b" for k v b
    using that
    by (simp add: grant_kept_def encode_grant_def decode_grant_def grant_redb_key_def resource_redb_key_def
        valid_resource_key_def)
  show "j = k" if "grant_redb_key j = grant_redb_key k" for j k
    using that resource_redb_key_inj by (auto simp: grant_redb_key_def prod_eq_iff)
qed

interpretation ss: row_store id "encode_session F gid" "decode_session F gid" "session_kept F" for F gid
proof unfold_locales
  show "decode_session F gid (id k) b = Inr (k, v)" if "session_kept F k v" "encode_session F gid k v = Inr b" for k v b
    using that encode_decode [of "cd_session F"] session_back [of v gid]
    by (simp add: session_kept_def encode_session_def decode_session_def)
qed (auto simp: decode_session_def sum_bind_Inr)

interpretation ns: row_store id "encode_intent F" "decode_intent F" "intent_kept F" for F
proof unfold_locales
  show "decode_intent F (id k) b = Inr (k, v)" if "intent_kept F k v" "encode_intent F k v = Inr b" for k v b
    using that encode_decode [of "cd_intent F"] intent_back [of v k]
    by (auto simp: intent_kept_def encode_intent_def decode_intent_def sum_bind_Inr)
qed (auto simp: decode_intent_def sum_bind_Inr)

interpretation rt: row_store id "encode_route F" "decode_route F" "route_kept F" for F
proof unfold_locales
  show "decode_route F (id k) b = Inr (k, v)" if "route_kept F k v" "encode_route F k v = Inr b" for k v b
    using that encode_decode [of "cd_route F"] route_back [of v]
    by (simp add: route_kept_def encode_route_def decode_route_def)
qed (auto simp: decode_route_def sum_bind_Inr)

interpretation au: row_store id "encode_audit F" "decode_audit F" "audit_kept F" for F
proof unfold_locales
  show "decode_audit F (id k) b = Inr (k, v)" if "audit_kept F k v" "encode_audit F k v = Inr b" for k v b
    using that encode_decode [of "cd_audit F"] audit_row_back [of v]
    by (simp add: audit_kept_def encode_audit_def decode_audit_def)
qed (auto simp: decode_audit_def sum_bind_Inr)

text \<open>The administrators are a table of keys.\<close>

definition encode_admin :: "node_id \<Rightarrow> unit \<Rightarrow> storage_error + unit" where
  "encode_admin n u = Inr u"

definition decode_admin :: "node_id \<Rightarrow> unit \<Rightarrow> storage_error + (node_id \<times> unit)" where
  "decode_admin n u = Inr (n, u)"

interpretation ad: row_store id encode_admin decode_admin "\<lambda>_ _. True"
  by unfold_locales (simp_all add: encode_admin_def decode_admin_def)

definition admins_held :: "(node_id, unit) btree_map \<Rightarrow> node_id fset \<Rightarrow> bool" where
  "admins_held t ns = (bm_ok t \<and> fset_of_list (map fst t) = ns)"

lemma admins_held_get: "admins_held t ns \<longleftrightarrow> bm_ok t \<and> (\<forall>n. n |\<in>| ns \<longleftrightarrow> bm_get t n \<noteq> None)"
  by (auto simp: admins_held_def bm_get_None_iff fset_eq_iff fset_of_list_elem simp del: fset_of_list_map)

lemma write_admins:
  assumes held: "admins_held t ns" and written: "write_rows id (\<lambda>n. Inr (if n |\<in>| ns' then Some () else None)) ks t = Inr t'"
    and frame: "\<And>n. n \<notin> set ks \<Longrightarrow> (n |\<in>| ns') = (n |\<in>| ns)"
  shows "admins_held t' ns'"
proof -
  have old: "n |\<in>| ns \<longleftrightarrow> bm_get t n \<noteq> None" for n using held by (simp add: admins_held_get)
  have "n |\<in>| ns' \<longleftrightarrow> bm_get t' n \<noteq> None" for n
  proof (cases "n \<in> set ks")
    case True
    with ad.write_rows_get [OF written, of n] have "bm_get t' n = (if n |\<in>| ns' then Some () else None)" by simp
    then show ?thesis by simp
  next
    case False
    with ad.write_rows_get [OF written, of n] have "bm_get t' n = bm_get t n" by simp
    with frame [OF False] old show ?thesis by simp
  qed
  then show ?thesis using write_rows_ok [OF written] held by (simp add: admins_held_get)
qed

section \<open>A store that holds a state\<close>

text \<open>redb keeps its tables in key order.\<close>

definition store_ok :: "store \<Rightarrow> bool" where
  "store_ok st =
    (bm_ok (sto_resources st) \<and> bm_ok (sto_acl st) \<and> bm_ok (sto_admins st) \<and> bm_ok (sto_sessions st) \<and>
     bm_ok (sto_intents st) \<and> bm_ok (sto_routes st) \<and> bm_ok (sto_audit st))"

definition tables_held :: "row_codecs \<Rightarrow> store \<Rightarrow> state \<Rightarrow> bool" where
  "tables_held F st s =
    (rs.held F (sto_resources st) (st_resources s) \<and> gs.held (sto_acl st) (st_acl s) \<and>
     admins_held (sto_admins st) (st_admins s) \<and>
     ss.held F (ga_group_id (st_authority s)) (sto_sessions st) (st_sessions s) \<and>
     ns.held F (sto_intents st) (st_intents s) \<and> rt.held F (sto_routes st) (st_routes s) \<and>
     au.held F (sto_audit st) (st_audit s))"

definition holds :: "row_codecs \<Rightarrow> store \<Rightarrow> durable_state \<Rightarrow> bool" where
  "holds F st d = (sum_bind (read_meta F st) meta_from_wire = Inr (bare d) \<and> tables_held F st (ds_model d))"

lemma bare_simps [simp]:
  "st_authority (ds_model (bare d)) = st_authority (ds_model d)" "bare (bare d) = bare d"
  by (simp_all add: bare_def)

lemma meta_from_wire_bare: "meta_from_wire w = Inr d \<Longrightarrow> bare d = d"
  by (auto simp: meta_from_wire_def sum_bind_Inr bare_def split: option.splits)

lemma bare_full:
  "(bare d)\<lparr> ds_model := (ds_model (bare d))\<lparr> st_resources := st_resources (ds_model d),
     st_acl := st_acl (ds_model d), st_admins := st_admins (ds_model d), st_sessions := st_sessions (ds_model d),
     st_intents := st_intents (ds_model d), st_routes := st_routes (ds_model d), st_audit := st_audit (ds_model d),
     st_audit_tip := st_audit_tip (ds_model d) \<rparr> \<rparr> = d"
  by (simp add: bare_def)

lemma load_finds:
  assumes "load E F st = Inr d" "store_ok st"
  shows "holds F st d" "validate E d = None" "st_audit_tip (ds_model d) = rebuild_audit_tip (st_audit (ds_model d))"
proof -
  from assms(1) obtain meta d0 resources acl sessions intents routes audit where
    meta: "read_meta F st = Inr meta" "meta_from_wire meta = Inr d0"
    and rows: "load_rows (decode_resource F) (sto_resources st) [] = Inr resources"
      "load_rows decode_grant (sto_acl st) [] = Inr acl"
      "load_rows (decode_session F (ga_group_id (st_authority (ds_model d0)))) (sto_sessions st) [] = Inr sessions"
      "load_rows (decode_intent F) (sto_intents st) [] = Inr intents"
      "load_rows (decode_route F) (sto_routes st) [] = Inr routes"
      "load_rows (decode_audit F) (sto_audit st) [] = Inr audit"
    and d: "d = d0\<lparr> ds_model := (ds_model d0)\<lparr> st_resources := resources, st_acl := acl,
              st_admins := fset_of_list (map fst (sto_admins st)), st_sessions := sessions, st_intents := intents,
              st_routes := routes, st_audit := audit, st_audit_tip := rebuild_audit_tip audit \<rparr> \<rparr>"
    and valid: "validate E d = None"
    by (auto simp: load_def Let_def sum_bind_Inr split: option.splits)
  have "bare d = d0" using meta_from_wire_bare [OF meta(2)] by (simp add: d bare_def)
  moreover have "tables_held F st (ds_model d)"
    using assms(2) rs.load_holds [OF rows(1)] gs.load_holds [OF rows(2)] ss.load_holds [OF rows(3)]
      ns.load_holds [OF rows(4)] rt.load_holds [OF rows(5)] au.load_holds [OF rows(6)]
    by (simp add: tables_held_def store_ok_def admins_held_def d)
  ultimately show "holds F st d" using meta by (simp add: holds_def)
  show "validate E d = None" by (rule valid)
  show "st_audit_tip (ds_model d) = rebuild_audit_tip (st_audit (ds_model d))" by (simp add: d)
qed

lemma holds_load:
  assumes "holds F st d" "validate E d = None" "st_audit_tip (ds_model d) = rebuild_audit_tip (st_audit (ds_model d))"
  shows "load E F st = Inr d"
proof -
  obtain meta where meta: "read_meta F st = Inr meta" "meta_from_wire meta = Inr (bare d)"
    using assms(1) by (auto simp: holds_def sum_bind_Inr)
  have t: "tables_held F st (ds_model d)" using assms(1) by (simp add: holds_def)
  have rows: "load_rows (decode_resource F) (sto_resources st) [] = Inr (st_resources (ds_model d))"
    "load_rows decode_grant (sto_acl st) [] = Inr (st_acl (ds_model d))"
    "load_rows (decode_session F (ga_group_id (st_authority (ds_model d)))) (sto_sessions st) []
       = Inr (st_sessions (ds_model d))"
    "load_rows (decode_intent F) (sto_intents st) [] = Inr (st_intents (ds_model d))"
    "load_rows (decode_route F) (sto_routes st) [] = Inr (st_routes (ds_model d))"
    "load_rows (decode_audit F) (sto_audit st) [] = Inr (st_audit (ds_model d))"
    "fset_of_list (map fst (sto_admins st)) = st_admins (ds_model d)"
    using t by (simp_all add: tables_held_def rs.held_loads gs.held_loads ss.held_loads ns.held_loads rt.held_loads
        au.held_loads admins_held_def)
  show ?thesis
    by (simp add: load_def meta rows Let_def bare_full assms(2) del: fset_of_list_map flip: assms(3))
qed

lemma held_ok: "tables_held F st s \<Longrightarrow> store_ok st"
  by (simp add: tables_held_def store_ok_def rs.held_def gs.held_def ss.held_def ns.held_def rt.held_def au.held_def
      admins_held_def)

section \<open>A commit writes the state\<close>

lemma rows_kept:
  assumes "state_inv E code_of s" "codecs_faithful F"
  shows "bm_get (st_resources s) k = Some row \<Longrightarrow> resource_kept F k row"
    "bm_get (st_acl s) g = Some r \<Longrightarrow> grant_kept g r"
    "bm_get (st_sessions s) sk = Some se \<Longrightarrow> session_kept F sk se"
    "bm_get (st_intents s) op = Some i \<Longrightarrow> intent_kept F op i"
    "bm_get (st_routes s) n = Some ro \<Longrightarrow> route_kept F n ro"
    "bm_get (st_audit s) ak = Some au \<Longrightarrow> audit_kept F ak au"
proof -
  have i: "resources_inv s" "acl_inv s" "session_inv code_of s" "intents_inv E s" "routes_inv E s" "audit_inv s"
    using assms(1) by (simp_all add: state_inv_def tables_inv_def membership_inv_def)
  have F: "faithful (cd_resource F)" "faithful (cd_session F)" "faithful (cd_intent F)" "faithful (cd_route F)"
    "faithful (cd_audit F)"
    using assms(2) by (simp_all add: codecs_faithful_def)
  have res: "resource_good k row" if "bm_get (st_resources s) k = Some row" for k row
    using i(1) that by (auto simp: resources_inv_def bm_rows_get)
  show "bm_get (st_resources s) k = Some row \<Longrightarrow> resource_kept F k row"
    using res F by (simp add: resource_kept_def resource_good_def)
  show "grant_kept g r" if "bm_get (st_acl s) g = Some r"
  proof -
    have "(g, r) \<in> set (st_acl s)" using i(2) that by (simp add: acl_inv_def bm_rows_get)
    then have "grant_good s g r" using i(2) by (auto simp: acl_inv_def)
    then obtain row where "rights_are_known r" "bm_get (st_resources s) (fst g) = Some row"
      by (auto simp: grant_good_def bm_contains_def)
    then show ?thesis using res by (auto simp: grant_kept_def resource_good_def)
  qed
  show "bm_get (st_sessions s) sk = Some se \<Longrightarrow> session_kept F sk se"
    using i(3) F session_inv_get by (fastforce simp: session_kept_def session_good_def)
  show "bm_get (st_intents s) op = Some i \<Longrightarrow> intent_kept F op i"
    using i(4) F by (auto simp: intents_inv_def intent_kept_def intent_good_def)
  show "bm_get (st_routes s) n = Some ro \<Longrightarrow> route_kept F n ro"
    using i(5) F by (auto simp: routes_inv_def route_kept_def route_good_def)
  show "bm_get (st_audit s) ak = Some au \<Longrightarrow> audit_kept F ak au"
    using i(6) F by (auto simp: audit_inv_def audit_kept_def audit_row_good_def bm_rows_get)
qed

lemma state_inv_tables_ok: "state_inv E code_of s \<Longrightarrow> tables_ok s"
  by (simp add: state_inv_def tables_inv_def membership_inv_def resources_inv_def acl_inv_def session_inv_def
      intents_inv_def routes_inv_def audit_inv_def tables_ok_def)

lemma coversD:
  assumes "covers s (s', c)"
  shows "k |\<notin>| cs_resources c \<Longrightarrow> bm_get (st_resources s') k = bm_get (st_resources s) k"
    "g |\<notin>| cs_grants c \<Longrightarrow> bm_get (st_acl s') g = bm_get (st_acl s) g"
    "n |\<notin>| cs_admins c \<Longrightarrow> (n |\<in>| st_admins s') = (n |\<in>| st_admins s)"
    "sk |\<notin>| cs_sessions c \<Longrightarrow> bm_get (st_sessions s') sk = bm_get (st_sessions s) sk"
    "op |\<notin>| cs_intents c \<Longrightarrow> bm_get (st_intents s') op = bm_get (st_intents s) op"
    "n |\<notin>| cs_routes c \<Longrightarrow> bm_get (st_routes s') n = bm_get (st_routes s) n"
    "ak |\<notin>| cs_audit c \<Longrightarrow> bm_get (st_audit s') ak = bm_get (st_audit s) ak"
  using assms unfolding covers_def fst_conv snd_conv by blast+

lemma stage_tables:
  assumes held: "tables_held F st s" and covered: "covers s (ds_model d', c)" and staged: "stage F d' c st = Inr st'"
    and same: "st_authority (ds_model d') = st_authority s"
    and inv: "state_inv E code_of (ds_model d')" and F: "codecs_faithful F"
  shows "tables_held F st' (ds_model d')"
proof -
  let ?s = "ds_model d'"
  note kept = rows_kept [OF inv F]
  have ok: "bm_ok (st_resources ?s)" "bm_ok (st_acl ?s)" "bm_ok (st_sessions ?s)" "bm_ok (st_intents ?s)"
    "bm_ok (st_routes ?s)" "bm_ok (st_audit ?s)"
    using state_inv_tables_ok [OF inv] by (simp_all add: tables_ok_def)
  have h: "rs.held F (sto_resources st) (st_resources s)" "gs.held (sto_acl st) (st_acl s)"
    "admins_held (sto_admins st) (st_admins s)"
    "ss.held F (ga_group_id (st_authority ?s)) (sto_sessions st) (st_sessions s)"
    "ns.held F (sto_intents st) (st_intents s)" "rt.held F (sto_routes st) (st_routes s)"
    "au.held F (sto_audit st) (st_audit s)"
    using held same by (simp_all add: tables_held_def)
  from staged have w:
    "write_rows resource_redb_key (row_value (encode_resource F) (st_resources ?s))
       (sorted_list_of_fset (cs_resources c)) (sto_resources st) = Inr (sto_resources st')"
    "write_rows grant_redb_key (row_value encode_grant (st_acl ?s))
       (sorted_list_of_fset (cs_grants c)) (sto_acl st) = Inr (sto_acl st')"
    "write_rows id (\<lambda>n. Inr (if n |\<in>| st_admins ?s then Some () else None) :: storage_error + unit option)
       (sorted_list_of_fset (cs_admins c)) (sto_admins st) = Inr (sto_admins st')"
    "write_rows id (row_value (encode_session F (ga_group_id (st_authority ?s))) (st_sessions ?s))
       (sorted_list_of_fset (cs_sessions c)) (sto_sessions st) = Inr (sto_sessions st')"
    "write_rows id (row_value (encode_intent F) (st_intents ?s))
       (sorted_list_of_fset (cs_intents c)) (sto_intents st) = Inr (sto_intents st')"
    "write_rows id (row_value (encode_route F) (st_routes ?s))
       (sorted_list_of_fset (cs_routes c)) (sto_routes st) = Inr (sto_routes st')"
    "write_rows id (row_value (encode_audit F) (st_audit ?s))
       (sorted_list_of_fset (cs_audit c)) (sto_audit st) = Inr (sto_audit st')"
    by (auto simp: stage_def Let_def sum_bind_Inr)
  note cov = coversD [OF covered]
  have "rs.held F (sto_resources st') (st_resources ?s)"
    by (rule rs.write_held [OF h(1) w(1) ok(1)]) (simp_all add: cov(1) kept(1))
  moreover have "gs.held (sto_acl st') (st_acl ?s)"
    by (rule gs.write_held [OF h(2) w(2) ok(2)]) (simp_all add: cov(2) kept(2))
  moreover have "admins_held (sto_admins st') (st_admins ?s)"
    by (rule write_admins [OF h(3) w(3)]) (simp add: cov(3))
  moreover have "ss.held F (ga_group_id (st_authority ?s)) (sto_sessions st') (st_sessions ?s)"
    by (rule ss.write_held [OF h(4) w(4) ok(3)]) (simp_all add: cov(4) kept(3))
  moreover have "ns.held F (sto_intents st') (st_intents ?s)"
    by (rule ns.write_held [OF h(5) w(5) ok(4)]) (simp_all add: cov(5) kept(4))
  moreover have "rt.held F (sto_routes st') (st_routes ?s)"
    by (rule rt.write_held [OF h(6) w(6) ok(5)]) (simp_all add: cov(6) kept(5))
  moreover have "au.held F (sto_audit st') (st_audit ?s)"
    by (rule au.write_held [OF h(7) w(7) ok(6)]) (simp_all add: cov(7) kept(6))
  ultimately show ?thesis by (simp add: tables_held_def)
qed

lemma stage_meta:
  assumes "stage F d c st = Inr st'" "codecs_faithful F" "binding_good d"
  shows "sum_bind (read_meta F st') meta_from_wire = Inr (bare d)"
proof -
  from assms(1) obtain bs where bs: "sto_meta st' = Some bs"
    "encode_committed DbState (cd_meta F) ''CoordinationMetaV1'' (meta_to_wire d) MAX_COORDINATION_META_BYTES = Inr bs"
    by (auto simp: stage_def Let_def sum_bind_Inr)
  have "decode_persisted_bounded DbState (cd_meta F) what bs MAX_COORDINATION_META_BYTES = Inr (meta_to_wire d)" for what
    using assms(2) bs(2) encode_decode by (auto simp: codecs_faithful_def)
  then show ?thesis
    using meta_back [OF assms(3)] bs(1)
    by (auto simp: read_meta_def copy_stored_bounded_def decode_persisted_bounded_def check_stored_len_def split: if_splits)
qed

section \<open>The metadata of a running replica\<close>

lemma mirror_config_wide:
  assumes "collect_result mirror_config cs = Inr configs"
  shows "list_all (\<lambda>c. fBall c wide_node) configs"
proof -
  have wide: "fBall c wide_node" if "mirror_config x = Inr c" for x c
  proof -
    from that obtain ids where ids: "c = fset_of_list ids"
      "collect_result (\<lambda>n. mirror_node_id ''membership.config'' (rnv_node_id n)) (nsv_ids x) = Inr ids"
      by (auto simp: mirror_config_def sum_bind_Inr)
    have "\<forall>n\<in>set ids. wide_node n"
      using ids(2) by (rule collect_result_all) (simp add: mirror_node_id_def wide_node_def split: if_splits)
    then show ?thesis by (simp add: ids(1) fset_of_list.rep_eq)
  qed
  show ?thesis unfolding list_all_iff using assms by (rule collect_result_all) (rule wide)
qed

lemma voters_wide: "list_all (\<lambda>c. fBall c wide_node) configs \<Longrightarrow> fBall (foldr (|\<union>|) configs {||}) wide_node"
  by (induction configs) auto

lemma membership_from_wire_wf:
  assumes "membership_from_wire w = Inr M"
  shows "om_configs M \<noteq> []" "voter_ids M |\<subseteq>| om_nodes M" "fBall (om_nodes M) wide_node"
proof -
  from assms obtain configs nodes where c: "collect_result mirror_config (mbv_configs w) = Inr configs"
    and n: "collect_result mirror_node_entry (mbv_nodes w) = Inr nodes"
    and M: "M = \<lparr> om_configs = configs, om_nodes = fset_of_list nodes |\<union>| foldr (|\<union>|) configs {||} \<rparr>"
    and ne: "mbv_configs w \<noteq> []"
    by (auto simp: membership_from_wire_def sum_bind_Inr split: if_splits)
  have "\<forall>x\<in>set nodes. wide_node x"
    using n by (rule collect_result_all) (auto simp: mirror_node_entry_def mirror_node_id_def wide_node_def split: if_splits)
  then show "fBall (om_nodes M) wide_node"
    using voters_wide [OF mirror_config_wide [OF c]] by (auto simp: M fset_of_list.rep_eq)
  show "voter_ids M |\<subseteq>| om_nodes M" by (simp add: M voter_ids_def)
  show "om_configs M \<noteq> []" using c ne by (cases "mbv_configs w") (auto simp: M sum_bind_Inr)
qed

lemma stored_membership_wf:
  assumes "stored_membership_from_wire what w = Inr m"
  shows "membership_wf m"
proof (cases "smv_log_id w = None \<and> mbv_configs (smv_membership w) = [] \<and> mbv_nodes (smv_membership w) = []")
  case True
  with assms show ?thesis by (simp add: stored_membership_from_wire_def membership_wf_def)
next
  case False
  with assms obtain l M where l: "opt_result mirror_log_id (smv_log_id w) = Inr l"
    and M: "membership_from_wire (smv_membership w) = Inr M" and m: "m = \<lparr> sm_log_id = l, sm_membership = M \<rparr>"
    by (auto simp: stored_membership_from_wire_def mirror_stored_membership_def sum_bind_Inr)
  have "pred_option wide_log l"
    using l by (cases "smv_log_id w") (auto simp: mirror_log_id_def mirror_node_id_def sum_bind_Inr wide_log_def
        wide_node_def split: if_splits)
  with membership_from_wire_wf [OF M] show ?thesis by (simp add: membership_wf_def m)
qed

lemma meta_from_wire_good:
  assumes "meta_from_wire w = Inr d"
  shows "binding_good d"
proof -
  from assms obtain membership key gid genesis applied fl where valid: "validate_meta_wire w = None"
    and m: "stored_membership_from_wire ''CoordinationMetaV1.membership'' (cmm_membership w) = Inr membership"
    and a: "array32 ''CoordinationMetaV1.authority_public_key'' (cmm_authority_public_key w) = Inr key"
      "array32 ''CoordinationMetaV1.group_id'' (cmm_group_id w) = Inr gid"
      "array32 ''CoordinationMetaV1.genesis_hash'' (cmm_genesis_hash w) = Inr genesis"
    and l: "meta_log_id ''CoordinationMetaV1.last_applied'' (cmm_last_applied w) = Inr applied"
      "meta_log_id ''CoordinationMetaV1.audit_floor'' (cmm_audit_floor w) = Inr fl"
    and d: "d = \<lparr> ds_model =
             \<lparr> st_resources = [], st_acl = [], st_admins = {||}, st_sessions = [], st_intents = [], st_routes = [],
               st_audit_tip = None, st_audit = [],
               st_growth_bytes = cmm_aggregate_growth_bytes w, st_reserve_bytes = cmm_aggregate_reserve_bytes w,
               st_admin_revision = cmm_admin_revision w,
               st_authority = \<lparr> ga_public_key = key, ga_domain = cmm_authority_domain w, ga_group_id = gid,
                 ga_genesis_hash = genesis \<rparr>,
               st_deployment_profile_code = cmm_deployment_profile_code w,
               st_membership = project_membership (sm_membership membership),
               st_membership_log_id = sm_log_id membership,
               st_audit_floor = fl, st_last_applied = applied \<rparr>,
           ds_membership = membership,
           ds_recovery_export_hash = cmm_recovery_export_hash w,
           ds_recovered_from = cmm_recovered_from w \<rparr>"
    by (auto simp: meta_from_wire_def sum_bind_Inr split: option.splits)
  have wide: "pred_option wide_log x" if "meta_log_id what y = Inr x" for what y x
    using that by (cases y) (auto simp: meta_log_id_def sum_bind_Inr log_id_from_wire_def wire_node_id_def wide_log_def
        wide_node_def split: if_splits)
  have "membership_wf membership" using m by (rule stored_membership_wf)
  moreover have "check_authority_domain (cmm_authority_domain w)"
    "pred_option (\<lambda>h. length h = 32) (cmm_recovery_export_hash w)"
    "pred_option (\<lambda>r. check_recovered_from (cmm_recovery_export_hash w) r = None) (cmm_recovered_from w)"
    using valid
    by (auto simp: validate_meta_wire_def check_domain_def check_width_def option.pred_set split: if_splits option.splits)
  moreover have "length key = 32" "length gid = 32" "length genesis = 32"
    using a by (auto simp: array32_def split: if_splits)
  ultimately show ?thesis using wide [OF l(1)] wide [OF l(2)] by (simp add: binding_good_def d)
qed

end
