(* ===== verification/Storage_Actor.thy ===== *)
theory Storage_Actor
  imports Storage_Codec
begin

text \<open>
  The single-writer actor both databases of a voter run behind (\<open>StateActor\<close> in
  \<open>coordination/storage/machine.rs\<close>, \<open>LogActor\<close> in \<open>coordination/storage/log.rs\<close>).  A queue of
  commands is served in order; a failure that puts durability in question latches the store
  before its reply goes out, and everything queued behind it is refused.  A reply of \<open>None\<close> is a
  sender whose command was dropped unanswered.  The locale \<open>fatal_actor\<close> is what the two actors
  need of their drain; its lemmas say the latch is sticky.
\<close>

section \<open>Serving a queue\<close>

record 'a actor =
  ac_fatal :: bool
  ac_body :: 'a

datatype serve_outcome = ServeContinue | ServeFatal

datatype 'c request = Shutdown | Call 'c

definition serve ::
  "('a \<Rightarrow> (storage_error + 'r) \<times> 'a) \<Rightarrow> 'a actor \<Rightarrow> (storage_error + 'r) \<times> serve_outcome \<times> 'a actor" where
  "serve f a =
    (case f (ac_body a) of
       (Inl e, body) \<Rightarrow>
         if puts_durability_in_question e
         then (Inl e, ServeFatal, \<lparr> ac_fatal = True, ac_body = body \<rparr>)
         else (Inl e, ServeContinue, a\<lparr> ac_body := body \<rparr>)
     | (Inr x, body) \<Rightarrow> (Inr x, ServeContinue, a\<lparr> ac_body := body \<rparr>))"

fun actor_run ::
  "('c \<Rightarrow> 'a \<Rightarrow> (storage_error + 'r) \<times> 'a) \<Rightarrow> ('c request list \<Rightarrow> (storage_error + 'r) option list) \<Rightarrow>
   'c request list \<Rightarrow> 'a actor \<Rightarrow> (storage_error + 'r) option list \<times> 'a actor" where
  "actor_run handle drain [] a = ([], a)"
| "actor_run handle drain (Shutdown # cs) a = (None # map (\<lambda>_. None) cs, a)"
| "actor_run handle drain (Call c # cs) a =
    (case serve (handle c) a of
       (r, ServeFatal, a') \<Rightarrow> (Some r # drain cs, a')
     | (r, ServeContinue, a') \<Rightarrow>
         (case actor_run handle drain cs a' of (rs, a'') \<Rightarrow> (Some r # rs, a'')))"

text \<open>What a handle does with a command it awaits: nothing reaches a store that is fatal, and an actor
  that has stopped, so that the command or its reply is lost, latches the store as well.\<close>

definition actor_call ::
  "db \<Rightarrow> bool \<Rightarrow> ('c \<Rightarrow> 'a \<Rightarrow> (storage_error + 'r) \<times> 'a) \<Rightarrow> 'c \<Rightarrow> 'a actor \<Rightarrow> (storage_error + 'r) \<times> 'a actor" where
  "actor_call db stopped handle c a =
    (if ac_fatal a then (Inl Fatal, a)
     else if stopped then (Inl (ActorStopped db), a\<lparr> ac_fatal := True \<rparr>)
     else case serve (handle c) a of (r, _, a') \<Rightarrow> (r, a'))"

text \<open>Commands that satisfy a condition on the state each of them meets.\<close>

fun legal_calls ::
  "('c \<Rightarrow> 'a \<Rightarrow> (storage_error + 'r) \<times> 'a) \<Rightarrow> ('c \<Rightarrow> 'a \<Rightarrow> bool) \<Rightarrow> 'c request list \<Rightarrow> 'a \<Rightarrow> bool" where
  "legal_calls handle P [] b = True"
| "legal_calls handle P (Shutdown # cs) b = True"
| "legal_calls handle P (Call c # cs) b = (P c b \<and> legal_calls handle P cs (snd (handle c b)))"

section \<open>The latch\<close>

definition fatal_reply :: "(storage_error + 'r) option \<Rightarrow> bool" where
  "fatal_reply r = (case r of Some (Inl e) \<Rightarrow> puts_durability_in_question e | _ \<Rightarrow> False)"

lemma fatal_reply_None [simp]: "\<not> fatal_reply None"
  by (simp add: fatal_reply_def)

definition refused_reply :: "(storage_error + 'r) option \<Rightarrow> bool" where
  "refused_reply r = (case r of None \<Rightarrow> True | Some (Inl e) \<Rightarrow> e = Fatal | Some (Inr _) \<Rightarrow> False)"

lemma refused_reply_simps [simp]: "refused_reply None" "refused_reply (Some (Inl Fatal))"
  by (simp_all add: refused_reply_def)

lemma refused_reply_cases: "refused_reply r \<longleftrightarrow> r = None \<or> r = Some (Inl Fatal)"
  by (auto simp: refused_reply_def split: option.splits sum.splits)

text \<open>Once a reply was fatal every later one is a refusal.\<close>

fun sticky :: "(storage_error + 'r) option list \<Rightarrow> bool" where
  "sticky [] = True"
| "sticky (r # rs) = ((fatal_reply r \<longrightarrow> list_all refused_reply rs) \<and> sticky rs)"

lemma sticky_refused: "list_all refused_reply rs \<Longrightarrow> sticky rs"
  by (induction rs) auto

lemma sticky_nth:
  "sticky rs \<Longrightarrow> i < j \<Longrightarrow> j < length rs \<Longrightarrow> fatal_reply (rs ! i) \<Longrightarrow> refused_reply (rs ! j)"
proof (induction rs arbitrary: i j)
  case (Cons r rs)
  then obtain j' where j: "j = Suc j'" by (cases j) auto
  show ?case using Cons by (cases i) (auto simp: j list_all_length)
qed simp

lemma serve_result:
  "serve f a = (r, oc, a') \<longleftrightarrow>
    r = fst (f (ac_body a)) \<and> ac_body a' = snd (f (ac_body a)) \<and>
    oc = (if fatal_reply (Some r) then ServeFatal else ServeContinue) \<and> ac_fatal a' = (ac_fatal a \<or> fatal_reply (Some r))"
  by (cases a; cases a'; cases "f (ac_body a)"; cases "fst (f (ac_body a))")
    (auto simp: serve_def fatal_reply_def split: if_splits)

lemma dropped_refused [simp]: "list_all refused_reply (map (\<lambda>_. None) cs)" "\<not> list_ex fatal_reply (map (\<lambda>_. None) cs)"
  by (induction cs) simp_all

text \<open>What a call does to the rest of the queue.\<close>

lemma actor_run_call:
  obtains (Stop) r a' where "serve (handle c) a = (r, ServeFatal, a')" "actor_run handle drain (Call c # cs) a = (Some r # drain cs, a')"
      "fatal_reply (Some r)" "ac_fatal a'" "ac_body a' = snd (handle c (ac_body a))"
  | (Go) r a' where "serve (handle c) a = (r, ServeContinue, a')" "\<not> fatal_reply (Some r)" "ac_fatal a' = ac_fatal a"
      "ac_body a' = snd (handle c (ac_body a))"
      "actor_run handle drain (Call c # cs) a = (Some r # fst (actor_run handle drain cs a'), snd (actor_run handle drain cs a'))"
proof -
  obtain r oc a' where s: "serve (handle c) a = (r, oc, a')" by (metis prod_cases3)
  note f = s [unfolded serve_result]
  show thesis
  proof (cases oc)
    case ServeContinue
    show thesis by (rule Go [of r a']) (use s f ServeContinue in \<open>simp_all split: if_splits prod.splits\<close>)
  next
    case ServeFatal
    show thesis by (rule Stop [of r a']) (use s f ServeFatal in \<open>simp_all split: if_splits\<close>)
  qed
qed

locale fatal_actor =
  fixes drain :: "'c request list \<Rightarrow> (storage_error + 'r) option list"
  assumes drain_refuses: "list_all refused_reply (drain cs)"
    and drain_length: "length (drain cs) = length cs"
begin

lemma run_length: "length (fst (actor_run handle drain cs a)) = length cs"
proof (induction cs arbitrary: a)
  case (Cons c cs)
  show ?case
  proof (cases c)
    case (Call d)
    show ?thesis by (cases rule: actor_run_call [of handle d a drain cs]) (simp_all add: Call drain_length Cons.IH del: actor_run.simps(3))
  qed simp
qed simp

lemma run_sticky: "sticky (fst (actor_run handle drain cs a))"
proof (induction cs arbitrary: a)
  case (Cons c cs)
  show ?case
  proof (cases c)
    case (Call d)
    show ?thesis
      by (cases rule: actor_run_call [of handle d a drain cs])
        (simp_all add: Call Cons.IH drain_refuses sticky_refused del: actor_run.simps(3))
  qed (simp add: sticky_refused)
qed simp

text \<open>The latch records whether a reply was fatal.\<close>

lemma run_latch:
  "ac_fatal (snd (actor_run handle drain cs a)) = (ac_fatal a \<or> list_ex fatal_reply (fst (actor_run handle drain cs a)))"
proof (induction cs arbitrary: a)
  case (Cons c cs)
  show ?case
  proof (cases c)
    case (Call d)
    show ?thesis
      by (cases rule: actor_run_call [of handle d a drain cs]) (simp_all add: Call Cons.IH del: actor_run.simps(3))
  qed simp
qed simp

lemma run_invariant:
  assumes "\<And>c b. P c b \<Longrightarrow> good b \<Longrightarrow> good (snd (handle c b))"
    and "legal_calls handle P cs (ac_body a)" "good (ac_body a)"
  shows "good (ac_body (snd (actor_run handle drain cs a)))"
  using assms(2,3)
proof (induction cs arbitrary: a)
  case (Cons c cs)
  show ?case
  proof (cases c)
    case (Call d)
    then have good: "good (snd (handle d (ac_body a)))" using Cons.prems assms(1) by simp
    show ?thesis
    proof (cases rule: actor_run_call [of handle d a drain cs])
      case (Stop r a')
      with good show ?thesis by (simp add: Call)
    next
      case (Go r a')
      have "good (ac_body (snd (actor_run handle drain cs a')))"
        using Cons.prems(1) good Call Go(4) by (intro Cons.IH) simp_all
      with Go(5) show ?thesis by (simp add: Call)
    qed
  qed (use Cons.prems in simp)
qed simp

text \<open>A property that only a fatal reply can end holds as long as the latch is open.\<close>

lemma run_live:
  assumes "\<And>c b. live b \<Longrightarrow> \<not> fatal_reply (Some (fst (handle c b))) \<Longrightarrow> live (snd (handle c b))"
    and "live (ac_body a)" "\<not> ac_fatal (snd (actor_run handle drain cs a))"
  shows "live (ac_body (snd (actor_run handle drain cs a)))"
  using assms(2,3)
proof (induction cs arbitrary: a)
  case (Cons c cs)
  show ?case
  proof (cases c)
    case (Call d)
    show ?thesis
    proof (cases rule: actor_run_call [of handle d a drain cs])
      case (Stop r a')
      with Cons.prems(2) show ?thesis by (simp add: Call)
    next
      case (Go r a')
      from Go(1,2) have "\<not> fatal_reply (Some (fst (handle d (ac_body a))))" by (simp add: serve_result)
      then have "live (ac_body a')" using assms(1) Cons.prems(1) Go(4) by simp
      with Cons.IH [of a'] Cons.prems(2) Go(5) show ?thesis by (simp add: Call)
    qed
  qed (use Cons.prems in simp)
qed simp

end

end
