(* ===== verification/Read_Gate.thy ===== *)
theory Read_Gate
  imports Prelude
begin

text \<open>
  The gate that counts reads of \<open>state.redb\<close> and hands out exclusive access to it
  (\<open>coordination/storage/reads.rs\<close>).  The functions are the critical sections the code runs
  under its mutex; the step relation interleaves any number of agents, each of them a read lease, a
  \<open>quiesce\<close> call or a \<open>close\<close> call, that block on the gate's condition variable and are woken by a
  notification or for no reason.  Every reachable state keeps exclusive access exclusive, and no
  agent sleeps through the notification it waits for.
\<close>

section \<open>Critical sections\<close>

record gate_state =
  ga_outstanding :: nat
  ga_exclusive :: bool
  ga_closed :: bool

datatype gate_admission = GateOpen | GateQuiesced | GateClosed

definition gate_admission_of :: "gate_state \<Rightarrow> gate_admission" where
  "gate_admission_of g =
    (if ga_closed g then GateClosed else if ga_exclusive g then GateQuiesced else GateOpen)"

definition new_gate :: gate_state where
  "new_gate = \<lparr> ga_outstanding = 0, ga_exclusive = False, ga_closed = False \<rparr>"

definition reserve :: "gate_state \<Rightarrow> gate_state option" where
  "reserve g =
    (if gate_admission_of g \<noteq> GateOpen then None
     else Some (g\<lparr> ga_outstanding := ga_outstanding g + 1 \<rparr>))"

text \<open>Dropping a lease; the second component says whether the waiters are notified.\<close>

definition drop_lease :: "gate_state \<Rightarrow> gate_state \<times> bool" where
  "drop_lease g =
    (let g = g\<lparr> ga_outstanding := ga_outstanding g - 1 \<rparr> in (g, ga_outstanding g = 0))"

text \<open>\<open>quiesce\<close>, from its two wait loops on: a failed condition sleeps.\<close>

datatype quiesce_step = QSleep | QRefused gate_state bool | QClaimed gate_state | QGranted gate_state

definition quiesce_claim :: "gate_state \<Rightarrow> quiesce_step" where
  "quiesce_claim g =
    (if \<not> ga_closed g \<and> ga_exclusive g then QSleep
     else if ga_closed g then QRefused g False
     else QClaimed (g\<lparr> ga_exclusive := True \<rparr>))"

definition quiesce_drain :: "gate_state \<Rightarrow> quiesce_step" where
  "quiesce_drain g =
    (if \<not> ga_closed g \<and> ga_outstanding g > 0 then QSleep
     else if ga_closed g then QRefused (g\<lparr> ga_exclusive := False \<rparr>) True
     else QGranted g)"

definition drop_quiesced :: "gate_state \<Rightarrow> gate_state" where
  "drop_quiesced g = g\<lparr> ga_exclusive := False \<rparr>"

definition close_begin :: "gate_state \<Rightarrow> gate_state" where
  "close_begin g = g\<lparr> ga_closed := True \<rparr>"

definition close_waits :: "gate_state \<Rightarrow> bool" where
  "close_waits g = (ga_outstanding g > 0 \<or> ga_exclusive g)"

section \<open>Agents\<close>

text \<open>Where an agent is.  The boolean of a waiting agent says whether it is asleep.  \<open>Holding\<close> has a
  \<open>Quiesced\<close> guard, \<open>Drained\<close> has returned from \<open>close\<close>, \<open>Returned\<close> has dropped what it had or was
  refused.\<close>

datatype agent =
    Idle
  | Reading
  | Claiming bool
  | Draining bool
  | Holding
  | Closing bool
  | Drained
  | Returned

record gate_world =
  gw_gate :: gate_state
  gw_agent :: "nat \<Rightarrow> agent"

text \<open>\<open>Condvar::notify_all\<close>.\<close>

fun wake :: "agent \<Rightarrow> agent" where
  "wake (Claiming _) = Claiming False"
| "wake (Draining _) = Draining False"
| "wake (Closing _) = Closing False"
| "wake a = a"

definition notify_if :: "bool \<Rightarrow> (nat \<Rightarrow> agent) \<Rightarrow> nat \<Rightarrow> agent" where
  "notify_if b p = (if b then wake \<circ> p else p)"

definition goes :: "gate_world \<Rightarrow> nat \<Rightarrow> agent \<Rightarrow> gate_state \<Rightarrow> bool \<Rightarrow> gate_world" where
  "goes w t a g notified = \<lparr> gw_gate = g, gw_agent = (notify_if notified (gw_agent w))(t := a) \<rparr>"

inductive gate_step :: "gate_world \<Rightarrow> gate_world \<Rightarrow> bool" where
  reserve_step: "gw_agent w t = Idle \<Longrightarrow> reserve (gw_gate w) = Some g \<Longrightarrow> gate_step w (goes w t Reading g False)"
| refuse_step: "gw_agent w t = Idle \<Longrightarrow> reserve (gw_gate w) = None \<Longrightarrow>
    gate_step w (goes w t Returned (gw_gate w) False)"
| release_step: "gw_agent w t = Reading \<Longrightarrow> drop_lease (gw_gate w) = (g, n) \<Longrightarrow>
    gate_step w (goes w t Returned g n)"
| quiesce_call: "gw_agent w t = Idle \<Longrightarrow> gate_step w (goes w t (Claiming False) (gw_gate w) False)"
| claim_sleep: "gw_agent w t = Claiming False \<Longrightarrow> quiesce_claim (gw_gate w) = QSleep \<Longrightarrow>
    gate_step w (goes w t (Claiming True) (gw_gate w) False)"
| claim_refused: "gw_agent w t = Claiming False \<Longrightarrow> quiesce_claim (gw_gate w) = QRefused g n \<Longrightarrow>
    gate_step w (goes w t Returned g n)"
| claim_done: "gw_agent w t = Claiming False \<Longrightarrow> quiesce_claim (gw_gate w) = QClaimed g \<Longrightarrow>
    gate_step w (goes w t (Draining False) g False)"
| drain_sleep: "gw_agent w t = Draining False \<Longrightarrow> quiesce_drain (gw_gate w) = QSleep \<Longrightarrow>
    gate_step w (goes w t (Draining True) (gw_gate w) False)"
| drain_refused: "gw_agent w t = Draining False \<Longrightarrow> quiesce_drain (gw_gate w) = QRefused g n \<Longrightarrow>
    gate_step w (goes w t Returned g n)"
| drain_done: "gw_agent w t = Draining False \<Longrightarrow> quiesce_drain (gw_gate w) = QGranted g \<Longrightarrow>
    gate_step w (goes w t Holding g False)"
| resume_step: "gw_agent w t = Holding \<Longrightarrow> gate_step w (goes w t Returned (drop_quiesced (gw_gate w)) True)"
| close_call: "gw_agent w t = Idle \<Longrightarrow> gate_step w (goes w t (Closing False) (close_begin (gw_gate w)) True)"
| close_sleep: "gw_agent w t = Closing False \<Longrightarrow> close_waits (gw_gate w) \<Longrightarrow>
    gate_step w (goes w t (Closing True) (gw_gate w) False)"
| close_done: "gw_agent w t = Closing False \<Longrightarrow> \<not> close_waits (gw_gate w) \<Longrightarrow>
    gate_step w (goes w t Drained (gw_gate w) False)"
| spurious: "gw_agent w t \<in> {Claiming True, Draining True, Closing True} \<Longrightarrow>
    gate_step w (goes w t (wake (gw_agent w t)) (gw_gate w) False)"

definition gate_start :: gate_world where
  "gate_start = \<lparr> gw_gate = new_gate, gw_agent = (\<lambda>_. Idle) \<rparr>"

inductive gate_reachable :: "gate_world \<Rightarrow> bool" where
  gate_initial: "gate_reachable gate_start"
| gate_next: "gate_reachable w \<Longrightarrow> gate_step w w' \<Longrightarrow> gate_reachable w'"

section \<open>The invariant\<close>

definition readers :: "gate_world \<Rightarrow> nat set" where
  "readers w = {t. gw_agent w t = Reading}"

fun is_owner :: "agent \<Rightarrow> bool" where
  "is_owner (Draining _) = True"
| "is_owner Holding = True"
| "is_owner _ = False"

definition owners :: "gate_world \<Rightarrow> nat set" where
  "owners w = {t. is_owner (gw_agent w t)}"

text \<open>A sleeping agent waits for a condition that does not hold yet, and the gate of a store that
  \<open>close\<close> has returned from is closed for good.\<close>

definition sleeps_rightly :: "gate_state \<Rightarrow> agent \<Rightarrow> bool" where
  "sleeps_rightly g a =
    (case a of
       Claiming True \<Rightarrow> \<not> ga_closed g \<and> ga_exclusive g
     | Draining True \<Rightarrow> \<not> ga_closed g \<and> ga_outstanding g > 0
     | Closing b \<Rightarrow> ga_closed g \<and> (b \<longrightarrow> close_waits g)
     | Drained \<Rightarrow> ga_closed g \<and> \<not> close_waits g
     | _ \<Rightarrow> True)"

definition gate_inv :: "gate_world \<Rightarrow> bool" where
  "gate_inv w =
    (finite (readers w) \<and> ga_outstanding (gw_gate w) = card (readers w) \<and>
     ga_exclusive (gw_gate w) = (owners w \<noteq> {}) \<and> (\<forall>t\<in>owners w. \<forall>u\<in>owners w. t = u) \<and>
     (\<forall>t. gw_agent w t = Holding \<longrightarrow> readers w = {}) \<and>
     (\<forall>t. sleeps_rightly (gw_gate w) (gw_agent w t)))"

lemma wake_simps [simp]:
  "wake a = Reading \<longleftrightarrow> a = Reading" "wake a = Holding \<longleftrightarrow> a = Holding" "is_owner (wake a) = is_owner a"
  by (cases a; simp)+

lemma goes_simps [simp]:
  "gw_gate (goes w t a g n) = g"
  "gw_agent (goes w t a g n) u = (if u = t then a else if n then wake (gw_agent w u) else gw_agent w u)"
  "readers (goes w t a g n) = (if a = Reading then insert t (readers w) else readers w - {t})"
  "owners (goes w t a g n) = (if is_owner a then insert t (owners w) else owners w - {t})"
  by (auto simp: goes_def notify_if_def readers_def owners_def)

lemma in_sets [simp]:
  "t \<in> readers w \<longleftrightarrow> gw_agent w t = Reading" "t \<in> owners w \<longleftrightarrow> is_owner (gw_agent w t)"
  by (simp_all add: readers_def owners_def)

lemma sleeps_simps [simp]:
  "sleeps_rightly g Idle" "sleeps_rightly g Reading" "sleeps_rightly g Holding" "sleeps_rightly g Returned"
  "sleeps_rightly g (Claiming b) \<longleftrightarrow> (b \<longrightarrow> \<not> ga_closed g \<and> ga_exclusive g)"
  "sleeps_rightly g (Draining b) \<longleftrightarrow> (b \<longrightarrow> \<not> ga_closed g \<and> ga_outstanding g > 0)"
  "sleeps_rightly g (Closing b) \<longleftrightarrow> ga_closed g \<and> (b \<longrightarrow> close_waits g)"
  "sleeps_rightly g Drained \<longleftrightarrow> ga_closed g \<and> \<not> close_waits g"
  by (simp_all add: sleeps_rightly_def split: bool.splits)

lemma sleeps_wake:
  assumes "sleeps_rightly g a" "ga_closed g \<longrightarrow> ga_closed g'" "close_waits g' \<longrightarrow> close_waits g"
  shows "sleeps_rightly g' (wake a)"
  using assms by (cases a) auto

text \<open>A state in which nobody who sleeps could go on stays one as long as the gate moves no waiter's way.\<close>

lemma sleeps_mono:
  assumes "sleeps_rightly g a" "ga_closed g' = ga_closed g" "ga_exclusive g \<longrightarrow> ga_exclusive g'"
    "ga_outstanding g > 0 \<longrightarrow> ga_outstanding g' > 0" "ga_closed g \<longrightarrow> close_waits g' \<longrightarrow> close_waits g"
  shows "sleeps_rightly g' a"
  using assms by (cases a) (auto simp: close_waits_def)

lemma gate_invD:
  assumes "gate_inv w"
  shows "finite (readers w)" "ga_outstanding (gw_gate w) = card (readers w)"
    "ga_exclusive (gw_gate w) \<longleftrightarrow> owners w \<noteq> {}" "t \<in> owners w \<Longrightarrow> u \<in> owners w \<Longrightarrow> t = u"
    "gw_agent w t = Holding \<Longrightarrow> readers w = {}" "sleeps_rightly (gw_gate w) (gw_agent w t)"
  using assms by (auto simp: gate_inv_def)

lemma owner_alone:
  assumes "gate_inv w" "is_owner (gw_agent w t)"
  shows "owners w = {t}" "ga_exclusive (gw_gate w)"
proof -
  have t: "t \<in> owners w" using assms(2) by simp
  with gate_invD(4) [OF assms(1)] show "owners w = {t}" by blast
  with gate_invD(3) [OF assms(1)] show "ga_exclusive (gw_gate w)" by simp
qed

lemma goes_inv:
  assumes "gate_inv w"
    and "ga_outstanding g = card (readers (goes w t a g n))"
    and "ga_exclusive g \<longleftrightarrow> owners (goes w t a g n) \<noteq> {}"
    and "is_owner a \<Longrightarrow> owners w \<subseteq> {t}"
    and "a = Holding \<Longrightarrow> readers w = {}" "a = Reading \<Longrightarrow> owners w = {}"
    and "sleeps_rightly g a"
    and "\<And>u. u \<noteq> t \<Longrightarrow> sleeps_rightly g (if n then wake (gw_agent w u) else gw_agent w u)"
  shows "gate_inv (goes w t a g n)"
proof -
  note i = gate_invD [OF assms(1)]
  have hold: "readers (goes w t a g n) = {}" if "gw_agent (goes w t a g n) u = Holding" for u
  proof (cases "u = t")
    case True
    with that assms(5) show ?thesis by simp
  next
    case False
    with that have u: "gw_agent w u = Holding" by (simp split: if_splits)
    then have "u \<in> owners w" by simp
    with assms(6) have "a \<noteq> Reading" by blast
    with i(5) [OF u] show ?thesis by simp
  qed
  have uniq: "x = y" if "x \<in> owners (goes w t a g n)" "y \<in> owners (goes w t a g n)" for x y
    using that assms(4) i(4) [of x y] by (auto split: if_splits simp del: in_sets)
  have fin: "finite (readers (goes w t a g n))" using i(1) by simp
  have sl: "sleeps_rightly g (gw_agent (goes w t a g n) u)" for u
    using assms(7) assms(8) [of u] by (cases "u = t") simp_all
  show ?thesis
    unfolding gate_inv_def goes_simps(1) using fin assms(2,3) hold uniq sl by blast
qed

text \<open>An agent that neither reads nor owns the gate, and the one that owns it.\<close>

lemma outsider_inv:
  assumes "gate_inv w" "\<not> is_owner (gw_agent w t)" "gw_agent w t \<noteq> Reading" "\<not> is_owner a" "a \<noteq> Reading"
    and "ga_outstanding g = ga_outstanding (gw_gate w)" "ga_exclusive g = ga_exclusive (gw_gate w)"
    and "sleeps_rightly g a" "\<And>u. u \<noteq> t \<Longrightarrow> sleeps_rightly g (if n then wake (gw_agent w u) else gw_agent w u)"
  shows "gate_inv (goes w t a g n)"
proof -
  note i = gate_invD [OF assms(1)]
  have t: "readers w - {t} = readers w" "owners w - {t} = owners w" using assms(2,3) by auto
  show ?thesis
    by (rule goes_inv [OF assms(1) _ _ _ _ _ assms(8)]) (use assms(4-7,9) i(2,3) t in \<open>auto simp del: in_sets\<close>)
qed

lemma owner_inv:
  assumes "gate_inv w" "is_owner (gw_agent w t)" "a \<noteq> Reading"
    and "ga_outstanding g = ga_outstanding (gw_gate w)" "ga_exclusive g = is_owner a"
    and "a = Holding \<Longrightarrow> ga_outstanding g = 0"
    and "sleeps_rightly g a" "\<And>u. u \<noteq> t \<Longrightarrow> sleeps_rightly g (if n then wake (gw_agent w u) else gw_agent w u)"
  shows "gate_inv (goes w t a g n)"
proof -
  note i = gate_invD [OF assms(1)] and o = owner_alone [OF assms(1,2)]
  have t: "readers w - {t} = readers w" using assms(2) by auto
  show ?thesis
    by (rule goes_inv [OF assms(1) _ _ _ _ _ assms(7)]) (use assms(3-6,8) i(1,2) o t in \<open>auto simp del: in_sets\<close>)
qed

text \<open>Every step preserves the invariant.\<close>

lemma lease_inv:
  assumes inv: "gate_inv w"
  shows "gw_agent w t = Idle \<Longrightarrow> reserve (gw_gate w) = Some g \<Longrightarrow> gate_inv (goes w t Reading g False)"
    "gw_agent w t = Reading \<Longrightarrow> drop_lease (gw_gate w) = (g, n) \<Longrightarrow> gate_inv (goes w t Returned g n)"
proof -
  note i = gate_invD [OF inv]
  assume t: "gw_agent w t = Idle" and "reserve (gw_gate w) = Some g"
  then have g: "g = (gw_gate w)\<lparr> ga_outstanding := ga_outstanding (gw_gate w) + 1 \<rparr>"
    "\<not> ga_closed (gw_gate w)" "\<not> ga_exclusive (gw_gate w)"
    by (auto simp: reserve_def gate_admission_of_def split: if_splits)
  have t': "t \<notin> readers w" "t \<notin> owners w" using t by simp_all
  show "gate_inv (goes w t Reading g False)"
    by (rule goes_inv [OF inv]) (use i(1,2,3) g t' in \<open>auto simp del: in_sets intro: sleeps_mono [OF i(6)]\<close>)
next
  note i = gate_invD [OF inv]
  assume t: "gw_agent w t = Reading" and "drop_lease (gw_gate w) = (g, n)"
  then have g: "g = (gw_gate w)\<lparr> ga_outstanding := ga_outstanding (gw_gate w) - 1 \<rparr>"
    "n = (ga_outstanding (gw_gate w) - 1 = 0)"
    by (auto simp: drop_lease_def Let_def)
  have t': "t \<in> readers w" "owners w - {t} = owners w" using t by auto
  have "ga_closed g = ga_closed (gw_gate w)" "ga_exclusive g = ga_exclusive (gw_gate w)" "n = (ga_outstanding g = 0)"
    "close_waits g \<longrightarrow> close_waits (gw_gate w)"
    using g by (simp_all add: close_waits_def)
  then have "sleeps_rightly g (if n then wake (gw_agent w u) else gw_agent w u)" for u
    using sleeps_wake [OF i(6), of g u] sleeps_mono [OF i(6), of g u] by auto
  then show "gate_inv (goes w t Returned g n)"
    by (intro goes_inv [OF inv]) (use i(1,2,3) g t' in \<open>auto simp del: in_sets\<close>)
qed

lemma quiesce_inv:
  assumes inv: "gate_inv w"
  shows "gw_agent w t = Claiming False \<Longrightarrow> quiesce_claim (gw_gate w) = QClaimed g \<Longrightarrow> gate_inv (goes w t (Draining False) g False)"
    "gw_agent w t = Draining False \<Longrightarrow> quiesce_drain (gw_gate w) = QSleep \<Longrightarrow> gate_inv (goes w t (Draining True) (gw_gate w) False)"
    "gw_agent w t = Draining False \<Longrightarrow> quiesce_drain (gw_gate w) = QRefused g n \<Longrightarrow> gate_inv (goes w t Returned g n)"
    "gw_agent w t = Draining False \<Longrightarrow> quiesce_drain (gw_gate w) = QGranted g \<Longrightarrow> gate_inv (goes w t Holding g False)"
    "gw_agent w t = Holding \<Longrightarrow> gate_inv (goes w t Returned (drop_quiesced (gw_gate w)) True)"
proof -
  note i = gate_invD [OF inv]
  have owned: "ga_exclusive (gw_gate w)" if "is_owner (gw_agent w t)" using owner_alone(2) [OF inv that] .
  show "gate_inv (goes w t (Draining False) g False)"
    if t: "gw_agent w t = Claiming False" and "quiesce_claim (gw_gate w) = QClaimed g"
  proof -
    have g: "g = (gw_gate w)\<lparr> ga_exclusive := True \<rparr>" "\<not> ga_exclusive (gw_gate w)" "\<not> ga_closed (gw_gate w)"
      using that(2) by (auto simp: quiesce_claim_def split: if_splits)
    have "t \<notin> readers w" using t by simp
    then show ?thesis
      using i(1,2,3) g by (intro goes_inv [OF inv]) (auto simp del: in_sets intro: sleeps_mono [OF i(6)])
  qed
  show "gate_inv (goes w t (Draining True) (gw_gate w) False)"
    if "gw_agent w t = Draining False" "quiesce_drain (gw_gate w) = QSleep"
    using that owned i(6) by (intro owner_inv [OF inv]) (auto simp: quiesce_drain_def split: if_splits)
  show "gate_inv (goes w t Holding g False)"
    if "gw_agent w t = Draining False" "quiesce_drain (gw_gate w) = QGranted g"
    using that owned i(6) by (intro owner_inv [OF inv]) (auto simp: quiesce_drain_def split: if_splits)
  show "gate_inv (goes w t Returned g n)"
    if "gw_agent w t = Draining False" "quiesce_drain (gw_gate w) = QRefused g n"
    using that
    by (intro owner_inv [OF inv])
      (auto simp: quiesce_drain_def close_waits_def split: if_splits intro: sleeps_wake [OF i(6)])
  show "gate_inv (goes w t Returned (drop_quiesced (gw_gate w)) True)" if "gw_agent w t = Holding"
    using that by (intro owner_inv [OF inv]) (auto simp: drop_quiesced_def close_waits_def intro: sleeps_wake [OF i(6)])
qed

lemma spurious_inv:
  assumes inv: "gate_inv w" and t: "gw_agent w t \<in> {Claiming True, Draining True, Closing True}"
  shows "gate_inv (goes w t (wake (gw_agent w t)) (gw_gate w) False)"
proof (cases "gw_agent w t = Draining True")
  case True
  with gate_invD(6) [OF inv] owner_alone(2) [OF inv, of t] show ?thesis by (intro owner_inv [OF inv]) auto
next
  case False
  moreover have "ga_closed (gw_gate w)" if "gw_agent w t = Closing True" using that gate_invD(6) [OF inv, of t] by simp
  ultimately show ?thesis using t gate_invD(6) [OF inv] by (intro outsider_inv [OF inv]) auto
qed

lemma gate_step_inv:
  assumes "gate_step w w'" "gate_inv w"
  shows "gate_inv w'"
  using assms
proof (induction rule: gate_step.induct)
  case (close_call w t)
  then show ?case
    by (intro outsider_inv [OF close_call.prems])
      (auto simp: close_begin_def close_waits_def intro: sleeps_wake gate_invD(6) [OF close_call.prems])
next
  case (close_sleep w t)
  then have "ga_closed (gw_gate w)" using gate_invD(6) [OF close_sleep.prems, of t] by simp
  then show ?case
    using close_sleep gate_invD(6) [OF close_sleep.prems] by (intro outsider_inv [OF close_sleep.prems]) auto
next
  case (close_done w t)
  then have "ga_closed (gw_gate w)" using gate_invD(6) [OF close_done.prems, of t] by simp
  then show ?case
    using close_done gate_invD(6) [OF close_done.prems] by (intro outsider_inv [OF close_done.prems]) auto
next
  case (refuse_step w t)
  then show ?case
    using gate_invD(6) [OF refuse_step.prems]
    by (intro outsider_inv [OF refuse_step.prems]) (auto simp: reserve_def split: if_splits)
next
  case (quiesce_call w t)
  then show ?case
    using gate_invD(6) [OF quiesce_call.prems]
    by (intro outsider_inv [OF quiesce_call.prems]) (auto simp: quiesce_claim_def split: if_splits)
next
  case (claim_sleep w t)
  then show ?case
    using gate_invD(6) [OF claim_sleep.prems]
    by (intro outsider_inv [OF claim_sleep.prems]) (auto simp: quiesce_claim_def split: if_splits)
next
  case (claim_refused w t g n)
  then show ?case
    using gate_invD(6) [OF claim_refused.prems]
    by (intro outsider_inv [OF claim_refused.prems]) (auto simp: quiesce_claim_def split: if_splits)
qed (simp_all add: lease_inv quiesce_inv spurious_inv del: insert_iff)

lemma gate_reachable_inv: "gate_reachable w \<Longrightarrow> gate_inv w"
proof (induction rule: gate_reachable.induct)
  case gate_initial
  have "readers gate_start = {}" "owners gate_start = {}" by (auto simp: gate_start_def readers_def owners_def)
  then show ?case by (simp add: gate_inv_def gate_start_def new_gate_def)
qed (rule gate_step_inv)

section \<open>What the gate promises\<close>

definition waiting :: "agent \<Rightarrow> bool" where
  "waiting a = (case a of Claiming _ \<Rightarrow> True | Draining _ \<Rightarrow> True | Closing _ \<Rightarrow> True | _ \<Rightarrow> False)"

definition asleep :: "agent \<Rightarrow> bool" where
  "asleep a = (a \<in> {Claiming True, Draining True, Closing True})"

lemma exclusive_alone:
  assumes "gate_inv w" "gw_agent w t = Holding"
  shows "gw_agent w u \<noteq> Reading" "gw_agent w u = Holding \<Longrightarrow> u = t"
proof -
  show "gw_agent w u \<noteq> Reading" using gate_invD(5) [OF assms] by (auto simp: readers_def)
  have "t \<in> owners w" using assms(2) by simp
  then show "gw_agent w u = Holding \<Longrightarrow> u = t" using gate_invD(4) [OF assms(1), of u t] by simp
qed

lemma drained_idle:
  assumes "gate_inv w" "gw_agent w t = Drained"
  shows "gw_agent w u \<noteq> Reading" "\<not> is_owner (gw_agent w u)" "ga_closed (gw_gate w)"
proof -
  have c: "ga_closed (gw_gate w)" "ga_outstanding (gw_gate w) = 0" "\<not> ga_exclusive (gw_gate w)"
    using gate_invD(6) [OF assms(1), of t] assms(2) by (simp_all add: close_waits_def)
  show "ga_closed (gw_gate w)" by (rule c)
  have "readers w = {}" "owners w = {}" using gate_invD(1-3) [OF assms(1)] c by simp_all
  then show "gw_agent w u \<noteq> Reading" "\<not> is_owner (gw_agent w u)" by (auto simp: readers_def owners_def)
qed

text \<open>When nobody has the gate, some agent that waits for it is awake.\<close>

lemma somebody_awake:
  assumes inv: "gate_inv w" and idle: "\<And>u. gw_agent w u \<noteq> Reading \<and> gw_agent w u \<noteq> Holding" and t: "waiting (gw_agent w t)"
  shows "\<exists>u. waiting (gw_agent w u) \<and> \<not> asleep (gw_agent w u)"
proof (rule ccontr)
  assume "\<not> ?thesis"
  then have all: "waiting (gw_agent w u) \<Longrightarrow> asleep (gw_agent w u)" for u by blast
  note i = gate_invD [OF inv]
  have "readers w = {}" using idle by (auto simp: readers_def)
  then have out: "ga_outstanding (gw_gate w) = 0" using i(2) by simp
  have "\<not> is_owner (gw_agent w u)" for u
  proof
    assume "is_owner (gw_agent w u)"
    then obtain b where "gw_agent w u = Draining b" using idle [of u] by (cases "gw_agent w u") auto
    with all [of u] i(6) [of u] out show False by (cases b) (auto simp: waiting_def asleep_def)
  qed
  then have "owners w = {}" by (auto simp: owners_def)
  then have "\<not> ga_exclusive (gw_gate w)" using i(3) by simp
  with all [OF t] t i(6) [of t] out show False
    by (cases "gw_agent w t") (auto simp: waiting_def asleep_def close_waits_def)
qed

section \<open>Every call returns\<close>

text \<open>The steps of the calls that are under way: nobody new arrives, and nobody wakes for no reason.\<close>

definition gate_work :: "gate_world \<Rightarrow> gate_world \<Rightarrow> bool" where
  "gate_work w w' =
    (gate_step w w' \<and> (\<forall>t. gw_agent w t = Idle \<longrightarrow> gw_agent w' t = Idle) \<and>
     (\<exists>t. \<not> asleep (gw_agent w t) \<and> gw_agent w' t \<noteq> gw_agent w t))"

definition settled :: "agent \<Rightarrow> bool" where
  "settled a = (a \<in> {Idle, Returned, Drained})"

definition active :: "gate_world \<Rightarrow> nat set" where
  "active w = {t. gw_agent w t \<noteq> Idle}"

text \<open>How much of its call an agent has left, and whether it can take a step now.\<close>

fun remaining :: "agent \<Rightarrow> nat" where
  "remaining (Claiming _) = 3"
| "remaining (Draining _) = 2"
| "remaining Holding = 1"
| "remaining Reading = 1"
| "remaining (Closing _) = 1"
| "remaining _ = 0"

definition awake :: "agent \<Rightarrow> nat" where
  "awake a = (if waiting a \<and> \<not> asleep a then 1 else 0)"

definition work_left :: "gate_world \<Rightarrow> nat \<times> nat" where
  "work_left w = (\<Sum>t\<in>active w. remaining (gw_agent w t), \<Sum>t\<in>active w. awake (gw_agent w t))"

lemma remaining_wake [simp]: "remaining (wake a) = remaining a"
  by (cases a) auto

lemma active_finite: "gate_reachable w \<Longrightarrow> finite (active w)"
proof (induction rule: gate_reachable.induct)
  case gate_initial
  then show ?case by (simp add: active_def gate_start_def)
next
  case (gate_next w w')
  have "active (goes w t a g n) \<subseteq> insert t (active w)" for t a g n
  proof
    fix u
    assume u: "u \<in> active (goes w t a g n)"
    have "wake b \<noteq> Idle \<Longrightarrow> b \<noteq> Idle" for b by (cases b) auto
    with u show "u \<in> insert t (active w)" by (auto simp: active_def split: if_splits)
  qed
  moreover from gate_next(2) have "\<exists>t a g n. w' = goes w t a g n" by cases blast+
  ultimately have "\<exists>t. active w' \<subseteq> insert t (active w)" by blast
  with gate_next(3) show ?case by (meson finite_insert finite_subset)
qed

text \<open>A step of work moves one agent that is awake: on in its call, or to sleep with nobody notified.\<close>

lemma gate_work_cases:
  assumes "gate_work w w'"
  obtains t a g n where "w' = goes w t a g n" "gw_agent w t \<noteq> Idle" "a \<noteq> Idle"
    "remaining a < remaining (gw_agent w t) \<or>
     \<not> n \<and> remaining a = remaining (gw_agent w t) \<and> awake a < awake (gw_agent w t)"
proof -
  have step: "gate_step w w'" and idle: "gw_agent w t = Idle \<Longrightarrow> gw_agent w' t = Idle" for t
    using assms by (auto simp: gate_work_def)
  have no_spurious: False if "w' = goes w t (wake (gw_agent w t)) (gw_gate w) False" "asleep (gw_agent w t)" for t
    using assms that by (auto simp: gate_work_def split: if_splits)
  show thesis
    using step
  proof cases
    case (spurious t)
    then show thesis using no_spurious [of t] by (auto simp: asleep_def)
  qed (use idle in \<open>force simp: awake_def waiting_def asleep_def intro: that\<close>)+
qed

text \<open>The work left gets less.\<close>

lemma work_left_goes:
  assumes "finite (active w)" "gw_agent w t \<noteq> Idle" "a \<noteq> Idle"
    "remaining a < remaining (gw_agent w t) \<or>
     \<not> n \<and> remaining a = remaining (gw_agent w t) \<and> awake a < awake (gw_agent w t)"
  shows "(work_left (goes w t a g n), work_left w) \<in> less_than <*lex*> less_than"
proof -
  let ?w = "goes w t a g n"
  have "wake b = Idle \<longleftrightarrow> b = Idle" for b by (cases b) auto
  then have act: "active ?w = active w" using assms(2,3) by (auto simp: active_def)
  have t: "t \<in> active w" using assms(2) by (simp add: active_def)
  have le: "remaining (gw_agent ?w u) \<le> remaining (gw_agent w u)" for u using assms(4) by auto
  show ?thesis
  proof (cases "remaining a < remaining (gw_agent w t)")
    case True
    then have "(\<Sum>u\<in>active w. remaining (gw_agent ?w u)) < (\<Sum>u\<in>active w. remaining (gw_agent w u))"
      using assms(1) t le by (intro sum_strict_mono_ex1) auto
    then show ?thesis by (simp add: work_left_def act)
  next
    case False
    then have n: "\<not> n" "remaining a = remaining (gw_agent w t)" "awake a < awake (gw_agent w t)" using assms(4) by auto
    then have "(\<Sum>u\<in>active w. awake (gw_agent ?w u)) < (\<Sum>u\<in>active w. awake (gw_agent w u))"
      using assms(1) t by (intro sum_strict_mono_ex1) auto
    moreover have "(\<Sum>u\<in>active w. remaining (gw_agent ?w u)) = (\<Sum>u\<in>active w. remaining (gw_agent w u))"
      using n by (intro sum.cong) auto
    ultimately show ?thesis unfolding work_left_def act by simp
  qed
qed

lemma gate_work_reachable: "gate_reachable w \<Longrightarrow> gate_work w w' \<Longrightarrow> gate_reachable w'"
  by (auto simp: gate_work_def intro: gate_next)

lemma no_endless_work:
  assumes "gate_reachable (f 0)" "\<And>n. gate_work (f n) (f (Suc n))"
  shows False
proof -
  have reach: "gate_reachable (f n)" for n
    using assms by (induction n) (auto intro: gate_work_reachable)
  have "(work_left (f (Suc n)), work_left (f n)) \<in> less_than <*lex*> less_than" for n
    using assms(2) [of n] by (rule gate_work_cases) (metis work_left_goes active_finite reach)
  then have "\<exists>g. \<forall>n. (g (Suc n), g n) \<in> less_than <*lex*> less_than"
    by (intro exI [of _ "\<lambda>n. work_left (f n)"]) simp
  moreover have "wf (less_than <*lex*> less_than)" by (intro wf_lex_prod wf_less_than)
  ultimately show False by (simp add: wf_iff_no_infinite_down_chain)
qed

text \<open>An agent that is awake, reading or holding can take a step.\<close>

lemma awake_works:
  assumes "gw_agent w t = Reading \<or> gw_agent w t = Holding \<or> waiting (gw_agent w t) \<and> \<not> asleep (gw_agent w t)"
  shows "\<exists>w'. gate_work w w'"
proof -
  have "wake Idle = Idle" by simp
  then have go: "\<exists>w'. gate_work w w'" if "gate_step w (goes w t a g n)" "a \<noteq> gw_agent w t" for a g n
    using that assms unfolding gate_work_def
    by (intro exI [of _ "goes w t a g n"]) (auto simp: waiting_def asleep_def intro!: exI [of _ t])
  consider "gw_agent w t = Reading" | "gw_agent w t = Holding" | "gw_agent w t = Claiming False"
    | "gw_agent w t = Draining False" | "gw_agent w t = Closing False"
    using assms by (cases "gw_agent w t") (auto simp: waiting_def asleep_def)
  then show ?thesis
  proof cases
    case 1
    then show ?thesis by (intro go) (rule release_step, assumption, rule surjective_pairing, simp)
  next
    case 2
    then show ?thesis by (intro go) (rule resume_step, assumption, simp)
  next
    case 3
    have "quiesce_claim (gw_gate w) \<noteq> QGranted g" for g by (simp add: quiesce_claim_def)
    with 3 go [OF claim_sleep [OF 3]] go [OF claim_refused [OF 3]] go [OF claim_done [OF 3]] show ?thesis
      by (cases "quiesce_claim (gw_gate w)") auto
  next
    case 4
    have "quiesce_drain (gw_gate w) \<noteq> QClaimed g" for g by (simp add: quiesce_drain_def)
    with 4 go [OF drain_sleep [OF 4]] go [OF drain_refused [OF 4]] go [OF drain_done [OF 4]] show ?thesis
      by (cases "quiesce_drain (gw_gate w)") auto
  next
    case 5
    with go [OF close_sleep [OF 5]] go [OF close_done [OF 5]] show ?thesis
      by (cases "close_waits (gw_gate w)") simp_all
  qed
qed

lemma stuck_settled:
  assumes "gate_reachable w" "\<nexists>w'. gate_work w w'"
  shows "settled (gw_agent w t)"
proof -
  have no: "gw_agent w u \<noteq> Reading \<and> gw_agent w u \<noteq> Holding" "\<not> (waiting (gw_agent w u) \<and> \<not> asleep (gw_agent w u))" for u
    using awake_works assms(2) by blast+
  have "\<not> waiting (gw_agent w t)"
    using somebody_awake [OF gate_reachable_inv [OF assms(1)] no(1)] no(2) by blast
  then show ?thesis using no(1) [of t] by (cases "gw_agent w t") (auto simp: settled_def waiting_def)
qed

lemma work_reaches: "gate_work\<^sup>*\<^sup>* w w' \<Longrightarrow> gate_reachable w \<Longrightarrow> gate_reachable w'"
  by (induction rule: rtranclp_induct) (auto intro: gate_work_reachable)

lemma drained_stays:
  assumes "gate_step\<^sup>*\<^sup>* w w'" "gw_agent w t = Drained"
  shows "gw_agent w' t = Drained"
  using assms
proof (induction rule: rtranclp_induct)
  case (step w' w'')
  from step(2,3) step(4) show ?case by (cases rule: gate_step.cases) auto
qed

lemma steps_reachable: "gate_step\<^sup>*\<^sup>* w w' \<Longrightarrow> gate_reachable w \<Longrightarrow> gate_reachable w'"
  by (induction rule: rtranclp_induct) (auto intro: gate_next)

end
