(* ===== verification/Coord_Actor.thy ===== *)
theory Coord_Actor
  imports Coord_Store Storage_Actor Read_Gate
begin

text \<open>
  The state actor of a voter (\<open>StateActor\<close> in \<open>coordination/storage/machine.rs\<close>): the published
  state, the store behind it and the two published views, with one operation per command of the
  actor.  A batch moves the state out, and only a commit that returned puts one back.  Installing a
  snapshot (\<open>StateCommand::Install\<close>) is the one command this model leaves out.  The lemmas show
  that memory is never ahead of the store: whenever a state is published, a load of the store
  finds exactly that state, and after a failure it finds the state before or after the batch.
\<close>

section \<open>The actor\<close>

record admin_view =
  av_revision :: u64
  av_root :: node_id
  av_delegates :: "node_id fset"

definition admin_view_of :: "durable_state \<Rightarrow> admin_view" where
  "admin_view_of d =
    \<lparr> av_revision = st_admin_revision (ds_model d), av_root = ga_public_key (st_authority (ds_model d)),
      av_delegates = st_admins (ds_model d) \<rparr>"

definition view_is_administrator :: "admin_view \<Rightarrow> node_id \<Rightarrow> bool" where
  "view_is_administrator v actor = (av_revision v > 0 \<and> (av_root v = actor \<or> actor |\<in>| av_delegates v))"

record state_actor =
  sa_store :: store
  sa_state :: "durable_state option"
  sa_committed :: stored_membership
  sa_admins :: admin_view

definition install_state :: "durable_state \<Rightarrow> state_actor \<Rightarrow> state_actor" where
  "install_state d a = a\<lparr> sa_committed := ds_membership d, sa_admins := admin_view_of d, sa_state := Some d \<rparr>"

text \<open>The actor starts on a state that was loaded before it, and its views are seeded from that state.\<close>

definition spawn_actor :: "store \<Rightarrow> durable_state \<Rightarrow> state_actor" where
  "spawn_actor st d =
    \<lparr> sa_store = st, sa_state = Some d, sa_committed = ds_membership d, sa_admins = admin_view_of d \<rparr>"

text \<open>Opening a store loads and validates it before the actor exists.  The check of the snapshot marker
  against the loaded state, between the two, belongs to the snapshots, which are not modelled.\<close>

definition open_state :: "externs \<Rightarrow> row_codecs \<Rightarrow> store \<Rightarrow> storage_error + state_actor" where
  "open_state E F st = sum_bind (load E F st) (\<lambda>d. Inr (spawn_actor st d))"

section \<open>Commands\<close>

definition machine_fault :: "machine_error \<Rightarrow> storage_error" where
  "machine_fault e =
    (case e of
       ApplyFault _ \<Rightarrow> Corrupt ''apply''
     | NamesRoot \<Rightarrow> Corrupt ''membership''
     | LearnerEnvelope _ \<Rightarrow> Corrupt ''membership'')"

definition actor_apply ::
  "externs \<Rightarrow> row_codecs \<Rightarrow> redb_commit \<Rightarrow> raft_entry list \<Rightarrow> state_actor \<Rightarrow>
   (storage_error + command_reply_v1 list) \<times> state_actor" where
  "actor_apply E F landed entries a =
    (if entries = [] then (Inr [], a)
     else case sa_state a of
       None \<Rightarrow> (Inl Fatal, a)
     | Some working \<Rightarrow>
         (let a = a\<lparr> sa_state := None \<rparr> in
          case machine_apply E entries working of
            Inl e \<Rightarrow> (Inl (machine_fault e), a)
          | Inr (replies, working, changes) \<Rightarrow>
              (case commit F landed working changes (sa_store a) of
                 (Inl e, st) \<Rightarrow> (Inl e, a\<lparr> sa_store := st \<rparr>)
               | (Inr committed, st) \<Rightarrow> (Inr replies, install_state committed (a\<lparr> sa_store := st \<rparr>)))))"

text \<open>The reads, each on the published state.\<close>

definition published :: "(durable_state \<Rightarrow> 'r) \<Rightarrow> state_actor \<Rightarrow> storage_error + 'r" where
  "published f a = (case sa_state a of None \<Rightarrow> Inl Fatal | Some d \<Rightarrow> Inr (f d))"

definition applied_state :: "state_actor \<Rightarrow> storage_error + (log_id option \<times> stored_membership)" where
  "applied_state = published (\<lambda>d. (st_last_applied (ds_model d), ds_membership d))"

definition genesis_applied_fact :: "durable_state \<Rightarrow> bool" where
  "genesis_applied_fact d =
    (if st_admin_revision (ds_model d) = 0 then False
     else if ds_recovered_from d = None then True
     else list_ex (\<lambda>(_, row). au_operation_code row = OPERATION_GENESIS) (st_audit (ds_model d)))"

definition genesis_installed :: "state_actor \<Rightarrow> storage_error + bool" where
  "genesis_installed = published genesis_applied_fact"

record observability_facts =
  ob_genesis_hash :: hash32
  ob_genesis_installed :: bool
  ob_audit_floor_index :: "u64 option"

definition observability :: "state_actor \<Rightarrow> storage_error + observability_facts" where
  "observability = published (\<lambda>d.
    \<lparr> ob_genesis_hash = ga_genesis_hash (st_authority (ds_model d)),
      ob_genesis_installed = genesis_applied_fact d,
      ob_audit_floor_index = map_option lg_index (st_audit_floor (ds_model d)) \<rparr>)"

definition active_intent :: "state_actor \<Rightarrow> storage_error + (operation_id \<times> intent) option" where
  "active_intent = published (\<lambda>d. find (\<lambda>(_, i). \<not> is_terminal_phase (in_status_code i)) (st_intents (ds_model d)))"

datatype preflight_answer = Admission admission | ShapelessUnresolved

definition actor_preflight ::
  "externs \<Rightarrow> client_ref \<Rightarrow> action option \<Rightarrow> state_actor \<Rightarrow>
   storage_error + (preflight_answer \<times> log_id option \<times> bool)" where
  "actor_preflight E client act = published (\<lambda>d.
    let s = ds_model d;
        creates_session = (case classify_client s client of Unresolved _ creates \<Rightarrow> creates | _ \<Rightarrow> False);
        answer = (case act of
            Some act \<Rightarrow> Admission (preflight E s client act)
          | None \<Rightarrow> (case preflight_shapeless s client of
              Some admission \<Rightarrow> Admission admission
            | None \<Rightarrow> ShapelessUnresolved))
    in (answer, st_last_applied s, creates_session))"

definition retire_preflight ::
  "retire_command \<Rightarrow> state_actor \<Rightarrow> storage_error + (retire_decision \<times> log_id option)" where
  "retire_preflight cmd = published (\<lambda>d. (retire_decide (ds_model d) cmd, st_last_applied (ds_model d)))"

text \<open>A read transaction pins the committed version of the store.  It takes a lease from the gate, which
  other threads change as well: \<open>g\<close> is the gate as the command finds it, and the lease is counted in the gate
  it leaves; \<open>begins\<close> says whether redb could begin the transaction.\<close>

definition read_transaction :: "gate_state \<Rightarrow> bool \<Rightarrow> state_actor \<Rightarrow> storage_error + (store \<times> gate_state)" where
  "read_transaction g begins a =
    (case sa_state a of
       None \<Rightarrow> Inl Fatal
     | Some _ \<Rightarrow>
       (case reserve g of
          None \<Rightarrow> Inl (ActorStopped DbState)
        | Some g' \<Rightarrow> if begins then Inr (sa_store a, g') else Inl (Redb DbState)))"

section \<open>The queue\<close>

text \<open>A batch carries what redb will do with its transaction, a read what it will find.\<close>

datatype state_command =
    AppliedState
  | ApplyBatch "raft_entry list" redb_commit
  | ReadTransaction gate_state bool
  | GenesisInstalled
  | Observability
  | ActiveIntent
  | Preflight client_ref "action option"
  | RetirePreflight retire_command

datatype state_reply =
    ReplyApplied "log_id option" stored_membership
  | ReplyBatch "command_reply_v1 list"
  | ReplyRead store gate_state
  | ReplyGenesis bool
  | ReplyObservability observability_facts
  | ReplyIntent "(operation_id \<times> intent) option"
  | ReplyPreflight preflight_answer "log_id option" bool
  | ReplyRetire retire_decision "log_id option"

definition read_reply :: "('a \<Rightarrow> state_reply) \<Rightarrow> (state_actor \<Rightarrow> storage_error + 'a) \<Rightarrow> state_actor \<Rightarrow>
   (storage_error + state_reply) \<times> state_actor" where
  "read_reply c f a = (map_sum (\<lambda>e. e) c (f a), a)"

definition state_handle ::
  "externs \<Rightarrow> row_codecs \<Rightarrow> state_command \<Rightarrow> state_actor \<Rightarrow> (storage_error + state_reply) \<times> state_actor" where
  "state_handle E F cmd =
    (case cmd of
       AppliedState \<Rightarrow> read_reply (\<lambda>(l, m). ReplyApplied l m) applied_state
     | ApplyBatch entries landed \<Rightarrow>
         (\<lambda>a. map_prod (map_sum (\<lambda>e. e) ReplyBatch) (\<lambda>a. a) (actor_apply E F landed entries a))
     | ReadTransaction g begins \<Rightarrow> read_reply (\<lambda>(st, g). ReplyRead st g) (read_transaction g begins)
     | GenesisInstalled \<Rightarrow> read_reply ReplyGenesis genesis_installed
     | Observability \<Rightarrow> read_reply ReplyObservability observability
     | ActiveIntent \<Rightarrow> read_reply ReplyIntent active_intent
     | Preflight client act \<Rightarrow> read_reply (\<lambda>(x, l, c). ReplyPreflight x l c) (actor_preflight E client act)
     | RetirePreflight cmd \<Rightarrow> read_reply (\<lambda>(x, l). ReplyRetire x l) (retire_preflight cmd))"

fun state_drain :: "state_command request list \<Rightarrow> (storage_error + state_reply) option list" where
  "state_drain [] = []"
| "state_drain (Shutdown # cs) = None # map (\<lambda>_. None) cs"
| "state_drain (Call _ # cs) = Some (Inl Fatal) # state_drain cs"

interpretation sd: fatal_actor state_drain
proof
  show "list_all refused_reply (state_drain cs)" for cs
    by (induction cs rule: state_drain.induct) simp_all
  show "length (state_drain cs) = length cs" for cs
    by (induction cs rule: state_drain.induct) simp_all
qed

section \<open>What a batch leaves of the metadata\<close>

lemma apply_entry_recovery:
  assumes "apply_entry E gid e m = Inr (reply, m')"
  shows "ds_recovery_export_hash (mc_durable m') = ds_recovery_export_hash (mc_durable m)"
    "ds_recovered_from (mc_durable m') = ds_recovered_from (mc_durable m)"
  using assms
  by (auto simp: apply_entry_def apply_blank_def apply_membership_def apply_normal_def Let_def
      split: entry_payload.splits option.splits if_splits prod.splits sum.splits)

lemma apply_entry_authority:
  assumes "apply_entry E gid e m = Inr (reply, m')"
  shows "st_authority (ds_model (mc_durable m')) = st_authority (ds_model (mc_durable m))"
  using assms
proof (cases rule: apply_entry_cases)
  case (Command wire cmd r)
  from Command(3) show ?thesis
    by (cases rule: recording_cases) (auto simp: upd_state_def prod_eq_iff dest: command_step_frame(1))
qed simp_all

lemma audit_floor_wide:
  assumes "audit_inv s"
  shows "pred_option wide_log (st_audit_floor s)"
  using assms
  by (cases "st_audit s")
    (auto simp: audit_inv_def head_log_id_def row_log_id_def audit_row_good_def storable_audit_def wide_log_def)

lemma apply_entry_binding:
  assumes legal: "legal_entry code_of e m" and inv: "machine_inv E code_of m'" and good: "binding_good (mc_durable m)"
    and step: "apply_entry E gid e m = Inr (reply, m')"
  shows "binding_good (mc_durable m')"
proof -
  let ?d = "mc_durable m" and ?d' = "mc_durable m'"
  have l: "wide_log (en_log_id e)" using legal by (simp add: legal_entry_def in_order_def)
  have fl: "pred_option wide_log (st_audit_floor (ds_model ?d'))"
    using inv by (intro audit_floor_wide) (simp add: machine_inv_def state_inv_def)
  have m: "st_membership (ds_model ?d') = project_membership (sm_membership (ds_membership ?d'))"
    "st_membership_log_id (ds_model ?d') = sm_log_id (ds_membership ?d')"
    using inv by (simp_all add: machine_inv_def meta_inv_def Let_def)
  have "pred_option wide_log (st_last_applied (ds_model ?d')) \<and> membership_wf (ds_membership ?d')"
    using step
  proof (cases rule: apply_entry_cases)
    case (Member M)
    then show ?thesis using legal l by (simp add: legal_entry_def legal_membership_def membership_wf_def)
  next
    case (Command wire cmd r)
    from Command(3) have "st_last_applied (ds_model ?d') = Some (en_log_id e)"
      by (cases rule: recording_cases) (auto simp: upd_state_def prod_eq_iff)
    then show ?thesis using Command(4) l good by (simp add: binding_good_def Let_def)
  qed (use l good in \<open>simp_all add: binding_good_def Let_def\<close>)
  then show ?thesis
    using good fl m apply_entry_authority [OF step] apply_entry_recovery [OF step]
    by (simp add: binding_good_def Let_def)
qed

text \<open>A replica that is sound: the invariant of its state, and metadata that survives its encoding.\<close>

definition replica_ok :: "externs \<Rightarrow> (hash32 \<Rightarrow> i32) \<Rightarrow> machine \<Rightarrow> bool" where
  "replica_ok E code_of m = (machine_inv E code_of m \<and> binding_good (mc_durable m))"

interpretation ro: invariant_machine "apply_entry E gid" "apply_entries E gid" "legal_entry code_of" "replica_ok E code_of"
  for E gid code_of
  by unfold_locales (auto simp: replica_ok_def intro: apply_entry_inv apply_entry_binding)

text \<open>The machine a batch starts from.\<close>

abbreviation start :: "durable_state \<Rightarrow> machine" where
  "start d \<equiv> \<lparr> mc_durable = d, mc_changes = empty_changes \<rparr>"

abbreviation group_of :: "durable_state \<Rightarrow> bytes" where
  "group_of d \<equiv> ga_group_id (st_authority (ds_model d))"

lemma apply_entries_authority:
  "apply_entries E gid es m = Inr (replies, m') \<Longrightarrow>
    st_authority (ds_model (mc_durable m')) = st_authority (ds_model (mc_durable m))"
proof (induction es arbitrary: m replies)
  case (Cons e es)
  then obtain r m1 rs where "apply_entry E gid e m = Inr (r, m1)" "apply_entries E gid es m1 = Inr (rs, m')"
    unfolding lm.run_Cons_Inr by blast
  with Cons.IH [of m1 rs] apply_entry_authority show ?case by metis
qed simp

lemma machine_apply_ok:
  assumes "machine_apply E es d = Inr (replies, d', c)" "replica_ok E code_of (start d)"
    "legal_entries E (group_of d) code_of es (start d)"
  shows "replica_ok E code_of (start d')" "st_authority (ds_model d') = st_authority (ds_model d)"
proof -
  have run: "apply_entries E (group_of d) es (start d) = Inr (replies, \<lparr> mc_durable = d', mc_changes = c \<rparr>)"
    using assms(1) by (simp add: machine_apply_Inr)
  show "replica_ok E code_of (start d')"
    using ro.run_inv [OF assms(3) [unfolded legal_entries_run] assms(2) run] by (simp add: replica_ok_def machine_inv_def)
  show "st_authority (ds_model d') = st_authority (ds_model d)"
    using apply_entries_authority [OF run] by simp
qed

section \<open>Memory and disk\<close>

lemma replica_loads:
  assumes "replica_ok E code_of (start d)" "holds F st d"
  shows "load E F st = Inr d"
proof (rule holds_load [OF assms(2)])
  show "validate E d = None" using machine_inv_valid [of E code_of "start d"] assms(1) by (simp add: replica_ok_def)
  show "st_audit_tip (ds_model d) = rebuild_audit_tip (st_audit (ds_model d))"
    using assms(1) by (simp add: replica_ok_def machine_inv_def state_inv_def audit_tip_rebuilt)
qed

text \<open>The transaction of a batch makes the store hold the state after it.\<close>

lemma stage_holds:
  assumes held: "holds F st d" and F: "codecs_faithful F" and ok: "replica_ok E code_of (start d)"
    and legal: "legal_entries E (group_of d) code_of es (start d)"
    and run: "machine_apply E es d = Inr (replies, d', c)" and staged: "stage F d' c st = Inr st'"
  shows "holds F st' d'" "replica_ok E code_of (start d')"
proof -
  note after = machine_apply_ok [OF run ok legal]
  show "replica_ok E code_of (start d')" by (rule after(1))
  then have inv: "state_inv E code_of (ds_model d')" "binding_good d'" by (simp_all add: replica_ok_def machine_inv_def)
  have "tables_held F st (ds_model d)" using held by (simp add: holds_def)
  then have "tables_held F st' (ds_model d')"
    using covers_machine_apply [OF run] staged after(2) inv(1) F by (rule stage_tables)
  with stage_meta [OF staged F inv(2)] show "holds F st' d'" by (simp add: holds_def)
qed

text \<open>The invariant of the actor: the store holds a sound state, and a published state is that one,
  with the views that go with it.\<close>

definition actor_ok :: "externs \<Rightarrow> row_codecs \<Rightarrow> (hash32 \<Rightarrow> i32) \<Rightarrow> state_actor \<Rightarrow> bool" where
  "actor_ok E F code_of a =
    (\<exists>d. holds F (sa_store a) d \<and> replica_ok E code_of (start d) \<and>
      (case sa_state a of
         None \<Rightarrow> True
       | Some d' \<Rightarrow> d' = d \<and> sa_committed a = ds_membership d \<and> sa_admins a = admin_view_of d))"

text \<open>What the batch of a command must satisfy.\<close>

definition legal_batch :: "externs \<Rightarrow> (hash32 \<Rightarrow> i32) \<Rightarrow> raft_entry list \<Rightarrow> state_actor \<Rightarrow> bool" where
  "legal_batch E code_of es a =
    (case sa_state a of None \<Rightarrow> True | Some d \<Rightarrow> legal_entries E (group_of d) code_of es (start d))"

lemma actor_apply_cases:
  obtains (Nothing) "es = []" "actor_apply E F landed es a = (Inr [], a)"
  | (Taken) "es \<noteq> []" "sa_state a = None" "actor_apply E F landed es a = (Inl Fatal, a)"
  | (Fault) d e where "es \<noteq> []" "sa_state a = Some d" "machine_apply E es d = Inl e"
      "actor_apply E F landed es a = (Inl (machine_fault e), a\<lparr> sa_state := None \<rparr>)"
  | (Unstaged) d replies d' c e where "es \<noteq> []" "sa_state a = Some d" "machine_apply E es d = Inr (replies, d', c)"
      "stage F d' c (sa_store a) = Inl e" "actor_apply E F landed es a = (Inl e, a\<lparr> sa_state := None \<rparr>)"
  | (Failed) d replies d' c st' where "es \<noteq> []" "sa_state a = Some d" "machine_apply E es d = Inr (replies, d', c)"
      "stage F d' c (sa_store a) = Inr st'" "landed \<noteq> Landed"
      "actor_apply E F landed es a = (Inl (Redb DbState),
        a\<lparr> sa_state := None, sa_store := (if landed = Lost then sa_store a else st') \<rparr>)"
  | (Done) d replies d' c st' where "es \<noteq> []" "sa_state a = Some d" "machine_apply E es d = Inr (replies, d', c)"
      "stage F d' c (sa_store a) = Inr st'" "landed = Landed"
      "actor_apply E F landed es a = (Inr replies, install_state d' (a\<lparr> sa_store := st' \<rparr>))"
proof -
  consider "es = []" | "es \<noteq> []" "sa_state a = None" | d where "es \<noteq> []" "sa_state a = Some d"
    by (cases "sa_state a") auto
  then show thesis
  proof cases
    case 1
    then show thesis by (intro Nothing) (simp_all add: actor_apply_def)
  next
    case 2
    then show thesis by (intro Taken) (simp_all add: actor_apply_def)
  next
    case (3 d)
    show thesis
    proof (cases "machine_apply E es d")
      case (Inl e)
      with 3 show thesis by (intro Fault) (simp_all add: actor_apply_def)
    next
      case (Inr x)
      then obtain replies d' c where run: "machine_apply E es d = Inr (replies, d', c)" by (cases x) auto
      show thesis
      proof (cases "stage F d' c (sa_store a)")
        case (Inl e)
        with 3 run show thesis by (intro Unstaged) (simp_all add: actor_apply_def commit_def Let_def)
      next
        case (Inr st')
        show thesis
        proof (cases "landed = Landed")
          case True
          with 3 run Inr show thesis
            by (intro Done) (simp_all add: actor_apply_def commit_def Let_def install_state_def)
        next
          case False
          with 3 run Inr show thesis
            by (intro Failed) (cases landed; simp add: actor_apply_def commit_def Let_def)+
        qed
      qed
    qed
  qed
qed

lemma actor_apply_ok:
  assumes ok: "actor_ok E F code_of a" and legal: "legal_batch E code_of es a" and F: "codecs_faithful F"
  shows "actor_ok E F code_of (snd (actor_apply E F landed es a))"
proof -
  obtain d where d: "holds F (sa_store a) d" "replica_ok E code_of (start d)" "sa_state a = None \<or> sa_state a = Some d"
    using ok by (cases "sa_state a") (auto simp: actor_ok_def)
  have after: "holds F st' d'" "replica_ok E code_of (start d')"
    if "sa_state a = Some x" "machine_apply E es x = Inr (replies, d', c)" "stage F d' c (sa_store a) = Inr st'"
    for x replies d' c st'
    using stage_holds [OF d(1) F d(2)] that d(3) legal by (auto simp: legal_batch_def)
  show ?thesis
  proof (cases rule: actor_apply_cases [of es E F landed a])
    case (Failed x replies d' c st')
    show ?thesis
    proof (cases "landed = Lost")
      case True
      with Failed d show ?thesis by (auto simp: actor_ok_def)
    next
      case False
      with Failed(6) after [OF Failed(2-4)] show ?thesis by (auto simp: actor_ok_def)
    qed
  next
    case (Done x replies d' c st')
    from Done(6) after [OF Done(2-4)] show ?thesis by (auto simp: actor_ok_def install_state_def)
  qed (use d ok in \<open>auto simp: actor_ok_def\<close>)
qed

definition legal_state_command :: "externs \<Rightarrow> (hash32 \<Rightarrow> i32) \<Rightarrow> state_command \<Rightarrow> state_actor \<Rightarrow> bool" where
  "legal_state_command E code_of cmd a =
    (case cmd of ApplyBatch es _ \<Rightarrow> legal_batch E code_of es a | _ \<Rightarrow> True)"

lemma state_handle_ok:
  assumes "legal_state_command E code_of cmd a" "actor_ok E F code_of a" "codecs_faithful F"
  shows "actor_ok E F code_of (snd (state_handle E F cmd a))"
  using assms actor_apply_ok [of E F code_of a]
  by (cases cmd) (simp_all add: state_handle_def read_reply_def legal_state_command_def)

lemma binding_good_bare: "binding_good (bare d) = binding_good d"
  by (simp add: binding_good_def bare_def Let_def)

lemma load_replica:
  assumes "load E F st = Inr d" "store_ok st" "machine_inv E code_of (start d)"
  shows "holds F st d" "replica_ok E code_of (start d)"
proof -
  show held: "holds F st d" by (rule load_finds [OF assms(1,2)])
  then have "binding_good (bare d)" by (auto simp: holds_def sum_bind_Inr dest: meta_from_wire_good)
  with assms(3) show "replica_ok E code_of (start d)" by (simp add: replica_ok_def binding_good_bare)
qed

lemma open_state_ok:
  assumes "open_state E F st = Inr a" "store_ok st"
    and "case sa_state a of None \<Rightarrow> False | Some d \<Rightarrow> machine_inv E code_of (start d)"
  shows "actor_ok E F code_of a"
proof -
  from assms(1) obtain d where d: "load E F st = Inr d" "a = \<lparr> sa_store = st, sa_state = Some d,
      sa_committed = ds_membership d, sa_admins = admin_view_of d \<rparr>"
    by (auto simp: open_state_def spawn_actor_def sum_bind_Inr)
  then have "machine_inv E code_of (start d)" using assms(3) by simp
  with load_replica [OF d(1) assms(2)] show ?thesis unfolding actor_ok_def by (intro exI [of _ d]) (simp add: d(2))
qed

lemma run_actor_ok:
  assumes "actor_ok E F code_of (ac_body a)" "codecs_faithful F"
    "legal_calls (state_handle E F) (legal_state_command E code_of) cs (ac_body a)"
  shows "actor_ok E F code_of (ac_body (snd (actor_run (state_handle E F) state_drain cs a)))"
proof (rule sd.run_invariant [where P = "legal_state_command E code_of"])
  show "actor_ok E F code_of (snd (state_handle E F c b))"
    if "legal_state_command E code_of c b" "actor_ok E F code_of b" for c b
    using that assms(2) by (rule state_handle_ok)
qed (rule assms(3,1))+

text \<open>A batch that fails is a fatal reply, so an actor that is not latched has a published state.\<close>

lemma encode_errors:
  "encode_resource F k r = Inl e \<Longrightarrow> puts_durability_in_question e"
  "encode_grant k2 r2 = Inl e \<Longrightarrow> puts_durability_in_question e"
  "encode_session F gid k3 r3 = Inl e \<Longrightarrow> puts_durability_in_question e"
  "encode_intent F k4 r4 = Inl e \<Longrightarrow> puts_durability_in_question e"
  "encode_route F k5 r5 = Inl e \<Longrightarrow> puts_durability_in_question e"
  "encode_audit F k6 r6 = Inl e \<Longrightarrow> puts_durability_in_question e"
  by (auto simp: encode_resource_def encode_grant_def encode_session_def encode_intent_def encode_route_def
      encode_audit_def sum_bind_Inl corrupt_in_def puts_durability_in_question_def split: option.splits sum.splits
      dest: codec_errors(2))

lemma stage_errors: "stage F d c st = Inl e \<Longrightarrow> puts_durability_in_question e"
  by (auto simp: stage_def Let_def sum_bind_Inl dest!: write_rows_Inl row_value_Inl dest: encode_errors codec_errors(2))

lemma actor_apply_live:
  "sa_state a \<noteq> None \<Longrightarrow> \<not> fatal_reply (Some (fst (actor_apply E F landed es a))) \<Longrightarrow>
    sa_state (snd (actor_apply E F landed es a)) \<noteq> None"
  by (cases rule: actor_apply_cases [of es E F landed a])
    (auto simp: fatal_reply_def machine_fault_def install_state_def puts_durability_in_question_def
      dest: stage_errors split: machine_error.splits)

lemma state_handle_live:
  assumes "sa_state a \<noteq> None" "\<not> fatal_reply (Some (fst (state_handle E F cmd a)))"
  shows "sa_state (snd (state_handle E F cmd a)) \<noteq> None"
proof (cases cmd)
  case (ApplyBatch es landed)
  have "fatal_reply (Some (map_sum (\<lambda>e. e) ReplyBatch x)) = fatal_reply (Some x)" for x
    by (cases x) (simp_all add: fatal_reply_def)
  with assms actor_apply_live [of a E F landed es] show ?thesis by (simp add: ApplyBatch state_handle_def)
qed (use assms(1) in \<open>simp_all add: state_handle_def read_reply_def\<close>)

text \<open>What the invariant means for the next open.\<close>

lemma actor_ok_reopens:
  assumes "actor_ok E F code_of a"
  shows "\<exists>a'. open_state E F (sa_store a) = Inr a' \<and> (sa_state a \<noteq> None \<longrightarrow> a' = a)"
proof -
  obtain d where d: "holds F (sa_store a) d" "replica_ok E code_of (start d)"
    "case sa_state a of None \<Rightarrow> True
     | Some d' \<Rightarrow> d' = d \<and> sa_committed a = ds_membership d \<and> sa_admins a = admin_view_of d"
    using assms by (auto simp: actor_ok_def)
  have "open_state E F (sa_store a) = Inr \<lparr> sa_store = sa_store a, sa_state = Some d, sa_committed = ds_membership d,
      sa_admins = admin_view_of d \<rparr>"
    using replica_loads [OF d(2,1)] by (simp add: open_state_def spawn_actor_def)
  then show ?thesis using d(3) by (cases a) auto
qed

text \<open>A batch is all or nothing on disk, whatever becomes of its transaction, and a failed one takes the
  published state with it.\<close>

lemma machine_fault_fatal: "puts_durability_in_question (machine_fault e)"
  by (cases e) (simp_all add: machine_fault_def puts_durability_in_question_def)

lemma actor_apply_atomic:
  assumes ok: "actor_ok E F code_of a" and F: "codecs_faithful F" and legal: "legal_batch E code_of es a"
    and d: "sa_state a = Some d" and run: "actor_apply E F landed es a = (reply, a')"
  shows "case reply of
     Inr rs \<Rightarrow>
       if es = [] then rs = [] \<and> a' = a \<and> load E F (sa_store a') = Inr d
       else \<exists>d' c. machine_apply E es d = Inr (rs, d', c) \<and> sa_state a' = Some d' \<and> load E F (sa_store a') = Inr d'
   | Inl e \<Rightarrow> puts_durability_in_question e \<and> sa_state a' = None \<and>
       (load E F (sa_store a') = Inr d \<or>
        (\<exists>replies d' c. machine_apply E es d = Inr (replies, d', c) \<and> load E F (sa_store a') = Inr d'))"
proof -
  have held: "holds F (sa_store a) d" "replica_ok E code_of (start d)" using ok d by (auto simp: actor_ok_def)
  note before = replica_loads [OF held(2,1)]
  have after: "load E F st' = Inr d'"
    if "machine_apply E es d = Inr (replies, d', c)" "stage F d' c (sa_store a) = Inr st'" for replies d' c st'
    using stage_holds [OF held(1) F held(2) _ that] legal d replica_loads by (auto simp: legal_batch_def)
  show ?thesis
  proof (cases rule: actor_apply_cases [of es E F landed a])
    case (Fault x e)
    with run d before machine_fault_fatal [of e] show ?thesis by auto
  next
    case (Unstaged x replies d' c e)
    with run d before stage_errors [OF Unstaged(4)] show ?thesis by auto
  next
    case (Failed x replies d' c st')
    with run d have res: "machine_apply E es d = Inr (replies, d', c)" "reply = Inl (Redb DbState)" "sa_state a' = None"
      "sa_store a' = (if landed = Lost then sa_store a else st')"
      by auto
    have "load E F st' = Inr d'" using after Failed(2-4) d by simp
    with res before show ?thesis by (cases "landed = Lost") (auto simp: puts_durability_in_question_def)
  next
    case (Done x replies d' c st')
    with run d after [of replies d' c st'] show ?thesis by (auto simp: install_state_def)
  qed (use run d before in auto)
qed

section \<open>Reads against a barrier\<close>

datatype barrier_fit = Satisfied | Behind | Diverged

definition against :: "log_id option \<Rightarrow> log_id option \<Rightarrow> barrier_fit" where
  "against pinned barrier =
    (case barrier of
       None \<Rightarrow> Satisfied
     | Some barrier \<Rightarrow>
       (case pinned of
          None \<Rightarrow> Behind
        | Some pinned \<Rightarrow>
          if lg_index pinned < lg_index barrier then Behind
          else if lg_index pinned > lg_index barrier then Satisfied
          else if pinned = barrier then Satisfied
          else Diverged))"

text \<open>The version a transaction has pinned is the one a full load of it reports.\<close>

lemma load_pinned: "load E F st = Inr d \<Longrightarrow> pinned_applied F st = Inr (st_last_applied (ds_model d))"
  by (auto simp: load_def pinned_applied_def sum_bind_Inr Let_def split: if_splits option.splits)

end
