(* ===== verification/Raft_Log.thy ===== *)
theory Raft_Log
  imports Coord_Meta Row_Store Coord_Machine Storage_Actor
begin

text \<open>
  The Raft log of a voter (\<open>coordination/storage/log.rs\<close>): the tables of \<open>raft.redb\<close>, the
  encoding of entries, votes and log ids, the operations of the log actor and the validation an
  open runs.  A table redb has not created yet reads as an empty one.  Each
  write carries what becomes of its transaction.  \<open>Raft_View\<close> has the lemmas.
\<close>

section \<open>Stored forms\<close>

datatype entry_payload_v1 =
    BlankV1
  | NormalV1 command_v1
  | MembershipPayloadV1 membership_v1
  | UnknownPayloadV1

record raft_entry_v1 =
  rev_log_id :: log_id_v1
  rev_payload :: entry_payload_v1

record vote_v1 =
  vtv_term :: u64
  vtv_leader_node_id :: bytes
  vtv_committed :: bool

text \<open>OpenRaft's vote: the leader it is for, and whether a quorum granted it.\<close>

record raft_vote =
  vo_term :: u64
  vo_node :: node_id
  vo_committed :: bool

definition entry_to_wire :: "raft_entry \<Rightarrow> raft_entry_v1" where
  "entry_to_wire e =
    \<lparr> rev_log_id = log_id_to_wire (en_log_id e),
      rev_payload =
        (case en_payload e of
           Blank \<Rightarrow> BlankV1
         | Normal cmd \<Rightarrow> NormalV1 cmd
         | MembershipPayload m \<Rightarrow> MembershipPayloadV1 (membership_to_wire m)) \<rparr>"

definition entry_from_wire :: "raft_entry_v1 \<Rightarrow> mirror_error + raft_entry" where
  "entry_from_wire w =
    sum_bind (mirror_log_id (rev_log_id w)) (\<lambda>l.
    sum_bind
      (case rev_payload w of
         BlankV1 \<Rightarrow> Inr Blank
       | NormalV1 cmd \<Rightarrow> Inr (Normal cmd)
       | MembershipPayloadV1 m \<Rightarrow> sum_bind (membership_from_wire m) (\<lambda>m. Inr (MembershipPayload m))
       | UnknownPayloadV1 \<Rightarrow> Inl UnknownPayloadVariant) (\<lambda>p.
      Inr \<lparr> en_log_id = l, en_payload = p \<rparr>))"

definition vote_to_wire :: "raft_vote \<Rightarrow> vote_v1" where
  "vote_to_wire v = \<lparr> vtv_term = vo_term v, vtv_leader_node_id = vo_node v, vtv_committed = vo_committed v \<rparr>"

definition vote_from_wire :: "vote_v1 \<Rightarrow> mirror_error + raft_vote" where
  "vote_from_wire w =
    sum_bind (mirror_node_id ''vote.leader_node_id'' (vtv_leader_node_id w)) (\<lambda>node.
      Inr \<lparr> vo_term = vtv_term w, vo_node = node, vo_committed = vtv_committed w \<rparr>)"

record log_codecs =
  lc_entry :: "raft_entry_v1 codec"
  lc_vote :: "vote_v1 codec"
  lc_log_id :: "log_id_v1 codec"

definition log_codecs_faithful :: "log_codecs \<Rightarrow> bool" where
  "log_codecs_faithful F = (faithful (lc_entry F) \<and> faithful (lc_vote F) \<and> faithful (lc_log_id F))"

definition MAX_ENTRY_BYTES :: nat where
  "MAX_ENTRY_BYTES = 8 * 1024 * 1024"

definition MAX_META_BYTES :: nat where
  "MAX_META_BYTES = 4 * 1024"

definition encode_entry :: "log_codecs \<Rightarrow> raft_entry \<Rightarrow> storage_error + bytes" where
  "encode_entry F e = encode_bounded DbRaft (lc_entry F) ''RaftEntryV1'' (entry_to_wire e) MAX_ENTRY_BYTES"

definition decode_entry :: "log_codecs \<Rightarrow> bytes \<Rightarrow> storage_error + raft_entry" where
  "decode_entry F bs =
    sum_bind (decode_persisted_bounded DbRaft (lc_entry F) ''RaftEntryV1'' bs MAX_ENTRY_BYTES) (\<lambda>w.
      corrupt_in DbRaft ''RaftEntryV1'' (entry_from_wire w))"

definition encode_vote :: "log_codecs \<Rightarrow> raft_vote \<Rightarrow> storage_error + bytes" where
  "encode_vote F v = encode_bounded DbRaft (lc_vote F) ''VoteV1'' (vote_to_wire v) MAX_META_BYTES"

definition decode_vote :: "log_codecs \<Rightarrow> bytes \<Rightarrow> storage_error + raft_vote" where
  "decode_vote F bs =
    sum_bind (decode_persisted_bounded DbRaft (lc_vote F) ''VoteV1'' bs MAX_META_BYTES) (\<lambda>w.
      corrupt_in DbRaft ''VoteV1'' (vote_from_wire w))"

definition encode_log_id :: "log_codecs \<Rightarrow> log_id \<Rightarrow> storage_error + bytes" where
  "encode_log_id F l = encode_bounded DbRaft (lc_log_id F) ''LogIdV1'' (log_id_to_wire l) MAX_META_BYTES"

definition decode_log_id :: "log_codecs \<Rightarrow> bytes \<Rightarrow> storage_error + log_id" where
  "decode_log_id F bs =
    sum_bind (decode_persisted_bounded DbRaft (lc_log_id F) ''LogIdV1'' bs MAX_META_BYTES) (\<lambda>w.
      corrupt_in DbRaft ''LogIdV1'' (mirror_log_id w))"

section \<open>The tables\<close>

record log_store =
  rl_meta :: "(string, bytes) btree_map"
  rl_log :: "(u64, bytes) btree_map"

definition KEY_VOTE :: string where
  "KEY_VOTE = ''vote''"

definition KEY_COMMITTED :: string where
  "KEY_COMMITTED = ''committed''"

definition KEY_LAST_PURGED :: string where
  "KEY_LAST_PURGED = ''last_purged''"

section \<open>Reads\<close>

definition marker :: "log_codecs \<Rightarrow> string \<Rightarrow> log_store \<Rightarrow> storage_error + log_id option" where
  "marker F key st =
    (case bm_get (rl_meta st) key of
       None \<Rightarrow> Inr None
     | Some bs \<Rightarrow> sum_bind (decode_log_id F bs) (\<lambda>l. Inr (Some l)))"

definition last_entry_log_id :: "log_codecs \<Rightarrow> log_store \<Rightarrow> storage_error + log_id option" where
  "last_entry_log_id F st =
    (if rl_log st = [] then Inr None
     else sum_bind (decode_entry F (snd (last (rl_log st)))) (\<lambda>e. Inr (Some (en_log_id e))))"

definition last_entry_index :: "log_store \<Rightarrow> u64 option" where
  "last_entry_index st = (if rl_log st = [] then None else Some (fst (last (rl_log st))))"

definition first_index_above :: "u64 \<Rightarrow> log_store \<Rightarrow> u64 option" where
  "first_index_above i st = map_option fst (find (\<lambda>(k, _). k > i) (rl_log st))"

record log_state =
  ls_last_purged_log_id :: "log_id option"
  ls_last_log_id :: "log_id option"

definition get_log_state :: "log_codecs \<Rightarrow> log_store \<Rightarrow> storage_error + log_state" where
  "get_log_state F st =
    sum_bind (marker F KEY_LAST_PURGED st) (\<lambda>last_purged.
    sum_bind (last_entry_log_id F st) (\<lambda>last_retained.
      Inr \<lparr> ls_last_purged_log_id = last_purged,
        ls_last_log_id = (case last_retained of None \<Rightarrow> last_purged | Some l \<Rightarrow> Some l) \<rparr>))"

definition read_vote :: "log_codecs \<Rightarrow> log_store \<Rightarrow> storage_error + raft_vote option" where
  "read_vote F st =
    (case bm_get (rl_meta st) KEY_VOTE of
       None \<Rightarrow> Inr None
     | Some bs \<Rightarrow> sum_bind (decode_vote F bs) (\<lambda>v. Inr (Some v)))"

definition read_committed :: "log_codecs \<Rightarrow> log_store \<Rightarrow> storage_error + log_id option" where
  "read_committed F st = marker F KEY_COMMITTED st"

datatype bound = Included u64 | Excluded u64 | Unbounded

fun bound_above :: "bound \<Rightarrow> u64 \<Rightarrow> bool" where
  "bound_above (Included n) i = (n \<le> i)"
| "bound_above (Excluded n) i = (n < i)"
| "bound_above Unbounded i = True"

fun bound_below :: "bound \<Rightarrow> u64 \<Rightarrow> bool" where
  "bound_below (Included n) i = (i \<le> n)"
| "bound_below (Excluded n) i = (i < n)"
| "bound_below Unbounded i = True"

definition read_log :: "log_codecs \<Rightarrow> bound \<Rightarrow> bound \<Rightarrow> log_store \<Rightarrow> storage_error + raft_entry list" where
  "read_log F lo hi st =
    collect_result (\<lambda>(_, bs). decode_entry F bs) (filter (\<lambda>(k, _). bound_above lo k \<and> bound_below hi k) (rl_log st))"

section \<open>Writes\<close>

text \<open>Each write carries what redb does with its transaction.\<close>

definition put_meta :: "redb_commit \<Rightarrow> string \<Rightarrow> bytes \<Rightarrow> log_store \<Rightarrow> (storage_error + unit) \<times> log_store" where
  "put_meta landed key v st = durable_commit DbRaft landed (st\<lparr> rl_meta := bm_insert key v (rl_meta st) \<rparr>) st"

definition remove_meta :: "redb_commit \<Rightarrow> string \<Rightarrow> log_store \<Rightarrow> (storage_error + unit) \<times> log_store" where
  "remove_meta landed key st = durable_commit DbRaft landed (st\<lparr> rl_meta := bm_remove key (rl_meta st) \<rparr>) st"

definition save_vote :: "log_codecs \<Rightarrow> redb_commit \<Rightarrow> raft_vote \<Rightarrow> log_store \<Rightarrow> (storage_error + unit) \<times> log_store" where
  "save_vote F landed v st =
    (case encode_vote F v of Inl e \<Rightarrow> (Inl e, st) | Inr bs \<Rightarrow> put_meta landed KEY_VOTE bs st)"

definition save_committed ::
  "log_codecs \<Rightarrow> redb_commit \<Rightarrow> log_id option \<Rightarrow> log_store \<Rightarrow> (storage_error + unit) \<times> log_store" where
  "save_committed F landed committed st =
    (case committed of
       Some l \<Rightarrow>
         (case encode_log_id F l of Inl e \<Rightarrow> (Inl e, st) | Inr bs \<Rightarrow> put_meta landed KEY_COMMITTED bs st)
     | None \<Rightarrow> remove_meta landed KEY_COMMITTED st)"

abbreviation entry_index :: "raft_entry \<Rightarrow> u64" where
  "entry_index e \<equiv> lg_index (en_log_id e)"

fun batch_gap :: "raft_entry list \<Rightarrow> storage_error option" where
  "batch_gap (a # b # es) =
    (if checked_add_u64 (entry_index a) 1 \<noteq> Some (entry_index b)
     then Some (LogGap (add_u64 (entry_index a) 1) (entry_index b) ''append batch is not internally contiguous'')
     else batch_gap (b # es))"
| "batch_gap _ = None"

definition frontier :: "log_id option \<Rightarrow> log_store \<Rightarrow> u64 option" where
  "frontier purged st =
    (case last_entry_index st of
       Some retained \<Rightarrow> checked_add_u64 retained 1
     | None \<Rightarrow> (case purged of None \<Rightarrow> None | Some p \<Rightarrow> checked_add_u64 (lg_index p) 1))"

definition hole_below :: "log_id option \<Rightarrow> u64 \<Rightarrow> log_store \<Rightarrow> storage_error option" where
  "hole_below purged first st =
    (case frontier purged st of
       None \<Rightarrow> None
     | Some fr \<Rightarrow>
         if first > fr then Some (LogGap fr first ''append would leave a hole after the last retained entry'') else None)"

definition hole_above :: "u64 \<Rightarrow> log_store \<Rightarrow> storage_error option" where
  "hole_above final st =
    (case first_index_above final st of
       None \<Rightarrow> None
     | Some next_retained \<Rightarrow>
         if checked_add_u64 final 1 \<noteq> Some next_retained
         then Some (LogGap (case checked_add_u64 final 1 of None \<Rightarrow> u64_max | Some n \<Rightarrow> n) next_retained
           ''append would leave a hole below the entries that survive it'')
         else None)"

definition writable :: "log_id option \<Rightarrow> raft_entry list \<Rightarrow> raft_entry list" where
  "writable purged es = (case purged of None \<Rightarrow> es | Some m \<Rightarrow> filter (\<lambda>e. entry_index e > lg_index m) es)"

definition append_log ::
  "log_codecs \<Rightarrow> redb_commit \<Rightarrow> raft_entry list \<Rightarrow> log_store \<Rightarrow> (storage_error + unit) \<times> log_store" where
  "append_log F landed entries st =
    (if entries = [] then (Inr (), st)
     else case batch_gap entries of Some e \<Rightarrow> (Inl e, st) | None \<Rightarrow>
     case marker F KEY_LAST_PURGED st of Inl e \<Rightarrow> (Inl e, st) | Inr purged \<Rightarrow>
     (let writable = writable purged entries in
      if writable = [] then (Inr (), st)
      else case hole_below purged (entry_index (hd writable)) st of Some e \<Rightarrow> (Inl e, st) | None \<Rightarrow>
      case hole_above (entry_index (last writable)) st of Some e \<Rightarrow> (Inl e, st) | None \<Rightarrow>
      case collect_result (\<lambda>e. sum_bind (encode_entry F e) (\<lambda>bs. Inr (entry_index e, bs))) writable of
        Inl e \<Rightarrow> (Inl e, st)
      | Inr encoded \<Rightarrow>
          durable_commit DbRaft landed (st\<lparr> rl_log := insert_rows encoded (rl_log st) \<rparr>) st))"

definition truncate_log :: "redb_commit \<Rightarrow> log_id \<Rightarrow> log_store \<Rightarrow> (storage_error + unit) \<times> log_store" where
  "truncate_log landed l st =
    durable_commit DbRaft landed (st\<lparr> rl_log := filter (\<lambda>(k, _). k < lg_index l) (rl_log st) \<rparr>) st"

definition purge_log :: "log_codecs \<Rightarrow> redb_commit \<Rightarrow> log_id \<Rightarrow> log_store \<Rightarrow> (storage_error + unit) \<times> log_store" where
  "purge_log F landed l st =
    (case marker F KEY_LAST_PURGED st of
       Inl e \<Rightarrow> (Inl e, st)
     | Inr existing \<Rightarrow>
       if (case existing of None \<Rightarrow> False | Some m \<Rightarrow> lg_index l \<le> lg_index m) then (Inr (), st)
       else case encode_log_id F l of
         Inl e \<Rightarrow> (Inl e, st)
       | Inr bs \<Rightarrow>
           durable_commit DbRaft landed
             (st\<lparr> rl_log := filter (\<lambda>(k, _). k > lg_index l) (rl_log st),
                rl_meta := bm_insert KEY_LAST_PURGED bs (rl_meta st) \<rparr>) st)"

section \<open>Startup validation\<close>

definition validate_markers :: "log_codecs \<Rightarrow> log_store \<Rightarrow> storage_error + log_id option" where
  "validate_markers F st =
    sum_bind (read_vote F st) (\<lambda>_.
    sum_bind (marker F KEY_COMMITTED st) (\<lambda>_.
      marker F KEY_LAST_PURGED st))"

fun validate_log_rows ::
  "log_codecs \<Rightarrow> log_id option \<Rightarrow> u64 option \<Rightarrow> (u64, bytes) btree_map \<Rightarrow> storage_error option" where
  "validate_log_rows F last_purged previous [] = None"
| "validate_log_rows F last_purged previous ((index, bs) # rows) =
    (case decode_entry F bs of
       Inl e \<Rightarrow> Some e
     | Inr e \<Rightarrow>
       if entry_index e \<noteq> index then Some (StoredCorruption DbRaft ''RaftEntryV1'')
       else if (case last_purged of None \<Rightarrow> False | Some m \<Rightarrow> index \<le> lg_index m)
         then Some (StoredCorruption DbRaft ''raft_log'')
       else if (case previous of
                  Some prev \<Rightarrow> checked_add_u64 prev 1 \<noteq> Some index
                | None \<Rightarrow> (case last_purged of None \<Rightarrow> False | Some m \<Rightarrow> checked_add_u64 (lg_index m) 1 \<noteq> Some index))
         then Some (StoredCorruption DbRaft ''raft_log'')
       else validate_log_rows F last_purged (Some index) rows)"

definition validate_persisted_log :: "log_codecs \<Rightarrow> log_store \<Rightarrow> storage_error option" where
  "validate_persisted_log F st =
    (case validate_markers F st of
       Inl e \<Rightarrow> Some e
     | Inr last_purged \<Rightarrow> validate_log_rows F last_purged None (rl_log st))"

section \<open>The actor\<close>

datatype log_command =
    LogState
  | SaveVote raft_vote redb_commit
  | ReadVote
  | SaveCommitted "log_id option" redb_commit
  | ReadCommitted
  | Append "raft_entry list" redb_commit
  | Truncate log_id redb_commit
  | Purge log_id redb_commit
  | ReadEntries bound bound

datatype log_reply =
    ReplyLogState log_state
  | ReplyVote "raft_vote option"
  | ReplyCommitted "log_id option"
  | ReplyDone
  | ReplyEntries "raft_entry list"

definition log_read :: "('a \<Rightarrow> log_reply) \<Rightarrow> (log_store \<Rightarrow> storage_error + 'a) \<Rightarrow> log_store \<Rightarrow>
   (storage_error + log_reply) \<times> log_store" where
  "log_read c f st = (map_sum (\<lambda>e. e) c (f st), st)"

definition log_write :: "(log_store \<Rightarrow> (storage_error + unit) \<times> log_store) \<Rightarrow> log_store \<Rightarrow>
   (storage_error + log_reply) \<times> log_store" where
  "log_write f st = map_prod (map_sum (\<lambda>e. e) (\<lambda>_. ReplyDone)) (\<lambda>st. st) (f st)"

definition log_handle :: "log_codecs \<Rightarrow> log_command \<Rightarrow> log_store \<Rightarrow> (storage_error + log_reply) \<times> log_store" where
  "log_handle F cmd =
    (case cmd of
       LogState \<Rightarrow> log_read ReplyLogState (get_log_state F)
     | SaveVote v landed \<Rightarrow> log_write (save_vote F landed v)
     | ReadVote \<Rightarrow> log_read ReplyVote (read_vote F)
     | SaveCommitted l landed \<Rightarrow> log_write (save_committed F landed l)
     | ReadCommitted \<Rightarrow> log_read ReplyCommitted (read_committed F)
     | Append es landed \<Rightarrow> log_write (append_log F landed es)
     | Truncate l landed \<Rightarrow> log_write (truncate_log landed l)
     | Purge l landed \<Rightarrow> log_write (purge_log F landed l)
     | ReadEntries lo hi \<Rightarrow> log_read ReplyEntries (read_log F lo hi))"

fun log_drain :: "log_command request list \<Rightarrow> (storage_error + log_reply) option list" where
  "log_drain [] = []"
| "log_drain (Shutdown # cs) = None # log_drain cs"
| "log_drain (Call _ # cs) = Some (Inl Fatal) # log_drain cs"

interpretation ld: fatal_actor log_drain
proof
  show "list_all refused_reply (log_drain cs)" for cs
    by (induction cs rule: log_drain.induct) simp_all
  show "length (log_drain cs) = length cs" for cs
    by (induction cs rule: log_drain.induct) simp_all
qed

end
