(* ===== verification/Raft_View.thy ===== *)
theory Raft_View
  imports Raft_Log
begin

text \<open>
  The log as OpenRaft sees it.  \<open>log_view\<close> maps an index to the entry stored under it.  The
  invariant \<open>log_ok\<close> says that every row decodes to an entry of its own index, that the indices
  are gapless, and that they continue the purge marker; it is what the startup validation
  demands.
\<close>

section \<open>Round trips\<close>

text \<open>What OpenRaft keeps of an entry it hands over.\<close>

definition entry_wf :: "raft_entry \<Rightarrow> bool" where
  "entry_wf e =
    (wide_log (en_log_id e) \<and> entry_index e \<le> u64_max \<and>
     (case en_payload e of
        MembershipPayload m \<Rightarrow>
          om_configs m \<noteq> [] \<and> voter_ids m |\<subseteq>| om_nodes m \<and> fBall (om_nodes m) wide_node
      | _ \<Rightarrow> True))"

lemma entry_wire_back: "entry_wf e \<Longrightarrow> entry_from_wire (entry_to_wire e) = Inr e"
  by (auto simp: entry_wf_def entry_from_wire_def entry_to_wire_def mirror_log_id_back membership_back
      split: entry_payload.splits)

lemma entry_back:
  assumes "log_codecs_faithful F" "entry_wf e" "encode_entry F e = Inr bs"
  shows "decode_entry F bs = Inr e"
  using assms encode_bounded_decode [of "lc_entry F" DbRaft "''RaftEntryV1''" "entry_to_wire e" MAX_ENTRY_BYTES bs]
  by (simp add: encode_entry_def decode_entry_def log_codecs_faithful_def entry_wire_back)

lemma vote_back:
  assumes "log_codecs_faithful F" "wide_node (vo_node v)" "encode_vote F v = Inr bs"
  shows "decode_vote F bs = Inr v"
  using assms encode_bounded_decode [of "lc_vote F" DbRaft "''VoteV1''" "vote_to_wire v" MAX_META_BYTES bs]
  by (simp add: encode_vote_def decode_vote_def log_codecs_faithful_def vote_from_wire_def vote_to_wire_def)

lemma log_id_stored_back:
  assumes "log_codecs_faithful F" "wide_log l" "encode_log_id F l = Inr bs"
  shows "decode_log_id F bs = Inr l"
  using assms encode_bounded_decode [of "lc_log_id F" DbRaft "''LogIdV1''" "log_id_to_wire l" MAX_META_BYTES bs]
  by (simp add: encode_log_id_def decode_log_id_def log_codecs_faithful_def mirror_log_id_back)

section \<open>The invariant\<close>

definition gapless :: "(u64 \<Rightarrow> bool) \<Rightarrow> bool" where
  "gapless K = (\<forall>i j. i < j \<longrightarrow> K i \<longrightarrow> K j \<longrightarrow> K (Suc i))"

definition continues :: "log_id option \<Rightarrow> (u64 \<Rightarrow> bool) \<Rightarrow> bool" where
  "continues m K =
    (case m of
       None \<Rightarrow> True
     | Some m \<Rightarrow> (\<forall>i. K i \<longrightarrow> lg_index m < i \<and> K (Suc (lg_index m))))"

abbreviation has :: "log_store \<Rightarrow> u64 \<Rightarrow> bool" where
  "has st i \<equiv> bm_get (rl_log st) i \<noteq> None"

definition log_ok :: "log_codecs \<Rightarrow> log_store \<Rightarrow> bool" where
  "log_ok F st =
    (bm_ok (rl_log st) \<and> bm_ok (rl_meta st) \<and>
     (\<forall>i bs. bm_get (rl_log st) i = Some bs \<longrightarrow>
        i \<le> u64_max \<and> (\<exists>e. decode_entry F bs = Inr e \<and> entry_index e = i)) \<and>
     gapless (has st) \<and>
     (\<exists>v c m. read_vote F st = Inr v \<and> marker F KEY_COMMITTED st = Inr c \<and>
        marker F KEY_LAST_PURGED st = Inr m \<and> continues m (has st)))"

definition log_view :: "log_codecs \<Rightarrow> log_store \<Rightarrow> u64 \<Rightarrow> raft_entry option" where
  "log_view F st i =
    (case bm_get (rl_log st) i of
       None \<Rightarrow> None
     | Some bs \<Rightarrow> (case decode_entry F bs of Inl _ \<Rightarrow> None | Inr e \<Rightarrow> Some e))"

lemma log_view_has: "log_ok F st \<Longrightarrow> log_view F st i = None \<longleftrightarrow> \<not> has st i"
  by (fastforce simp: log_ok_def log_view_def split: option.splits sum.splits)

lemma log_view_index: "log_ok F st \<Longrightarrow> log_view F st i = Some e \<Longrightarrow> entry_index e = i"
  by (fastforce simp: log_ok_def log_view_def split: option.splits sum.splits)

text \<open>Keys that are distinct.\<close>

lemma keys_differ [simp]: "KEY_VOTE \<noteq> KEY_COMMITTED" "KEY_VOTE \<noteq> KEY_LAST_PURGED" "KEY_COMMITTED \<noteq> KEY_LAST_PURGED"
  "KEY_COMMITTED \<noteq> KEY_VOTE" "KEY_LAST_PURGED \<noteq> KEY_VOTE" "KEY_LAST_PURGED \<noteq> KEY_COMMITTED"
  by (simp_all add: KEY_VOTE_def KEY_COMMITTED_def KEY_LAST_PURGED_def)

lemma marker_meta: "rl_meta st = rl_meta st' \<Longrightarrow> marker F key st = marker F key st'"
  "rl_meta st = rl_meta st' \<Longrightarrow> read_vote F st = read_vote F st'"
  by (simp_all add: marker_def read_vote_def)

text \<open>A write that only changes the log.\<close>

lemma log_ok_rows:
  assumes "log_ok F st" "rl_meta st' = rl_meta st" "bm_ok (rl_log st')"
    and "\<And>i bs. bm_get (rl_log st') i = Some bs \<Longrightarrow> bm_get (rl_log st) i = Some bs \<or>
      i \<le> u64_max \<and> (\<exists>e. decode_entry F bs = Inr e \<and> entry_index e = i)"
    and "gapless (has st')" "\<And>m. marker F KEY_LAST_PURGED st = Inr m \<Longrightarrow> continues m (has st')"
  shows "log_ok F st'"
proof -
  obtain v c m where m: "read_vote F st = Inr v" "marker F KEY_COMMITTED st = Inr c" "marker F KEY_LAST_PURGED st = Inr m"
    using assms(1) by (auto simp: log_ok_def)
  have "i \<le> u64_max \<and> (\<exists>e. decode_entry F bs = Inr e \<and> entry_index e = i)" if "bm_get (rl_log st') i = Some bs" for i bs
    using assms(4) [OF that] assms(1) unfolding log_ok_def by blast
  then show ?thesis
    using assms(1,3,5) assms(6) [OF m(3)] m marker_meta [OF assms(2), of F] unfolding log_ok_def assms(2) by auto
qed

section \<open>Operations\<close>

lemma filter_keys_get: "bm_get (filter (\<lambda>(k, _). P k) t) i = (if P i then bm_get t i else None)"
  by (induction t) auto

lemma filter_keys_ok: "bm_ok t \<Longrightarrow> bm_ok (filter (\<lambda>(k, _). P k) t)"
  by (simp add: bm_ok_def sorted_wrt_map sorted_wrt_filter)

lemma truncate_ok:
  assumes "log_ok F st"
  shows "log_ok F (snd (truncate_log landed l st))"
proof -
  let ?st = "st\<lparr> rl_log := filter (\<lambda>(k, _). k < lg_index l) (rl_log st) \<rparr>"
  have "continues m (has ?st)" if "marker F KEY_LAST_PURGED st = Inr m" for m
    using assms that by (auto simp: log_ok_def continues_def filter_keys_get split: option.splits if_splits)
  moreover have "gapless (has ?st)"
    using assms by (auto simp: log_ok_def gapless_def filter_keys_get split: if_splits)
  ultimately have "log_ok F ?st"
    using assms
    by (intro log_ok_rows [OF assms]) (auto simp: log_ok_def filter_keys_get filter_keys_ok split: if_splits)
  then show ?thesis using assms by (cases landed) (simp_all add: truncate_log_def)
qed

lemma gapless_between:
  assumes "gapless K" "K i" "K k" "i \<le> j" "j \<le> k"
  shows "K j"
  using assms(4,5)
proof (induction j rule: dec_induct)
  case base
  show ?case by (rule assms(2))
next
  case (step n)
  then have "K n" "n < k" by simp_all
  with assms(1,3) show ?case unfolding gapless_def by blast
qed

text \<open>OpenRaft purges entries the log has, or everything.\<close>

definition purge_legal :: "log_id \<Rightarrow> log_store \<Rightarrow> bool" where
  "purge_legal l st = (\<forall>i. has st i \<longrightarrow> lg_index l < i \<longrightarrow> (\<exists>j \<le> Suc (lg_index l). has st j))"

text \<open>With a marker every purge is one.\<close>

lemma purge_legal_marked:
  assumes "log_ok F st" "marker F KEY_LAST_PURGED st = Inr (Some m)" "lg_index m < lg_index l"
  shows "purge_legal l st"
proof -
  have "continues (Some m) (has st)" using assms(1,2) by (auto simp: log_ok_def)
  then have "has st (Suc (lg_index m))" if "has st i" for i using that by (auto simp: continues_def)
  moreover have "Suc (lg_index m) \<le> Suc (lg_index l)" using assms(3) by simp
  ultimately show ?thesis unfolding purge_legal_def by blast
qed

lemma marker_put:
  "marker F key (st\<lparr> rl_log := t, rl_meta := bm_insert key' bs (rl_meta st) \<rparr>) =
    (if key = key' then sum_bind (decode_log_id F bs) (\<lambda>l. Inr (Some l)) else marker F key st)"
  "read_vote F (st\<lparr> rl_log := t, rl_meta := bm_insert KEY_LAST_PURGED bs (rl_meta st) \<rparr>) = read_vote F st"
  by (simp_all add: marker_def read_vote_def)

lemma purge_ok:
  assumes ok: "log_ok F st" and F: "log_codecs_faithful F" and l: "wide_log l" "purge_legal l st"
  shows "log_ok F (snd (purge_log F landed l st))"
proof -
  have "log_ok F (st\<lparr> rl_log := filter (\<lambda>(k, _). k > lg_index l) (rl_log st),
      rl_meta := bm_insert KEY_LAST_PURGED bs (rl_meta st) \<rparr>)" (is "log_ok F ?st") if bs: "encode_log_id F l = Inr bs" for bs
  proof -
    have has: "has ?st i \<longleftrightarrow> lg_index l < i \<and> has st i" for i by (simp add: filter_keys_get)
    have gap: "gapless (has st)" using ok by (simp add: log_ok_def)
    then have "gapless (has ?st)" unfolding has gapless_def by (meson less_SucI)
    moreover have "continues (Some l) (has ?st)"
      unfolding continues_def option.case has using l(2) gapless_between [OF gap] unfolding purge_legal_def
      by (meson Suc_leI lessI)
    moreover have "bm_ok (rl_log ?st)" "bm_ok (rl_meta ?st)" using ok by (simp_all add: log_ok_def filter_keys_ok bm.ok_put)
    moreover have "marker F KEY_LAST_PURGED ?st = Inr (Some l)" using log_id_stored_back [OF F l(1) bs] by (simp add: marker_put)
    moreover have "i \<le> u64_max \<and> (\<exists>e. decode_entry F bs = Inr e \<and> entry_index e = i)" if "bm_get (rl_log ?st) i = Some bs" for i bs
      using that ok by (auto simp: log_ok_def filter_keys_get split: if_splits)
    ultimately show ?thesis using ok unfolding log_ok_def by (auto simp: marker_put)
  qed
  then show ?thesis
    using ok by (cases landed) (auto simp: purge_log_def split: sum.splits option.splits if_splits)
qed

text \<open>Votes and the committed marker.\<close>

lemma meta_put_ok:
  assumes ok: "log_ok F st" and "key = KEY_VOTE \<and> (\<exists>v. decode_vote F bs = Inr v) \<or> key = KEY_COMMITTED \<and> (\<exists>l. decode_log_id F bs = Inr l)"
  shows "log_ok F (snd (put_meta landed key bs st))"
proof -
  have "log_ok F (st\<lparr> rl_meta := bm_insert key bs (rl_meta st) \<rparr>)"
    using assms by (auto simp: log_ok_def bm.ok_put marker_def read_vote_def)
  then show ?thesis using ok by (cases landed) (simp_all add: put_meta_def)
qed

lemma save_ok:
  assumes ok: "log_ok F st" and F: "log_codecs_faithful F"
  shows "wide_node (vo_node v) \<Longrightarrow> log_ok F (snd (save_vote F landed v st))"
    "pred_option wide_log c \<Longrightarrow> log_ok F (snd (save_committed F landed c st))"
proof -
  show "wide_node (vo_node v) \<Longrightarrow> log_ok F (snd (save_vote F landed v st))"
    using vote_back [OF F] meta_put_ok [OF ok] ok by (auto simp: save_vote_def split: sum.splits)
  have "log_ok F (st\<lparr> rl_meta := bm_remove KEY_COMMITTED (rl_meta st) \<rparr>)"
    using ok by (auto simp: log_ok_def bm.ok_del marker_def read_vote_def)
  then have "log_ok F (snd (remove_meta landed KEY_COMMITTED st))" using ok by (cases landed) (simp_all add: remove_meta_def)
  then show "pred_option wide_log c \<Longrightarrow> log_ok F (snd (save_committed F landed c st))"
    using log_id_stored_back [OF F] meta_put_ok [OF ok] ok
    by (auto simp: save_committed_def split: sum.splits option.splits)
qed

section \<open>Appending\<close>

lemma batch_range:
  "batch_gap es = None \<Longrightarrow> es \<noteq> [] \<Longrightarrow>
    map entry_index es = [entry_index (hd es)..<entry_index (hd es) + length es]"
proof (induction es rule: batch_gap.induct)
  case (1 a b es)
  then have b: "checked_add_u64 (entry_index a) 1 = Some (entry_index b)" "batch_gap (b # es) = None"
    by (auto split: if_splits)
  then have "entry_index b = Suc (entry_index a)" by (simp add: checked_add_u64_def split: if_splits)
  with 1(1) b have "map entry_index (b # es) = [Suc (entry_index a)..<Suc (entry_index a) + length (b # es)]" by simp
  then have "map entry_index (a # b # es) = entry_index a # [Suc (entry_index a)..<entry_index a + length (a # b # es)]"
    by simp
  also have "\<dots> = [entry_index a..<entry_index a + length (a # b # es)]" by (rule upt_conv_Cons [symmetric]) simp
  finally show ?case by simp
qed simp_all

lemma filter_upt: "filter (\<lambda>i. m < i) [a..<b] = [max a (Suc m)..<b]"
  by (induction b) (auto simp: max_def)

lemma writable_range:
  assumes "batch_gap es = None" "writable purged es \<noteq> []"
  obtains f g where "map entry_index (writable purged es) = [f..<g]" "f < g" "entry_index (hd (writable purged es)) = f"
    "Suc (entry_index (last (writable purged es))) = g" "\<forall>m. purged = Some m \<longrightarrow> lg_index m < f"
proof -
  have ne: "es \<noteq> []" using assms(2) by (auto simp: writable_def split: option.splits)
  note r = batch_range [OF assms(1) ne]
  obtain f g where fg: "map entry_index (writable purged es) = [f..<g]" "\<forall>m. purged = Some m \<longrightarrow> lg_index m < f"
  proof (cases purged)
    case None
    with r show thesis by (intro that) (simp_all add: writable_def)
  next
    case (Some m)
    have "map entry_index (writable purged es) = filter (\<lambda>i. lg_index m < i) (map entry_index es)"
      by (simp add: writable_def Some filter_map comp_def)
    then show thesis unfolding r filter_upt using Some by (intro that) auto
  qed
  have "[f..<g] \<noteq> []" using assms(2) fg(1) by (metis Nil_is_map_conv)
  then have "f < g" by simp
  moreover have "entry_index (hd (writable purged es)) = f"
    using fg(1) assms(2) \<open>f < g\<close> by (metis hd_map hd_upt)
  moreover have "Suc (entry_index (last (writable purged es))) = g"
    using fg(1) assms(2) \<open>f < g\<close> last_map [of "writable purged es" entry_index] last_upt [of f g] by simp
  ultimately show thesis using that fg by blast
qed

lemma append_cases:
  obtains (Refused) e where "append_log F landed es st = (Inl e, st)"
  | (Nothing) "append_log F landed es st = (Inr (), st)" "\<And>purged. marker F KEY_LAST_PURGED st = Inr purged \<Longrightarrow> writable purged es = []"
  | (Written) purged encoded where "batch_gap es = None" "marker F KEY_LAST_PURGED st = Inr purged" "writable purged es \<noteq> []"
      "hole_below purged (entry_index (hd (writable purged es))) st = None"
      "hole_above (entry_index (last (writable purged es))) st = None"
      "collect_result (\<lambda>e. sum_bind (encode_entry F e) (\<lambda>bs. Inr (entry_index e, bs))) (writable purged es) = Inr encoded"
      "append_log F landed es st = durable_commit DbRaft landed (st\<lparr> rl_log := insert_rows encoded (rl_log st) \<rparr>) st"
proof (cases "es = []")
  case True
  then show thesis by (intro Nothing) (simp_all add: append_log_def writable_def split: option.splits)
next
  case False
  show thesis
  proof (cases "batch_gap es = None \<and> (\<exists>purged. marker F KEY_LAST_PURGED st = Inr purged)")
    case True
    then obtain purged where m: "batch_gap es = None" "marker F KEY_LAST_PURGED st = Inr purged" by blast
    show thesis
    proof (cases "writable purged es = []")
      case True
      with m False show thesis by (intro Nothing) (simp_all add: append_log_def Let_def)
    next
      case w: False
      let ?below = "hole_below purged (entry_index (hd (writable purged es))) st"
      let ?above = "hole_above (entry_index (last (writable purged es))) st"
      let ?encoded = "collect_result (\<lambda>e. sum_bind (encode_entry F e) (\<lambda>bs. Inr (entry_index e, bs))) (writable purged es)"
      have run: "append_log F landed es st = (case ?below of Some e \<Rightarrow> (Inl e, st) | None \<Rightarrow>
          case ?above of Some e \<Rightarrow> (Inl e, st) | None \<Rightarrow>
          case ?encoded of Inl e \<Rightarrow> (Inl e, st) | Inr encoded \<Rightarrow>
            durable_commit DbRaft landed (st\<lparr> rl_log := insert_rows encoded (rl_log st) \<rparr>) st)"
        using m False w by (simp add: append_log_def Let_def)
      show thesis
      proof (cases ?below)
        case b: None
        show thesis
        proof (cases ?above)
          case a: None
          show thesis
            by (cases ?encoded) (use run a b Refused Written [OF m w b a] in \<open>simp_all\<close>)
        qed (use run b Refused in simp)
      qed (use run Refused in simp)
    qed
  next
    case bad: False
    show thesis
      by (cases "batch_gap es"; cases "marker F KEY_LAST_PURGED st")
        (use bad False Refused in \<open>auto simp: append_log_def\<close>)
  qed
qed

text \<open>What was encoded is what is written, under the index of its entry.\<close>

lemma encoded_rows:
  assumes "collect_result (\<lambda>e. sum_bind (encode_entry F e) (\<lambda>bs. Inr (entry_index e, bs))) es = Inr encoded"
  shows "list_all2 (\<lambda>e (i, bs). i = entry_index e \<and> encode_entry F e = Inr bs) es encoded"
  using assms by (induction es arbitrary: encoded) (auto simp: sum_bind_Inr)

lemma encoded_keys:
  "list_all2 (\<lambda>e (i, bs). i = entry_index e \<and> encode_entry F e = Inr bs) es encoded \<Longrightarrow> map fst encoded = map entry_index es"
  by (induction rule: list_all2_induct) auto

lemma encoded_get:
  assumes "list_all2 (\<lambda>e (i, bs). i = entry_index e \<and> encode_entry F e = Inr bs) es encoded"
  shows "bm_get encoded i = Some bs \<Longrightarrow> \<exists>e. find (\<lambda>e. entry_index e = i) es = Some e \<and> e \<in> set es \<and> entry_index e = i \<and> encode_entry F e = Inr bs"
    "bm_get encoded i = None \<Longrightarrow> find (\<lambda>e. entry_index e = i) es = None"
  using assms by (induction rule: list_all2_induct) (auto split: if_splits)

text \<open>The keys after an append.\<close>

lemma keys_top: "bm_ok t \<Longrightarrow> bm_get t k \<noteq> None \<Longrightarrow> k \<le> fst (last t)"
proof (induction t)
  case (Cons r t)
  show ?case
  proof (cases "t = []")
    case False
    with Cons.prems(1) have "fst r < fst (last t)" "bm_ok t" by (simp_all add: bm_ok_def)
    with Cons False show ?thesis by (cases "fst r = k") auto
  qed (use Cons.prems in \<open>auto split: if_splits\<close>)
qed simp

lemma last_key: "t \<noteq> [] \<Longrightarrow> bm_ok t \<Longrightarrow> bm_get t (fst (last t)) \<noteq> None"
  by (metis bm_rows_get last_in_set option.distinct(1) prod.collapse)

lemma hole_below_top:
  assumes "hole_below purged f st = None" "bm_ok (rl_log st)" "f \<le> u64_max" "has st k"
  shows "\<exists>L. has st L \<and> (\<forall>k. has st k \<longrightarrow> k \<le> L) \<and> f \<le> Suc L"
proof -
  have ne: "rl_log st \<noteq> []" using assms(4) by auto
  let ?L = "fst (last (rl_log st))"
  have "f \<le> Suc ?L"
    using assms(1,3) ne
    by (auto simp: hole_below_def frontier_def last_entry_index_def checked_add_u64_def split: if_splits)
  then show ?thesis using keys_top [OF assms(2)] last_key [OF ne assms(2)] by blast
qed

lemma hole_above_next:
  assumes "hole_above l st = None" "has st k" "l < k"
  shows "has st (Suc l)"
proof -
  have "find (\<lambda>(k, _). k > l) (rl_log st) \<noteq> None"
    using assms(2,3) bm_get_None_iff [of "rl_log st" k] by (auto simp: find_None_iff)
  then obtain n b where n: "find (\<lambda>(k, _). k > l) (rl_log st) = Some (n, b)" by auto
  then have "n \<in> fst ` set (rl_log st)" by (auto simp: find_Some_iff image_def intro!: bexI nth_mem)
  then have "has st n" by (simp add: bm_get_None_iff)
  moreover have "n = Suc l"
    using assms(1) n by (auto simp: hole_above_def first_index_above_def checked_add_u64_def split: if_splits)
  ultimately show ?thesis by simp
qed

lemma gapless_append:
  assumes gap: "gapless K" and fg: "f < g"
    and top: "\<And>k. K k \<Longrightarrow> \<exists>L. K L \<and> (\<forall>k. K k \<longrightarrow> k \<le> L) \<and> f \<le> Suc L"
    and nxt: "\<And>k. K k \<Longrightarrow> g \<le> k \<Longrightarrow> K g"
  shows "gapless (\<lambda>i. f \<le> i \<and> i < g \<or> K i)"
  unfolding gapless_def
proof (intro allI impI)
  fix i j
  assume ij: "i < j" and i: "f \<le> i \<and> i < g \<or> K i" and j: "f \<le> j \<and> j < g \<or> K j"
  consider "f \<le> i" "i < g" | "K i" "i < f" | "K i" "g \<le> i" using i by force
  then show "f \<le> Suc i \<and> Suc i < g \<or> K (Suc i)"
  proof cases
    case 1
    show ?thesis
    proof (cases "Suc i < g")
      case False
      then have "Suc i = g" "g \<le> j" using 1 ij by simp_all
      with j nxt [of j] show ?thesis by simp
    qed (use 1 in simp)
  next
    case 2
    obtain L where L: "K L" "f \<le> Suc L" "i \<le> L" using top [OF 2(1)] 2(1) by blast
    show ?thesis
    proof (cases "Suc i < f")
      case True
      then have "i < L" using L by simp
      then show ?thesis using gap 2(1) L(1) unfolding gapless_def by blast
    qed (use 2 fg in simp)
  next
    case 3
    then have "K j" using j ij by auto
    then show ?thesis using gap 3(1) ij unfolding gapless_def by blast
  qed
qed

lemma continues_append:
  assumes "continues (Some m) (has st)" "hole_below (Some m) f st = None" "lg_index m < f" "f \<le> u64_max"
  shows "f = Suc (lg_index m) \<or> has st (Suc (lg_index m))"
proof (cases "rl_log st")
  case Nil
  then have "frontier (Some m) st = Some (Suc (lg_index m))"
    using assms(3,4) by (simp add: frontier_def last_entry_index_def checked_add_u64_def)
  with assms(2,3) show ?thesis by (auto simp: hole_below_def split: if_splits)
next
  case (Cons r t)
  then have "has st (fst r)" by simp
  with assms(1) show ?thesis by (auto simp: continues_def)
qed

text \<open>The rows a batch writes are the encodings of its entries, at the indices from \<open>f\<close> up to \<open>g\<close>.\<close>

lemma append_rows:
  assumes F: "log_codecs_faithful F" and wf: "list_all entry_wf es" and gap: "batch_gap es = None"
    and ne: "writable purged es \<noteq> []"
    and enc: "collect_result (\<lambda>e. sum_bind (encode_entry F e) (\<lambda>bs. Inr (entry_index e, bs))) (writable purged es) = Inr encoded"
  obtains f g where "f < g" "entry_index (hd (writable purged es)) = f" "Suc (entry_index (last (writable purged es))) = g"
    "\<forall>m. purged = Some m \<longrightarrow> lg_index m < f" "f \<le> u64_max" "map fst encoded = [f..<g]"
    "\<forall>i bs. bm_get encoded i = Some bs \<longrightarrow> (\<exists>e. find (\<lambda>e. entry_index e = i) (writable purged es) = Some e \<and>
      decode_entry F bs = Inr e \<and> entry_index e = i \<and> i \<le> u64_max)"
    "\<forall>i. bm_get encoded i = None \<longrightarrow> find (\<lambda>e. entry_index e = i) (writable purged es) = None"
proof -
  note rows = encoded_rows [OF enc]
  obtain f g where fg: "map entry_index (writable purged es) = [f..<g]" "f < g"
    "entry_index (hd (writable purged es)) = f" "Suc (entry_index (last (writable purged es))) = g"
    "\<forall>m. purged = Some m \<longrightarrow> lg_index m < f"
    using writable_range [OF gap ne] by blast
  have wfe: "entry_wf e" if "e \<in> set (writable purged es)" for e
    using that wf by (auto simp: writable_def list_all_iff split: option.splits)
  have new: "\<exists>e. find (\<lambda>e. entry_index e = i) (writable purged es) = Some e \<and> decode_entry F bs = Inr e \<and> entry_index e = i \<and> i \<le> u64_max"
    if bs: "bm_get encoded i = Some bs" for i bs
  proof -
    from encoded_get(1) [OF rows bs] obtain e where e: "find (\<lambda>e. entry_index e = i) (writable purged es) = Some e"
      "e \<in> set (writable purged es)" "entry_index e = i" "encode_entry F e = Inr bs" by blast
    with wfe [OF e(2)] entry_back [OF F wfe [OF e(2)] e(4)] show ?thesis by (auto simp: entry_wf_def)
  qed
  have "f \<le> u64_max" using wfe [of "hd (writable purged es)"] ne fg(3) by (simp add: entry_wf_def)
  moreover have "map fst encoded = [f..<g]" using encoded_keys [OF rows] fg(1) by simp
  ultimately show thesis using that [OF fg(2-5)] new encoded_get(2) [OF rows] by blast
qed

lemma append_written:
  assumes ok: "log_ok F st" and F: "log_codecs_faithful F" and wf: "list_all entry_wf es"
    and gap: "batch_gap es = None" and m: "marker F KEY_LAST_PURGED st = Inr purged" and ne: "writable purged es \<noteq> []"
    and below: "hole_below purged (entry_index (hd (writable purged es))) st = None"
    and above: "hole_above (entry_index (last (writable purged es))) st = None"
    and enc: "collect_result (\<lambda>e. sum_bind (encode_entry F e) (\<lambda>bs. Inr (entry_index e, bs))) (writable purged es) = Inr encoded"
  shows "log_ok F (st\<lparr> rl_log := insert_rows encoded (rl_log st) \<rparr>)" (is "log_ok F ?st")
    "log_view F (st\<lparr> rl_log := insert_rows encoded (rl_log st) \<rparr>) i =
      (case find (\<lambda>e. entry_index e = i) (writable purged es) of None \<Rightarrow> log_view F st i | Some e \<Rightarrow> Some e)"
proof -
  from append_rows [OF F wf gap ne enc] obtain f g where fg: "f < g" "entry_index (hd (writable purged es)) = f"
    "Suc (entry_index (last (writable purged es))) = g" "\<forall>m. purged = Some m \<longrightarrow> lg_index m < f" "f \<le> u64_max"
    "map fst encoded = [f..<g]"
    and new: "\<forall>i bs. bm_get encoded i = Some bs \<longrightarrow> (\<exists>e. find (\<lambda>e. entry_index e = i) (writable purged es) = Some e \<and>
      decode_entry F bs = Inr e \<and> entry_index e = i \<and> i \<le> u64_max)"
    and old: "\<forall>i. bm_get encoded i = None \<longrightarrow> find (\<lambda>e. entry_index e = i) (writable purged es) = None"
    by blast
  have get: "bm_get (rl_log ?st) i = (case bm_get encoded i of None \<Rightarrow> bm_get (rl_log st) i | Some bs \<Rightarrow> Some bs)" for i
    using insert_rows_get [of encoded] fg(6) by simp
  have "set (map fst encoded) = {f..<g}" unfolding fg(6) by simp
  then have "bm_get encoded i \<noteq> None \<longleftrightarrow> f \<le> i \<and> i < g" for i
    using bm_get_None_iff [of encoded i] by auto
  then have has: "has ?st i \<longleftrightarrow> f \<le> i \<and> i < g \<or> has st i" for i
    unfolding get by (cases "bm_get encoded i") (auto simp del: not_None_eq)
  have b: "bm_ok (rl_log st)" "gapless (has st)" "continues purged (has st)" using ok m by (auto simp: log_ok_def)
  have top: "\<exists>L. has st L \<and> (\<forall>k. has st k \<longrightarrow> k \<le> L) \<and> f \<le> Suc L" if "has st k" for k
    using hole_below_top [OF _ b(1) fg(5) that, of purged] below fg(2) by simp
  have nxt: "has st g" if "has st k" "g \<le> k" for k
    using hole_above_next [OF above that(1)] that(2) fg(3) by simp
  have "gapless (has ?st)" unfolding has by (rule gapless_append [OF b(2) fg(1) top nxt])
  moreover have "continues p (has ?st)" if "marker F KEY_LAST_PURGED st = Inr p" for p
  proof (cases purged)
    case (Some q)
    then have q: "continues (Some q) (has st)" "lg_index q < f" using b(3) fg(4) by simp_all
    then have "f = Suc (lg_index q) \<or> has st (Suc (lg_index q))"
      using below fg(2,5) Some by (intro continues_append) simp_all
    with q fg(1) show ?thesis using that m Some unfolding continues_def option.case has by auto
  qed (use that m in \<open>simp add: continues_def\<close>)
  moreover have "bm_get (rl_log st) i = Some bs \<or> i \<le> u64_max \<and> (\<exists>e. decode_entry F bs = Inr e \<and> entry_index e = i)"
    if "bm_get (rl_log ?st) i = Some bs" for i bs
    using that get [of i] new by (cases "bm_get encoded i") auto
  ultimately show "log_ok F ?st"
    using insert_rows_ok [OF b(1)] by (intro log_ok_rows [OF ok]) simp_all
  show "log_view F ?st i = (case find (\<lambda>e. entry_index e = i) (writable purged es) of None \<Rightarrow> log_view F st i | Some e \<Rightarrow> Some e)"
  proof (cases "bm_get encoded i")
    case None
    with old have "find (\<lambda>e. entry_index e = i) (writable purged es) = None" by blast
    with None get [of i] show ?thesis by (simp add: log_view_def)
  next
    case (Some bs)
    with new obtain e where "find (\<lambda>e. entry_index e = i) (writable purged es) = Some e" "decode_entry F bs = Inr e" by blast
    with Some get [of i] show ?thesis by (simp add: log_view_def)
  qed
qed

lemma append_ok:
  assumes "log_ok F st" "log_codecs_faithful F" "list_all entry_wf es"
  shows "log_ok F (snd (append_log F landed es st))"
proof (cases rule: append_cases [of F landed es st])
  case (Written purged encoded)
  show ?thesis
    using append_written(1) [OF assms Written(1-6)] assms(1) Written(7) by (cases landed) simp_all
qed (simp_all add: assms(1))

text \<open>What a successful append does to the view: the batch above the purge marker is there, the rest is as it was.\<close>

lemma append_view:
  assumes ok: "log_ok F st" and F: "log_codecs_faithful F" and wf: "list_all entry_wf es"
    and m: "marker F KEY_LAST_PURGED st = Inr purged" and run: "append_log F landed es st = (Inr (), st')"
  shows "log_view F st' i =
    (case find (\<lambda>e. entry_index e = i) (writable purged es) of None \<Rightarrow> log_view F st i | Some e \<Rightarrow> Some e)"
proof (cases rule: append_cases [of F landed es st])
  case (Refused e)
  with run show ?thesis by simp
next
  case Nothing
  with run m show ?thesis by simp
next
  case (Written p encoded)
  then have p: "p = purged" using m by simp
  have "st' = st\<lparr> rl_log := insert_rows encoded (rl_log st) \<rparr>"
    using run Written(7) by (cases landed) simp_all
  then show ?thesis using append_written(2) [OF ok F wf Written(1-6)] p by simp
qed

lemma truncate_view:
  "truncate_log landed l st = (Inr (), st') \<Longrightarrow> log_view F st' i = (if i < lg_index l then log_view F st i else None)"
  by (cases landed) (auto simp: truncate_log_def log_view_def filter_keys_get)

lemma purge_cases:
  assumes "purge_log F landed l st = (Inr (), st')" "marker F KEY_LAST_PURGED st = Inr m"
  obtains (Old) q where "m = Some q" "lg_index l \<le> lg_index q" "st' = st"
    | (New) bs where "encode_log_id F l = Inr bs" "st' = st\<lparr> rl_log := filter (\<lambda>(k, _). k > lg_index l) (rl_log st),
        rl_meta := bm_insert KEY_LAST_PURGED bs (rl_meta st) \<rparr>"
  using assms by (cases landed) (auto simp: purge_log_def split: sum.splits option.splits if_splits)

lemma purge_view:
  assumes "log_ok F st" "purge_log F landed l st = (Inr (), st')"
  shows "log_view F st' i = (if i > lg_index l then log_view F st i else None)"
proof -
  obtain m where m: "marker F KEY_LAST_PURGED st = Inr m" "continues m (has st)" using assms(1) by (auto simp: log_ok_def)
  from assms(2) m(1) show ?thesis
  proof (cases rule: purge_cases)
    case (Old q)
    then have "\<not> has st i" if "i \<le> lg_index l" using that m(2) by (auto simp: continues_def)
    then show ?thesis using Old(3) by (auto simp: log_view_def split: option.splits)
  next
    case (New bs)
    then show ?thesis by (auto simp: log_view_def filter_keys_get)
  qed
qed

lemma purge_marker:
  assumes "log_ok F st" "log_codecs_faithful F" "wide_log l" "purge_log F landed l st = (Inr (), st')"
  shows "\<exists>m. marker F KEY_LAST_PURGED st' = Inr (Some m) \<and> lg_index l \<le> lg_index m"
proof -
  obtain m where m: "marker F KEY_LAST_PURGED st = Inr m" using assms(1) by (auto simp: log_ok_def)
  from assms(4) m show ?thesis
    by (cases rule: purge_cases) (use m log_id_stored_back [OF assms(2,3)] in \<open>auto simp: marker_put\<close>)
qed

text \<open>A read of a range returns the entries of the view in it, in order.\<close>

lemma collect_decode:
  assumes "\<forall>(i, bs)\<in>set t. \<exists>e. decode_entry F bs = Inr e \<and> entry_index e = i"
  shows "\<exists>es. collect_result (\<lambda>(_, bs). decode_entry F bs) t = Inr es \<and> map entry_index es = map fst t \<and>
    list_all2 (\<lambda>(_, bs) e. decode_entry F bs = Inr e) t es"
  using assms
proof (induction t)
  case (Cons r t)
  then obtain es where "collect_result (\<lambda>(_, bs). decode_entry F bs) t = Inr es" "map entry_index es = map fst t"
    "list_all2 (\<lambda>(_, bs) e. decode_entry F bs = Inr e) t es" by auto
  with Cons.prems show ?case by (cases r) auto
qed simp

lemma decoded_set:
  "list_all2 (\<lambda>(_, bs) e. decode_entry F bs = Inr e) t es \<Longrightarrow>
    e \<in> set es \<longleftrightarrow> (\<exists>i bs. (i, bs) \<in> set t \<and> decode_entry F bs = Inr e)"
proof (induction t es rule: list_all2_induct)
  case (Cons r rows x xs)
  obtain i bs where r: "r = (i, bs)" by fastforce
  have "decode_entry F bs = Inr e \<longleftrightarrow> e = x" using Cons.hyps(1) r by auto
  with Cons.IH show ?case by (auto simp: r)
qed simp

lemma read_log_view:
  assumes "log_ok F st"
  shows "\<exists>es. read_log F lo hi st = Inr es \<and> sorted_wrt (<) (map entry_index es) \<and>
    (\<forall>e. e \<in> set es \<longleftrightarrow> bound_above lo (entry_index e) \<and> bound_below hi (entry_index e) \<and> log_view F st (entry_index e) = Some e)"
proof -
  let ?t = "filter (\<lambda>(k, _). bound_above lo k \<and> bound_below hi k) (rl_log st)"
  have ok: "bm_ok (rl_log st)" using assms by (simp add: log_ok_def)
  have get: "bm_get ?t i = (if bound_above lo i \<and> bound_below hi i then bm_get (rl_log st) i else None)" for i
    by (rule filter_keys_get)
  have okt: "bm_ok ?t" using ok by (rule filter_keys_ok)
  have rows: "\<exists>e. decode_entry F bs = Inr e \<and> entry_index e = i" if "(i, bs) \<in> set ?t" for i bs
  proof -
    have "bm_get (rl_log st) i = Some bs" using that bm_rows_get [OF ok] by auto
    then show ?thesis using assms unfolding log_ok_def by blast
  qed
  then obtain es where es: "read_log F lo hi st = Inr es" "map entry_index es = map fst ?t"
    "list_all2 (\<lambda>(_, bs) e. decode_entry F bs = Inr e) ?t es"
    using collect_decode [of ?t F] unfolding read_log_def by auto
  have "sorted_wrt (<) (map entry_index es)" using es(2) okt by (simp add: bm_ok_def)
  moreover have "e \<in> set es \<longleftrightarrow> bound_above lo (entry_index e) \<and> bound_below hi (entry_index e) \<and> log_view F st (entry_index e) = Some e" for e
  proof -
    have idx: "i = entry_index e" if "(i, bs) \<in> set ?t" "decode_entry F bs = Inr e" for i bs
      using rows [OF that(1)] that(2) by auto
    have "e \<in> set es \<longleftrightarrow> (\<exists>i bs. (i, bs) \<in> set ?t \<and> decode_entry F bs = Inr e)"
      using es(3) by (rule decoded_set)
    also have "\<dots> \<longleftrightarrow> (\<exists>bs. bm_get ?t (entry_index e) = Some bs \<and> decode_entry F bs = Inr e)"
      unfolding bm_rows_get [OF okt] using idx bm_rows_get [OF okt] by blast
    also have "\<dots> \<longleftrightarrow> bound_above lo (entry_index e) \<and> bound_below hi (entry_index e) \<and> log_view F st (entry_index e) = Some e"
      unfolding get log_view_def by (auto split: option.splits sum.splits)
    finally show ?thesis .
  qed
  ultimately show ?thesis using es(1) by blast
qed

section \<open>Startup validation\<close>

fun chain :: "u64 option \<Rightarrow> u64 list \<Rightarrow> bool" where
  "chain p [] = True"
| "chain p (i # is) = ((case p of None \<Rightarrow> True | Some q \<Rightarrow> checked_add_u64 q 1 = Some i) \<and> chain (Some i) is)"

lemma validate_log_rows_None:
  "validate_log_rows F m p t = None \<longleftrightarrow>
    (\<forall>(i, bs)\<in>set t. (\<exists>e. decode_entry F bs = Inr e \<and> entry_index e = i) \<and> pred_option (\<lambda>m. lg_index m < i) m) \<and>
    chain (case p of None \<Rightarrow> map_option lg_index m | Some q \<Rightarrow> Some q) (map fst t)"
proof (induction t arbitrary: p)
  case (Cons r t)
  obtain i bs where r: "r = (i, bs)" by fastforce
  show ?case
    using Cons.IH [of "Some i"] by (cases "decode_entry F bs"; cases m; cases p) (auto simp: r not_le)
qed simp

lemma chain_interval: "chain (Some q) ks \<Longrightarrow> ks = [Suc q..<Suc q + length ks]"
proof (induction ks arbitrary: q)
  case (Cons k ks)
  then have k: "k = Suc q" "chain (Some k) ks" by (auto simp: checked_add_u64_def split: if_splits)
  then have "ks = [Suc k..<Suc k + length ks]" using Cons.IH by blast
  then show ?case using k(1) upt_conv_Cons [of "Suc q" "Suc q + length (k # ks)"] by simp
qed simp

lemma chain_gapless: "chain p ks \<Longrightarrow> gapless (\<lambda>i. i \<in> set ks)"
proof (cases ks)
  case (Cons k ks')
  assume "chain p ks"
  then have "ks' = [Suc k..<Suc k + length ks']" using chain_interval [of k ks'] by (simp add: Cons)
  then have "set ks' = {Suc k..<Suc k + length ks'}" by (metis set_upt)
  then show ?thesis by (auto simp: gapless_def Cons)
qed (simp add: gapless_def)

lemma gapless_chain:
  "sorted_wrt (<) (a # ks) \<Longrightarrow> gapless (\<lambda>i. i \<in> set (a # ks)) \<Longrightarrow> \<forall>i\<in>set (a # ks). i \<le> u64_max \<Longrightarrow> chain (Some a) ks"
proof (induction ks arbitrary: a)
  case (Cons b ks)
  have "Suc a \<in> set (a # b # ks)" using Cons.prems(1,2) unfolding gapless_def by (metis list.set_intros sorted_wrt.simps(2))
  then have "b = Suc a" using Cons.prems(1) by auto
  moreover have "gapless (\<lambda>i. i \<in> set (b # ks))"
    unfolding gapless_def
  proof (intro allI impI)
    fix i j
    assume i: "i < j" "i \<in> set (b # ks)" "j \<in> set (b # ks)"
    then have "Suc i \<in> set (a # b # ks)" using Cons.prems(2) unfolding gapless_def by (metis list.set_intros(2))
    moreover have "a < i" using i(2) Cons.prems(1) by auto
    ultimately show "Suc i \<in> set (b # ks)" by auto
  qed
  ultimately show ?case using Cons by (auto simp: checked_add_u64_def)
qed simp

lemma has_keys: "has st i \<longleftrightarrow> i \<in> set (map fst (rl_log st))"
  using bm_get_None_iff [of "rl_log st" i] by auto

lemma chain_continues:
  assumes "chain (map_option lg_index m) ks"
  shows "continues m (\<lambda>i. i \<in> set ks)"
proof (cases m)
  case (Some q)
  then have "ks = [Suc (lg_index q)..<Suc (lg_index q) + length ks]" using assms chain_interval by simp
  then have s: "set ks = {Suc (lg_index q)..<Suc (lg_index q) + length ks}" by (metis set_upt)
  show ?thesis unfolding continues_def Some option.case s by auto
qed (simp add: continues_def)

lemma continues_chain:
  assumes "sorted_wrt (<) ks" "gapless (\<lambda>i. i \<in> set ks)" "\<forall>i\<in>set ks. i \<le> u64_max" "continues m (\<lambda>i. i \<in> set ks)"
  shows "chain (map_option lg_index m) ks"
proof (cases ks)
  case (Cons k ks')
  have tail: "chain (Some k) ks'" using assms(1-3) unfolding Cons by (rule gapless_chain)
  have "k = Suc (lg_index q)" if "m = Some q" for q
  proof -
    have "lg_index q < k" "Suc (lg_index q) \<in> set ks" using assms(4) that by (auto simp: continues_def Cons)
    with assms(1) show ?thesis by (auto simp: Cons)
  qed
  then show ?thesis using tail assms(3) by (cases m) (auto simp: Cons checked_add_u64_def)
qed simp

text \<open>The validation accepts exactly the logs that satisfy the invariant.\<close>

lemma validate_exact:
  assumes "bm_ok (rl_log st)" "bm_ok (rl_meta st)" "\<forall>i. has st i \<longrightarrow> i \<le> u64_max"
  shows "validate_persisted_log F st = None \<longleftrightarrow> log_ok F st"
proof -
  have sorted: "sorted_wrt (<) (map fst (rl_log st))" using assms(1) by (simp add: bm_ok_def)
  have has: "has st = (\<lambda>i. i \<in> set (map fst (rl_log st)))" by (intro ext) (rule has_keys)
  have chain: "chain (map_option lg_index m) (map fst (rl_log st)) \<longleftrightarrow> gapless (has st) \<and> continues m (has st)" for m
    unfolding has
  proof (intro iffI conjI)
    assume "chain (map_option lg_index m) (map fst (rl_log st))"
    then show "gapless (\<lambda>i. i \<in> set (map fst (rl_log st)))" "continues m (\<lambda>i. i \<in> set (map fst (rl_log st)))"
      by (rule chain_gapless, rule chain_continues)
  next
    assume "gapless (\<lambda>i. i \<in> set (map fst (rl_log st))) \<and> continues m (\<lambda>i. i \<in> set (map fst (rl_log st)))"
    moreover have "\<forall>i\<in>set (map fst (rl_log st)). i \<le> u64_max" using assms(3) by (simp only: has_keys) blast
    ultimately show "chain (map_option lg_index m) (map fst (rl_log st))" using sorted by (simp only: continues_chain)
  qed
  have rows: "(\<forall>(i, bs)\<in>set (rl_log st). (\<exists>e. decode_entry F bs = Inr e \<and> entry_index e = i) \<and> pred_option (\<lambda>m. lg_index m < i) m)
      \<longleftrightarrow> (\<forall>i bs. bm_get (rl_log st) i = Some bs \<longrightarrow> (\<exists>e. decode_entry F bs = Inr e \<and> entry_index e = i)) \<and>
        (\<forall>i. has st i \<longrightarrow> pred_option (\<lambda>m. lg_index m < i) m)" for m
    using bm_rows_get [OF assms(1)] by fastforce
  have bounds: "bm_get (rl_log st) i = Some bs \<Longrightarrow> i \<le> u64_max" for i bs using assms(3) by simp
  have above: "continues m (has st) \<Longrightarrow> has st i \<Longrightarrow> pred_option (\<lambda>m. lg_index m < i) m" for m i
    by (cases m) (auto simp: continues_def)
  have "validate_persisted_log F st = None \<longleftrightarrow>
      (\<exists>v c m. read_vote F st = Inr v \<and> marker F KEY_COMMITTED st = Inr c \<and> marker F KEY_LAST_PURGED st = Inr m \<and>
        validate_log_rows F m None (rl_log st) = None)"
    by (auto simp: validate_persisted_log_def validate_markers_def sum_bind_Inr split: sum.splits)
  also have "\<dots> \<longleftrightarrow> log_ok F st"
    unfolding validate_log_rows_None option.case rows chain log_ok_def using assms(1,2) above bounds by blast
  finally show ?thesis .
qed

section \<open>Any queue of commands\<close>

text \<open>What the consensus engine gives the log: entries and identifiers of the width the store keeps, and purges that reach the log.\<close>

definition legal_log_command :: "log_command \<Rightarrow> log_store \<Rightarrow> bool" where
  "legal_log_command cmd st =
    (case cmd of
       SaveVote v _ \<Rightarrow> wide_node (vo_node v)
     | SaveCommitted c _ \<Rightarrow> pred_option wide_log c
     | Append es _ \<Rightarrow> list_all entry_wf es
     | Purge l _ \<Rightarrow> wide_log l \<and> purge_legal l st
     | _ \<Rightarrow> True)"

lemma log_handle_ok:
  assumes "legal_log_command cmd st" "log_ok F st" "log_codecs_faithful F"
  shows "log_ok F (snd (log_handle F cmd st))"
  using assms save_ok [OF assms(2,3)] append_ok [OF assms(2,3)] truncate_ok [OF assms(2)] purge_ok [OF assms(2,3)]
  by (cases cmd) (simp_all add: log_handle_def legal_log_command_def log_read_def log_write_def)

lemma run_log_ok:
  assumes "log_ok F (ac_body a)" "log_codecs_faithful F"
    "legal_calls (log_handle F) legal_log_command cs (ac_body a)"
  shows "log_ok F (ac_body (snd (actor_run (log_handle F) log_drain cs a)))"
proof (rule ld.run_invariant [where P = legal_log_command])
  show "log_ok F (snd (log_handle F c b))" if "legal_log_command c b" "log_ok F b" for c b
    using that assms(2) by (rule log_handle_ok)
qed (rule assms(3,1))+

lemma log_ok_validates: "log_ok F st \<Longrightarrow> validate_persisted_log F st = None"
  using validate_exact [of st F] by (auto simp: log_ok_def)

section \<open>The contract of the log\<close>

text \<open>What each operation does to the log it stands for.\<close>

definition spec_append :: "log_id option \<Rightarrow> raft_entry list \<Rightarrow> (u64 \<Rightarrow> raft_entry option) \<Rightarrow> u64 \<Rightarrow> raft_entry option" where
  "spec_append purged es v i =
    (case find (\<lambda>e. entry_index e = i \<and> pred_option (\<lambda>m. lg_index m < i) purged) es of None \<Rightarrow> v i | Some e \<Rightarrow> Some e)"

definition spec_truncate :: "u64 \<Rightarrow> (u64 \<Rightarrow> raft_entry option) \<Rightarrow> u64 \<Rightarrow> raft_entry option" where
  "spec_truncate n v i = (if i < n then v i else None)"

definition spec_purge :: "u64 \<Rightarrow> (u64 \<Rightarrow> raft_entry option) \<Rightarrow> u64 \<Rightarrow> raft_entry option" where
  "spec_purge n v i = (if n < i then v i else None)"

lemma find_filter: "find P (filter Q xs) = find (\<lambda>x. P x \<and> Q x) xs"
  by (induction xs) auto

lemma find_writable:
  "find (\<lambda>e. entry_index e = i) (writable purged es) =
    find (\<lambda>e. entry_index e = i \<and> pred_option (\<lambda>m. lg_index m < i) purged) es"
  by (cases purged) (auto simp: writable_def find_filter intro!: arg_cong [where f = "\<lambda>P. find P es"])

lemma append_refines:
  assumes "log_ok F st" "log_codecs_faithful F" "list_all entry_wf es" "marker F KEY_LAST_PURGED st = Inr purged"
    "append_log F landed es st = (Inr (), st')"
  shows "log_view F st' = spec_append purged es (log_view F st)"
  using append_view [OF assms] by (intro ext) (simp add: spec_append_def find_writable)

text \<open>The newest entry and the purge marker.\<close>

lemma sorted_last: "sorted xs \<Longrightarrow> x \<in> set xs \<Longrightarrow> x \<le> last xs"
  by (induction xs) auto

lemma log_state_view:
  assumes ok: "log_ok F st"
  shows "\<exists>s. get_log_state F st = Inr s \<and> marker F KEY_LAST_PURGED st = Inr (ls_last_purged_log_id s) \<and>
    (if \<forall>i. log_view F st i = None then ls_last_log_id s = ls_last_purged_log_id s
     else \<exists>e. log_view F st (entry_index e) = Some e \<and> ls_last_log_id s = Some (en_log_id e) \<and>
       (\<forall>i. log_view F st i \<noteq> None \<longrightarrow> i \<le> entry_index e))"
proof -
  obtain m where m: "marker F KEY_LAST_PURGED st = Inr m" using ok by (auto simp: log_ok_def)
  have b: "bm_ok (rl_log st)" using ok by (simp add: log_ok_def)
  show ?thesis
  proof (cases "rl_log st = []")
    case True
    then show ?thesis using m by (simp add: get_log_state_def last_entry_log_id_def log_view_def)
  next
    case False
    obtain i bs where l: "last (rl_log st) = (i, bs)" by fastforce
    then have row: "bm_get (rl_log st) i = Some bs" using bm_rows_get [OF b] last_in_set [OF False] by simp
    then obtain e where e: "decode_entry F bs = Inr e" "entry_index e = i" using ok by (auto simp: log_ok_def)
    have top: "k \<le> i" if "has st k" for k
    proof -
      have "k \<in> set (map fst (rl_log st))" using that has_keys by blast
      moreover have "sorted (map fst (rl_log st))" using b by (simp add: bm_ok_def strict_sorted_imp_sorted)
      moreover have "last (map fst (rl_log st)) = i" using False l by (simp add: last_map)
      ultimately show ?thesis using sorted_last by blast
    qed
    have v: "log_view F st (entry_index e) = Some e" using row e by (simp add: log_view_def)
    then have "\<not> (\<forall>i. log_view F st i = None)" by fastforce
    moreover have "\<forall>k. log_view F st k \<noteq> None \<longrightarrow> k \<le> entry_index e" by (simp only: log_view_has [OF ok] e(2)) (use top in blast)
    ultimately show ?thesis using m l e(1) False v by (auto simp: get_log_state_def last_entry_log_id_def)
  qed
qed

text \<open>Durability.  What was acknowledged stays: a vote until the next one, an entry until a batch at its
  index, a truncation at or below it or a purge at or above it.\<close>

definition disturbs :: "u64 \<Rightarrow> log_command \<Rightarrow> bool" where
  "disturbs i cmd =
    (case cmd of
       Append es _ \<Rightarrow> list_ex (\<lambda>e. entry_index e = i) es
     | Truncate l _ \<Rightarrow> lg_index l \<le> i
     | Purge l _ \<Rightarrow> i \<le> lg_index l
     | _ \<Rightarrow> False)"

definition votes :: "log_command \<Rightarrow> bool" where
  "votes cmd = (case cmd of SaveVote _ _ \<Rightarrow> True | _ \<Rightarrow> False)"

lemma append_keeps:
  assumes "log_ok F st" "log_codecs_faithful F" "list_all entry_wf es" "\<not> list_ex (\<lambda>e. entry_index e = i) es"
  shows "log_view F (snd (append_log F landed es st)) i = log_view F st i"
proof (cases rule: append_cases [of F landed es st])
  case (Written purged encoded)
  have "find (\<lambda>e. entry_index e = i) (writable purged es) = None"
    using assms(4) by (auto simp: find_writable find_None_iff list_ex_iff)
  with append_written(2) [OF assms(1-3) Written(1-6), of i] Written(7) show ?thesis by (cases landed) simp_all
qed simp_all

lemma log_handle_keeps_entry:
  assumes ok: "log_ok F st" and F: "log_codecs_faithful F" and legal: "legal_log_command cmd st" and "\<not> disturbs i cmd"
  shows "log_view F (snd (log_handle F cmd st)) i = log_view F st i"
proof (cases cmd)
  case (Append es landed)
  then show ?thesis
    using assms append_keeps [OF ok F] by (simp add: log_handle_def log_write_def legal_log_command_def disturbs_def)
next
  case (Truncate l landed)
  with assms(4) show ?thesis
    by (cases landed) (simp_all add: log_handle_def log_write_def disturbs_def truncate_log_def log_view_def filter_keys_get)
next
  case (Purge l landed)
  with assms(4) show ?thesis
    by (cases landed) (auto simp: log_handle_def log_write_def disturbs_def purge_log_def log_view_def filter_keys_get
        split: sum.splits option.splits)
next
  case (SaveVote v landed)
  then show ?thesis
    by (cases landed) (auto simp: log_handle_def log_write_def save_vote_def put_meta_def log_view_def split: sum.splits)
next
  case (SaveCommitted c landed)
  then show ?thesis
    by (cases landed) (auto simp: log_handle_def log_write_def save_committed_def put_meta_def remove_meta_def log_view_def
        split: sum.splits option.splits)
qed (simp_all add: log_handle_def log_read_def)

lemma run_keeps_entry:
  assumes "log_ok F (ac_body a)" "log_codecs_faithful F" "log_view F (ac_body a) i = Some e"
    "legal_calls (log_handle F) (\<lambda>c st. legal_log_command c st \<and> \<not> disturbs i c) cs (ac_body a)"
  shows "log_view F (ac_body (snd (actor_run (log_handle F) log_drain cs a))) i = Some e"
proof -
  let ?good = "\<lambda>st. log_ok F st \<and> log_view F st i = Some e"
  have "?good (ac_body (snd (actor_run (log_handle F) log_drain cs a)))"
  proof (rule ld.run_invariant [where good = ?good and P = "\<lambda>c st. legal_log_command c st \<and> \<not> disturbs i c"])
    show "?good (snd (log_handle F c b))" if "legal_log_command c b \<and> \<not> disturbs i c" "?good b" for c b
      using that assms(2) log_handle_ok log_handle_keeps_entry by metis
  qed (use assms in simp_all)
  then show ?thesis ..
qed

lemma append_meta: "rl_meta (snd (append_log F landed es st)) = rl_meta st"
  by (cases rule: append_cases [of F landed es st]) (simp_all, cases landed, simp_all)

lemma log_handle_keeps_vote:
  assumes "\<not> votes cmd"
  shows "read_vote F (snd (log_handle F cmd st)) = read_vote F st"
proof (cases cmd)
  case (SaveVote v landed)
  with assms show ?thesis by (simp add: votes_def)
next
  case (Append es landed)
  then show ?thesis using marker_meta(2) [OF append_meta] by (simp add: log_handle_def log_write_def)
next
  case (Truncate l landed)
  then show ?thesis by (cases landed) (simp_all add: log_handle_def log_write_def truncate_log_def read_vote_def)
next
  case (Purge l landed)
  then show ?thesis
    by (cases landed) (auto simp: log_handle_def log_write_def purge_log_def read_vote_def split: sum.splits option.splits)
next
  case (SaveCommitted c landed)
  then show ?thesis
    by (cases landed) (auto simp: log_handle_def log_write_def save_committed_def put_meta_def remove_meta_def read_vote_def
        split: sum.splits option.splits)
qed (simp_all add: log_handle_def log_read_def)

lemma saved_vote:
  assumes "log_codecs_faithful F" "wide_node (vo_node v)" "save_vote F landed v st = (Inr (), st')"
  shows "read_vote F st' = Inr (Some v)"
  using assms vote_back [OF assms(1,2)]
  by (cases landed) (auto simp: save_vote_def put_meta_def read_vote_def split: sum.splits)

lemma run_keeps_vote:
  assumes "read_vote F (ac_body a) = Inr (Some v)" "list_all (\<lambda>r. case r of Shutdown \<Rightarrow> True | Call c \<Rightarrow> \<not> votes c) cs"
  shows "read_vote F (ac_body (snd (actor_run (log_handle F) log_drain cs a))) = Inr (Some v)"
proof (rule ld.run_invariant [where good = "\<lambda>st. read_vote F st = Inr (Some v)" and P = "\<lambda>c _. \<not> votes c"])
  have "legal_calls (log_handle F) (\<lambda>c _. \<not> votes c) cs b" for b
    using assms(2) by (induction cs arbitrary: b rule: list.induct) (auto split: request.splits)
  then show "legal_calls (log_handle F) (\<lambda>c _. \<not> votes c) cs (ac_body a)" .
qed (use assms(1) log_handle_keeps_vote in auto)

text \<open>A command that is refused without putting durability in question has changed nothing.\<close>

lemma durable_commit_refused: "durable_commit db landed x y = (Inl e, z) \<Longrightarrow> puts_durability_in_question e"
  by (cases landed) (auto simp: puts_durability_in_question_def)

lemma append_refusal: "append_log F landed es st = (Inl e, st') \<Longrightarrow> \<not> puts_durability_in_question e \<Longrightarrow> st' = st"
  by (cases rule: append_cases [of F landed es st]) (auto dest: durable_commit_refused)

lemma log_refusal_inert:
  assumes "log_handle F cmd st = (Inl e, st')" "\<not> puts_durability_in_question e"
  shows "st' = st"
proof (cases cmd)
  case (Append es landed)
  have "map_sum (\<lambda>e. e) (\<lambda>_. ReplyDone) x = Inl e \<longleftrightarrow> x = Inl e" for x :: "storage_error + unit" by (cases x) auto
  with assms Append append_refusal [of F landed es st e st'] show ?thesis
    by (cases "append_log F landed es st") (auto simp: log_handle_def log_write_def)
next
  case (SaveVote v landed)
  with assms show ?thesis
    by (cases landed) (auto simp: log_handle_def log_write_def save_vote_def put_meta_def puts_durability_in_question_def
        split: sum.splits)
next
  case (SaveCommitted c landed)
  with assms show ?thesis
    by (cases landed) (auto simp: log_handle_def log_write_def save_committed_def put_meta_def remove_meta_def
        puts_durability_in_question_def split: sum.splits option.splits)
next
  case (Truncate l landed)
  with assms show ?thesis
    by (cases landed) (auto simp: log_handle_def log_write_def truncate_log_def puts_durability_in_question_def)
next
  case (Purge l landed)
  with assms show ?thesis
    by (cases landed) (auto simp: log_handle_def log_write_def purge_log_def puts_durability_in_question_def
        split: sum.splits option.splits if_splits)
qed (use assms in \<open>auto simp: log_handle_def log_read_def\<close>)

end
