(* ===== verification/Store_Example.thy ===== *)
theory Store_Example
  imports Coord_Example Coord_Actor Raft_View Read_Gate
begin

text \<open>
  Concrete stores for the witnesses: a serializer that knows a list of values and encodes each as
  its position, the freshly provisioned database of the group of \<open>Coord_Example\<close>, a short Raft log,
  and a run of the read gate.
\<close>

section \<open>A serializer\<close>

fun position :: "'a list \<Rightarrow> 'a \<Rightarrow> nat option" where
  "position [] x = None"
| "position (v # vs) x = (if v = x then Some 0 else map_option Suc (position vs x))"

definition listed :: "'a list \<Rightarrow> 'a codec" where
  "listed vs = \<lparr> co_ser = (\<lambda>x. map_option (\<lambda>i. replicate i 0) (position vs x)),
    co_de = (\<lambda>bs. if length bs < length vs then Some (vs ! length bs) else None) \<rparr>"

lemma position_nth: "position vs x = Some i \<Longrightarrow> i < length vs \<and> vs ! i = x"
  by (induction vs arbitrary: i) (auto split: if_splits)

lemma position_member: "x \<in> set vs \<Longrightarrow> \<exists>i. position vs x = Some i"
  by (induction vs) auto

lemma listed_faithful [simp]: "faithful (listed vs)"
  by (auto simp: faithful_def listed_def dest: position_nth)

lemma listed_ser: "x \<in> set vs \<Longrightarrow> \<exists>bs. co_ser (listed vs) x = Some bs \<and> length bs < length vs"
  using position_member [of x vs] by (auto simp: listed_def dest: position_nth)

section \<open>The database of the group\<close>

definition ex_joined_durable :: durable_state where
  "ex_joined_durable = mc_durable (ex_machine ex_s1 empty_changes)"

definition ex_founded_durable :: durable_state where
  "ex_founded_durable = mc_durable (ex_machine ex_s2 empty_changes)"

definition ex_codecs :: row_codecs where
  "ex_codecs = \<lparr> cd_meta = listed (map meta_to_wire [ex_durable, ex_joined_durable, ex_founded_durable]),
    cd_resource = listed [], cd_session = listed [], cd_intent = listed [], cd_route = listed [],
    cd_audit = listed [audit_row_to_wire (genesis_audit_row (ex_lid 2) SYS_GENESIS_INSTALLED)] \<rparr>"

definition ex_store :: store where
  "ex_store = \<lparr> sto_meta = Some [], sto_resources = [], sto_acl = [], sto_admins = [], sto_sessions = [],
    sto_intents = [], sto_routes = [], sto_audit = [] \<rparr>"

definition ex_opened :: state_actor where
  "ex_opened = \<lparr> sa_store = ex_store, sa_state = Some ex_durable, sa_committed = ds_membership ex_durable,
    sa_admins = admin_view_of ex_durable \<rparr>"

lemma ex_codecs_faithful: "codecs_faithful ex_codecs"
  by (simp add: codecs_faithful_def ex_codecs_def)

lemma ex_binding: "binding_good ex_durable"
proof -
  have "ffilter (\<lambda>n. True) {||} = ({||} :: node_id fset)" by auto
  then show ?thesis
    by (simp add: binding_good_def ex_durable_def ex_state_def ex_domain_ok membership_wf_def project_membership_def
        voter_ids_def no_membership_def)
qed

lemma ex_replica: "replica_ok ex_externs (\<lambda>_. 7) (start ex_durable)"
  using ex_fresh_inv ex_binding by (simp add: replica_ok_def ex_fresh_def)

lemma ex_store_ok: "store_ok ex_store"
  by (simp add: store_ok_def ex_store_def bm_ok_def)

lemma ex_holds: "holds ex_codecs ex_store ex_durable"
proof -
  have "read_meta ex_codecs ex_store = Inr (meta_to_wire ex_durable)"
    by (simp add: read_meta_def ex_store_def ex_codecs_def copy_stored_bounded_def check_stored_len_def
        decode_persisted_bounded_def decode_persisted_def listed_def)
  then have "sum_bind (read_meta ex_codecs ex_store) meta_from_wire = Inr (bare ex_durable)"
    by (simp add: meta_back [OF ex_binding])
  moreover have "tables_held ex_codecs ex_store (ds_model ex_durable)"
    by (simp add: tables_held_def ex_store_def ex_durable_def ex_state_def
        rs.held_def gs.held_def ss.held_def ns.held_def rt.held_def au.held_def admins_held_def bm_ok_def)
  ultimately show ?thesis by (simp add: holds_def)
qed

lemma ex_open: "open_state ex_externs ex_codecs ex_store = Inr ex_opened"
  using replica_loads [OF ex_replica ex_holds] by (simp add: open_state_def spawn_actor_def ex_opened_def)

lemma ex_group: "group_of ex_durable = nid 9" "group_of ex_joined_durable = nid 9"
  by (simp_all add: ex_durable_def ex_state_def ex_joined_durable_def ex_machine_def ex_s1_def)

lemma ex_machine_start: "start ex_joined_durable = ex_machine ex_s1 empty_changes"
  by (simp add: ex_joined_durable_def ex_machine_def)

text \<open>The two batches are legal where they arrive.\<close>

lemma ex_batches_legal:
  "legal_entries ex_externs (group_of ex_durable) (\<lambda>_. 7) [ex_join] (start ex_durable)"
  "legal_entries ex_externs (group_of ex_joined_durable) (\<lambda>_. 7) [ex_found] (start ex_joined_durable)"
proof -
  obtain r2 c2 where r2: "apply_entry ex_externs (nid 9) ex_found (ex_machine ex_s1 empty_changes) = Inr (r2, ex_machine ex_s2 c2)"
    using ex_founded by blast
  have fresh: "start ex_durable = ex_fresh" by (simp add: ex_fresh_def)
  show "legal_entries ex_externs (group_of ex_durable) (\<lambda>_. 7) [ex_join] (start ex_durable)"
    "legal_entries ex_externs (group_of ex_joined_durable) (\<lambda>_. 7) [ex_found] (start ex_joined_durable)"
    using ex_legal unfolding ex_group fresh ex_machine_start by (simp_all add: ex_joined r2)
qed

lemma ex_staged: "\<exists>st. stage ex_codecs ex_joined_durable empty_changes ex_store = Inr st"
proof -
  have "meta_to_wire ex_joined_durable \<in> set (map meta_to_wire [ex_durable, ex_joined_durable, ex_founded_durable])" by simp
  from listed_ser [OF this] obtain bs
    where bs: "co_ser (cd_meta ex_codecs) (meta_to_wire ex_joined_durable) = Some bs" "length bs < 3"
    by (auto simp: ex_codecs_def)
  then have "encode_committed DbState (cd_meta ex_codecs) ''CoordinationMetaV1'' (meta_to_wire ex_joined_durable)
      MAX_COORDINATION_META_BYTES = Inr bs"
    by (simp add: encode_committed_def encode_bounded_def encode_owned_def corrupt_in_def MAX_COORDINATION_META_BYTES_def)
  then show ?thesis by (auto simp: stage_def Let_def empty_changes_def)
qed

lemma ex_join_applied:
  "machine_apply ex_externs [ex_join] ex_durable = Inr ([NonCommandReplyV1], ex_joined_durable, empty_changes)"
  using ex_joined by (simp add: machine_apply_Inr ex_group ex_fresh_def ex_joined_durable_def ex_machine_def)

lemma ex_first_batch:
  "\<exists>st. actor_apply ex_externs ex_codecs Landed [ex_join] ex_opened =
    (Inr [NonCommandReplyV1], install_state ex_joined_durable (ex_opened\<lparr> sa_store := st \<rparr>))"
  "actor_apply ex_externs ex_codecs Lost [ex_join] ex_opened = (Inl (Redb DbState), ex_opened\<lparr> sa_state := None \<rparr>)"
  using ex_staged by (auto simp: actor_apply_def ex_opened_def commit_def install_state_def Let_def ex_join_applied)

definition ex_queue :: "state_command request list" where
  "ex_queue = [Call (ApplyBatch [ex_join] Landed), Call AppliedState, Call (ApplyBatch [ex_found] LandedUnacknowledged),
    Call AppliedState]"

definition ex_lost_queue :: "state_command request list" where
  "ex_lost_queue = [Call (ApplyBatch [ex_join] Lost), Call AppliedState]"

lemma ex_queue_legal:
  "legal_calls (state_handle ex_externs ex_codecs) (legal_state_command ex_externs (\<lambda>_. 7)) ex_queue ex_opened"
proof -
  obtain st where st: "actor_apply ex_externs ex_codecs Landed [ex_join] ex_opened =
    (Inr [NonCommandReplyV1], install_state ex_joined_durable (ex_opened\<lparr> sa_store := st \<rparr>))"
    using ex_first_batch(1) by blast
  have "legal_batch ex_externs (\<lambda>_. 7) [ex_join] ex_opened"
    "legal_batch ex_externs (\<lambda>_. 7) [ex_found] (install_state ex_joined_durable (ex_opened\<lparr> sa_store := st \<rparr>))"
    using ex_batches_legal unfolding legal_batch_def by (simp_all add: ex_opened_def install_state_def del: legal_entries.simps)
  then show ?thesis
    by (simp add: ex_queue_def legal_state_command_def state_handle_def read_reply_def st)
qed

lemma ex_lost_run:
  "fst (actor_run (state_handle ex_externs ex_codecs) state_drain ex_lost_queue \<lparr> ac_fatal = False, ac_body = ex_opened \<rparr>) =
    [Some (Inl (Redb DbState)), Some (Inl Fatal)]"
  by (simp add: ex_lost_queue_def serve_def state_handle_def ex_first_batch(2) puts_durability_in_question_def)

lemma ex_actor_ok: "actor_ok ex_externs ex_codecs (\<lambda>_. 7) ex_opened"
  using ex_holds ex_replica by (auto simp: actor_ok_def ex_opened_def)

lemma ex_batch_legal: "legal_batch ex_externs (\<lambda>_. 7) [ex_join] ex_opened"
  using ex_batches_legal(1) by (simp add: legal_batch_def ex_opened_def del: legal_entries.simps)

section \<open>A Raft log\<close>

abbreviation ex_blank :: "nat \<Rightarrow> raft_entry" where
  "ex_blank i \<equiv> ex_entry i Blank"

definition ex_vote :: raft_vote where
  "ex_vote = \<lparr> vo_term = 1, vo_node = nid 1, vo_committed = True \<rparr>"

definition ex_log_codecs :: log_codecs where
  "ex_log_codecs = \<lparr> lc_entry = listed (map entry_to_wire [ex_blank 1, ex_blank 2, ex_blank 3]),
    lc_vote = listed [vote_to_wire ex_vote], lc_log_id = listed (map log_id_to_wire [ex_lid 1, ex_lid 2]) \<rparr>"

definition ex_log :: "nat list \<Rightarrow> log_store" where
  "ex_log is = \<lparr> rl_meta = [], rl_log = map (\<lambda>i. (i, replicate (i - 1) 0)) is \<rparr>"

lemma ex_log_codecs_faithful: "log_codecs_faithful ex_log_codecs"
  by (simp add: log_codecs_faithful_def ex_log_codecs_def)

lemma replicate_two: "replicate 2 x = [x, x]"
  by (simp add: numeral_2_eq_2)

lemma ex_encode: "i \<in> {1, 2, 3} \<Longrightarrow> encode_entry ex_log_codecs (ex_blank i) = Inr (replicate (i - 1) 0)"
  by (auto simp: encode_entry_def encode_bounded_def encode_owned_def ex_log_codecs_def listed_def ex_entry_def
      entry_to_wire_def log_id_to_wire_def MAX_ENTRY_BYTES_def replicate_two)

lemma ex_wf: "i \<in> {1, 2, 3} \<Longrightarrow> entry_wf (ex_blank i)"
  by (auto simp: entry_wf_def ex_entry_def wide_log_def wide_node_def u64_max_def coord_simps)

lemma ex_decode: "i \<in> {1, 2, 3} \<Longrightarrow> decode_entry ex_log_codecs (replicate (i - 1) 0) = Inr (ex_blank i)"
  using entry_back [OF ex_log_codecs_faithful ex_wf ex_encode] by blast

lemma ex_log_ok: "log_ok ex_log_codecs (ex_log [1, 2])"
  using ex_decode [of 1] ex_decode [of 2]
  by (auto simp: log_ok_def ex_log_def bm_ok_def gapless_def continues_def marker_def read_vote_def ex_entry_def u64_max_def
      split: if_splits)

lemma ex_append: "append_log ex_log_codecs Landed [ex_blank 3] (ex_log [1, 2]) = (Inr (), ex_log [1, 2, 3])"
  using ex_encode [of 3]
  by (simp add: append_log_def marker_def ex_log_def writable_def hole_below_def hole_above_def frontier_def
      last_entry_index_def first_index_above_def ex_entry_def checked_add_u64_def u64_max_def)

lemma ex_log_view: "log_view ex_log_codecs (ex_log [1, 2]) 1 = Some (ex_blank 1)"
  using ex_decode [of 1] by (simp add: log_view_def ex_log_def)

definition ex_log_queue :: "log_command request list" where
  "ex_log_queue = [Call (SaveVote ex_vote Landed), Call (Append [ex_blank 3] Landed), Call (Truncate (ex_lid 2) LandedUnacknowledged)]"

lemma ex_log_queue_legal:
  "legal_calls (log_handle ex_log_codecs) (\<lambda>c st. legal_log_command c st \<and> \<not> disturbs 1 c) ex_log_queue (ex_log [1, 2])"
  using ex_wf [of 3]
  by (simp add: ex_log_queue_def legal_log_command_def disturbs_def ex_vote_def ex_entry_def ex_lid_def wide_node_def coord_simps)

lemma legal_calls_mono: "legal_calls h P cs b \<Longrightarrow> (\<And>c b. P c b \<Longrightarrow> Q c b) \<Longrightarrow> legal_calls h Q cs b"
proof (induction cs arbitrary: b)
  case (Cons c cs)
  then show ?case by (cases c) auto
qed simp

lemma ex_saved: "save_vote ex_log_codecs Landed ex_vote (ex_log [1, 2]) = (Inr (), (ex_log [1, 2])\<lparr> rl_meta := [(KEY_VOTE, [])] \<rparr>)"
  by (simp add: save_vote_def encode_vote_def encode_bounded_def encode_owned_def ex_log_codecs_def listed_def put_meta_def
      ex_log_def MAX_META_BYTES_def)

section \<open>Runs of the gate\<close>

text \<open>Agent 0 has exclusive access, agent 1 sleeps until it is given back.\<close>

definition ex_gate_held :: gate_world where
  "ex_gate_held =
    (let g = \<lparr> ga_outstanding = 0, ga_exclusive = True, ga_closed = False \<rparr>;
         w1 = goes gate_start 0 (Claiming False) new_gate False;
         w2 = goes w1 0 (Draining False) g False;
         w3 = goes w2 0 Holding g False;
         w4 = goes w3 1 (Claiming False) g False
     in goes w4 1 (Claiming True) g False)"

text \<open>Agent 0 has closed the gate.\<close>

definition ex_gate_closed :: gate_world where
  "ex_gate_closed =
    (let g = \<lparr> ga_outstanding = 0, ga_exclusive = False, ga_closed = True \<rparr>
     in goes (goes gate_start 0 (Closing False) g True) 0 Drained g False)"

lemma ex_gate_held_reachable: "gate_reachable ex_gate_held"
proof -
  let ?g = "\<lparr> ga_outstanding = 0, ga_exclusive = True, ga_closed = False \<rparr>"
  let ?w1 = "goes gate_start 0 (Claiming False) new_gate False"
  let ?w2 = "goes ?w1 0 (Draining False) ?g False"
  let ?w3 = "goes ?w2 0 Holding ?g False"
  let ?w4 = "goes ?w3 1 (Claiming False) ?g False"
  have "gate_step gate_start ?w1" using quiesce_call [of gate_start 0] by (simp add: gate_start_def)
  moreover have "gate_step ?w1 ?w2" by (rule claim_done) (simp_all add: quiesce_claim_def new_gate_def)
  moreover have "gate_step ?w2 ?w3" by (rule drain_done) (simp_all add: quiesce_drain_def)
  moreover have "gate_step ?w3 ?w4" using quiesce_call [of ?w3 1] by (simp add: gate_start_def)
  moreover have "gate_step ?w4 (goes ?w4 1 (Claiming True) ?g False)"
    using claim_sleep [of ?w4 1] by (simp add: quiesce_claim_def)
  ultimately show ?thesis unfolding ex_gate_held_def Let_def by (meson gate_initial gate_next)
qed

lemma ex_gate_closed_reachable: "gate_reachable ex_gate_closed"
proof -
  let ?g = "\<lparr> ga_outstanding = 0, ga_exclusive = False, ga_closed = True \<rparr>"
  let ?w = "goes gate_start 0 (Closing False) ?g True"
  have "gate_step gate_start ?w"
    using close_call [of gate_start 0] by (simp add: gate_start_def close_begin_def new_gate_def)
  moreover have "gate_step ?w (goes ?w 0 Drained ?g False)"
    using close_done [of ?w 0] by (simp add: close_waits_def)
  ultimately show ?thesis unfolding ex_gate_closed_def Let_def by (meson gate_initial gate_next)
qed

lemma ex_gate_agents:
  "gw_agent ex_gate_held 0 = Holding" "gw_agent ex_gate_held 1 = Claiming True" "gw_agent ex_gate_closed 0 = Drained"
  by (simp_all add: ex_gate_held_def ex_gate_closed_def Let_def)

end
