(* ===== verification/Storage_Correct.thy ===== *)
theory Storage_Correct
  imports Store_Example
begin

text \<open>
  What the storage of a voter promises: the state actor over \<open>state.redb\<close> (\<open>Coord_Actor\<close>), the log
  actor over \<open>raft.redb\<close> (\<open>Raft_Log\<close>, \<open>Raft_View\<close>) and the gate between reads and a replacement of
  the database (\<open>Read_Gate\<close>).  Each property is followed by its instance on the stores of
  \<open>Store_Example\<close>.
\<close>

section \<open>The state database\<close>

text \<open>C2: a restart is invisible.  Let the state actor serve any queue of its commands except snapshot
  installs from a store it opened, whose tables are in key order and whose codecs decode what they
  encoded.  The loaded state satisfies \<open>machine_inv\<close>, which is stronger than the checks of the load.
  Each batch is \<open>legal_entries\<close> in the state it meets: terms do not decrease, leaders are 32-byte ids, a
  membership entry has one or two configurations of the profile's size over 32-byte nodes it lists, a
  request hash names one operation code, the membership id a progress report observed is not above its
  entry.  A commit may succeed, be lost or land unacknowledged; a read may be refused or fail.  Then the
  store the actor leaves opens again, and as long as the actor is not latched, opening it gives back
  exactly the actor as it was: the same state, the same committed membership, the same administrators.\<close>

theorem restart_invisible:
  assumes "open_state E F st = Inr a" "store_ok st" "codecs_faithful F"
    and "case sa_state a of None \<Rightarrow> False | Some d \<Rightarrow> machine_inv E code_of (start d)"
    and "legal_calls (state_handle E F) (legal_state_command E code_of) cs a"
    and "actor_run (state_handle E F) state_drain cs \<lparr> ac_fatal = False, ac_body = a \<rparr> = (replies, b)"
  shows "\<exists>a'. open_state E F (sa_store (ac_body b)) = Inr a' \<and> (\<not> ac_fatal b \<longrightarrow> a' = ac_body b)"
proof -
  let ?a = "\<lparr> ac_fatal = False, ac_body = a \<rparr>"
  have ok: "actor_ok E F code_of (ac_body ?a)" using open_state_ok [OF assms(1,2,4)] by simp
  have live: "sa_state (ac_body ?a) \<noteq> None" using assms(4) by (auto split: option.splits)
  have "actor_ok E F code_of (ac_body b)" using run_actor_ok [OF ok assms(3), of cs] assms(5,6) by simp
  moreover have "\<not> ac_fatal b \<longrightarrow> sa_state (ac_body b) \<noteq> None"
    using sd.run_live [where handle = "state_handle E F" and cs = cs, OF state_handle_live live] assms(6) by simp
  ultimately show ?thesis using actor_ok_reopens by blast
qed

theorem restart_invisible_witness:
  "\<exists>replies b a'. actor_run (state_handle ex_externs ex_codecs) state_drain ex_queue \<lparr> ac_fatal = False, ac_body = ex_opened \<rparr>
      = (replies, b) \<and> open_state ex_externs ex_codecs (sa_store (ac_body b)) = Inr a'"
proof -
  obtain replies b where "actor_run (state_handle ex_externs ex_codecs) state_drain ex_queue
      \<lparr> ac_fatal = False, ac_body = ex_opened \<rparr> = (replies, b)" by fastforce
  with restart_invisible [OF ex_open ex_store_ok ex_codecs_faithful _ ex_queue_legal this] ex_fresh_inv show ?thesis
    by (auto simp: ex_opened_def ex_fresh_def)
qed

text \<open>C10: a batch is all or nothing.  The actor satisfies \<open>actor_ok\<close>: its store holds a state in the
  invariant of a replica, and the published state and views are that one's.  The batch satisfies
  \<open>legal_batch\<close>, the conditions of \<open>legal_entries\<close> in that state, and the codecs decode what they encoded.
  Whatever redb does with its transaction, a reply of success carries the replies of the whole batch, and the
  state after all of it is published and is what the database loads as; an empty batch changes nothing.  A
  reply of failure latches the store, whichever step failed, and leaves no published state; the database then
  loads as the state before the batch or as the state after all of it.\<close>

theorem batch_atomic:
  assumes "actor_ok E F code_of a" "codecs_faithful F" "legal_batch E code_of es a"
    and "sa_state a = Some d"
    and "serve (actor_apply E F landed es) \<lparr> ac_fatal = False, ac_body = a \<rparr> = (reply, outcome, b)"
  shows "case reply of
     Inr rs \<Rightarrow> outcome = ServeContinue \<and> \<not> ac_fatal b \<and>
       (if es = [] then rs = [] \<and> ac_body b = a \<and> load E F (sa_store (ac_body b)) = Inr d
        else \<exists>d' c. machine_apply E es d = Inr (rs, d', c) \<and> sa_state (ac_body b) = Some d' \<and>
          load E F (sa_store (ac_body b)) = Inr d')
   | Inl e \<Rightarrow> outcome = ServeFatal \<and> ac_fatal b \<and> sa_state (ac_body b) = None \<and>
       (load E F (sa_store (ac_body b)) = Inr d \<or>
        (\<exists>replies d' c. machine_apply E es d = Inr (replies, d', c) \<and> load E F (sa_store (ac_body b)) = Inr d'))"
proof -
  note s = assms(5) [unfolded serve_result]
  then have "actor_apply E F landed es a = (reply, ac_body b)" by (auto simp: prod_eq_iff)
  from actor_apply_atomic [OF assms(1-4) this] s show ?thesis
    by (auto simp: fatal_reply_def split: sum.splits if_splits)
qed

theorem batch_atomic_witness:
  "\<exists>reply outcome b. serve (actor_apply ex_externs ex_codecs LandedUnacknowledged [ex_join])
      \<lparr> ac_fatal = False, ac_body = ex_opened \<rparr> = (reply, outcome, b) \<and>
    load ex_externs ex_codecs (sa_store (ac_body b)) \<in> {Inr ex_durable, Inr ex_joined_durable}"
proof -
  obtain reply outcome b where run: "serve (actor_apply ex_externs ex_codecs LandedUnacknowledged [ex_join])
      \<lparr> ac_fatal = False, ac_body = ex_opened \<rparr> = (reply, outcome, b)"
    by (metis prod_cases3)
  have "sa_state ex_opened = Some ex_durable" by (simp add: ex_opened_def)
  from batch_atomic [OF ex_actor_ok ex_codecs_faithful ex_batch_legal this run] run show ?thesis
    by (cases reply) (auto simp: ex_join_applied)
qed

text \<open>C33: the latch of the state actor.  Once a reply puts durability in question, every command
  behind it in the queue is refused or dropped unanswered, the store is latched, and a latched
  store refuses every later call without touching its database.\<close>

theorem state_latch_sticky:
  assumes "actor_run (state_handle E F) state_drain cs a = (replies, b)"
    and "i < j" "j < length replies" "fatal_reply (replies ! i)"
  shows "replies ! j \<in> {None, Some (Inl Fatal)} \<and> ac_fatal b \<and> actor_call DbState stopped (state_handle E F) c b = (Inl Fatal, b)"
proof -
  have "sticky replies" using sd.run_sticky [of "state_handle E F" cs a] assms(1) by simp
  then have "refused_reply (replies ! j)" using sticky_nth assms(2-4) by blast
  moreover have "list_ex fatal_reply replies" using assms(2-4) by (auto simp: list_ex_length intro: order.strict_trans)
  then have "ac_fatal b" using sd.run_latch [of "state_handle E F" cs a] assms(1) by simp
  ultimately show ?thesis by (simp add: refused_reply_cases actor_call_def)
qed

theorem state_latch_sticky_witness:
  "\<exists>b. actor_run (state_handle ex_externs ex_codecs) state_drain ex_lost_queue \<lparr> ac_fatal = False, ac_body = ex_opened \<rparr> =
      ([Some (Inl (Redb DbState)), Some (Inl Fatal)], b) \<and>
    actor_call DbState False (state_handle ex_externs ex_codecs) Observability b = (Inl Fatal, b)"
proof -
  obtain b where run: "actor_run (state_handle ex_externs ex_codecs) state_drain ex_lost_queue
      \<lparr> ac_fatal = False, ac_body = ex_opened \<rparr> = ([Some (Inl (Redb DbState)), Some (Inl Fatal)], b)"
    using ex_lost_run by (metis prod.collapse)
  with state_latch_sticky [OF run, of 0 1 False] show ?thesis
    by (auto simp: fatal_reply_def puts_durability_in_question_def)
qed

text \<open>C34: the metadata row.  Encoding the metadata of a state whose hashes have their width and whose
  membership is canonical, and narrowing it again with all of the loader's checks, gives that
  metadata back; only the rows, which have tables of their own, are missing.\<close>

theorem meta_round_trip:
  assumes "binding_good d" "faithful (cd_meta F)"
    and "encode_committed DbState (cd_meta F) ''CoordinationMetaV1'' (meta_to_wire d) MAX_COORDINATION_META_BYTES = Inr bs"
    and "sto_meta st = Some bs"
  shows "sum_bind (read_meta F st) meta_from_wire = Inr (bare d)"
  using encode_decode [OF assms(2,3)] meta_back [OF assms(1)] assms(4)
  by (auto simp: read_meta_def copy_stored_bounded_def check_stored_len_def decode_persisted_bounded_def split: if_splits)

theorem meta_round_trip_witness:
  "\<exists>bs. sum_bind (read_meta ex_codecs (ex_store\<lparr> sto_meta := Some bs \<rparr>)) meta_from_wire = Inr (bare ex_durable)"
proof -
  have "encode_committed DbState (cd_meta ex_codecs) ''CoordinationMetaV1'' (meta_to_wire ex_durable)
      MAX_COORDINATION_META_BYTES = Inr []"
    by (simp add: encode_committed_def encode_bounded_def encode_owned_def corrupt_in_def ex_codecs_def listed_def)
  moreover have "faithful (cd_meta ex_codecs)" using ex_codecs_faithful by (simp add: codecs_faithful_def)
  ultimately show ?thesis using meta_round_trip [OF ex_binding, of ex_codecs "[]" "ex_store\<lparr> sto_meta := Some [] \<rparr>"] by auto
qed

text \<open>C35: the version a read has pinned.  It is the version a full load of the same transaction
  reports, and it satisfies a barrier exactly when the log up to the barrier is part of it: a
  barrier at a lower index or the same entry.\<close>

theorem pinned_version_exact:
  assumes "load E F st = Inr d"
  shows "\<exists>p. pinned_applied F st = Inr p \<and> p = st_last_applied (ds_model d) \<and>
    (against p barrier = Satisfied \<longleftrightarrow>
      barrier = None \<or> (\<exists>x b. p = Some x \<and> barrier = Some b \<and> (lg_index b < lg_index x \<or> b = x))) \<and>
    (against p barrier = Diverged \<longleftrightarrow>
      (\<exists>x b. p = Some x \<and> barrier = Some b \<and> lg_index b = lg_index x \<and> b \<noteq> x))"
  using load_pinned [OF assms] by (auto simp: against_def split: option.splits)

theorem pinned_version_exact_witness:
  "pinned_applied ex_codecs ex_store = Inr None \<and> against None (Some (ex_lid 1)) \<noteq> Satisfied"
  using pinned_version_exact [OF replica_loads [OF ex_replica ex_holds], of "Some (ex_lid 1)"]
  by (simp add: ex_durable_def ex_state_def)

section \<open>The Raft log\<close>

text \<open>C36: the startup validation of the log is exact.  On tables redb keeps in order, it accepts
  exactly the stores that are well-formed: every row decodes to an entry of its own index, the
  markers and the vote decode, the indices have no hole and continue the purge marker.\<close>

theorem validation_exact:
  assumes "bm_ok (rl_log st)" "bm_ok (rl_meta st)" "\<forall>i. has st i \<longrightarrow> i \<le> u64_max"
  shows "validate_persisted_log F st = None \<longleftrightarrow> log_ok F st"
  using assms by (rule validate_exact)

theorem validation_exact_witness: "validate_persisted_log ex_log_codecs (ex_log [1, 2]) = None"
  using validation_exact [of "ex_log [1, 2]" ex_log_codecs] ex_log_ok
  by (auto simp: ex_log_def bm_ok_def u64_max_def split: if_splits)

text \<open>C7: the log never gets a hole.  Let the log actor serve any queue of commands from a store
  the startup validation accepts, where entries and identifiers have the width the store keeps, a
  purge reaches the log, and every commit may succeed, be lost or land unacknowledged.  The startup
  validation accepts the store it leaves.\<close>

theorem log_stays_openable:
  assumes "bm_ok (rl_log st)" "bm_ok (rl_meta st)" "\<forall>i. has st i \<longrightarrow> i \<le> u64_max"
    and "validate_persisted_log F st = None" "log_codecs_faithful F"
    and "legal_calls (log_handle F) legal_log_command cs st"
    and "actor_run (log_handle F) log_drain cs \<lparr> ac_fatal = False, ac_body = st \<rparr> = (replies, b)"
  shows "validate_persisted_log F (ac_body b) = None"
proof -
  have "log_ok F st" using validate_exact [OF assms(1-3)] assms(4) by simp
  then have "log_ok F (ac_body b)"
    using run_log_ok [of F "\<lparr> ac_fatal = False, ac_body = st \<rparr>" cs] assms(5-7) by simp
  then show ?thesis by (rule log_ok_validates)
qed

theorem log_stays_openable_witness:
  "validate_persisted_log ex_log_codecs (ac_body (snd (actor_run (log_handle ex_log_codecs) log_drain ex_log_queue
      \<lparr> ac_fatal = False, ac_body = ex_log [1, 2] \<rparr>))) = None"
proof -
  obtain replies b where run: "actor_run (log_handle ex_log_codecs) log_drain ex_log_queue
      \<lparr> ac_fatal = False, ac_body = ex_log [1, 2] \<rparr> = (replies, b)" by fastforce
  have "legal_calls (log_handle ex_log_codecs) legal_log_command ex_log_queue (ex_log [1, 2])"
    using ex_log_queue_legal by (rule legal_calls_mono) simp
  with log_stays_openable [OF _ _ _ log_ok_validates [OF ex_log_ok] ex_log_codecs_faithful this run] ex_log_ok show ?thesis
    unfolding run by (auto simp: log_ok_def)
qed

text \<open>C6: the log implements its contract.  Seen as a map from indices to entries, an acknowledged
  append puts the batch above the purge marker into the log and keeps the rest, a truncation keeps
  what is below its index, a purge what is above; a read returns exactly the entries in its range,
  in order.\<close>

theorem log_implements_contract:
  assumes "log_ok F st" "log_codecs_faithful F" "list_all entry_wf es" "marker F KEY_LAST_PURGED st = Inr purged"
  shows "(\<forall>landed st'. append_log F landed es st = (Inr (), st') \<longrightarrow> log_view F st' = spec_append purged es (log_view F st)) \<and>
    (\<forall>landed l st'. truncate_log landed l st = (Inr (), st') \<longrightarrow> log_view F st' = spec_truncate (lg_index l) (log_view F st)) \<and>
    (\<forall>landed l st'. purge_log F landed l st = (Inr (), st') \<longrightarrow> log_view F st' = spec_purge (lg_index l) (log_view F st)) \<and>
    (\<forall>lo hi. \<exists>found. read_log F lo hi st = Inr found \<and> sorted_wrt (<) (map entry_index found) \<and>
      (\<forall>e. e \<in> set found \<longleftrightarrow>
        bound_above lo (entry_index e) \<and> bound_below hi (entry_index e) \<and> log_view F st (entry_index e) = Some e))"
proof (intro conjI allI impI)
  fix landed l st'
  show "append_log F landed es st = (Inr (), st') \<Longrightarrow> log_view F st' = spec_append purged es (log_view F st)"
    using append_refines [OF assms] by blast
  show "truncate_log landed l st = (Inr (), st') \<Longrightarrow> log_view F st' = spec_truncate (lg_index l) (log_view F st)"
    by (intro ext) (simp add: truncate_view spec_truncate_def)
  show "purge_log F landed l st = (Inr (), st') \<Longrightarrow> log_view F st' = spec_purge (lg_index l) (log_view F st)"
    using purge_view [OF assms(1)] by (intro ext) (simp add: spec_purge_def)
qed (rule read_log_view [OF assms(1)])

theorem log_implements_contract_witness:
  "log_view ex_log_codecs (ex_log [1, 2, 3]) = spec_append None [ex_blank 3] (log_view ex_log_codecs (ex_log [1, 2]))"
proof -
  have "marker ex_log_codecs KEY_LAST_PURGED (ex_log [1, 2]) = Inr None" by (simp add: marker_def ex_log_def)
  with log_implements_contract [OF ex_log_ok ex_log_codecs_faithful, of "[ex_blank 3]" None] ex_wf [of 3] ex_append
  show ?thesis by auto
qed

text \<open>C37: what the log reports to OpenRaft.  The last purged id is the purge marker; the last log id
  is that of the entry with the highest index, and of the marker when the log is empty.\<close>

theorem log_state_reported:
  assumes "log_ok F st"
  shows "\<exists>s. get_log_state F st = Inr s \<and> marker F KEY_LAST_PURGED st = Inr (ls_last_purged_log_id s) \<and>
    (if \<forall>i. log_view F st i = None then ls_last_log_id s = ls_last_purged_log_id s
     else \<exists>e. log_view F st (entry_index e) = Some e \<and> ls_last_log_id s = Some (en_log_id e) \<and>
       (\<forall>i. log_view F st i \<noteq> None \<longrightarrow> i \<le> entry_index e))"
  using assms by (rule log_state_view)

theorem log_state_reported_witness:
  "\<exists>s e. get_log_state ex_log_codecs (ex_log [1, 2]) = Inr s \<and> ls_last_log_id s = Some (en_log_id e) \<and> 1 \<le> entry_index e"
proof -
  have "\<not> (\<forall>i. log_view ex_log_codecs (ex_log [1, 2]) i = None)" using ex_log_view by (metis option.distinct(1))
  with log_state_reported [OF ex_log_ok] ex_log_view show ?thesis by (metis option.distinct(1))
qed

text \<open>C14: acknowledged entries survive.  An entry that is in the log stays there, whatever the log
  actor serves and whatever redb does with the transactions, until a batch, a truncation or a purge
  at its index.\<close>

theorem entries_survive:
  assumes "log_ok F (ac_body a)" "log_codecs_faithful F" "log_view F (ac_body a) i = Some e"
    and "legal_calls (log_handle F) (\<lambda>c st. legal_log_command c st \<and> \<not> disturbs i c) cs (ac_body a)"
  shows "log_view F (ac_body (snd (actor_run (log_handle F) log_drain cs a))) i = Some e"
  using assms by (rule run_keeps_entry)

theorem entries_survive_witness:
  "log_view ex_log_codecs (ac_body (snd (actor_run (log_handle ex_log_codecs) log_drain ex_log_queue
      \<lparr> ac_fatal = False, ac_body = ex_log [1, 2] \<rparr>))) 1 = Some (ex_blank 1)"
  using entries_survive [of ex_log_codecs "\<lparr> ac_fatal = False, ac_body = ex_log [1, 2] \<rparr>" 1 "ex_blank 1" ex_log_queue]
    ex_log_ok ex_log_codecs_faithful ex_log_view ex_log_queue_legal
  by simp

text \<open>C38: an acknowledged vote survives.  After a vote was saved, every later state of the log reads
  that vote until another one is saved.\<close>

theorem votes_survive:
  assumes "log_codecs_faithful F" "wide_node (vo_node v)" "save_vote F landed v st = (Inr (), ac_body a)"
    and "list_all (\<lambda>r. case r of Shutdown \<Rightarrow> True | Call c \<Rightarrow> \<not> votes c) cs"
  shows "read_vote F (ac_body (snd (actor_run (log_handle F) log_drain cs a))) = Inr (Some v)"
  using saved_vote [OF assms(1-3)] assms(4) by (rule run_keeps_vote)

theorem votes_survive_witness:
  "read_vote ex_log_codecs (ac_body (snd (actor_run (log_handle ex_log_codecs) log_drain
      [Call (Append [ex_blank 3] Landed), Call (Truncate (ex_lid 2) Lost)]
      \<lparr> ac_fatal = False, ac_body = (ex_log [1, 2])\<lparr> rl_meta := [(KEY_VOTE, [])] \<rparr> \<rparr>))) = Inr (Some ex_vote)"
  using ex_saved by (intro votes_survive [OF ex_log_codecs_faithful]) (simp_all add: ex_vote_def wide_node_def votes_def coord_simps)

text \<open>C39: the latch of the log actor.  Once a reply puts durability in question, every command
  behind it is refused or dropped, the store is latched, and later calls change nothing.  A command
  that is refused without latching, such as a batch that would leave a hole, has changed nothing.\<close>

theorem log_latch_sticky:
  assumes "actor_run (log_handle F) log_drain cs a = (replies, b)"
    and "i < j" "j < length replies" "fatal_reply (replies ! i)"
  shows "replies ! j \<in> {None, Some (Inl Fatal)} \<and> ac_fatal b \<and> actor_call DbRaft stopped (log_handle F) c b = (Inl Fatal, b) \<and>
    (log_handle F c st = (Inl e, st') \<longrightarrow> \<not> puts_durability_in_question e \<longrightarrow> st' = st)"
proof -
  have "sticky replies" using ld.run_sticky [of "log_handle F" cs a] assms(1) by simp
  then have "refused_reply (replies ! j)" using sticky_nth assms(2-4) by blast
  moreover have "list_ex fatal_reply replies" using assms(2-4) by (auto simp: list_ex_length intro: order.strict_trans)
  then have "ac_fatal b" using ld.run_latch [of "log_handle F" cs a] assms(1) by simp
  ultimately show ?thesis using log_refusal_inert by (auto simp: refused_reply_cases actor_call_def)
qed

theorem log_latch_sticky_witness:
  "\<exists>b. actor_run (log_handle ex_log_codecs) log_drain [Call (Truncate (ex_lid 1) Lost), Call ReadVote]
      \<lparr> ac_fatal = False, ac_body = ex_log [1, 2] \<rparr> = ([Some (Inl (Redb DbRaft)), Some (Inl Fatal)], b) \<and>
    actor_call DbRaft False (log_handle ex_log_codecs) ReadCommitted b = (Inl Fatal, b)"
proof -
  obtain b where run: "actor_run (log_handle ex_log_codecs) log_drain [Call (Truncate (ex_lid 1) Lost), Call ReadVote]
      \<lparr> ac_fatal = False, ac_body = ex_log [1, 2] \<rparr> = ([Some (Inl (Redb DbRaft)), Some (Inl Fatal)], b)"
    by (simp add: serve_def log_handle_def log_write_def truncate_log_def puts_durability_in_question_def)
  with log_latch_sticky [OF run, of 0 1 False] show ?thesis
    by (auto simp: fatal_reply_def puts_durability_in_question_def)
qed

section \<open>The read gate\<close>

text \<open>C15: exclusive access is exclusive.  In every interleaving of any number of reads, \<open>quiesce\<close> calls
  and \<open>close\<close> calls, while one caller has exclusive access no read is outstanding and nobody else
  has it; once a \<open>close\<close> has returned, that is so for everybody, in every later state.\<close>

theorem gate_exclusive:
  assumes "gate_reachable w"
  shows "(\<forall>t. gw_agent w t = Holding \<longrightarrow> (\<forall>u. gw_agent w u \<noteq> Reading \<and> (gw_agent w u = Holding \<longrightarrow> u = t))) \<and>
    (\<forall>t w'. gw_agent w t = Drained \<longrightarrow> gate_step\<^sup>*\<^sup>* w w' \<longrightarrow>
      ga_closed (gw_gate w') \<and> (\<forall>u. gw_agent w' u \<noteq> Reading \<and> gw_agent w' u \<noteq> Holding))"
proof (intro conjI allI impI)
  fix t u w'
  note inv = gate_reachable_inv [OF assms]
  show "gw_agent w u \<noteq> Reading" "gw_agent w u = Holding \<Longrightarrow> u = t" if "gw_agent w t = Holding"
    using exclusive_alone [OF inv that] by auto
  assume t: "gw_agent w t = Drained" and steps: "gate_step\<^sup>*\<^sup>* w w'"
  have inv': "gate_inv w'" using gate_reachable_inv [OF steps_reachable [OF steps assms]] .
  note idle = drained_idle [OF inv' drained_stays [OF steps t]]
  show "ga_closed (gw_gate w')" "gw_agent w' u \<noteq> Reading" using idle(1,3) by auto
  show "gw_agent w' u \<noteq> Holding" using idle(2) [of u] by auto
qed

theorem gate_exclusive_witness: "gw_agent ex_gate_held 5 \<noteq> Reading \<and> ga_closed (gw_gate ex_gate_closed)"
  using gate_exclusive [OF ex_gate_held_reachable] gate_exclusive [OF ex_gate_closed_reachable] ex_gate_agents by blast

text \<open>C8: no call waits for ever.  From any reachable state, the calls that are under way make only
  finitely many steps, and when they can make no more, every one of them has returned: no
  notification is lost and nobody deadlocks.\<close>

theorem gate_calls_return:
  assumes "gate_reachable w"
  shows "(\<nexists>f. f 0 = w \<and> (\<forall>n. gate_work (f n) (f (Suc n)))) \<and>
    (\<forall>w'. gate_work\<^sup>*\<^sup>* w w' \<longrightarrow> (\<nexists>w''. gate_work w' w'') \<longrightarrow> (\<forall>t. settled (gw_agent w' t)))"
proof (intro conjI allI impI)
  show "\<nexists>f. f 0 = w \<and> (\<forall>n. gate_work (f n) (f (Suc n)))" using no_endless_work assms by blast
  fix w' t
  assume "gate_work\<^sup>*\<^sup>* w w'" "\<nexists>w''. gate_work w' w''"
  then show "settled (gw_agent w' t)" using stuck_settled [OF work_reaches] assms by blast
qed

theorem gate_calls_return_witness: "\<exists>w'. gate_work ex_gate_held w'"
proof (rule ccontr)
  assume "\<nexists>w'. gate_work ex_gate_held w'"
  with gate_calls_return [OF ex_gate_held_reachable] have "settled (gw_agent ex_gate_held 0)" by blast
  then show False by (simp add: ex_gate_agents settled_def)
qed

end
