(* ===== verification/Spec2Isabelle.thy ===== *)
theory Spec2Isabelle
  imports Coord_Fence Coord_Client Coord_Changes Coord_Govern Coord_Example Storage_Correct
begin

text \<open>
  A verification development for the coordination subsystem of Aster RPC
  (\<open>src/aster/src/coordination\<close>): a Raft-replicated group of named resources, each with a lease, a
  value and an access-control list.

  \<^bold>\<open>The program.\<close>  A client request reaches a leader, which answers it from the state
  (\<open>preflight\<close>) or proposes a command.  OpenRaft stores the entry in every voter's log
  (\<open>storage/log.rs\<close>, \<open>raft.redb\<close>) and, once committed, hands it to the state actor
  (\<open>storage/machine.rs\<close>), which applies a batch to a private copy of the replicated state
  (\<open>model/\<close>), writes the changed rows and the metadata in one transaction (\<open>storage/rows.rs\<close>,
  \<open>state.redb\<close>) and only then publishes the new state and answers.  A voter that restarts loads
  and validates both databases before it serves anything.  Reads of \<open>state.redb\<close> take a lease from
  a gate (\<open>storage/reads.rs\<close>) that a replacement or a shutdown waits for.

  \<^bold>\<open>The model.\<close>  A struct is a record, an enum a datatype, a \<open>BTreeMap\<close> a list of rows in key
  order (\<open>Btree_Map\<close>), a \<open>u64\<close> a natural number with the wrap-around of the plain operators written
  out (\<open>Prelude\<close>), a rights mask a \<open>64 word\<close>.  A function that mutates the state takes and returns
  it; every early return, fault and refusal is a value.  A loop is structural recursion or recursion
  on a list, so no definition needs fuel; audit pruning, the one loop with another measure, is a
  \<open>function\<close> with its termination proof.

  \<^item> Vocabulary: \<open>Coord_Reason\<close> (\<open>reason.rs\<close>), \<open>Coord_Limits\<close> (\<open>model/limits.rs\<close>), \<open>Coord_Ids\<close>
    (\<open>ids.rs\<close>), \<open>Coord_Contract\<close> (\<open>contract.rs\<close>), \<open>Coord_Externs\<close> (stored and signed types, and the
    functions of other packages), \<open>Ticket\<close> (\<open>core/src/ticket.rs\<close>).
  \<^item> State and decisions: \<open>Coord_State\<close> (\<open>model/state.rs\<close>, \<open>tables.rs\<close>), \<open>Coord_Classify\<close>,
    \<open>Coord_Shape\<close> and \<open>Coord_Plan\<close> (\<open>shape.rs\<close>), \<open>Coord_Authority\<close>, \<open>Coord_Resource\<close>, \<open>Coord_Grant\<close>,
    \<open>Coord_Admin\<close> (\<open>admin.rs\<close>, \<open>expire.rs\<close>, \<open>retire.rs\<close>), \<open>Coord_Membership\<close>.
  \<^item> Apply: \<open>Coord_Apply\<close> (\<open>model/apply.rs\<close>), \<open>Coord_Wire\<close> (\<open>model/wire.rs\<close>), \<open>Coord_Boundary\<close>
    (\<open>boundary.rs\<close>, \<open>project.rs\<close>, \<open>hash.rs\<close>), \<open>Coord_Machine\<close> (the entry loop of
    \<open>storage/machine.rs\<close>), \<open>Coord_Rows\<close> (the validator of \<open>storage/rows.rs\<close>).
  \<^item> Storage: \<open>Storage_Codec\<close> (\<open>storage/codec.rs\<close>, \<open>error.rs\<close>), \<open>Coord_Meta\<close> (the metadata row,
    \<open>convert.rs\<close>), \<open>Row_Store\<close> and \<open>Coord_Store\<close> (load and commit of \<open>storage/rows.rs\<close>),
    \<open>Storage_Actor\<close> (the serve loop and its latch), \<open>Coord_Actor\<close> (the state actor), \<open>Raft_Log\<close> (the log
    actor), \<open>Read_Gate\<close> (\<open>storage/reads.rs\<close>).

  \<^bold>\<open>Interfaces.\<close>  The laws a component relies on are locales, each interpreted on the model's own
  definitions: \<open>ordered_table\<close> (a table and the sums kept over it), \<open>log_machine\<close>,
  \<open>monotone_machine\<close> and \<open>invariant_machine\<close> (a fallible step run over a log), \<open>row_store\<close> (a table of
  encoded rows, seven instances), \<open>fatal_actor\<close> (a queue behind a fatal latch, two instances).

  \<^bold>\<open>What is shown.\<close>
  \<^item> \<open>Coord_Growth\<close>, \<open>Coord_Audit\<close>, \<open>Coord_Business\<close>, \<open>Coord_Sessions\<close>, \<open>Coord_Intents\<close>, \<open>Coord_Narrow\<close>,
    \<open>Coord_Replies\<close>, \<open>Coord_Step\<close>, \<open>Coord_Preserve\<close> and \<open>Coord_Valid\<close> build the invariant of the
    replicated state and show that every legal entry preserves it and that it implies every rule of a
    load; here that is \<open>replica_stays_loadable\<close>, with the counters, the audit log and the faults.
  \<^item> \<open>Coord_Lease\<close> and \<open>Coord_Fence\<close>: the rows refine a fenced register, so an epoch is a fencing token.
  \<^item> \<open>Coord_Client\<close>: exactly-once answers, sessions that never go back, preflight that agrees with apply.
  \<^item> \<open>Coord_Govern\<close>: who changes administrators, intents and routes.
  \<^item> \<open>Coord_Changes\<close>: the change set lists every changed row, which is what lets \<open>Coord_Store\<close> show
    that the transaction of a batch makes the store hold the state after it.
  \<^item> \<open>Storage_Correct\<close>: a restart gives back the state in memory, a batch is all or nothing, the
    latches are sticky, the log implements its contract, never gets a hole and keeps what it
    acknowledged, exclusive access is exclusive and every call on the gate returns.

  The properties are labelled C and a number, in the order of their importance; \<open>Coord_Example\<close> and
  \<open>Store_Example\<close> hold the concrete group, stores and runs their instances use.

  \<^bold>\<open>Assumptions.\<close>  The serializer, Ed25519, BLAKE3 and base58 are arguments; where a theorem needs it,
  a hypothesis says that the serializer decodes what it encoded.  A log is \<open>legal_entries\<close> when each
  entry, in the state it meets, satisfies \<open>legal_entry\<close>: its term is not below the last applied one
  and its leader is a 32-byte id; a membership entry has one or two configurations of the profile's
  size, over 32-byte nodes it lists; the request hash of a client command names one operation
  code; and the membership id that a progress report says it observed is not above the entry itself.
  The last two are conditions on the proposers that apply does not enforce: it audits a replayed
  command under the operation it carries, and checks the observed id of a completed phase only, and
  without them it can store a row that a load refuses.  The theorems that
  start from a state assume its invariant (\<open>state_inv\<close>, \<open>machine_inv\<close>), which is stronger than the
  checks of a load; a fresh store satisfies it and every legal entry keeps it.
  redb is a set of ordered tables and a transaction that takes effect as a whole: it
  lands, is lost, or lands without the caller learning it; a redb error while reading or opening a
  table is not modelled, it would latch the store like the others.  Entries and ids handed to the
  log have the width the store keeps, and a purge reaches the log.

  \<^bold>\<open>Not modelled.\<close>  The asynchronous parts: the Raft runtime and peer network, the RPC service and
  store facade, the client with its timers and journal; they only decide which entries and commands
  arrive, which the theorems quantify over.  Snapshots, recovery import and export and the opening
  and locking of files: they are sequences of file-system calls whose effect the sources leave to the
  platform.  The transport, enrollment and topology crates, the command-line tools and the foreign
  bindings: they are other programs around this one and rest on third-party protocols.
\<close>

unbundle bit_operations_syntax

section \<open>A replica stays loadable\<close>

text \<open>C1: the invariant of a replica.  From a state that satisfies the invariant, any log whose
  entries Raft and the proposers may produce leads, if it is applied at all, to a state that
  satisfies it again, and there every rule that \<open>rows::load\<close> checks before it accepts a store holds:
  the metadata rules and the seventeen row invariants.  The log is \<open>legal_entries\<close>: terms do not
  decrease and leaders are 32-byte ids; a membership entry has one or two configurations of the
  profile's size, over 32-byte nodes it lists; a request hash names one operation code; and the
  membership id a progress report observed is not above the index of its own entry, which apply checks
  for a completed phase only and without which the loader would refuse the stored intent.\<close>

theorem replica_stays_loadable:
  assumes "machine_inv E code_of m" "legal_entries E gid code_of es m"
    and "apply_entries E gid es m = Inr (replies, m')"
  shows "machine_inv E code_of m' \<and> validate E (mc_durable m') = None"
  using apply_entries_inv [OF assms(2,1,3)] machine_inv_valid by blast

text \<open>The founding entries of a one-voter group are such a log.\<close>

theorem replica_stays_loadable_witness:
  "\<exists>rs m'. apply_entries ex_externs (nid 9) [ex_join, ex_found, ex_grant] ex_fresh = Inr (rs, m') \<and>
    validate ex_externs (mc_durable m') = None"
  using replica_stays_loadable [OF ex_fresh_inv ex_legal] ex_run(1) by blast

text \<open>C11: the two budget counters.  They are kept by wrapping \<open>u64\<close> additions and subtractions, one
  row at a time; along a legal log they are the exact sums of the charges of all rows, and never
  exceed the budgets.\<close>

theorem counters_exact:
  assumes "machine_inv E code_of m" "legal_entries E gid code_of es m"
    and "apply_entries E gid es m = Inr (replies, m')"
  shows "st_growth_bytes (ds_model (mc_durable m')) = growth_total E (ds_model (mc_durable m')) \<and>
    st_growth_bytes (ds_model (mc_durable m')) \<le> GROWTH_BUDGET \<and>
    st_reserve_bytes (ds_model (mc_durable m')) = reserve_total (ds_model (mc_durable m')) \<and>
    st_reserve_bytes (ds_model (mc_durable m')) \<le> RESERVE_BUDGET"
proof -
  have "state_inv E code_of (ds_model (mc_durable m'))"
    using apply_entries_inv [OF assms(2,1,3)] by (simp add: machine_inv_def)
  then show ?thesis using tables_checks(9,10) reserve_exact by (auto simp: state_inv_def)
qed

theorem counters_exact_witness:
  "\<exists>rs m'. apply_entries ex_externs (nid 9) [ex_join, ex_found, ex_grant] ex_fresh = Inr (rs, m') \<and>
    st_growth_bytes (ds_model (mc_durable m')) = growth_total ex_externs (ds_model (mc_durable m'))"
  using counters_exact [OF ex_fresh_inv ex_legal] ex_run(1) by blast

section \<open>Leases\<close>

text \<open>C3: refinement to the fenced register.  Applying any command to any state leaves the
  register of a key (epoch, lease holder, value, value revision) as it was, or moves it by
  one step of the abstract protocol \<open>register_step\<close>, and then the command is one that is
  entitled to that step: a client with the rights and the current fence, an administrator
  re-granting the holder, or an expiry of the held epoch.\<close>

theorem register_refinement:
  "register_of (snd (apply_command E s l cmd)) k = register_of s k \<or>
    (\<exists>ev. issued_by s cmd k ev \<and>
      register_step ev (register_of s k) (register_of (snd (apply_command E s l cmd)) k))"
proof -
  obtain c where "apply_command_recording E l cmd (s, empty_changes) =
    (fst (apply_command E s l cmd), (snd (apply_command E s l cmd), c))"
    by (rule apply_command_world)
  from recording_refines [OF this, of k] show ?thesis by simp
qed

text \<open>C5: epochs are fencing tokens.  Along any log the epoch of a key never decreases, and as long as
  it stands still the lease holder stands still; so does the value as long as its revision does.
  Two nodes never hold the lease under one epoch, and a write under an old epoch cannot be undone
  unnoticed.\<close>

theorem fencing:
  assumes "apply_entries E gid es m = Inr (replies, m')"
  shows "let r = register_of (ds_model (mc_durable m)) k; r' = register_of (ds_model (mc_durable m')) k in
    (rg_epoch r < rg_epoch r' \<or> rg_epoch r = rg_epoch r' \<and> rg_lease r = rg_lease r') \<and>
    (rg_value_revision r < rg_value_revision r' \<or>
     rg_value_revision r = rg_value_revision r' \<and> rg_value r = rg_value r')"
  using fm.run_le [OF assms] by (simp add: fence_le_def register_le_def)

text \<open>Acquiring a lease moves the epoch.\<close>

theorem fencing_witness:
  "\<exists>rs m'. apply_entries ex_externs (nid 9) [ex_acquire] (ex_machine ex_s3 empty_changes) = Inr (rs, m') \<and>
    (let r = register_of ex_s3 ex_rk; r' = register_of (ds_model (mc_durable m')) ex_rk in
     rg_epoch r < rg_epoch r' \<or> rg_epoch r = rg_epoch r' \<and> rg_lease r = rg_lease r')"
proof -
  obtain rs c where run: "apply_entries ex_externs (nid 9) [ex_acquire] (ex_machine ex_s3 empty_changes)
      = Inr (rs, ex_machine ex_s4 c)"
    using ex_run(2) by blast
  from fencing [OF this, of ex_rk] run show ?thesis by (auto simp: Let_def ex_machine_def)
qed

section \<open>Clients\<close>

text \<open>C4: exactly once.  A client command that is answered as consumed leaves its answer in the
  session; after any further log that has not moved the session to another sequence, sending the
  same sequence and hash again, with whatever action, is answered with the same saved reply and
  marked replayed, and no business state and no session changes.\<close>

theorem exactly_once:
  assumes "apply_command E s1 l (CClient client a) = (Inr (ReplyClient r), s2)"
    and "cr_disposition r = Consumed"
    and "apply_entries E' gid es \<lparr> mc_durable = d\<lparr> ds_model := s2 \<rparr>, mc_changes = c \<rparr> = Inr (replies, m)"
    and "bm_get (st_sessions (ds_model (mc_durable m))) (cl_actor client, cl_client_id client) = Some se"
      "se_last_sequence se = cl_sequence client"
    and "apply_command E (ds_model (mc_durable m)) l' (CClient client a') = (answer, s3)"
  shows "(\<exists>f. answer = Inl f) \<and> s3 = ds_model (mc_durable m) \<or>
    answer = Inr (ReplyClient (replayed_result (cr_reply r))) \<and>
    business s3 = business (ds_model (mc_durable m)) \<and> st_sessions s3 = st_sessions (ds_model (mc_durable m))"
proof -
  let ?m = "ds_model (mc_durable m)"
  have r: "r = client_answer E l client a (s1, empty_changes)"
    and s2: "s2 = (fst (snd (apply_client E l client a (s1, empty_changes))))\<lparr> st_last_applied := Some l \<rparr>"
    using assms(1) by (auto simp: apply_command_client split: option.splits)
  have "answers s2 client (cr_reply r)"
    using consumed_answers [of E l client a "(s1, empty_changes)"] assms(2) by (simp add: r s2 answers_def)
  moreover have "sessions_le s2 ?m" using sm.run_le [OF assms(3)] by simp
  ultimately have "answers ?m client (cr_reply r)" by (rule answers_kept) (use assms(4,5) in blast)
  note again = answers_apply [OF this, of E l' a' empty_changes]
  show ?thesis
  proof (cases "guard_delivery ?m l'")
    case None
    then have "answer = Inr (ReplyClient (replayed_result (cr_reply r)))"
      "s3 = (fst (snd (apply_client E l' client a' (?m, empty_changes))))\<lparr> st_last_applied := Some l' \<rparr>"
      using assms(6) again(1) by (simp_all add: apply_command_client)
    with again(2,3) show ?thesis by simp
  next
    case (Some f)
    then show ?thesis using assms(6) by (auto simp: apply_command_client)
  qed
qed

theorem exactly_once_witness:
  "\<exists>r :: client_result. case apply_command ex_externs ex_s4 (ex_lid 5) (CClient (ex_ref 2) (ActResource ex_acquire_action)) of
      (answer, s3) \<Rightarrow> (\<exists>f. answer = Inl f) \<and> s3 = ex_s4 \<or>
        answer = Inr (ReplyClient (replayed_result (cr_reply r))) \<and> business s3 = business ex_s4 \<and>
        st_sessions s3 = st_sessions ex_s4"
proof -
  obtain r where r: "cr_disposition r = Consumed"
    "apply_command ex_externs ex_s3 (ex_lid 4) (CClient (ex_ref 2) (ActResource ex_acquire_action))
      = (Inr (ReplyClient r), ex_s4)"
    using ex_acquire_command by blast
  define m where "m = \<lparr> mc_durable = ex_durable\<lparr> ds_model := ex_s4 \<rparr>, mc_changes = empty_changes \<rparr>"
  have run: "apply_entries ex_externs (nid 9) [] m = Inr ([], m)" and s4: "ds_model (mc_durable m) = ex_s4"
    by (simp_all add: m_def)
  have se: "bm_get (st_sessions ex_s4) (cl_actor (ex_ref 2), cl_client_id (ex_ref 2)) = Some (ex_session 2 Granted ex_row4)"
    "se_last_sequence (ex_session 2 Granted ex_row4) = cl_sequence (ex_ref 2)"
    by (simp_all add: ex_s4_def ex_session_def ex_ref_def)
  obtain answer s3 where again:
    "apply_command ex_externs ex_s4 (ex_lid 5) (CClient (ex_ref 2) (ActResource ex_acquire_action)) = (answer, s3)"
    by (rule prod.exhaust)
  show ?thesis
    using exactly_once [OF r(2,1) run [unfolded m_def], folded m_def, unfolded s4, OF se again]
    unfolding again by (intro exI [of _ r]) simp
qed

text \<open>C19: sessions only move forward.  Along any log a session is never dropped; a retired session
  never changes again; a live one stays, is retired as it is, or moves to a higher sequence.\<close>

theorem sessions_forward:
  assumes "apply_entries E gid es m = Inr (replies, m')"
    and "bm_get (st_sessions (ds_model (mc_durable m))) k = Some se"
  shows "\<exists>se'. bm_get (st_sessions (ds_model (mc_durable m'))) k = Some se' \<and>
    (se' = se \<or>
     \<not> se_retired se \<and> (se' = se\<lparr> se_retired := True \<rparr> \<or> se_last_sequence se < se_last_sequence se'))"
  using sm.run_le [OF assms(1)] assms(2) unfolding sessions_le_def session_le_def by metis

theorem sessions_forward_witness:
  "\<exists>rs m' se'. apply_entries ex_externs (nid 9) [ex_acquire] (ex_machine ex_s3 empty_changes) = Inr (rs, m') \<and>
    bm_get (st_sessions (ds_model (mc_durable m'))) (nid 1, replicate 16 3) = Some se'"
proof -
  obtain rs c where run: "apply_entries ex_externs (nid 9) [ex_acquire] (ex_machine ex_s3 empty_changes)
      = Inr (rs, ex_machine ex_s4 c)"
    using ex_run(2) by blast
  have "bm_get (st_sessions (ds_model (mc_durable (ex_machine ex_s3 empty_changes)))) (nid 1, replicate 16 3)
      = Some (snd (hd (st_sessions ex_s3)))"
    by (simp add: ex_s3_def ex_machine_def)
  from sessions_forward [OF run this] run show ?thesis by blast
qed

text \<open>C13: preflight agrees with apply.  Whatever \<open>preflight\<close> decides short of admitting the command,
  applying the command in the same state gives exactly that answer and changes no business state:
  a resolved answer is the reply, a denial is a consumed rejection with its reason.\<close>

theorem preflight_agrees:
  "case (preflight E s client a, apply_command E s l (CClient client a)) of
     (Resolved r, (Inr reply, s')) \<Rightarrow> reply = ReplyClient r \<and> business s' = business s
   | (Deny reason, (Inr reply, s')) \<Rightarrow>
       reply = ReplyClient (consumed_result (rejection s (validated_resource a) reason)) \<and> business s' = business s
   | (Status NotAuthorized, (Inr reply, s')) \<Rightarrow>
       reply = ReplyClient (consumed_result (rejection s (validated_resource a) PermissionChanged)) \<and>
       business s' = business s
   | (Status (ShapeDenial _), (Inr reply, s')) \<Rightarrow>
       reply = ReplyClient (consumed_result (rejection s (validated_resource a) Reason_None)) \<and>
       business s' = business s
   | _ \<Rightarrow> True"
proof (cases "guard_delivery s l")
  case None
  have "business (fst (snd (apply_client E l client a (s, empty_changes)))) = business s"
    if "preflight E s client a \<noteq> Admit"
    using refused_unchanged [OF preflight_refused [OF that, of l empty_changes]] by simp
  with None preflight_answer [where E = E and s = s and client = client and a = a and l = l and c = empty_changes]
  show ?thesis
    by (simp add: apply_command_client split: admission.splits status_denial.splits)
qed (simp add: apply_command_client split: admission.splits status_denial.splits)

text \<open>C23: a rejection or a replay changes no business state (resources, grants, administrators, intents,
  routes, the growth counter), anything else is consumed; an answer that is not consumed is a
  rejection and leaves the sessions alone as well, so the client may use the sequence again.\<close>

theorem refusals_are_inert:
  "case apply_command E s l (CClient client a) of
     (Inr (ReplyClient r), s') \<Rightarrow>
       (if sr_outcome (cr_reply r) = Rejected \<or> cr_replayed r then business s' = business s
        else cr_disposition r = Consumed) \<and>
       (if cr_disposition r = NotConsumed then sr_outcome (cr_reply r) = Rejected \<and> st_sessions s' = st_sessions s
        else True)
   | (Inr _, _) \<Rightarrow> False
   | (Inl _, s') \<Rightarrow> s' = s"
proof (cases "guard_delivery s l")
  case None
  let ?r = "client_answer E l client a (s, empty_changes)"
  let ?s = "fst (snd (apply_client E l client a (s, empty_changes)))"
  have consumed: "cr_disposition ?r = Consumed" if "\<not> (sr_outcome (cr_reply ?r) = Rejected \<or> cr_replayed ?r)"
    using not_consumed_unchanged(1) [of E l client a "(s, empty_changes)"] that by (cases "cr_disposition ?r") auto
  have "if sr_outcome (cr_reply ?r) = Rejected \<or> cr_replayed ?r then business ?s = business s
      else cr_disposition ?r = Consumed"
    using refused_unchanged [of E l client a "(s, empty_changes)"] consumed by simp
  moreover have "if cr_disposition ?r = NotConsumed then sr_outcome (cr_reply ?r) = Rejected \<and> st_sessions ?s = st_sessions s
      else True"
    using not_consumed_unchanged [of E l client a "(s, empty_changes)"] by simp
  ultimately show ?thesis using None by (simp add: apply_command_client)
qed (simp add: apply_command_client)

section \<open>Storage\<close>

text \<open>C9: the change set of a batch is complete.  Every row that a batch of entries changed, in any of
  the seven tables, is listed in the change set handed to storage.\<close>

theorem change_set_complete:
  assumes "machine_apply E es d = Inr (replies, d', c)"
  shows "covers (ds_model d) (ds_model d', c)"
  using assms by (rule covers_machine_apply)

theorem change_set_complete_witness:
  "\<exists>rs c. machine_apply ex_externs [ex_acquire] (mc_durable (ex_machine ex_s3 empty_changes))
      = Inr (rs, mc_durable (ex_machine ex_s4 c), c) \<and>
    covers ex_s3 (ex_s4, c)"
  using ex_batch change_set_complete by (fastforce simp: ex_machine_def)

text \<open>C18: the audit log.  A command applied to a replica in the invariant appends exactly one row, under
  the entry's term and index and with its leader, and drops only the oldest rows beyond
  \<open>MAX_AUDIT_ROWS\<close>; the row is one the loader accepts, and it is the new tip.  The entry is
  \<open>legal_entry\<close>: its term is not below the last applied one and its leader is a 32-byte id, the
  request hash of a client command names one operation code, and the membership id a progress report
  observed is not above the entry's index.\<close>

theorem audit_appends:
  assumes "machine_inv E code_of m" "legal_entry code_of e m" "en_payload e = Normal wire"
    and "apply_entry E gid e m = Inr (reply, m')"
  shows "\<exists>row. audit_row_good row \<and> au_leader_node_id row = lg_leader (en_log_id e) \<and>
    st_audit_tip (ds_model (mc_durable m')) = Some (en_log_id e) \<and>
    st_audit (ds_model (mc_durable m')) =
      drop (Suc (length (st_audit (ds_model (mc_durable m)))) - MAX_AUDIT_ROWS)
        (st_audit (ds_model (mc_durable m)) @ [(log_key (en_log_id e), row)])"
  using audit_append [OF assms] by blast

theorem audit_appends_witness:
  "\<exists>row. audit_row_good row \<and> au_leader_node_id row = nid 1 \<and>
    st_audit ex_s3 = drop (Suc (length (st_audit ex_s2)) - MAX_AUDIT_ROWS) (st_audit ex_s2 @ [((1, 3), row)])"
proof -
  obtain c r c' where m: "machine_inv ex_externs (\<lambda>_. 7) (ex_machine ex_s2 c)"
    "legal_entry (\<lambda>_. 7) ex_grant (ex_machine ex_s2 c)"
    "apply_entry ex_externs (nid 9) ex_grant (ex_machine ex_s2 c) = Inr (r, ex_machine ex_s3 c')"
    using ex_before_grant by blast
  have payload: "en_payload ex_grant = Normal (ex_client 1 (SetGrantV1 \<lparr> sgv_resource = ex_key, sgv_target_node_id = nid 1,
      sgv_rights = 0x3f, sgv_expected_acl_revision = 0 \<rparr>))"
    by (simp add: ex_grant_def ex_entry_def)
  have "log_key (en_log_id ex_grant) = (1, 3)" "lg_leader (en_log_id ex_grant) = nid 1"
    by (simp_all add: ex_grant_def ex_entry_def log_key_def)
  with audit_appends [OF m(1,2) payload m(3)] show ?thesis by (auto simp: ex_machine_def)
qed

text \<open>C30: the pruning loop ends.  It is defined by recursion with a measure, so it returns on every
  state; then at most \<open>MAX_AUDIT_ROWS\<close> rows are left, and in an ordered table they are the newest.\<close>

theorem prune_audit_bounded:
  "length (st_audit (fst (prune_audit w))) \<le> MAX_AUDIT_ROWS \<and>
    (if bm_ok (st_audit (fst w))
     then st_audit (fst (prune_audit w)) = drop (length (st_audit (fst w)) - MAX_AUDIT_ROWS) (st_audit (fst w)) else True)"
  using prune_audit_rows [of w] prune_audit_length [of w] by simp

section \<open>Progress\<close>



section \<open>Governance\<close>

text \<open>C16: who becomes an administrator.  Applying a command leaves the set of administrators alone, or the
  command is an administrator's, its target is not the root key and it adds or removes exactly that
  target, never the last one; or it is a verified genesis that adds the initial administrators.\<close>

theorem admins_governed:
  "st_admins (snd (apply_command E s l cmd)) = st_admins s \<or>
    admins_changed_by E s cmd (st_admins (snd (apply_command E s l cmd)))"
proof (cases rule: apply_command_cases [of E s l cmd])
  case (Applied reply w1)
  with command_step_admins [OF Applied(3)] show ?thesis by simp
qed simp

text \<open>C20: a group is never left without an administrator, and its root key never becomes one: both hold
  along every log.\<close>

theorem admins_never_lost:
  assumes "apply_entries E gid es m = Inr (replies, m')"
    and "st_admins (ds_model (mc_durable m)) \<noteq> {||}"
      "ga_public_key (st_authority (ds_model (mc_durable m))) |\<notin>| st_admins (ds_model (mc_durable m))"
  shows "st_admins (ds_model (mc_durable m')) \<noteq> {||} \<and>
    ga_public_key (st_authority (ds_model (mc_durable m'))) |\<notin>| st_admins (ds_model (mc_durable m'))"
  using admins_kept [OF assms(1)] assms(2,3) by (simp add: governed_def)

theorem admins_never_lost_witness:
  "\<exists>rs m'. apply_entries ex_externs (nid 9) [ex_acquire] (ex_machine ex_s3 empty_changes) = Inr (rs, m') \<and>
    st_admins (ds_model (mc_durable m')) \<noteq> {||}"
proof -
  obtain rs m' where run: "apply_entries ex_externs (nid 9) [ex_acquire] (ex_machine ex_s3 empty_changes) = Inr (rs, m')"
    using ex_run(2) by blast
  have "st_admins (ds_model (mc_durable (ex_machine ex_s3 empty_changes))) \<noteq> {||}"
    "ga_public_key (st_authority (ds_model (mc_durable (ex_machine ex_s3 empty_changes)))) |\<notin>|
      st_admins (ds_model (mc_durable (ex_machine ex_s3 empty_changes)))"
    by (simp_all add: ex_machine_def ex_states)
  from admins_never_lost [OF run this] run show ?thesis by blast
qed

text \<open>C17: membership intents.  In the invariant, applying a command moves the intent of an operation
  only as \<open>intent_moves\<close> allows: it is created pending, by an administrator who named the current
  membership, when no other intent is active; it moves along the phase graph with its plan unchanged;
  it completes only when the committed membership is the planned one; it is dropped only after it
  ended.  The route of a current member is never dropped.\<close>

theorem intents_governed:
  assumes "state_inv E code_of s"
  shows "intent_moves s cmd op (bm_get (st_intents s) op) (bm_get (st_intents (snd (apply_command E s l cmd))) op) \<and>
    (cm_contains (st_membership s) n \<and> bm_get (st_routes s) n \<noteq> None \<longrightarrow>
      bm_get (st_routes (snd (apply_command E s l cmd))) n \<noteq> None)"
proof (cases rule: apply_command_cases [of E s l cmd])
  case (Applied reply w1)
  have ok: "bm_ok (st_intents s)" "card (terminal_ops s) \<le> MAX_RETAINED_INTENTS" "bm_ok (st_routes s)"
    using assms by (simp_all add: state_inv_def membership_inv_def intents_inv_def routes_inv_def)
  with command_step_intents [OF _ _ Applied(3), of op] command_step_member_route [OF _ Applied(3), of n] show ?thesis
    by (simp add: Applied(4))
qed simp

theorem intents_governed_witness:
  "\<exists>m. machine_inv ex_externs (\<lambda>_. 7) (ex_machine ex_s2 m) \<and>
    intent_moves ex_s2 CUnknown [] None (bm_get (st_intents (snd (apply_command ex_externs ex_s2 (ex_lid 3) CUnknown))) [])"
proof -
  obtain c where c: "machine_inv ex_externs (\<lambda>_. 7) (ex_machine ex_s2 c)" using ex_before_grant by blast
  then have "state_inv ex_externs (\<lambda>_. 7) ex_s2" by (simp add: machine_inv_def ex_machine_def)
  from intents_governed [OF this, where cmd = CUnknown and op = "[]" and l = "ex_lid 3"] c show ?thesis
    by (auto simp: ex_states)
qed

text \<open>C25: what a verified genesis guarantees.  The document was signed by the root key of the group's
  authority under the genesis domain and is in canonical form; its voters fit the profile, voters and
  administrators are strictly sorted lists, neither names the root key, and every voter's ticket is the
  canonical text of a ticket that names that voter's 32-byte id and carries no credential but an open
  one.\<close>

theorem genesis_verified:
  assumes "verify_genesis E pk domain bs = Inr g"
  shows "\<exists>envelope genesis. de_signed_document E bs = Some envelope \<and>
    ed25519_verify E pk (GENESIS_DOMAIN @ sdv_document_bytes envelope) (sdv_signature envelope) \<and>
    de_genesis E (sdv_document_bytes envelope) = Some genesis \<and>
    ser_genesis E genesis = Some (sdv_document_bytes envelope) \<and>
    vg_genesis_hash g = genesis_hash E (sdv_document_bytes envelope) \<and>
    \<not> profile_permits_voters (vg_deployment_profile_code g) (length (vg_initial_voters g)) \<and>
    sorted_unique (map vv_node_id (vg_initial_voters g)) \<and> sorted_unique (vg_initial_admins g) \<and>
    vg_initial_admins g \<noteq> [] \<and> pk \<notin> set (vg_initial_admins g) \<and> \<not> is_initial_voter g pk \<and>
    (\<forall>v\<in>set (vg_initial_voters g). length (vv_node_id v) = 32 \<and>
      (\<exists>text t. from_utf8 (bytes_of_string (vv_ticket v)) = Some text \<and> from_base58_str E text = Inr t \<and>
        to_base58_string E t = Inr text \<and> (tk_credential t = None \<or> tk_credential t = Some Open) \<and>
        tk_endpoint_id t = vv_node_id v))"
proof -
  obtain envelope genesis where e: "de_signed_document E bs = Some envelope"
    "ed25519_verify E pk (GENESIS_DOMAIN @ sdv_document_bytes envelope) (sdv_signature envelope)"
    "de_genesis E (sdv_document_bytes envelope) = Some genesis"
    "ser_genesis E genesis = Some (sdv_document_bytes envelope)"
    "seal_genesis E pk domain genesis (sdv_document_bytes envelope) = Inr g"
    using assms by (rule verify_genesis_sealed)
  with seal_genesis_sound [OF e(5)] seal_genesis_tickets [OF e(5)] show ?thesis by blast
qed

theorem genesis_verified_witness:
  "verify_genesis ex_externs (nid 0) ex_domain [] = Inr ex_verified \<and> sorted_unique (vg_initial_admins ex_verified)"
  using genesis_verified [OF ex_verify] ex_verify by blast

section \<open>The boundary\<close>

text \<open>C26: what a wire command is applied as.  Narrowing fails, as a fault, on unknown variants and on
  nothing else.  A genesis goes through as a genesis, whatever its size, and its document is judged by
  verification.  Any other command of a known variant that does not encode within
  \<open>MAX_ENCODED_COMMAND\<close> bytes, or has a malformed field, is applied as a rejection: a rejected client
  command or a shapeless one, and applying that to any state changes no business state.  A command that
  fits and narrows is applied as its narrowed form.  The comments at the head of \<open>boundary.rs\<close> and on
  \<open>apply_wire_command\<close> call every input that does not narrow fatal; the code, and the comment on
  \<open>command_for_apply\<close>, keep that for unknown variants.\<close>

theorem narrowing_total:
  "case command_for_apply E cmd of
     Inl e \<Rightarrow> e = UnknownVariant \<and> unknown_variant cmd
   | Inr model \<Rightarrow> \<not> unknown_variant cmd \<and>
       (case cmd of
          GenesisV1 g \<Rightarrow> model = CGenesis (gnv_signed_genesis g)
        | _ \<Rightarrow>
          if (case ser_command E cmd of None \<Rightarrow> True | Some bs \<Rightarrow> MAX_ENCODED_COMMAND < length bs) \<or>
             (\<exists>e. command_from_wire E cmd = Inl e)
          then (case model of CRejectedClient _ _ _ \<Rightarrow> True | CShapeless _ \<Rightarrow> True | _ \<Rightarrow> False) \<and>
            business (snd (apply_command E s l model)) = business s
          else command_from_wire E cmd = Inr model)"
proof (cases "command_for_apply E cmd")
  case (Inl e)
  with command_for_apply_total [of E cmd e] show ?thesis by simp
next
  case (Inr model)
  from command_for_apply_exact [where E = E and cmd = cmd, unfolded Inr oversized_iff] rejection_business [of model E s l]
  show ?thesis unfolding Inr by (cases cmd) (auto simp del: command_from_wire.simps split: if_splits)
qed

text \<open>C22: values are disclosed to readers only.  If the snapshot in the reply to a wire command carries a
  value, the command was a client's own and was not answered from its session: in the state before it, it
  is not classified as a replay, and the snapshot is not marked redacted.  The snapshot names the
  resource, the client holds the READ right on that same resource in the state the command left, and
  the value is the one stored there.\<close>

theorem values_disclosed_to_readers:
  "case apply_wire_command E s l gid cmd of
     (Inr (ClientReplyV1 r), s') \<Rightarrow>
       (case crv_snapshot r of
          None \<Rightarrow> True
        | Some snap \<Rightarrow>
          (case rsv_value snap of
             None \<Rightarrow> True
           | Some v \<Rightarrow> \<exists>client a key row. command_for_apply E cmd = Inr (CClient client a) \<and>
               (\<forall>row saved. classify_client s client \<noteq> Replay row saved) \<and> \<not> rsv_value_redacted snap \<and>
               rsv_resource snap = resource_key_to_wire key \<and>
               granted_rights s' key (cl_actor client) AND RIGHT_READ \<noteq> 0 \<and>
               bm_get (st_resources s') key = Some row \<and> v = rr_value row))
   | _ \<Rightarrow> True"
  using disclosed_value [of E s l gid cmd]
  by (auto split: prod.splits sum.splits command_reply_v1.splits option.splits)

text \<open>C21: stored rows survive the wire.  In the invariant every resource, session, intent, route and audit
  row converts to its stored form and back to itself.\<close>

theorem rows_round_trip:
  assumes "state_inv E code_of s"
  shows "(\<forall>(k, row)\<in>set (st_resources s).
      wire_resource_key (resource_key_to_wire k) = Inr k \<and> resource_row_from_wire (resource_row_to_wire row) = Inr row) \<and>
    (\<forall>(k, se)\<in>set (st_sessions s). session_from_wire gid (session_to_wire gid se) = Inr se) \<and>
    (\<forall>(op, i)\<in>set (st_intents s). sum_bind (intent_to_wire op i) (intent_from_wire op) = Inr i) \<and>
    (\<forall>(n, r)\<in>set (st_routes s). route_from_wire (route_to_wire r) = Inr r) \<and>
    (\<forall>(k, row)\<in>set (st_audit s). audit_row_from_wire (audit_row_to_wire row) = Inr row)"
  using rows_back [OF assms] by blast

theorem rows_round_trip_witness:
  "resource_row_from_wire (resource_row_to_wire ex_row3) = Inr ex_row3"
proof -
  obtain c where "machine_inv ex_externs (\<lambda>_. 7) (ex_machine ex_s3 c)" using ex_after_grant by blast
  then have "state_inv ex_externs (\<lambda>_. 7) ex_s3" by (simp add: machine_inv_def ex_machine_def)
  moreover have "(ex_rk, ex_row3) \<in> set (st_resources ex_s3)" by (simp add: ex_s3_def)
  ultimately show ?thesis using rows_round_trip by fastforce
qed

text \<open>C31: the reason and outcome codes on the wire are faithful: a code decodes to a value exactly when it is
  that value's code.\<close>

theorem codes_faithful:
  "(reason_from_code c = Some r \<longleftrightarrow> reason_code r = c) \<and> (outcome_from_code c = Some out \<longleftrightarrow> outcome_code out = c)"
  using reason_from_code_iff outcome_from_code_iff by simp

text \<open>C32: identifiers print and parse: the hexadecimal form of an identifier parses back to it at its width.\<close>

theorem id_hex_round_trip: "id_parse_hex (length bs) (to_hex bs) = Inr bs"
  by (simp add: id_parse_hex_to_hex)

section \<open>Decisions\<close>

text \<open>C27: the session classifier.  A command is executed exactly when it is the first sequence of a session
  there is room for, or the exact successor of a live session's last one; it is answered from the
  session exactly when it repeats the last sequence with the same hash; every other command is refused
  with a reason of the not-consumed kind.\<close>

theorem classifier_exact:
  "(case classify se sequence h cap of
      Unresolved row creates \<Rightarrow>
        (case se of
           None \<Rightarrow> creates \<and> sequence = 1 \<and> \<not> retained_exhausted cap \<and> \<not> active_exhausted cap
         | Some x \<Rightarrow> \<not> creates \<and> sequence = Suc (se_last_sequence x) \<and> sequence \<le> MAX_COUNTER \<and> \<not> se_retired x)
    | Replay row saved \<Rightarrow>
        sequence \<noteq> 0 \<and> (\<exists>x. se = Some x \<and> se_last_sequence x = sequence \<and> se_request_hash x = h \<and>
          se_last_result x = Some saved)
    | ClRefuse row reason \<Rightarrow>
        may_be_not_consumed reason \<and>
        \<not> (\<exists>x saved. se = Some x \<and> sequence \<noteq> 0 \<and> se_last_sequence x = sequence \<and> se_request_hash x = h \<and>
          se_last_result x = Some saved) \<and>
        (case se of
           None \<Rightarrow> \<not> (sequence = 1 \<and> \<not> retained_exhausted cap \<and> \<not> active_exhausted cap)
         | Some x \<Rightarrow>
             \<not> (sequence = Suc (se_last_sequence x) \<and> sequence \<le> MAX_COUNTER \<and> \<not> se_retired x)))"
proof (cases "classify se sequence h cap")
  case (Replay row saved)
  with classify_replay_iff [of se sequence h cap row saved] show ?thesis by auto
next
  case (Unresolved row creates)
  with classify_unresolved_iff [of se sequence h cap row creates] show ?thesis by (cases se) auto
next
  case (ClRefuse row reason)
  with classify_refuse_reason [OF ClRefuse] classify_unresolved_iff [of se sequence h cap]
    classify_replay_iff [of se sequence h cap] show ?thesis by (cases se) auto
qed

text \<open>C29: actions that reduce risk are not refused for want of space.  An action that the code calls safety
  reducing is never refused because the resource slots or the state budget are exhausted, and if it is
  applied it does not raise the charge of the row.\<close>

theorem safety_reducing_never_budgeted:
  assumes "raw_validate (raw_resource a) = Inr key" "is_safety_reducing a (length (rr_value (row_or_default s key)))"
  shows "case resource_decide s actor a of
      RRefuse r \<Rightarrow> r \<noteq> StateBudgetExhausted \<and> r \<noteq> ResourceSlotsExhausted
    | RApply eff \<Rightarrow> resource_charge key (re_row eff) \<le> resource_charge key (row_or_default s key)
    | RShapeless _ \<Rightarrow> True"
  using assms by (rule safety_reducing_decided)

theorem safety_reducing_never_budgeted_witness:
  "case resource_decide ex_s4 (nid 1) (Revoke (raw_key ex_key) None) of
      RRefuse r \<Rightarrow> r \<noteq> StateBudgetExhausted \<and> r \<noteq> ResourceSlotsExhausted
    | RApply eff \<Rightarrow> resource_charge ex_rk (re_row eff) \<le> resource_charge ex_rk (row_or_default ex_s4 ex_rk)
    | RShapeless _ \<Rightarrow> True"
  by (rule safety_reducing_never_budgeted) (simp_all add: ex_raw)

text \<open>C28: the holder can always let go.  A node that holds the lease, presents the current fence and still
  has the release right gets its release applied, whatever the budgets are, as long as the two counters
  have not reached their maximum; the lease is then free under a new epoch.\<close>

theorem holder_can_release:
  assumes "raw_validate (fn_resource f) = Inr key" "bm_get (st_resources s) key = Some row"
    and "rr_held row" "rr_holder row = Some actor" "fn_holder f = actor" "fn_epoch f = rr_epoch row"
      "fn_group f = ga_group_id (st_authority s)"
    and "granted_rights s key actor AND RIGHT_RELEASE = RIGHT_RELEASE"
    and "rr_epoch row < MAX_COUNTER" "rr_lease_revision row < MAX_COUNTER"
  shows "\<exists>eff. resource_decide s actor (Release f) = RApply eff \<and> re_key eff = key \<and> \<not> rr_held (re_row eff) \<and>
    rr_epoch (re_row eff) = Suc (rr_epoch row)"
  using assms
  by (simp add: resource_decide_def check_shape_def decide_release_def check_fence_def counters_have_room_def r_apply_def)

theorem holder_can_release_witness:
  "\<exists>eff. resource_decide ex_s4 (nid 1) (Release \<lparr> fn_group = nid 9, fn_resource = raw_key ex_key, fn_epoch = 1,
      fn_holder = nid 1 \<rparr>) = RApply eff \<and> re_key eff = ex_rk \<and> \<not> rr_held (re_row eff) \<and> rr_epoch (re_row eff) = Suc 1"
  using holder_can_release [where s = ex_s4 and row = ex_row4 and key = ex_rk and actor = "nid 1" and
      f = "\<lparr> fn_group = nid 9, fn_resource = raw_key ex_key, fn_epoch = 1, fn_holder = nid 1 \<rparr>"]
  by (simp add: ex_raw ex_states granted_rights_def coord_simps)

section \<open>Errors\<close>

text \<open>C24: a fault leaves the state as it was; a command that is answered moves
  \<open>last_applied\<close> to its entry.\<close>

theorem fault_changes_nothing:
  "case apply_command E s l cmd of
     (Inl _, s') \<Rightarrow> s' = s
   | (Inr _, s') \<Rightarrow> st_last_applied s' = Some l \<and> guard_delivery s l = None"
proof (cases rule: apply_command_cases [of E s l cmd])
  case (Applied reply w1)
  then show ?thesis by (cases "apply_command E s l cmd") simp
qed simp

end
